(* ===== verification/Prelude.thy ===== *)
theory Prelude
  imports Main "HOL-Library.Word"
begin

text \<open>
  Shared vocabulary of the development: machine integers of the Go sources, instants and
  durations, the three list idioms the agent uses to keep its state bounded (insert into a
  capped set, append a reason once, keep the last \<open>n\<close> entries), the last-value-wins and
  first-error-wins traversals, and the collections that carry the component proofs.

  \<^item> \<open>u32\<close>, \<open>u64\<close> are Go's \<open>uint32\<close>, \<open>uint64\<close>; \<open>i32\<close>, \<open>i64\<close> are words too and are read
    as signed numbers by \<open>sint\<close>, so that a conversion between signed and unsigned values of
    one width is the identity, as it is in Go.
  \<^item> Go's \<open>int\<close> and \<open>time.Duration\<close> are 64-bit; where an addition or a product may leave that
    range it is written \<open>add64\<close> / \<open>mul64\<close>, which wrap as Go does. Event counters, which
    grow by one for each event, are \<open>nat\<close>.
  \<^item> an instant is the number of nanoseconds since Go's zero time, so the zero
    \<open>time.Time\<close> is \<open>0\<close>; \<open>timeSub\<close> is \<open>Time.Sub\<close>, which saturates.
\<close>

unbundle bit_operations_syntax

type_synonym u32 = "32 word"
type_synonym u64 = "64 word"
type_synonym i32 = "32 word"
type_synonym i64 = "64 word"
type_synonym time = int
type_synonym duration = int

named_theorems bounded_intros \<open>what keeps a capped list within its bound\<close>
named_theorems go_consts \<open>the numeric constants of the sources\<close>

section \<open>64-bit arithmetic\<close>

definition wrap64 :: "int \<Rightarrow> int" where
  "wrap64 x = (x + 2 ^ 63) mod 2 ^ 64 - 2 ^ 63"

definition add64 :: "int \<Rightarrow> int \<Rightarrow> int" where
  "add64 a b = wrap64 (a + b)"

definition mul64 :: "int \<Rightarrow> int \<Rightarrow> int" where
  "mul64 a b = wrap64 (a * b)"

definition int64 :: "int \<Rightarrow> bool" where
  "int64 x \<longleftrightarrow> - (2 ^ 63) \<le> x \<and> x < 2 ^ 63"

lemma int64_wrap64 [simp, intro]: "int64 (wrap64 x)"
  unfolding int64_def wrap64_def
  using pos_mod_bound [of "2 ^ 64" "x + 2 ^ 63"] pos_mod_sign [of "2 ^ 64" "x + 2 ^ 63"]
  by simp

lemma wrap64_id: "int64 x \<Longrightarrow> wrap64 x = x"
  by (simp add: int64_def wrap64_def)

lemma wrap64_cong: "x mod 2 ^ 64 = y mod 2 ^ 64 \<Longrightarrow> wrap64 x = wrap64 y"
  unfolding wrap64_def by (metis mod_add_left_eq)

lemma wrap64_mod: "wrap64 x mod 2 ^ 64 = x mod 2 ^ 64"
  unfolding wrap64_def by (simp add: mod_diff_left_eq)

lemma wrap64_idem [simp]: "wrap64 (wrap64 x) = wrap64 x"
  by (simp add: wrap64_id)

lemma wrap64_add_left [simp]: "wrap64 (wrap64 x + y) = wrap64 (x + y)"
  by (rule wrap64_cong) (metis mod_add_left_eq wrap64_mod)

lemma wrap64_add_right [simp]: "wrap64 (x + wrap64 y) = wrap64 (x + y)"
  by (metis add.commute wrap64_add_left)

lemma add64_int64 [simp, intro]: "int64 (add64 a b)"
  by (simp add: add64_def)

lemma add64_assoc: "add64 (add64 a b) c = add64 a (add64 b c)"
  by (simp add: add64_def add.assoc)

lemma add64_wrap64 [simp]: "add64 (wrap64 a) b = add64 a b" "add64 a (wrap64 b) = add64 a b"
  by (simp_all add: add64_def)

section \<open>Instants and durations\<close>

definition sat64 :: "int \<Rightarrow> int" where
  "sat64 x = max (- (2 ^ 63)) (min (2 ^ 63 - 1) x)"

definition timeSub :: "time \<Rightarrow> time \<Rightarrow> duration" where
  "timeSub t u = sat64 (t - u)"

abbreviation isZero :: "time \<Rightarrow> bool" where
  "isZero t \<equiv> t = 0"

definition second :: duration where [go_consts]: "second = 1000000000"
definition minute :: duration where [go_consts]: "minute = 60 * 1000000000"

lemma timeSub_self [simp]: "timeSub t t = 0"
  by (simp add: timeSub_def sat64_def)

lemma timeSub_le_iff: "int64 d \<Longrightarrow> d < 2 ^ 63 - 1 \<Longrightarrow> timeSub t u \<le> d \<longleftrightarrow> t - u \<le> d"
  by (auto simp: timeSub_def sat64_def int64_def)

lemma timeSub_mono: "t \<le> t' \<Longrightarrow> timeSub t u \<le> timeSub t' u"
  by (auto simp: timeSub_def sat64_def)

lemma timeSub_antimono: "u \<le> u' \<Longrightarrow> timeSub t u' \<le> timeSub t u"
  by (auto simp: timeSub_def sat64_def)

section \<open>Bounded lists\<close>

text \<open>
  \<open>capInsert n x xs\<close>: a Go \<open>map[string]struct{}\<close> used as a set of at most \<open>n\<close> keys, kept as
  the list of its keys in insertion order. \<open>lastN n xs\<close>: the slice expression
  \<open>xs[len(xs)-n:]\<close> guarded by \<open>len(xs) > n\<close>.
\<close>

definition capInsert :: "nat \<Rightarrow> 'a \<Rightarrow> 'a list \<Rightarrow> 'a list" where
  "capInsert n x xs = (if x \<notin> set xs \<and> length xs < n then xs @ [x] else xs)"

definition lastN :: "nat \<Rightarrow> 'a list \<Rightarrow> 'a list" where
  "lastN n xs = (if n < length xs then drop (length xs - n) xs else xs)"

lemma capInsert_distinct [simp]: "distinct (capInsert n x xs) = distinct xs"
  by (auto simp: capInsert_def)

lemma length_capInsert [bounded_intros]: "length xs \<le> n \<Longrightarrow> length (capInsert n x xs) \<le> n"
  by (auto simp: capInsert_def)

lemma capInsert_mono: "set xs \<subseteq> set (capInsert n x xs)"
  by (auto simp: capInsert_def)

lemma capInsert_subset: "set (capInsert n x xs) \<subseteq> insert x (set xs)"
  by (auto simp: capInsert_def)

lemma set_capInsert_below: "length xs < n \<Longrightarrow> set (capInsert n x xs) = insert x (set xs)"
  by (auto simp: capInsert_def)

lemma capInsert_length_ge: "length xs \<le> length (capInsert n x xs)"
  by (auto simp: capInsert_def)

lemma capInsert_absorb: "x \<in> set xs \<Longrightarrow> capInsert n x xs = xs"
  by (simp add: capInsert_def)

lemma length_lastN [simp]: "length (lastN n xs) = min n (length xs)"
  by (simp add: lastN_def)

lemma lastN_bound [bounded_intros]: "length (lastN n xs) \<le> n"
  by simp

lemma lastN_small [simp]: "length xs \<le> n \<Longrightarrow> lastN n xs = xs"
  by (simp add: lastN_def)

lemma lastN_conv: "lastN n xs = drop (length xs - n) xs"
  by (simp add: lastN_def)

lemma set_lastN: "set (lastN n xs) \<subseteq> set xs"
  by (auto simp: lastN_def dest: in_set_dropD)

lemma lastN_append_lastN: "lastN n (lastN n xs @ [x]) = lastN n (xs @ [x])"
proof (cases "length xs \<le> n")
  case True
  then show ?thesis by simp
next
  case False
  then show ?thesis by (auto simp: lastN_def Suc_diff_le)
qed

lemma lastN_map: "lastN n (map f xs) = map f (lastN n xs)"
  by (simp add: lastN_def drop_map)

lemma lastN_suffix: "\<exists>ys. xs = ys @ lastN n xs"
  by (metis append_take_drop_id lastN_conv)

section \<open>Traversals\<close>

text \<open>\<open>errFold f\<close>: a loop over a slice whose body may return early with an error.\<close>

fun errFold :: "('s \<Rightarrow> 'a \<Rightarrow> 'e + 's) \<Rightarrow> 's \<Rightarrow> 'a list \<Rightarrow> 'e + 's" where
  "errFold f s [] = Inr s"
| "errFold f s (x # xs) = (case f s x of Inl e \<Rightarrow> Inl e | Inr s' \<Rightarrow> errFold f s' xs)"

lemma errFold_append:
  "errFold f s (xs @ ys) =
     (case errFold f s xs of Inl e \<Rightarrow> Inl e | Inr s' \<Rightarrow> errFold f s' ys)"
  by (induction xs arbitrary: s) (auto split: sum.splits)

lemma errFold_invariant:
  assumes "errFold f s xs = Inr t" and "I s"
    and step: "\<And>s x s'. x \<in> set xs \<Longrightarrow> I s \<Longrightarrow> f s x = Inr s' \<Longrightarrow> I s'"
  shows "I t"
  using assms
proof (induction xs arbitrary: s)
  case Nil
  then show ?case by simp
next
  case (Cons x xs)
  from Cons.prems(1) obtain s' where s': "f s x = Inr s'" "errFold f s' xs = Inr t"
    by (auto split: sum.splits)
  with Cons.prems(2,3) have "I s'" by auto
  then show ?case using s'(2) Cons.IH Cons.prems(3) by (meson list.set_intros(2))
qed

text \<open>The first value of a list that satisfies a test, as a Go \<open>for range\<close> with a \<open>return true\<close>.\<close>

lemma foldl_invariant:
  "I s \<Longrightarrow> (\<And>s x. x \<in> set xs \<Longrightarrow> I s \<Longrightarrow> I (f s x)) \<Longrightarrow> I (foldl f s xs)"
  by (induction xs arbitrary: s) auto

lemma sum_list_filter_le:
  "(\<And>x. x \<in> set xs \<Longrightarrow> 0 \<le> f x) \<Longrightarrow> sum_list (map f (filter P xs)) \<le> sum_list (map f xs)"
  for f :: "'a \<Rightarrow> int"
  by (induction xs) (auto simp: add_increasing)

section \<open>Maps\<close>

text \<open>\<open>keepWhere P m\<close>: a \<open>for k, v := range m\<close> loop that deletes the entries failing \<open>P\<close>.\<close>

definition keepWhere :: "('k \<Rightarrow> 'v \<Rightarrow> bool) \<Rightarrow> ('k \<rightharpoonup> 'v) \<Rightarrow> ('k \<rightharpoonup> 'v)" where
  "keepWhere P m = (\<lambda>k. case m k of None \<Rightarrow> None | Some v \<Rightarrow> if P k v then Some v else None)"

lemma keepWhere_Some_iff: "keepWhere P m k = Some v \<longleftrightarrow> m k = Some v \<and> P k v"
  by (auto simp: keepWhere_def split: option.splits)

lemma keepWhere_None_iff: "keepWhere P m k = None \<longleftrightarrow> (\<forall>v. m k = Some v \<longrightarrow> \<not> P k v)"
  by (auto simp: keepWhere_def split: option.splits)

lemma keepWhere_apply:
  "keepWhere P m k = (case m k of None \<Rightarrow> None | Some v \<Rightarrow> if P k v then Some v else None)"
  by (simp add: keepWhere_def)

lemma keepWhere_empty [simp]: "keepWhere P Map.empty = Map.empty"
  by (simp add: keepWhere_def)

lemma keepWhere_idem: "keepWhere P (keepWhere P m) = keepWhere P m"
  by (rule ext) (auto simp: keepWhere_def split: option.splits)

lemma dom_keepWhere: "dom (keepWhere P m) \<subseteq> dom m"
  by (auto simp: keepWhere_def split: option.splits)

end
