(* ===== verification/GoPaths.thy ===== *)
theory GoPaths
  imports GoStrings
begin

text \<open>
  Go's \<open>path/filepath\<close> on Unix (\<open>Clean\<close>, \<open>Join\<close>, \<open>IsAbs\<close>, \<open>Base\<close>, \<open>Ext\<close>) and
  \<open>time.ParseDuration\<close>. \<open>cleanComps\<close> is the list of components of the cleaned path; the lemmas
  show that \<open>Clean\<close> is idempotent and that a textual test for \<open>dir + "/"\<close> on cleaned paths is
  the prefix order on component lists.
\<close>

section \<open>Clean\<close>

fun joinSlash :: "string list \<Rightarrow> string" where
  "joinSlash [] = []"
| "joinSlash [c] = c"
| "joinSlash (c # d # cs) = c @ CHR ''/'' # joinSlash (d # cs)"

definition cleanStep :: "bool \<Rightarrow> string list \<Rightarrow> string \<Rightarrow> string list" where
  "cleanStep rooted st c =
     (if c = [] \<or> c = ''.'' then st
      else if c = ''..'' then
        (case st of
           [] \<Rightarrow> if rooted then [] else [''..'']
         | t # r \<Rightarrow> if t = ''..'' then ''..'' # st else r)
      else c # st)"

definition IsAbs :: "string \<Rightarrow> bool" where
  "IsAbs path = HasPrefix path ''/''"

definition cleanComps :: "string \<Rightarrow> string list" where
  "cleanComps path = rev (foldl (cleanStep (IsAbs path)) [] (Split CHR ''/'' path))"

definition Clean :: "string \<Rightarrow> string" where
  "Clean path =
     (if IsAbs path then CHR ''/'' # joinSlash (cleanComps path)
      else if cleanComps path = [] then ''.''
      else joinSlash (cleanComps path))"

definition Join2 :: "string \<Rightarrow> string \<Rightarrow> string" where
  "Join2 a b =
     (if a \<noteq> [] then Clean (a @ CHR ''/'' # b) else if b \<noteq> [] then Clean b else [])"

definition Base :: "string \<Rightarrow> string" where
  "Base path =
     (if path = [] then ''.''
      else let p = dropWhile (\<lambda>c. c = CHR ''/'') (rev path);
               b = rev (takeWhile (\<lambda>c. c \<noteq> CHR ''/'') p)
           in if b = [] then ''/'' else b)"

definition Ext :: "string \<Rightarrow> string" where
  "Ext path =
     (let p = (\<lambda>c. c \<noteq> CHR ''/'' \<and> c \<noteq> CHR ''.'') in
      case dropWhile p (rev path) of
        [] \<Rightarrow> []
      | c # _ \<Rightarrow> if c = CHR ''.'' then c # rev (takeWhile p (rev path)) else [])"

text \<open>A component list in normal form: no empty or dot component, \<open>..\<close> only in front.\<close>

definition plainComp :: "string \<Rightarrow> bool" where
  "plainComp c \<longleftrightarrow> c \<noteq> [] \<and> c \<noteq> ''.'' \<and> c \<noteq> ''..'' \<and> CHR ''/'' \<notin> set c"

definition normComps :: "bool \<Rightarrow> string list \<Rightarrow> bool" where
  "normComps rooted cs \<longleftrightarrow>
     (\<exists>k ds. cs = replicate k ''..'' @ ds \<and> list_all plainComp ds \<and> (rooted \<longrightarrow> k = 0))"

lemma IsAbs_Cons [simp]: "IsAbs (c # s) \<longleftrightarrow> c = CHR ''/''"
  by (auto simp: IsAbs_def HasPrefix_def)

lemma IsAbs_Nil [simp]: "\<not> IsAbs []"
  by (simp add: IsAbs_def HasPrefix_def)

lemma normComps_Nil [simp]: "normComps r []"
  by (auto simp: normComps_def)

lemma plainComp_ne_dotdot: "list_all plainComp ds \<Longrightarrow> ''..'' \<notin> set ds"
  by (auto simp: list_all_iff plainComp_def)

lemma cleanStep_norm:
  assumes n: "normComps r (rev st)" and c: "CHR ''/'' \<notin> set c"
  shows "normComps r (rev (cleanStep r st c))"
proof -
  from n obtain k ds where d: "rev st = replicate k ''..'' @ ds" "list_all plainComp ds" "r \<longrightarrow> k = 0"
    by (auto simp: normComps_def)
  consider "c = [] \<or> c = ''.''" | "c = ''..''" | "plainComp c"
    using c by (auto simp: plainComp_def)
  then show ?thesis
  proof cases
    case 1
    with n show ?thesis by (auto simp: cleanStep_def)
  next
    case 2
    show ?thesis
    proof (cases ds rule: rev_cases)
      case Nil
      with d(1) have "rev (rev st) = rev (replicate k ''..'')" by simp
      then have st: "st = replicate k ''..''" by simp
      show ?thesis
      proof (cases k)
        case 0
        then show ?thesis using 2 st
          by (auto simp: cleanStep_def normComps_def intro: exI [of _ "Suc 0"])
      next
        case (Suc m)
        then have "rev (cleanStep r st c) = replicate (Suc k) ''..'' @ []"
          using 2 st by (simp add: cleanStep_def replicate_append_same)
        moreover have "\<not> r" using d(3) Suc by simp
        ultimately show ?thesis
          unfolding normComps_def by (intro exI [of _ "Suc k"] exI [of _ "[]"]) simp
      qed
    next
      case (snoc es e)
      with d(1) have "rev (rev st) = rev (replicate k ''..'' @ es @ [e])" by simp
      then have st: "st = e # rev es @ replicate k ''..''" by simp
      from d(2) snoc have e: "e \<noteq> ''..''" by (simp add: plainComp_def)
      with st have "rev (cleanStep r st c) = replicate k ''..'' @ es"
        using 2 by (simp add: cleanStep_def)
      with d snoc show ?thesis unfolding normComps_def by auto
    qed
  next
    case 3
    then have "rev (cleanStep r st c) = replicate k ''..'' @ (ds @ [c])"
      using d(1) by (simp add: cleanStep_def plainComp_def)
    moreover have "list_all plainComp (ds @ [c])" using d(2) 3 by simp
    ultimately show ?thesis using d(3) unfolding normComps_def by blast
  qed
qed

lemma cleanSteps_norm:
  "normComps r (rev st) \<Longrightarrow> \<forall>c \<in> set cs. CHR ''/'' \<notin> set c \<Longrightarrow>
   normComps r (rev (foldl (cleanStep r) st cs))"
  by (induction cs arbitrary: st) (auto simp: cleanStep_norm)

lemma normComps_cleanComps: "normComps (IsAbs p) (cleanComps p)"
  unfolding cleanComps_def by (rule cleanSteps_norm) (auto dest: Split_no_sep)

lemma cleanSteps_plain:
  "list_all plainComp cs \<Longrightarrow> foldl (cleanStep r) st cs = rev cs @ st"
  by (induction cs arbitrary: st) (auto simp: cleanStep_def plainComp_def)

lemma cleanSteps_dotdot:
  "foldl (cleanStep False) (replicate j ''..'') (replicate k ''..'') = replicate (k + j) ''..''"
proof (induction k arbitrary: j)
  case 0
  then show ?case by simp
next
  case (Suc k)
  have "cleanStep False (replicate j ''..'') ''..'' = replicate (Suc j) ''..''"
    by (cases j) (auto simp: cleanStep_def)
  with Suc [of "Suc j"] show ?case by simp
qed

lemma cleanSteps_id:
  assumes "normComps r cs"
  shows "foldl (cleanStep r) [] cs = rev cs"
proof -
  from assms obtain k ds where d: "cs = replicate k ''..'' @ ds" "list_all plainComp ds" "r \<longrightarrow> k = 0"
    by (auto simp: normComps_def)
  have "foldl (cleanStep r) [] (replicate k ''..'') = replicate k ''..''"
    using cleanSteps_dotdot [of 0 k] d(3) by (cases r) auto
  with d show ?thesis by (simp add: cleanSteps_plain)
qed

lemma normComps_no_slash:
  assumes "normComps r cs" and "c \<in> set cs"
  shows "CHR ''/'' \<notin> set c \<and> c \<noteq> []"
proof -
  from assms(1) obtain k ds where d: "cs = replicate k ''..'' @ ds" "list_all plainComp ds"
    unfolding normComps_def by blast
  with assms(2) have "c = ''..'' \<or> c \<in> set ds" by (simp, blast)
  with d(2) show ?thesis by (simp add: list_all_iff plainComp_def) fastforce
qed

lemma Split_joinSlash:
  "cs \<noteq> [] \<Longrightarrow> \<forall>c \<in> set cs. CHR ''/'' \<notin> set c \<Longrightarrow> Split CHR ''/'' (joinSlash cs) = cs"
  by (induction cs rule: joinSlash.induct) (auto simp: Split_plain Split_append_sep)

lemma joinSlash_head:
  "normComps r cs \<Longrightarrow> cs \<noteq> [] \<Longrightarrow> joinSlash cs \<noteq> [] \<and> \<not> IsAbs (joinSlash cs)"
proof -
  assume n: "normComps r cs" and "cs \<noteq> []"
  then obtain c ds where cs: "cs = c # ds" by (cases cs) auto
  with n have "CHR ''/'' \<notin> set c" "c \<noteq> []" using normComps_no_slash by auto
  then obtain x xs where "c = x # xs" "x \<noteq> CHR ''/''" by (cases c) auto
  with cs show ?thesis by (cases ds) auto
qed

lemma cleanComps_joinSlash:
  assumes "normComps False cs" and "cs \<noteq> []"
  shows "cleanComps (joinSlash cs) = cs"
  using assms joinSlash_head [OF assms] normComps_no_slash [OF assms(1)]
  by (simp add: cleanComps_def Split_joinSlash cleanSteps_id)

lemma cleanComps_rooted:
  assumes "normComps True cs"
  shows "cleanComps (CHR ''/'' # joinSlash cs) = cs"
proof (cases "cs = []")
  case True
  then show ?thesis by (simp add: cleanComps_def cleanStep_def)
next
  case False
  have "cleanStep True [] [] = []" by (simp add: cleanStep_def)
  with assms False normComps_no_slash [OF assms] show ?thesis
    by (simp add: cleanComps_def Split_joinSlash cleanSteps_id)
qed

lemma normComps_weaken: "normComps True cs \<Longrightarrow> normComps False cs"
  unfolding normComps_def by blast

lemma IsAbs_Clean: "IsAbs (Clean p) = IsAbs p"
proof (cases "IsAbs p")
  case True
  then show ?thesis by (simp add: Clean_def)
next
  case False
  with normComps_cleanComps [of p] joinSlash_head show ?thesis
    by (auto simp: Clean_def)
qed

lemma cleanComps_Clean: "cleanComps (Clean p) = cleanComps p"
proof (cases "IsAbs p")
  case True
  then show ?thesis
    using normComps_cleanComps [of p] by (simp add: Clean_def cleanComps_rooted)
next
  case False
  then show ?thesis
    using normComps_cleanComps [of p]
    by (auto simp: Clean_def cleanComps_joinSlash) (simp add: cleanComps_def cleanStep_def)
qed

lemma Clean_idem [simp]: "Clean (Clean p) = Clean p"
  by (simp add: Clean_def [of "Clean p"] IsAbs_Clean cleanComps_Clean) (simp add: Clean_def)

lemma Clean_nonempty [simp]: "Clean p \<noteq> []"
  using normComps_cleanComps [of p] joinSlash_head by (auto simp: Clean_def)

lemma Clean_eq_iff: "Clean p = Clean q \<longleftrightarrow> IsAbs p = IsAbs q \<and> cleanComps p = cleanComps q"
  by (metis Clean_def IsAbs_Clean cleanComps_Clean)

lemma Clean_root_iff: "Clean p = ''/'' \<longleftrightarrow> IsAbs p \<and> cleanComps p = []"
proof -
  have "joinSlash (cleanComps p) = [] \<longleftrightarrow> cleanComps p = []"
    using joinSlash_head [OF normComps_cleanComps [of p]] by auto
  moreover have "\<not> IsAbs p \<Longrightarrow> Clean p \<noteq> ''/''"
    using IsAbs_Clean [of p] by auto
  ultimately show ?thesis by (auto simp: Clean_def)
qed

section \<open>Directory prefixes\<close>

lemma joinSlash_append:
  "cs \<noteq> [] \<Longrightarrow> ds \<noteq> [] \<Longrightarrow> joinSlash (cs @ ds) = joinSlash cs @ CHR ''/'' # joinSlash ds"
proof (induction cs rule: joinSlash.induct)
  case (2 c)
  then show ?case by (cases ds) auto
qed auto

lemma Split_append_at:
  "Split d (s @ d # t) = Split d s @ Split d t"
proof (induction s)
  case (Cons c s)
  obtain h r where "Split d s = h # r" by (cases "Split d s") auto
  with Cons show ?case by auto
qed simp

lemma joinSlash_prefix_iff:
  assumes cs: "cs \<noteq> []" "\<forall>c \<in> set cs. CHR ''/'' \<notin> set c"
    and ds: "ds \<noteq> []" "\<forall>c \<in> set ds. CHR ''/'' \<notin> set c"
  shows "joinSlash cs = joinSlash ds \<or> prefix (joinSlash cs @ ''/'') (joinSlash ds) \<longleftrightarrow> prefix cs ds"
proof
  assume "joinSlash cs = joinSlash ds \<or> prefix (joinSlash cs @ ''/'') (joinSlash ds)"
  then show "prefix cs ds"
  proof
    assume "joinSlash cs = joinSlash ds"
    then have "cs = ds" using cs ds by (metis Split_joinSlash)
    then show ?thesis by simp
  next
    assume "prefix (joinSlash cs @ ''/'') (joinSlash ds)"
    then obtain t where "joinSlash ds = joinSlash cs @ CHR ''/'' # t" by (auto simp: prefix_def)
    then have "ds = cs @ Split CHR ''/'' t"
      using cs ds by (metis Split_append_at Split_joinSlash)
    then show ?thesis by simp
  qed
next
  assume "prefix cs ds"
  then obtain es where es: "ds = cs @ es" by (auto simp: prefix_def)
  show "joinSlash cs = joinSlash ds \<or> prefix (joinSlash cs @ ''/'') (joinSlash ds)"
    using es cs by (cases "es = []") (auto simp: joinSlash_append)
qed

text \<open>
  The test the sources use on a cleaned directory \<open>d\<close> other than \<open>/\<close>: for absolute paths it
  holds exactly when the components of \<open>d\<close> begin those of the path.
\<close>

lemma under_dir_iff:
  assumes abs: "IsAbs p" "IsAbs d" and nr: "cleanComps d \<noteq> []"
  shows "Clean p = Clean d \<or> HasPrefix (Clean p) (Clean d @ ''/'') \<longleftrightarrow>
         prefix (cleanComps d) (cleanComps p)"
proof (cases "cleanComps p = []")
  case True
  then show ?thesis
    using abs nr joinSlash_head [OF normComps_cleanComps [of d] nr]
    by (auto simp: Clean_def HasPrefix_iff)
next
  case False
  have "\<forall>c \<in> set (cleanComps d). CHR ''/'' \<notin> set c" "\<forall>c \<in> set (cleanComps p). CHR ''/'' \<notin> set c"
    using normComps_no_slash [OF normComps_cleanComps] by auto
  from joinSlash_prefix_iff [OF nr this(1) False this(2)] show ?thesis
    using abs by (auto simp: Clean_def HasPrefix_iff)
qed

section \<open>Durations\<close>

text \<open>
  \<open>time.ParseDuration\<close>: an optional sign, then numbers with a unit each; \<open>None\<close> stands for its
  error. The limits are those of the code: no partial sum may pass \<open>2 ^ 63\<close>, and \<open>2 ^ 63\<close>
  itself only with a minus sign.
\<close>

definition unitOf :: "string \<Rightarrow> int option" where
  "unitOf u =
     (if u = ''ns'' then Some 1
      else if u = ''us'' \<or> u = map char_of [194, 181, 115 :: nat] \<or> u = map char_of [206, 188, 115 :: nat]
        then Some 1000
      else if u = ''ms'' then Some 1000000
      else if u = ''s'' then Some 1000000000
      else if u = ''m'' then Some 60000000000
      else if u = ''h'' then Some 3600000000000
      else None)"

definition isNumChar :: "char \<Rightarrow> bool" where
  "isNumChar c \<longleftrightarrow> c = CHR ''.'' \<or> isDigit c"

text \<open>One number and its unit: the nanoseconds and the rest of the input.\<close>

definition durationTerm :: "string \<Rightarrow> (int \<times> string) option" where
  "durationTerm s =
     (let ds = takeWhile isDigit s;
          s1 = dropWhile isDigit s;
          dot = (s1 \<noteq> [] \<and> hd s1 = CHR ''.'');
          fs = (if dot then takeWhile isDigit (tl s1) else []);
          s2 = (if dot then dropWhile isDigit (tl s1) else s1);
          u = takeWhile (\<lambda>c. \<not> isNumChar c) s2;
          s3 = dropWhile (\<lambda>c. \<not> isNumChar c) s2
      in if ds = [] \<and> fs = [] then None
         else if 2 ^ 63 < decValue ds then None
         else case unitOf u of
           None \<Rightarrow> None
         | Some unit \<Rightarrow>
             if 2 ^ 63 div unit < decValue ds then None
             else let v = decValue ds * unit + decValue fs * unit div 10 ^ length fs
                  in if 2 ^ 63 < v then None else Some (v, s3))"

lemma durationTerm_shorter:
  assumes "durationTerm s = Some (v, s')"
  shows "length s' < length s"
proof -
  define s1 where "s1 = dropWhile isDigit s"
  define dot where "dot = (s1 \<noteq> [] \<and> hd s1 = CHR ''.'')"
  define s2 where "s2 = (if dot then dropWhile isDigit (tl s1) else s1)"
  have le: "length s2 \<le> length s1" "length s1 \<le> length s"
    using length_dropWhile_le [of isDigit s] length_dropWhile_le [of isDigit "tl s1"]
    by (auto simp: s1_def s2_def)
  from assms have u: "unitOf (takeWhile (\<lambda>c. \<not> isNumChar c) s2) \<noteq> None"
    and s': "s' = dropWhile (\<lambda>c. \<not> isNumChar c) s2"
    unfolding durationTerm_def Let_def s1_def s2_def dot_def by (auto split: if_splits option.splits)
  have "takeWhile (\<lambda>c. \<not> isNumChar c) s2 \<noteq> []" using u by (auto simp: unitOf_def)
  then have "length s' < length s2"
    unfolding s' by (metis length_append length_greater_0_conv less_add_same_cancel2 takeWhile_dropWhile_id)
  with le show ?thesis by simp
qed

function durationTerms :: "int \<Rightarrow> string \<Rightarrow> int option" where
  "durationTerms acc s =
     (if s = [] then Some acc
      else case durationTerm s of
        None \<Rightarrow> None
      | Some (v, s') \<Rightarrow> if 2 ^ 63 < acc + v then None else durationTerms (acc + v) s')"
  by pat_completeness auto
termination
  by (relation "measure (\<lambda>(_, s). length s)") (auto dest: durationTerm_shorter)

declare durationTerms.simps [simp del]

definition ParseDuration :: "string \<Rightarrow> duration option" where
  "ParseDuration s =
     (let neg = (s \<noteq> [] \<and> hd s = CHR ''-'');
          r = (if s \<noteq> [] \<and> (hd s = CHR ''-'' \<or> hd s = CHR ''+'') then tl s else s)
      in if r = ''0'' then Some 0
         else if r = [] then None
         else case durationTerms 0 r of
           None \<Rightarrow> None
         | Some d \<Rightarrow>
             if neg then Some (- d) else if 2 ^ 63 - 1 < d then None else Some d)"

lemma unitOf_pos: "unitOf u = Some n \<Longrightarrow> 0 < n"
  by (simp add: unitOf_def split: if_splits)

lemma durationTerm_nonneg: "durationTerm s = Some (v, s') \<Longrightarrow> 0 \<le> v"
proof -
  have "0 \<le> a * unit + b * unit div 10 ^ k" if "0 \<le> a" "0 \<le> b" "0 < unit" for a b unit :: int and k
    using that by (simp add: pos_imp_zdiv_nonneg_iff)
  then show "durationTerm s = Some (v, s') \<Longrightarrow> 0 \<le> v"
    unfolding durationTerm_def Let_def
    by (auto split: if_splits option.splits dest!: unitOf_pos)
qed

lemma durationTerms_bound:
  "0 \<le> acc \<Longrightarrow> acc \<le> 2 ^ 63 \<Longrightarrow> durationTerms acc s = Some d \<Longrightarrow> 0 \<le> d \<and> d \<le> 2 ^ 63"
proof (induction acc s rule: durationTerms.induct)
  case (1 acc s)
  show ?case
  proof (cases "s = []")
    case True
    with "1.prems" show ?thesis by (simp add: durationTerms.simps [of acc "[]"])
  next
    case False
    with "1.prems"(3) obtain v s' where
      t: "durationTerm s = Some (v, s')" "\<not> 2 ^ 63 < acc + v" "durationTerms (acc + v) s' = Some d"
      by (auto simp: durationTerms.simps [of acc s] split: option.splits if_splits)
    with "1.prems"(1) durationTerm_nonneg have "0 \<le> acc + v" by fastforce
    from "1.IH" [OF False t(1) refl t(2) this _ t(3)] t(2) show ?thesis by simp
  qed
qed

lemma ParseDuration_int64: "ParseDuration s = Some d \<Longrightarrow> int64 d"
proof -
  assume "ParseDuration s = Some d"
  then consider "d = 0" | n r where "durationTerms 0 r = Some n" "d = - n \<or> (d = n \<and> n \<le> 2 ^ 63 - 1)"
    by (auto simp: ParseDuration_def Let_def split: if_splits option.splits)
  then show ?thesis
  proof cases
    case 1
    then show ?thesis by (simp add: int64_def)
  next
    case 2
    then have "0 \<le> n \<and> n \<le> 2 ^ 63" using durationTerms_bound [of 0 r n] by simp
    with 2 show ?thesis by (auto simp: int64_def)
  qed
qed

end
