(* ===== verification/GoNetip.thy ===== *)
theory GoNetip
  imports GoStrings
begin

text \<open>
  Go's \<open>net/netip\<close> as the network-egress check uses it: addresses, \<open>ParseAddr\<close>,
  \<open>ParsePrefix\<close>, \<open>Prefix.Contains\<close>, and \<open>net.ParseCIDR\<close> as the configuration check uses it.
  An IPv4 address and its IPv6-mapped form are different values, as in \<open>netip\<close>; the zone of
  an IPv6 address is kept as text.
\<close>

datatype addr = NoAddr | Addr4 "32 word" | Addr6 "128 word" string

record netPrefix =
  pf_addr :: addr
  pf_bits :: nat

definition wordOfBytes :: "int list \<Rightarrow> 'a::len word" where
  "wordOfBytes bs = word_of_int (foldl (\<lambda>w b. 256 * w + b) 0 bs)"

definition isHexDigit :: "char \<Rightarrow> bool" where
  "isHexDigit c \<longleftrightarrow> isDigit c \<or> (97 \<le> byte c \<and> byte c \<le> 102) \<or> (65 \<le> byte c \<and> byte c \<le> 70)"

definition hexDigit :: "char \<Rightarrow> int" where
  "hexDigit c =
     (if isDigit c then int (byte c) - 48 else if 97 \<le> byte c then int (byte c) - 87 else int (byte c) - 55)"

definition hexValue :: "string \<Rightarrow> int" where
  "hexValue s = foldl (\<lambda>n c. 16 * n + hexDigit c) 0 s"

section \<open>Parsing\<close>

definition octet :: "string \<Rightarrow> int option" where
  "octet s =
     (if s = [] \<or> \<not> list_all isDigit s \<or> (1 < length s \<and> hd s = CHR ''0'') \<or> 255 < decValue s
      then None else Some (decValue s))"

definition parseIPv4Fields :: "string \<Rightarrow> int list option" where
  "parseIPv4Fields s =
     (case map octet (Split CHR ''.'' s) of
        [Some a, Some b, Some c, Some d] \<Rightarrow> Some [a, b, c, d]
      | _ \<Rightarrow> None)"

lemma dropWhile_shorter: "c # d # r = dropWhile P s \<Longrightarrow> length r + 2 \<le> length s"
  by (metis add_2_eq_Suc' length_Cons length_dropWhile_le)

function v6Groups :: "int list \<Rightarrow> nat option \<Rightarrow> string \<Rightarrow> (int list \<times> nat option) option" where
  "v6Groups acc el s =
     (if 16 \<le> length acc then (if s = [] then Some (acc, el) else None)
      else
        let ds = takeWhile isHexDigit s;
            rest = dropWhile isHexDigit s;
            acc' = acc @ [hexValue ds div 256, hexValue ds mod 256]
        in if ds = [] \<or> 4 < length ds then None
           else if rest \<noteq> [] \<and> hd rest = CHR ''.'' then
             (if (el = None \<and> length acc \<noteq> 12) \<or> 16 < length acc + 4 then None
              else case parseIPv4Fields s of
                None \<Rightarrow> None
              | Some fs \<Rightarrow> Some (acc @ fs, el))
           else
             (case rest of
                [] \<Rightarrow> Some (acc', el)
              | [_] \<Rightarrow> None
              | c # d # r \<Rightarrow>
                  if c \<noteq> CHR '':'' then None
                  else if d = CHR '':'' then
                    (if el \<noteq> None then None
                     else if r = [] then Some (acc', Some (length acc'))
                     else v6Groups acc' (Some (length acc')) r)
                  else v6Groups acc' el (d # r)))"
  by pat_completeness auto
termination
proof (relation "measure (\<lambda>(_, _, s). length s)", goal_cases)
  case 1
  then show ?case by simp
next
  case (2 acc el s ds rest acc' c x d r)
  then show ?case by (auto dest: dropWhile_shorter)
next
  case (3 acc el s ds rest acc' c x d r)
  then show ?case by (auto dest: dropWhile_shorter)
qed

declare v6Groups.simps [simp del]

definition v6Expand :: "int list \<Rightarrow> nat option \<Rightarrow> int list option" where
  "v6Expand acc el =
     (case el of
        None \<Rightarrow> if length acc < 16 then None else Some acc
      | Some e \<Rightarrow>
          if length acc < 16
          then Some (take e acc @ replicate (16 - length acc) 0 @ drop e acc)
          else None)"

definition parseIPv6 :: "string \<Rightarrow> addr option" where
  "parseIPv6 s =
     (let body = takeWhile (\<lambda>c. c \<noteq> CHR ''%'') s;
          hasZone = CHR ''%'' \<in> set s;
          zone = tl (dropWhile (\<lambda>c. c \<noteq> CHR ''%'') s);
          lead = HasPrefix body ''::'';
          body' = (if lead then drop 2 body else body);
          start = (if lead then Some 0 else None)
      in if hasZone \<and> zone = [] then None
         else if lead \<and> body' = [] then Some (Addr6 0 zone)
         else case v6Groups [] start body' of
           None \<Rightarrow> None
         | Some (acc, el) \<Rightarrow>
             (case v6Expand acc el of
                None \<Rightarrow> None
              | Some bs \<Rightarrow> Some (Addr6 (wordOfBytes bs) zone)))"

definition ParseAddr :: "string \<Rightarrow> addr option" where
  "ParseAddr s =
     (case dropWhile (\<lambda>c. c \<noteq> CHR ''.'' \<and> c \<noteq> CHR '':'' \<and> c \<noteq> CHR ''%'') s of
        [] \<Rightarrow> None
      | c # _ \<Rightarrow>
          if c = CHR ''.'' then map_option (\<lambda>bs. Addr4 (wordOfBytes bs)) (parseIPv4Fields s)
          else if c = CHR '':'' then parseIPv6 s
          else None)"

definition bitLen :: "addr \<Rightarrow> nat" where
  "bitLen a = (case a of NoAddr \<Rightarrow> 0 | Addr4 _ \<Rightarrow> 32 | Addr6 _ _ \<Rightarrow> 128)"

definition hasZone :: "addr \<Rightarrow> bool" where
  "hasZone a = (case a of Addr6 _ z \<Rightarrow> z \<noteq> [] | _ \<Rightarrow> False)"

text \<open>\<open>netip.ParsePrefix\<close>: splits at the last slash, refuses a signed or zero-padded length.\<close>

definition ParsePrefix :: "string \<Rightarrow> netPrefix option" where
  "ParsePrefix s =
     (if CHR ''/'' \<notin> set s then None
      else
        let bits = rev (takeWhile (\<lambda>c. c \<noteq> CHR ''/'') (rev s));
            ip = take (length s - length bits - 1) s
        in case ParseAddr ip of
          None \<Rightarrow> None
        | Some a \<Rightarrow>
            if hasZone a then None
            else if 1 < length bits \<and> (byte (hd bits) < 49 \<or> 57 < byte (hd bits)) then None
            else (case ParseInt64 bits of
                    None \<Rightarrow> None
                  | Some n \<Rightarrow>
                      if n < 0 \<or> int (bitLen a) < n then None
                      else Some \<lparr>pf_addr = a, pf_bits = nat n\<rparr>))"

text \<open>\<open>net.ParseCIDR\<close>: splits at the first slash; the length may be zero-padded. \<open>True\<close>: no error.\<close>

definition ParseCIDR_ok :: "string \<Rightarrow> bool" where
  "ParseCIDR_ok s =
     (let ip = takeWhile (\<lambda>c. c \<noteq> CHR ''/'') s;
          mask = tl (dropWhile (\<lambda>c. c \<noteq> CHR ''/'') s)
      in CHR ''/'' \<in> set s \<and>
         (case ParseAddr ip of
            None \<Rightarrow> False
          | Some a \<Rightarrow>
              \<not> hasZone a \<and> mask \<noteq> [] \<and> list_all isDigit mask \<and> decValue mask \<le> int (bitLen a)))"

definition Contains :: "netPrefix \<Rightarrow> addr \<Rightarrow> bool" where
  "Contains p ip =
     (case (pf_addr p, ip) of
        (Addr4 a, Addr4 b) \<Rightarrow> drop_bit (32 - pf_bits p) (a XOR b) = 0
      | (Addr6 a z, Addr6 b z') \<Rightarrow> z' = [] \<and> drop_bit (128 - pf_bits p) (a XOR b) = 0
      | _ \<Rightarrow> False)"

section \<open>Facts\<close>

lemma Contains_self: "pf_addr p \<noteq> NoAddr \<Longrightarrow> \<not> hasZone (pf_addr p) \<Longrightarrow> Contains p (pf_addr p)"
  by (auto simp: Contains_def hasZone_def split: addr.splits)

lemma Contains_family: "Contains p ip \<Longrightarrow> bitLen (pf_addr p) = bitLen ip"
  by (auto simp: Contains_def bitLen_def split: addr.splits prod.splits)

lemma Contains_NoAddr [simp]: "\<not> Contains p NoAddr"
  by (simp add: Contains_def split: addr.splits)

lemma drop_bit_weaken: "m \<le> n \<Longrightarrow> drop_bit m (w :: 'a::len word) = 0 \<Longrightarrow> drop_bit n w = 0"
proof -
  assume mn: "m \<le> n" and z: "drop_bit m w = 0"
  from mn have "drop_bit n w = drop_bit (n - m) (drop_bit m w)" by (simp add: drop_bit_drop_bit)
  with z show ?thesis by simp
qed

lemma drop_bit_xor_weaken:
  "m \<le> n \<Longrightarrow> drop_bit m a XOR drop_bit m b = 0 \<Longrightarrow> drop_bit n a XOR drop_bit n b = 0"
  for a b :: "'a::len word"
  by (metis drop_bit_weaken drop_bit_xor)

text \<open>A shorter prefix of the same network contains what the longer one contains.\<close>

lemma Contains_shorter:
  "Contains p ip \<Longrightarrow> b \<le> pf_bits p \<Longrightarrow> Contains (p\<lparr>pf_bits := b\<rparr>) ip"
  by (auto simp: Contains_def split: addr.splits elim!: drop_bit_xor_weaken [rotated])

lemma ParsePrefix_valid: "ParsePrefix s = Some p \<Longrightarrow> pf_bits p \<le> bitLen (pf_addr p) \<and> \<not> hasZone (pf_addr p)"
  by (auto simp: ParsePrefix_def Let_def split: if_splits option.splits)

section \<open>Texts with a slash\<close>

lemma byte_marks:
  "byte CHR ''/'' = 47" "byte CHR ''%'' = 37" "byte CHR ''0'' = 48" "byte CHR ''-'' = 45" "byte CHR ''+'' = 43"
  by code_simp+

lemma mark_kinds:
  "\<not> isDigit CHR ''/''" "\<not> isDigit CHR ''%''" "isDigit CHR ''0''" "\<not> isDigit CHR ''-''" "\<not> isDigit CHR ''+''"
  "\<not> isHexDigit CHR ''/''"
  by (simp_all add: isDigit_def isHexDigit_def byte_marks)

lemma Split_covers: "x \<in> set s \<Longrightarrow> x \<noteq> d \<Longrightarrow> \<exists>f \<in> set (Split d s). x \<in> set f"
proof (induction s)
  case (Cons c s)
  obtain h t where "Split d s = h # t" by (cases "Split d s") auto
  with Cons show ?case by auto
qed simp

lemma octet_digits: "octet f = Some n \<Longrightarrow> list_all isDigit f"
  by (simp add: octet_def split: if_splits)

lemma parseIPv4Fields_chars:
  assumes "parseIPv4Fields s = Some fs" and "x \<in> set s"
  shows "x = CHR ''.'' \<or> isDigit x"
proof (rule ccontr)
  assume x: "\<not> (x = CHR ''.'' \<or> isDigit x)"
  then obtain f where f: "f \<in> set (Split CHR ''.'' s)" "x \<in> set f" using Split_covers assms(2) by blast
  then have "octet f = None" using x octet_digits [of f] by (cases "octet f") (auto simp: list_all_iff)
  then have "None \<in> set (map octet (Split CHR ''.'' s))" using f(1) by force
  then show False using assms(1) by (auto simp: parseIPv4Fields_def split: list.splits option.splits)
qed

lemma parseIPv4Fields_slash: "CHR ''/'' \<in> set s \<Longrightarrow> parseIPv4Fields s = None"
  using parseIPv4Fields_chars [of s _ "CHR ''/''"] by (cases "parseIPv4Fields s") (auto simp: mark_kinds)

lemma slash_rest: "CHR ''/'' \<in> set s \<Longrightarrow> CHR ''/'' \<in> set (dropWhile isHexDigit s)"
  by (induction s) (auto simp: mark_kinds)

lemma v6Groups_slash: "CHR ''/'' \<in> set s \<Longrightarrow> v6Groups acc el s = None"
proof (induction acc el s rule: v6Groups.induct)
  case (1 acc el s)
  obtain c r where rest: "dropWhile isHexDigit s = c # r" "CHR ''/'' \<in> set (c # r)"
    using slash_rest [OF "1.prems"] by (cases "dropWhile isHexDigit s") auto
  have s: "s \<noteq> []" using "1.prems" by auto
  show ?case
  proof (cases "16 \<le> length acc \<or> takeWhile isHexDigit s = [] \<or> 4 < length (takeWhile isHexDigit s) \<or> c = CHR ''.''")
    case True
    then show ?thesis
      using rest s parseIPv4Fields_slash [OF "1.prems"] by (subst v6Groups.simps) (auto simp: Let_def)
  next
    case False
    let ?acc = "acc @ [hexValue (takeWhile isHexDigit s) div 256, hexValue (takeWhile isHexDigit s) mod 256]"
    have step: "v6Groups acc el s = (case r of [] \<Rightarrow> None | d # r' \<Rightarrow>
        if c \<noteq> CHR '':'' then None
        else if d = CHR '':'' then
          (if el \<noteq> None then None else if r' = [] then Some (?acc, Some (length ?acc))
           else v6Groups ?acc (Some (length ?acc)) r')
        else v6Groups ?acc el (d # r'))"
      using False rest(1) by (subst v6Groups.simps) (simp add: Let_def)
    have "v6Groups ?acc (Some (length ?acc)) r' = None"
      if "r = CHR '':'' # r'" "c = CHR '':''" "el = None" "CHR ''/'' \<in> set r'" for r'
      using "1.IH"(1) [OF _ refl refl refl] False rest(1) that by force
    moreover have "v6Groups ?acc el (d # r') = None"
      if "r = d # r'" "c = CHR '':''" "d \<noteq> CHR '':''" "CHR ''/'' \<in> set (d # r')" for d r'
      using "1.IH"(2) [OF _ refl refl refl] False rest(1) that by force
    ultimately show ?thesis using rest(2) unfolding step by (auto split: list.split)
  qed
qed

lemma parseIPv6_slash:
  assumes "CHR ''/'' \<in> set s" and "CHR ''%'' \<notin> set s"
  shows "parseIPv6 s = None"
proof -
  have body: "takeWhile (\<lambda>c. c \<noteq> CHR ''%'') s = s" using assms(2) unfolding takeWhile_eq_all_conv by blast
  show ?thesis
  proof (cases "HasPrefix s ''::''")
    case True
    then obtain t where "s = CHR '':'' # CHR '':'' # t" by (auto simp: HasPrefix_iff prefix_def)
    with assms(1) have "CHR ''/'' \<in> set (drop 2 s)" by simp
    then have "v6Groups [] (Some 0) (drop 2 s) = None" "drop 2 s \<noteq> []" by (rule v6Groups_slash, force)
    then show ?thesis using assms(2) True unfolding parseIPv6_def body Let_def by simp
  next
    case False
    then show ?thesis using assms(2) v6Groups_slash [OF assms(1)] unfolding parseIPv6_def body Let_def by simp
  qed
qed

lemma ParseAddr_slash:
  assumes "CHR ''/'' \<in> set s" and "CHR ''%'' \<notin> set s"
  shows "ParseAddr s = None"
proof -
  have "(case xs of [] \<Rightarrow> None | c # _ \<Rightarrow>
      if c = CHR ''.'' then map_option f None else if c = CHR '':'' then None else None) = None" for xs :: string and f
    by (cases xs) auto
  then show ?thesis unfolding ParseAddr_def parseIPv4Fields_slash [OF assms(1)] parseIPv6_slash [OF assms] .
qed

lemma ParseAddr_zone: "ParseAddr s = Some a \<Longrightarrow> \<not> hasZone a \<Longrightarrow> CHR ''%'' \<notin> set s"
proof
  assume a: "ParseAddr s = Some a" "\<not> hasZone a" and z: "CHR ''%'' \<in> set s"
  have "parseIPv4Fields s = None"
    using z parseIPv4Fields_chars [of s _ "CHR ''%''"] by (cases "parseIPv4Fields s") (auto simp: mark_kinds)
  then have "parseIPv6 s = Some a" using a(1) by (auto simp: ParseAddr_def split: list.splits if_splits)
  then show False using a(2) z by (auto simp: parseIPv6_def Let_def hasZone_def split: if_splits option.splits)
qed

lemma decValue_padded: "decValue (replicate k CHR ''0'' @ m) = decValue m"
  by (induction k) (simp_all add: decValue_def byte_marks)

lemma slash_split:
  assumes "CHR ''/'' \<notin> set ip"
  shows "takeWhile (\<lambda>c. c \<noteq> CHR ''/'') (ip @ CHR ''/'' # m) = ip"
    and "dropWhile (\<lambda>c. c \<noteq> CHR ''/'') (ip @ CHR ''/'' # m) = CHR ''/'' # m"
  using assms by (induction ip) auto

text \<open>What an accepted CIDR is, by its two parts, and what \<open>netip.ParsePrefix\<close> makes of them.\<close>

lemma ParseCIDR_ok_parts:
  assumes "CHR ''/'' \<notin> set ip"
  shows "ParseCIDR_ok (ip @ CHR ''/'' # m) \<longleftrightarrow>
    (\<exists>a. ParseAddr ip = Some a \<and> \<not> hasZone a \<and> m \<noteq> [] \<and> list_all isDigit m \<and> decValue m \<le> int (bitLen a))"
  by (simp add: ParseCIDR_ok_def Let_def slash_split [OF assms] split: option.split)

lemma ParsePrefix_parts:
  assumes "CHR ''/'' \<notin> set m"
  shows "ParsePrefix (ip @ CHR ''/'' # m) =
    (case ParseAddr ip of
       None \<Rightarrow> None
     | Some a \<Rightarrow>
         if hasZone a \<or> 1 < length m \<and> (byte (hd m) < 49 \<or> 57 < byte (hd m)) then None
         else (case ParseInt64 m of
                 None \<Rightarrow> None
               | Some n \<Rightarrow> if n < 0 \<or> int (bitLen a) < n then None else Some \<lparr>pf_addr = a, pf_bits = nat n\<rparr>))"
proof -
  have "takeWhile (\<lambda>c. c \<noteq> CHR ''/'') (rev (ip @ CHR ''/'' # m)) = rev m"
    using assms slash_split(1) [of "rev m" "rev ip"] by simp
  then show ?thesis by (cases "ParseAddr ip") (auto simp: ParsePrefix_def Let_def)
qed

lemma digits_noslash: "list_all isDigit m \<Longrightarrow> CHR ''/'' \<notin> set m \<and> CHR ''%'' \<notin> set m"
  using mark_kinds by (auto simp: list_all_iff)

lemma canonical_prefix_parses:
  assumes "CHR ''/'' \<notin> set ip" and "ParseCIDR_ok (ip @ CHR ''/'' # m)" and "length m = 1 \<or> hd m \<noteq> CHR ''0''"
  shows "\<exists>pfx. ParsePrefix (ip @ CHR ''/'' # m) = Some pfx \<and> ParseAddr ip = Some (pf_addr pfx) \<and>
    int (pf_bits pfx) = decValue m"
proof -
  obtain a where a: "ParseAddr ip = Some a" "\<not> hasZone a" "m \<noteq> []" "list_all isDigit m" "decValue m \<le> int (bitLen a)"
    using assms(1,2) ParseCIDR_ok_parts by blast
  have d: "isDigit (hd m)" using a(3,4) by (cases m) auto
  then have h: "hd m \<noteq> CHR ''-''" "hd m \<noteq> CHR ''+''" using mark_kinds by auto
  have "byte (hd m) \<noteq> 48" if "hd m \<noteq> CHR ''0''" using that byte_eq_iff [of "hd m" "CHR ''0''"] by (simp add: byte_marks)
  then have "\<not> (1 < length m \<and> (byte (hd m) < 49 \<or> 57 < byte (hd m)))"
    using assms(3) d by (auto simp: isDigit_def)
  moreover have "bitLen a \<le> 128" by (simp add: bitLen_def split: addr.split)
  then have "ParseInt64 m = Some (decValue m)" using a(3-5) h by (simp add: ParseInt64_def Let_def)
  ultimately show ?thesis
    using a decValue_nonneg [of m] digits_noslash [OF a(4)] by (simp add: ParsePrefix_parts not_less)
qed

text \<open>
  A zero-padded length: \<open>net.ParseCIDR\<close> accepts the text as it accepts the one without the padding, and neither
  \<open>netip.ParsePrefix\<close> nor \<open>netip.ParseAddr\<close> reads it.
\<close>

lemma padded_prefix_unread:
  assumes "CHR ''/'' \<notin> set ip" and "ParseCIDR_ok (ip @ CHR ''/'' # m)" and "0 < k"
  shows "ParseCIDR_ok (ip @ CHR ''/'' # replicate k CHR ''0'' @ m)"
    and "ParsePrefix (ip @ CHR ''/'' # replicate k CHR ''0'' @ m) = None"
    and "ParseAddr (ip @ CHR ''/'' # replicate k CHR ''0'' @ m) = None"
proof -
  let ?m = "replicate k CHR ''0'' @ m"
  obtain a where a: "ParseAddr ip = Some a" "\<not> hasZone a" "m \<noteq> []" "list_all isDigit m" "decValue m \<le> int (bitLen a)"
    using assms(1,2) ParseCIDR_ok_parts by blast
  have d: "list_all isDigit ?m" using a(4) mark_kinds(3) by (auto simp: list_all_iff)
  then show "ParseCIDR_ok (ip @ CHR ''/'' # ?m)"
    using a assms(1) by (simp add: ParseCIDR_ok_parts decValue_padded)
  have "1 < length ?m" "hd ?m = CHR ''0''" using assms(3) a(3) by (cases k; cases m; simp)+
  then show "ParsePrefix (ip @ CHR ''/'' # ?m) = None"
    using digits_noslash [OF d] by (cases "ParseAddr ip") (simp_all add: ParsePrefix_parts byte_marks)
  show "ParseAddr (ip @ CHR ''/'' # ?m) = None"
    using ParseAddr_zone [OF a(1,2)] digits_noslash [OF d] by (intro ParseAddr_slash) auto
qed

end
