(* ===== verification/Config.thy ===== *)
theory Config
  imports GoPaths GoNetip
begin

text \<open>
  \<open>internal/config/config.go\<close>: the policy, how several policy files are merged, how the merged
  policy is completed with defaults and validated. YAML decoding and file access are the
  parameter \<open>loadOne\<close> of \<open>Load\<close> and \<open>LoadMany\<close>.

  The lemmas show what a caller of \<open>LoadMany\<close> may rely on (\<open>validPolicy\<close>: every range check
  and every enumeration of the agent's and the sensor's preconditions), that an accepted policy
  is a fixed point of \<open>normalize\<close>, and how \<open>mergePolicies\<close> combines files.
\<close>

section \<open>Data\<close>

record scores =
  sc_Write :: int
  sc_Truncate :: int
  sc_Rename :: int
  sc_Unlink :: int
  sc_SelfProtect :: int
  sc_SuspiciousExtension :: int
  sc_RansomNote :: int
  sc_BackupDestroy :: int
  sc_HighRateBonus :: int
  sc_ExecAfterBlocked :: int
  sc_Scan :: int
  sc_Mmap :: int
  sc_IOUring :: int
  sc_NetworkEgress :: int

record rule =
  ru_Name :: string
  ru_Feature :: string
  ru_Op :: string
  ru_Value :: int
  ru_Action :: string
  ru_Reason :: string

record networkEgress =
  ne_Enabled :: bool
  ne_Score :: int
  ne_AllowedCIDR :: "string list"
  ne_AllowedPort :: "int list"

record policy =
  pol_Name :: string
  pol_Description :: string
  pol_Window :: duration
  pol_WindowRaw :: string
  pol_Threshold :: int
  pol_Action :: string
  pol_BlockTTL :: duration
  pol_BlockTTLRaw :: string
  pol_ProtectedDirs :: "string list"
  pol_BackupDirs :: "string list"
  pol_SelfProtectPaths :: "string list"
  pol_CgroupPaths :: "string list"
  pol_TrustedProcesses :: "string list"
  pol_TrustedExePaths :: "string list"
  pol_TrustedUIDs :: "u32 list"
  pol_BlacklistHashes :: "string list"
  pol_BlacklistHashFiles :: "string list"
  pol_BlacklistScan :: duration
  pol_BlacklistScanRaw :: string
  pol_SuspiciousExtensions :: "string list"
  pol_RansomNoteNames :: "string list"
  pol_NetworkEgress :: networkEgress
  pol_Scores :: scores
  pol_Rules :: "rule list"

definition zeroScores :: scores where
  "zeroScores = \<lparr>sc_Write = 0, sc_Truncate = 0, sc_Rename = 0, sc_Unlink = 0, sc_SelfProtect = 0,
     sc_SuspiciousExtension = 0, sc_RansomNote = 0, sc_BackupDestroy = 0, sc_HighRateBonus = 0,
     sc_ExecAfterBlocked = 0, sc_Scan = 0, sc_Mmap = 0, sc_IOUring = 0, sc_NetworkEgress = 0\<rparr>"

definition zeroNetworkEgress :: networkEgress where
  "zeroNetworkEgress = \<lparr>ne_Enabled = False, ne_Score = 0, ne_AllowedCIDR = [], ne_AllowedPort = []\<rparr>"

definition zeroPolicy :: policy where
  "zeroPolicy = \<lparr>pol_Name = [], pol_Description = [], pol_Window = 0, pol_WindowRaw = [],
     pol_Threshold = 0, pol_Action = [], pol_BlockTTL = 0, pol_BlockTTLRaw = [],
     pol_ProtectedDirs = [], pol_BackupDirs = [], pol_SelfProtectPaths = [], pol_CgroupPaths = [],
     pol_TrustedProcesses = [], pol_TrustedExePaths = [], pol_TrustedUIDs = [],
     pol_BlacklistHashes = [], pol_BlacklistHashFiles = [], pol_BlacklistScan = 0,
     pol_BlacklistScanRaw = [], pol_SuspiciousExtensions = [], pol_RansomNoteNames = [],
     pol_NetworkEgress = zeroNetworkEgress, pol_Scores = zeroScores, pol_Rules = []\<rparr>"

datatype rule_error =
    UnsupportedFeature string
  | UnsupportedOp string
  | NegativeValue
  | UnsupportedRuleAction string

text \<open>
  The score named in a negative-score error is whichever comes first in the iteration of a Go
  map, so the error value does not carry it.
\<close>

datatype config_error =
    ReadConfig
  | ParseConfig
  | ParseWindow
  | WindowNotPositive
  | ParseBlockTTL
  | BlockTTLNegative
  | ThresholdNegative
  | UnsupportedAction string
  | ParseBlacklistScan
  | BlacklistScanNegative
  | InvalidCIDR string
  | PortOutOfRange int
  | NegativeScore
  | InvalidRule nat rule_error

section \<open>Validation\<close>

definition validateRule :: "rule \<Rightarrow> rule_error option" where
  "validateRule r =
     (if ru_Feature r \<noteq> ''distinct_paths'' \<and> ru_Feature r \<noteq> ''open_write_pairs'' \<and>
         ru_Feature r \<noteq> ''rename_suffix_count'' then Some (UnsupportedFeature (ru_Feature r))
      else if ru_Op r \<noteq> ''>'' \<and> ru_Op r \<noteq> ''>='' \<and> ru_Op r \<noteq> ''=='' \<and> ru_Op r \<noteq> ''<='' \<and>
         ru_Op r \<noteq> ''<'' then Some (UnsupportedOp (ru_Op r))
      else if ru_Value r < 0 then Some NegativeValue
      else if ru_Action r \<noteq> ''log'' \<and> ru_Action r \<noteq> ''deny'' \<and> ru_Action r \<noteq> ''kill'' \<and>
         ru_Action r \<noteq> ''block'' then Some (UnsupportedRuleAction (ru_Action r))
      else None)"

definition scoreValues :: "scores \<Rightarrow> int \<Rightarrow> int list" where
  "scoreValues s net =
     [sc_Write s, sc_Truncate s, sc_Rename s, sc_Unlink s, sc_SelfProtect s,
      sc_SuspiciousExtension s, sc_RansomNote s, sc_BackupDestroy s, sc_HighRateBonus s,
      sc_ExecAfterBlocked s, sc_Scan s, sc_Mmap s, sc_IOUring s, net]"

definition validateScores :: "scores \<Rightarrow> int \<Rightarrow> config_error option" where
  "validateScores s net =
     (if list_ex (\<lambda>v. v < 0) (scoreValues s net) then Some NegativeScore else None)"

section \<open>Merging\<close>

definition orElse :: "int \<Rightarrow> int \<Rightarrow> int" where
  "orElse override base = (if override \<noteq> 0 then override else base)"

definition mergeScores :: "scores \<Rightarrow> scores \<Rightarrow> scores" where
  "mergeScores base ov = \<lparr>
     sc_Write = orElse (sc_Write ov) (sc_Write base),
     sc_Truncate = orElse (sc_Truncate ov) (sc_Truncate base),
     sc_Rename = orElse (sc_Rename ov) (sc_Rename base),
     sc_Unlink = orElse (sc_Unlink ov) (sc_Unlink base),
     sc_SelfProtect = orElse (sc_SelfProtect ov) (sc_SelfProtect base),
     sc_SuspiciousExtension = orElse (sc_SuspiciousExtension ov) (sc_SuspiciousExtension base),
     sc_RansomNote = orElse (sc_RansomNote ov) (sc_RansomNote base),
     sc_BackupDestroy = orElse (sc_BackupDestroy ov) (sc_BackupDestroy base),
     sc_HighRateBonus = orElse (sc_HighRateBonus ov) (sc_HighRateBonus base),
     sc_ExecAfterBlocked = orElse (sc_ExecAfterBlocked ov) (sc_ExecAfterBlocked base),
     sc_Scan = orElse (sc_Scan ov) (sc_Scan base),
     sc_Mmap = orElse (sc_Mmap ov) (sc_Mmap base),
     sc_IOUring = orElse (sc_IOUring ov) (sc_IOUring base),
     sc_NetworkEgress = orElse (sc_NetworkEgress ov) (sc_NetworkEgress base)\<rparr>"

definition mergeNetworkEgress :: "networkEgress \<Rightarrow> networkEgress \<Rightarrow> networkEgress" where
  "mergeNetworkEgress base ov = \<lparr>
     ne_Enabled = (ne_Enabled base \<or> ne_Enabled ov),
     ne_Score = orElse (ne_Score ov) (ne_Score base),
     ne_AllowedCIDR = ne_AllowedCIDR base @ ne_AllowedCIDR ov,
     ne_AllowedPort = ne_AllowedPort base @ ne_AllowedPort ov\<rparr>"

definition mergeOne :: "policy \<Rightarrow> policy \<Rightarrow> policy" where
  "mergeOne m p = m\<lparr>
     pol_Name := (if pol_Name p = [] then pol_Name m
                  else if pol_Name m = [] then pol_Name p
                  else pol_Name m @ ''+'' @ pol_Name p),
     pol_Description := (if pol_Description p = [] then pol_Description m else pol_Description p),
     pol_WindowRaw := (if pol_WindowRaw p = [] then pol_WindowRaw m else pol_WindowRaw p),
     pol_Threshold := orElse (pol_Threshold p) (pol_Threshold m),
     pol_Action := (if pol_Action p = [] then pol_Action m else pol_Action p),
     pol_BlockTTLRaw := (if pol_BlockTTLRaw p = [] then pol_BlockTTLRaw m else pol_BlockTTLRaw p),
     pol_BlacklistScanRaw :=
       (if pol_BlacklistScanRaw p = [] then pol_BlacklistScanRaw m else pol_BlacklistScanRaw p),
     pol_ProtectedDirs := pol_ProtectedDirs m @ pol_ProtectedDirs p,
     pol_BackupDirs := pol_BackupDirs m @ pol_BackupDirs p,
     pol_SelfProtectPaths := pol_SelfProtectPaths m @ pol_SelfProtectPaths p,
     pol_CgroupPaths := pol_CgroupPaths m @ pol_CgroupPaths p,
     pol_TrustedProcesses := pol_TrustedProcesses m @ pol_TrustedProcesses p,
     pol_TrustedExePaths := pol_TrustedExePaths m @ pol_TrustedExePaths p,
     pol_TrustedUIDs := pol_TrustedUIDs m @ pol_TrustedUIDs p,
     pol_BlacklistHashes := pol_BlacklistHashes m @ pol_BlacklistHashes p,
     pol_BlacklistHashFiles := pol_BlacklistHashFiles m @ pol_BlacklistHashFiles p,
     pol_SuspiciousExtensions := pol_SuspiciousExtensions m @ pol_SuspiciousExtensions p,
     pol_RansomNoteNames := pol_RansomNoteNames m @ pol_RansomNoteNames p,
     pol_Rules := pol_Rules m @ pol_Rules p,
     pol_Scores := mergeScores (pol_Scores m) (pol_Scores p),
     pol_NetworkEgress := mergeNetworkEgress (pol_NetworkEgress m) (pol_NetworkEgress p)\<rparr>"

definition mergePolicies :: "policy list \<Rightarrow> policy" where
  "mergePolicies ps = foldl mergeOne zeroPolicy ps"

section \<open>Normalisation\<close>

definition defaultStr :: "string \<Rightarrow> string \<Rightarrow> string" where
  "defaultStr s d = (if s = [] then d else s)"

definition defaultScores :: "scores \<Rightarrow> scores" where
  "defaultScores s = \<lparr>
     sc_Write = orElse (sc_Write s) 1, sc_Truncate = orElse (sc_Truncate s) 6,
     sc_Rename = orElse (sc_Rename s) 8, sc_Unlink = orElse (sc_Unlink s) 8,
     sc_SelfProtect = orElse (sc_SelfProtect s) 50,
     sc_SuspiciousExtension = orElse (sc_SuspiciousExtension s) 10,
     sc_RansomNote = orElse (sc_RansomNote s) 20, sc_BackupDestroy = orElse (sc_BackupDestroy s) 20,
     sc_HighRateBonus = orElse (sc_HighRateBonus s) 15,
     sc_ExecAfterBlocked = orElse (sc_ExecAfterBlocked s) 10,
     sc_Scan = orElse (sc_Scan s) 1, sc_Mmap = orElse (sc_Mmap s) 3,
     sc_IOUring = orElse (sc_IOUring s) 1, sc_NetworkEgress = orElse (sc_NetworkEgress s) 5\<rparr>"

fun normalizeCIDRs :: "string list \<Rightarrow> config_error + string list" where
  "normalizeCIDRs [] = Inr []"
| "normalizeCIDRs (c # cs) =
     (let c' = TrimSpace c in
      if \<not> ParseCIDR_ok c' then Inl (InvalidCIDR c')
      else case normalizeCIDRs cs of Inl e \<Rightarrow> Inl e | Inr cs' \<Rightarrow> Inr (c' # cs'))"

fun checkPorts :: "int list \<Rightarrow> config_error option" where
  "checkPorts [] = None"
| "checkPorts (p # ps) = (if p < 1 \<or> 65535 < p then Some (PortOutOfRange p) else checkPorts ps)"

definition normalizeExtension :: "string \<Rightarrow> string" where
  "normalizeExtension e =
     (let x = TrimSpace (ToLower e) in
      if x \<noteq> [] \<and> \<not> HasPrefix x ''.'' then CHR ''.'' # x else x)"

definition normalizeRule :: "string \<Rightarrow> rule \<Rightarrow> rule" where
  "normalizeRule action r =
     (let a = ToLower (TrimSpace (ru_Action r));
          a1 = (if a = [] then action else a);
          a2 = (if a1 = ''block'' then ''deny'' else a1)
      in r\<lparr>ru_Feature := ToLower (TrimSpace (ru_Feature r)),
           ru_Op := TrimSpace (ru_Op r),
           ru_Action := a2,
           ru_Reason := (if ru_Reason r = [] then ru_Name r else ru_Reason r)\<rparr>)"

fun normalizeRules :: "string \<Rightarrow> nat \<Rightarrow> rule list \<Rightarrow> config_error + rule list" where
  "normalizeRules action i [] = Inr []"
| "normalizeRules action i (r # rs) =
     (let r' = normalizeRule action r in
      case validateRule r' of
        Some e \<Rightarrow> Inl (InvalidRule i e)
      | None \<Rightarrow>
          (case normalizeRules action (Suc i) rs of
             Inl e \<Rightarrow> Inl e
           | Inr rs' \<Rightarrow> Inr (r' # rs')))"

definition normalize :: "policy \<Rightarrow> config_error + policy" where
  "normalize p =
     (let windowRaw = defaultStr (pol_WindowRaw p) ''10s'' in
      case ParseDuration windowRaw of None \<Rightarrow> Inl ParseWindow | Some window \<Rightarrow>
      if window \<le> 0 then Inl WindowNotPositive else
      let ttlRaw = defaultStr (pol_BlockTTLRaw p) ''10m'' in
      case ParseDuration ttlRaw of None \<Rightarrow> Inl ParseBlockTTL | Some ttl \<Rightarrow>
      if ttl < 0 then Inl BlockTTLNegative else
      let threshold = orElse (pol_Threshold p) 45 in
      if threshold < 0 then Inl ThresholdNegative else
      let action = ToLower (TrimSpace (defaultStr (pol_Action p) ''log'')) in
      if action \<noteq> ''log'' \<and> action \<noteq> ''deny'' \<and> action \<noteq> ''kill'' then Inl (UnsupportedAction action) else
      let scanRaw = defaultStr (pol_BlacklistScanRaw p) ''5s'' in
      case ParseDuration scanRaw of None \<Rightarrow> Inl ParseBlacklistScan | Some scan \<Rightarrow>
      if scan < 0 then Inl BlacklistScanNegative else
      let sc = defaultScores (pol_Scores p);
          ne = pol_NetworkEgress p;
          netScore = orElse (ne_Score ne) (sc_NetworkEgress sc)
      in case normalizeCIDRs (ne_AllowedCIDR ne) of Inl e \<Rightarrow> Inl e | Inr cidrs \<Rightarrow>
      (case checkPorts (ne_AllowedPort ne) of Some e \<Rightarrow> Inl e | None \<Rightarrow>
      (case validateScores sc netScore of Some e \<Rightarrow> Inl e | None \<Rightarrow>
      (case normalizeRules action 0 (pol_Rules p) of Inl e \<Rightarrow> Inl e | Inr rules \<Rightarrow>
        Inr (p\<lparr>
          pol_WindowRaw := windowRaw, pol_Window := window,
          pol_BlockTTLRaw := ttlRaw, pol_BlockTTL := ttl,
          pol_Threshold := threshold, pol_Action := action,
          pol_BlacklistScanRaw := scanRaw, pol_BlacklistScan := scan,
          pol_Scores := sc,
          pol_NetworkEgress := ne\<lparr>ne_Score := netScore, ne_AllowedCIDR := cidrs\<rparr>,
          pol_SuspiciousExtensions := map normalizeExtension (pol_SuspiciousExtensions p),
          pol_RansomNoteNames := map TrimSpace (pol_RansomNoteNames p),
          pol_Rules := rules\<rparr>)))))"

text \<open>
  \<open>readFile\<close> is \<open>os.ReadFile\<close> and \<open>decode\<close> the YAML decoder with \<open>KnownFields(true)\<close>, a third-party
  package; \<open>None\<close> is their error.
\<close>

definition loadOne ::
  "(string \<Rightarrow> string option) \<Rightarrow> (string \<Rightarrow> policy option) \<Rightarrow> string \<Rightarrow> config_error + policy" where
  "loadOne readFile decode path =
     (case readFile path of None \<Rightarrow> Inl ReadConfig
      | Some data \<Rightarrow> (case decode data of None \<Rightarrow> Inl ParseConfig | Some p \<Rightarrow> Inr p))"

definition Load ::
  "(string \<Rightarrow> string option) \<Rightarrow> (string \<Rightarrow> policy option) \<Rightarrow> string \<Rightarrow> config_error + policy" where
  "Load readFile decode path =
     (case loadOne readFile decode path of Inl e \<Rightarrow> Inl e | Inr p \<Rightarrow> normalize p)"

fun loadAll ::
  "(string \<Rightarrow> string option) \<Rightarrow> (string \<Rightarrow> policy option) \<Rightarrow> string list \<Rightarrow> config_error + policy list" where
  "loadAll readFile decode [] = Inr []"
| "loadAll readFile decode (path # paths) =
     (case loadOne readFile decode path of
        Inl e \<Rightarrow> Inl e
      | Inr p \<Rightarrow> (case loadAll readFile decode paths of Inl e \<Rightarrow> Inl e | Inr ps \<Rightarrow> Inr (p # ps)))"

definition LoadMany ::
  "(string \<Rightarrow> string option) \<Rightarrow> (string \<Rightarrow> policy option) \<Rightarrow> string list \<Rightarrow> config_error + policy" where
  "LoadMany readFile decode paths =
     (let paths' = (if paths = [] then [''configs/ransomware.yaml''] else paths) in
      case loadAll readFile decode paths' of
        Inl e \<Rightarrow> Inl e
      | Inr ps \<Rightarrow> normalize (mergePolicies ps))"

section \<open>What an accepted policy guarantees\<close>

definition validPolicy :: "policy \<Rightarrow> bool" where
  "validPolicy p \<longleftrightarrow>
     0 < pol_Window p \<and> int64 (pol_Window p) \<and>
     0 \<le> pol_BlockTTL p \<and> int64 (pol_BlockTTL p) \<and>
     0 \<le> pol_BlacklistScan p \<and>
     0 < pol_Threshold p \<and>
     pol_Action p \<in> {''log'', ''deny'', ''kill''} \<and>
     (\<forall>v \<in> set (scoreValues (pol_Scores p) (ne_Score (pol_NetworkEgress p))). 0 < v) \<and>
     (\<forall>c \<in> set (ne_AllowedCIDR (pol_NetworkEgress p)). ParseCIDR_ok c) \<and>
     (\<forall>q \<in> set (ne_AllowedPort (pol_NetworkEgress p)). 1 \<le> q \<and> q \<le> 65535) \<and>
     (\<forall>e \<in> set (pol_SuspiciousExtensions p). e = [] \<or> HasPrefix e ''.'') \<and>
     (\<forall>r \<in> set (pol_Rules p). validateRule r = None \<and> ru_Action r \<in> {''log'', ''deny'', ''kill''})"

lemma orElse_simps [simp]: "orElse 0 b = b" "a \<noteq> 0 \<Longrightarrow> orElse a b = a"
  by (simp_all add: orElse_def)

lemma orElse_idem: "b \<noteq> 0 \<Longrightarrow> orElse (orElse a b) c = orElse a b"
  by (simp add: orElse_def)

lemma orElse_pos: "0 < d \<Longrightarrow> 0 \<le> orElse a d \<Longrightarrow> 0 < orElse a d"
  by (auto simp: orElse_def split: if_splits)

lemma normalizeCIDRs_Inr:
  "normalizeCIDRs cs = Inr cs' \<Longrightarrow>
   cs' = map TrimSpace cs \<and> (\<forall>c \<in> set cs'. ParseCIDR_ok c)"
  by (induction cs arbitrary: cs') (auto simp: Let_def split: if_splits sum.splits)

lemma normalizeCIDRs_fix:
  "\<forall>c \<in> set cs. ParseCIDR_ok c \<and> TrimSpace c = c \<Longrightarrow> normalizeCIDRs cs = Inr cs"
  by (induction cs) (auto simp: Let_def)

lemma checkPorts_None: "checkPorts ps = None \<longleftrightarrow> (\<forall>q \<in> set ps. 1 \<le> q \<and> q \<le> 65535)"
  by (induction ps) auto

lemma validateScores_None: "validateScores s n = None \<longleftrightarrow> (\<forall>v \<in> set (scoreValues s n). 0 \<le> v)"
  by (auto simp: validateScores_def list_ex_iff dest: leD)

lemma validateRule_action:
  "validateRule r = None \<Longrightarrow> ru_Action r \<in> {''log'', ''deny'', ''kill'', ''block''}"
  by (simp add: validateRule_def split: if_splits)

lemma normalizeRule_not_block:
  "action \<noteq> ''block'' \<Longrightarrow> ru_Action (normalizeRule action r) \<noteq> ''block''"
  by (simp add: normalizeRule_def Let_def)

lemma normalizeRules_Inr:
  "normalizeRules action i rs = Inr rs' \<Longrightarrow>
   rs' = map (normalizeRule action) rs \<and> (\<forall>r \<in> set rs'. validateRule r = None)"
  by (induction rs arbitrary: i rs') (auto simp: Let_def split: option.splits sum.splits)

lemma normalizeRules_fix:
  "\<forall>r \<in> set rs. validateRule r = None \<and> normalizeRule action r = r \<Longrightarrow> normalizeRules action i rs = Inr rs"
  by (induction rs arbitrary: i) (auto simp: Let_def)

lemma normalizeExtension_dot: "normalizeExtension e = [] \<or> HasPrefix (normalizeExtension e) ''.''"
  by (simp add: normalizeExtension_def Let_def HasPrefix_def)

text \<open>The policy a successful \<open>normalize\<close> returns, from the values its checks produced.\<close>

definition completed ::
  "policy \<Rightarrow> duration \<Rightarrow> duration \<Rightarrow> string \<Rightarrow> duration \<Rightarrow> string list \<Rightarrow> rule list \<Rightarrow> policy" where
  "completed p window ttl action scan cidrs rules = p\<lparr>
     pol_WindowRaw := defaultStr (pol_WindowRaw p) ''10s'', pol_Window := window,
     pol_BlockTTLRaw := defaultStr (pol_BlockTTLRaw p) ''10m'', pol_BlockTTL := ttl,
     pol_Threshold := orElse (pol_Threshold p) 45, pol_Action := action,
     pol_BlacklistScanRaw := defaultStr (pol_BlacklistScanRaw p) ''5s'', pol_BlacklistScan := scan,
     pol_Scores := defaultScores (pol_Scores p),
     pol_NetworkEgress := (pol_NetworkEgress p)\<lparr>
       ne_Score := orElse (ne_Score (pol_NetworkEgress p)) (sc_NetworkEgress (defaultScores (pol_Scores p))),
       ne_AllowedCIDR := cidrs\<rparr>,
     pol_SuspiciousExtensions := map normalizeExtension (pol_SuspiciousExtensions p),
     pol_RansomNoteNames := map TrimSpace (pol_RansomNoteNames p),
     pol_Rules := rules\<rparr>"

text \<open>The checks of \<open>normalize\<close>, in their order, and the lemma that they are what decides it.\<close>

definition checksPass ::
  "policy \<Rightarrow> duration \<Rightarrow> duration \<Rightarrow> string \<Rightarrow> duration \<Rightarrow> string list \<Rightarrow> rule list \<Rightarrow> bool" where
  "checksPass p window ttl action scan cidrs rules \<longleftrightarrow>
     ParseDuration (defaultStr (pol_WindowRaw p) ''10s'') = Some window \<and> 0 < window \<and>
     ParseDuration (defaultStr (pol_BlockTTLRaw p) ''10m'') = Some ttl \<and> 0 \<le> ttl \<and>
     0 \<le> orElse (pol_Threshold p) 45 \<and>
     action = ToLower (TrimSpace (defaultStr (pol_Action p) ''log'')) \<and>
     action \<in> {''log'', ''deny'', ''kill''} \<and>
     ParseDuration (defaultStr (pol_BlacklistScanRaw p) ''5s'') = Some scan \<and> 0 \<le> scan \<and>
     normalizeCIDRs (ne_AllowedCIDR (pol_NetworkEgress p)) = Inr cidrs \<and>
     checkPorts (ne_AllowedPort (pol_NetworkEgress p)) = None \<and>
     validateScores (defaultScores (pol_Scores p))
       (orElse (ne_Score (pol_NetworkEgress p)) (sc_NetworkEgress (defaultScores (pol_Scores p)))) = None \<and>
     normalizeRules action 0 (pol_Rules p) = Inr rules"

lemma normalize_InrI:
  "checksPass p window ttl action scan cidrs rules \<Longrightarrow>
   normalize p = Inr (completed p window ttl action scan cidrs rules)"
  unfolding normalize_def Let_def checksPass_def completed_def by (elim conjE) simp

lemma normalize_InrD:
  assumes "normalize p = Inr q"
  shows "\<exists>window ttl action scan cidrs rules.
           checksPass p window ttl action scan cidrs rules \<and>
           q = completed p window ttl action scan cidrs rules"
proof -
  from assms obtain window where w: "ParseDuration (defaultStr (pol_WindowRaw p) ''10s'') = Some window" "0 < window"
    by (fastforce simp: normalize_def Let_def split: option.splits if_splits)
  from assms w obtain ttl where t: "ParseDuration (defaultStr (pol_BlockTTLRaw p) ''10m'') = Some ttl" "0 \<le> ttl"
    by (fastforce simp: normalize_def Let_def split: option.splits if_splits)
  note rest = assms [unfolded normalize_def Let_def w(1) t(1) option.case]
  from rest w(2) t(2) have thr: "0 \<le> orElse (pol_Threshold p) 45"
    by (simp split: if_splits)
  from rest w(2) t(2) thr have act: "ToLower (TrimSpace (defaultStr (pol_Action p) ''log'')) \<in> {''log'', ''deny'', ''kill''}"
    by (simp split: if_splits)
  from rest w(2) t(2) thr act obtain scan where
    s: "ParseDuration (defaultStr (pol_BlacklistScanRaw p) ''5s'') = Some scan" "0 \<le> scan"
    by (simp split: if_splits option.splits)
  from rest w(2) t(2) thr act s obtain cidrs where
    c: "normalizeCIDRs (ne_AllowedCIDR (pol_NetworkEgress p)) = Inr cidrs"
    by (simp split: if_splits sum.splits)
  from rest w(2) t(2) thr act s c have pv:
    "checkPorts (ne_AllowedPort (pol_NetworkEgress p)) = None"
    "validateScores (defaultScores (pol_Scores p))
       (orElse (ne_Score (pol_NetworkEgress p)) (sc_NetworkEgress (defaultScores (pol_Scores p)))) = None"
    by (simp_all split: if_splits option.splits)
  from rest w(2) t(2) thr act s c pv obtain rules where
    r: "normalizeRules (ToLower (TrimSpace (defaultStr (pol_Action p) ''log''))) 0 (pol_Rules p) = Inr rules"
    by (simp split: if_splits sum.splits)
  have ok: "checksPass p window ttl (ToLower (TrimSpace (defaultStr (pol_Action p) ''log''))) scan cidrs rules"
    unfolding checksPass_def using w t thr act s c pv r by blast
  from normalize_InrI [OF ok] assms have
    "q = completed p window ttl (ToLower (TrimSpace (defaultStr (pol_Action p) ''log''))) scan cidrs rules"
    by simp
  with ok show ?thesis by blast
qed

lemma scoreValues_default_pos:
  assumes "\<forall>v \<in> set (scoreValues (defaultScores s) n). 0 \<le> v" and "n \<noteq> 0"
  shows "\<forall>v \<in> set (scoreValues (defaultScores s) n). 0 < v"
  using assms by (simp add: scoreValues_def defaultScores_def orElse_pos)

lemma normalize_validPolicy: "normalize p = Inr q \<Longrightarrow> validPolicy q"
proof -
  assume "normalize p = Inr q"
  then obtain window ttl action scan cidrs rules where
    ok: "checksPass p window ttl action scan cidrs rules" and
    q: "q = completed p window ttl action scan cidrs rules"
    using normalize_InrD by blast
  let ?n = "orElse (ne_Score (pol_NetworkEgress p)) (sc_NetworkEgress (defaultScores (pol_Scores p)))"
  note c = ok [unfolded checksPass_def]
  have act: "action \<in> {''log'', ''deny'', ''kill''}" using c by blast
  have nz: "?n \<noteq> 0" by (simp add: orElse_def defaultScores_def)
  have sc: "\<forall>v \<in> set (scoreValues (defaultScores (pol_Scores p)) ?n). 0 < v"
    using c nz by (intro scoreValues_default_pos) (simp_all add: validateScores_None)
  have thr: "0 < orElse (pol_Threshold p) 45" using c by (simp add: orElse_pos)
  have cid: "\<forall>c \<in> set cidrs. ParseCIDR_ok c" using c normalizeCIDRs_Inr by blast
  have rules: "\<forall>r \<in> set rules. validateRule r = None \<and> ru_Action r \<in> {''log'', ''deny'', ''kill''}"
  proof
    fix r assume "r \<in> set rules"
    with c normalizeRules_Inr [of action 0 "pol_Rules p" rules] obtain r0 where
      r: "r = normalizeRule action r0" "validateRule r = None" by auto
    moreover have "action \<noteq> ''block''" using act by auto
    ultimately show "validateRule r = None \<and> ru_Action r \<in> {''log'', ''deny'', ''kill''}"
      using validateRule_action [OF r(2)] normalizeRule_not_block by auto
  qed
  have ext: "\<forall>e \<in> set (map normalizeExtension xs). e = [] \<or> HasPrefix e ''.''" for xs
    using normalizeExtension_dot by auto
  have dur: "int64 window" "int64 ttl" using c ParseDuration_int64 by blast+
  show ?thesis
    unfolding validPolicy_def q completed_def
    using c act sc thr cid rules ext dur by (simp add: checkPorts_None)
qed

text \<open>
  C24. A policy that \<open>normalize\<close> accepts is valid: a positive window and a non-negative TTL that
  fit 64 bits, a non-negative scan interval, a positive threshold and positive scores, an action and rule
  actions out of log, deny and kill (the alias block is gone), parseable CIDRs, ports in
  1..65535, extensions that are blank or begin with a dot, and rules with known features and operators.
\<close>

theorem normalize_valid: "normalize p = Inr q \<Longrightarrow> validPolicy q"
  by (rule normalize_validPolicy)

theorem normalize_valid_witness:
  "\<exists>q. normalize (zeroPolicy\<lparr>pol_Action := '' Kill '', pol_SuspiciousExtensions := [''LOCKED'']\<rparr>) = Inr q
     \<and> validPolicy q \<and> pol_Action q = ''kill'' \<and> pol_SuspiciousExtensions q = [''.locked'']"
proof -
  let ?p = "zeroPolicy\<lparr>pol_Action := '' Kill '', pol_SuspiciousExtensions := [''LOCKED'']\<rparr>"
  have "case normalize ?p of Inl e \<Rightarrow> False
        | Inr q \<Rightarrow> pol_Action q = ''kill'' \<and> pol_SuspiciousExtensions q = [''.locked'']"
    by code_simp
  then obtain q where q: "normalize ?p = Inr q" "pol_Action q = ''kill''"
    "pol_SuspiciousExtensions q = [''.locked'']" by (cases "normalize ?p") auto
  from normalize_valid [OF q(1)] q show ?thesis by blast
qed

end
