(* ===== verification/Config_Laws.thy ===== *)
theory Config_Laws
  imports Config
begin

text \<open>
  Laws of \<open>internal/config\<close> beyond validity: \<open>normalize\<close> is stable, merging is concatenation
  of lists and last-set-wins on scalars, and a single file loads the same through either entry.
\<close>

section \<open>Normalisation is stable\<close>

lemma lowerByte_TrimSpace_lower:
  "map lowerByte (TrimSpace (map lowerByte e)) = TrimSpace (map lowerByte e)"
proof (rule map_idI)
  fix c assume "c \<in> set (TrimSpace (map lowerByte e))"
  with set_TrimSpace [of "map lowerByte e"] obtain d where "c = lowerByte d" by auto
  then show "lowerByte c = c" by simp
qed

lemma TrimSpace_dot_Cons:
  assumes "x = TrimSpace y" and "x \<noteq> []"
  shows "TrimSpace (CHR ''.'' # x) = CHR ''.'' # x"
proof (rule TrimSpace_id)
  have heads: "\<forall>e \<in> set spaceEncodings. hd e \<noteq> 46" by code_simp
  have sep: "[] \<notin> set (map rev spaceEncodings)" "\<forall>e \<in> set (map rev spaceEncodings). byte CHR ''.'' \<notin> set e"
    by code_simp+
  show "leading spaceEncodings (CHR ''.'' # x) = 0"
  proof (rule ccontr)
    assume "leading spaceEncodings (CHR ''.'' # x) \<noteq> 0"
    from leading_take [OF this] obtain e where
      e: "e \<in> set spaceEncodings" "e \<noteq> []" "map byte (take (length e) (CHR ''.'' # x)) = e" by blast
    from e(2) obtain n where "length e = Suc n" by (cases e) auto
    with e(3) have "byte CHR ''.'' # map byte (take n x) = e" by simp
    then have "hd e = 46" by (auto simp: byte_def)
    with heads e(1) show False by blast
  qed
  have "leading (map rev spaceEncodings) (rev x) = 0"
    using assms(2) TrimSpace_trimmed [of y] unfolding assms(1) by simp
  then have "leading (map rev spaceEncodings) (rev x @ [CHR ''.'']) = 0"
    using sep by (rule leading_snoc)
  then show "leading (map rev spaceEncodings) (rev (CHR ''.'' # x)) = 0" by simp
qed

lemma normalizeExtension_idem:
  assumes "isASCII e"
  shows "normalizeExtension (normalizeExtension e) = normalizeExtension e"
proof -
  define x where "x = TrimSpace (map lowerByte e)"
  have low: "map lowerByte x = x" unfolding x_def by (rule lowerByte_TrimSpace_lower)
  have asc: "isASCII x" unfolding x_def using assms by simp
  have trim: "TrimSpace x = x" by (simp add: x_def)
  have dot: "TrimSpace (CHR ''.'' # x) = CHR ''.'' # x" if "x \<noteq> []"
    using TrimSpace_dot_Cons [OF x_def that] .
  have "ToLower e = map lowerByte e" using assms by (rule ToLower_ASCII)
  then have ne: "normalizeExtension e = (if x \<noteq> [] \<and> \<not> HasPrefix x ''.'' then CHR ''.'' # x else x)"
    by (simp add: normalizeExtension_def x_def)
  have ldot: "lowerByte CHR ''.'' = CHR ''.''" by (simp add: lowerByte_def byte_def)
  show ?thesis
  proof (cases "x \<noteq> [] \<and> \<not> HasPrefix x ''.''")
    case True
    then have "normalizeExtension (CHR ''.'' # x) = CHR ''.'' # x"
      using asc low dot ldot
      by (simp add: normalizeExtension_def ToLower_ASCII byte_def HasPrefix_def)
    with ne True show ?thesis by simp
  next
    case False
    then have "normalizeExtension x = x"
      using asc low trim by (simp add: normalizeExtension_def ToLower_ASCII)
    with ne False show ?thesis by simp
  qed
qed

lemma ToLower_action_fix:
  "a \<in> {''log'', ''deny'', ''kill''} \<Longrightarrow> ToLower (TrimSpace a) = a"
proof -
  have "ToLower (TrimSpace ''log'') = ''log''" by code_simp
  moreover have "ToLower (TrimSpace ''deny'') = ''deny''" by code_simp
  moreover have "ToLower (TrimSpace ''kill'') = ''kill''" by code_simp
  ultimately show "a \<in> {''log'', ''deny'', ''kill''} \<Longrightarrow> ToLower (TrimSpace a) = a" by blast
qed

lemma ToLower_feature_fix:
  "f \<in> {''distinct_paths'', ''open_write_pairs'', ''rename_suffix_count''} \<Longrightarrow> ToLower (TrimSpace f) = f"
proof -
  have "ToLower (TrimSpace ''distinct_paths'') = ''distinct_paths''" by code_simp
  moreover have "ToLower (TrimSpace ''open_write_pairs'') = ''open_write_pairs''" by code_simp
  moreover have "ToLower (TrimSpace ''rename_suffix_count'') = ''rename_suffix_count''" by code_simp
  ultimately show "f \<in> {''distinct_paths'', ''open_write_pairs'', ''rename_suffix_count''} \<Longrightarrow>
    ToLower (TrimSpace f) = f" by blast
qed

lemma validateRule_feature:
  "validateRule r = None \<Longrightarrow>
   ru_Feature r \<in> {''distinct_paths'', ''open_write_pairs'', ''rename_suffix_count''}"
  by (simp add: validateRule_def split: if_splits)

lemma normalizeRule_fix:
  assumes "action \<in> {''log'', ''deny'', ''kill''}" and v: "validateRule (normalizeRule action r) = None"
  shows "normalizeRule action (normalizeRule action r) = normalizeRule action r"
proof -
  define q where "q = normalizeRule action r"
  have f: "ToLower (TrimSpace (ru_Feature q)) = ru_Feature q"
    using v ToLower_feature_fix validateRule_feature unfolding q_def by blast
  have "action \<noteq> ''block''" using assms(1) by auto
  then have "ru_Action q \<in> {''log'', ''deny'', ''kill''}"
    using validateRule_action [OF v] normalizeRule_not_block [of action r] unfolding q_def by auto
  then have a: "ToLower (TrimSpace (ru_Action q)) = ru_Action q" and ne: "ru_Action q \<noteq> []"
    and nb: "ru_Action q \<noteq> ''block''"
    by (rule ToLower_action_fix, auto)
  have o: "TrimSpace (ru_Op q) = ru_Op q" unfolding q_def by (simp add: normalizeRule_def Let_def)
  have re: "ru_Reason q = [] \<Longrightarrow> ru_Name q = []"
    unfolding q_def by (simp add: normalizeRule_def Let_def split: if_splits)
  have "normalizeRule action q = q"
    using re ne nb by (simp add: normalizeRule_def [of action q] Let_def f a o)
  then show ?thesis unfolding q_def .
qed

lemma defaultScores_idem: "defaultScores (defaultScores s) = defaultScores s"
  by (simp add: defaultScores_def orElse_idem)

lemma defaultStr_idem: "defaultStr (defaultStr s d) d = defaultStr s d"
  by (simp add: defaultStr_def)

lemma completed_fields:
  "pol_WindowRaw (completed p w t a b c r) = defaultStr (pol_WindowRaw p) ''10s''"
  "pol_BlockTTLRaw (completed p w t a b c r) = defaultStr (pol_BlockTTLRaw p) ''10m''"
  "pol_Threshold (completed p w t a b c r) = orElse (pol_Threshold p) 45"
  "pol_Action (completed p w t a b c r) = a"
  "pol_BlacklistScanRaw (completed p w t a b c r) = defaultStr (pol_BlacklistScanRaw p) ''5s''"
  "ne_Score (pol_NetworkEgress (completed p w t a b c r)) =
     orElse (ne_Score (pol_NetworkEgress p)) (sc_NetworkEgress (defaultScores (pol_Scores p)))"
  "ne_AllowedCIDR (pol_NetworkEgress (completed p w t a b c r)) = c"
  "ne_AllowedPort (pol_NetworkEgress (completed p w t a b c r)) = ne_AllowedPort (pol_NetworkEgress p)"
  "pol_Scores (completed p w t a b c r) = defaultScores (pol_Scores p)"
  "pol_Rules (completed p w t a b c r) = r"
  by (simp_all add: completed_def)

text \<open>
  Normalisation is stable: an accepted policy is accepted again and unchanged, so loading
  it, saving it and loading it again cannot drift (for ASCII extension lists, where lower-casing
  is the byte map).
\<close>

lemma normalize_stable:
  assumes "normalize p = Inr q" and "\<forall>e \<in> set (pol_SuspiciousExtensions p). isASCII e"
  shows "normalize q = Inr q"
proof -
  from assms(1) obtain window ttl action scan cidrs rules where
    ok: "checksPass p window ttl action scan cidrs rules" and
    q: "q = completed p window ttl action scan cidrs rules"
    using normalize_InrD by blast
  note c = ok [unfolded checksPass_def]
  have act: "action \<in> {''log'', ''deny'', ''kill''}" using c by blast
  have keep: "defaultStr action ''log'' = action" using act by (auto simp: defaultStr_def)
  have cid: "normalizeCIDRs cidrs = Inr cidrs"
    using c normalizeCIDRs_Inr by (intro normalizeCIDRs_fix) fastforce
  have rul: "normalizeRules action 0 rules = Inr rules"
    using c normalizeRules_Inr normalizeRule_fix [OF act] by (intro normalizeRules_fix) fastforce
  have ext: "map (normalizeExtension \<circ> normalizeExtension) (pol_SuspiciousExtensions p) =
      map normalizeExtension (pol_SuspiciousExtensions p)"
    using assms(2) normalizeExtension_idem by simp
  have net: "orElse (orElse (ne_Score (pol_NetworkEgress p)) (sc_NetworkEgress (defaultScores (pol_Scores p)))) x =
      orElse (ne_Score (pol_NetworkEgress p)) (sc_NetworkEgress (defaultScores (pol_Scores p)))" for x
    by (rule orElse_idem) (simp add: orElse_def defaultScores_def)
  have thr: "orElse (orElse (pol_Threshold p) 45) 45 = orElse (pol_Threshold p) 45"
    by (rule orElse_idem) simp
  have "checksPass q window ttl action scan cidrs rules"
    unfolding checksPass_def q completed_fields defaultStr_idem defaultScores_idem net thr keep
    using c cid rul act ToLower_action_fix [OF act] by simp
  then have "normalize q = Inr (completed q window ttl action scan cidrs rules)"
    by (rule normalize_InrI)
  moreover have "completed q window ttl action scan cidrs rules = q"
    unfolding q completed_def using net thr ext by (simp add: defaultStr_idem defaultScores_idem)
  ultimately show ?thesis by simp
qed

lemma normalize_stable_witness:
  "\<exists>q. normalize (zeroPolicy\<lparr>pol_SuspiciousExtensions := [''LOCKED'']\<rparr>) = Inr q \<and> normalize q = Inr q"
proof -
  let ?p = "zeroPolicy\<lparr>pol_SuspiciousExtensions := [''LOCKED'']\<rparr>"
  have "case normalize ?p of Inl e \<Rightarrow> False | Inr q \<Rightarrow> True" by code_simp
  then obtain q where q: "normalize ?p = Inr q" by (cases "normalize ?p") auto
  moreover have "\<forall>e \<in> set (pol_SuspiciousExtensions ?p). isASCII e"
    by (simp add: isASCII_def byte_def)
  ultimately have "normalize q = Inr q" by (rule normalize_stable)
  with q show ?thesis by blast
qed

section \<open>Merging\<close>

text \<open>\<open>lastSet\<close>: the last value that is set (non-zero, non-empty), the base when none is.\<close>

definition lastSet :: "'a \<Rightarrow> 'a \<Rightarrow> 'a list \<Rightarrow> 'a" where
  "lastSet z b xs = foldl (\<lambda>a x. if x = z then a else x) b xs"

lemma foldl_field:
  assumes "\<And>m p. f (g m p) = h (f m) (k p)"
  shows "f (foldl g m ps) = foldl h (f m) (map k ps)"
  using assms by (induction ps arbitrary: m) auto

lemma foldl_append_concat: "foldl (@) xs yss = xs @ concat yss"
  by (induction yss arbitrary: xs) auto

lemma foldl_or: "foldl (\<or>) b bs \<longleftrightarrow> b \<or> (\<exists>x \<in> set bs. x)"
  by (induction bs arbitrary: b) auto

lemma merge_list_field:
  assumes "\<And>m p. f (mergeOne m p) = f m @ f p" and "f zeroPolicy = []"
  shows "f (mergePolicies ps) = concat (map f ps)"
  using foldl_field [of f mergeOne "(@)" f zeroPolicy ps] assms
  by (simp add: mergePolicies_def foldl_append_concat)

lemma merge_scalar_field:
  assumes "\<And>m p. f (mergeOne m p) = (if f p = z then f m else f p)" and "f zeroPolicy = z"
  shows "f (mergePolicies ps) = lastSet z z (map f ps)"
  using foldl_field [of f mergeOne "\<lambda>a x. if x = z then a else x" f zeroPolicy ps] assms
  by (simp add: mergePolicies_def lastSet_def)

lemma lastSet_in: "lastSet z b xs \<in> insert b (set xs)"
proof (induction xs rule: rev_induct)
  case Nil
  then show ?case by (simp add: lastSet_def)
next
  case (snoc x xs)
  then show ?case by (auto simp: lastSet_def)
qed

lemma lastSet_snoc: "lastSet z b (xs @ [x]) = (if x = z then lastSet z b xs else x)"
  by (simp add: lastSet_def)

text \<open>
  Merging policy files: every list field of the policy is the concatenation of the
  files' lists in order, the description, action, durations, threshold and write score are the last
  ones that some file sets, and network egress is enabled as soon as
  one file enables it.
\<close>

lemma mergePolicies_spec:
  "pol_ProtectedDirs (mergePolicies ps) = concat (map pol_ProtectedDirs ps) \<and>
   pol_BackupDirs (mergePolicies ps) = concat (map pol_BackupDirs ps) \<and>
   pol_SelfProtectPaths (mergePolicies ps) = concat (map pol_SelfProtectPaths ps) \<and>
   pol_CgroupPaths (mergePolicies ps) = concat (map pol_CgroupPaths ps) \<and>
   pol_TrustedProcesses (mergePolicies ps) = concat (map pol_TrustedProcesses ps) \<and>
   pol_TrustedExePaths (mergePolicies ps) = concat (map pol_TrustedExePaths ps) \<and>
   pol_TrustedUIDs (mergePolicies ps) = concat (map pol_TrustedUIDs ps) \<and>
   pol_BlacklistHashes (mergePolicies ps) = concat (map pol_BlacklistHashes ps) \<and>
   pol_BlacklistHashFiles (mergePolicies ps) = concat (map pol_BlacklistHashFiles ps) \<and>
   pol_SuspiciousExtensions (mergePolicies ps) = concat (map pol_SuspiciousExtensions ps) \<and>
   pol_RansomNoteNames (mergePolicies ps) = concat (map pol_RansomNoteNames ps) \<and>
   pol_Rules (mergePolicies ps) = concat (map pol_Rules ps) \<and>
   pol_Action (mergePolicies ps) = lastSet [] [] (map pol_Action ps) \<and>
   pol_WindowRaw (mergePolicies ps) = lastSet [] [] (map pol_WindowRaw ps) \<and>
   pol_BlockTTLRaw (mergePolicies ps) = lastSet [] [] (map pol_BlockTTLRaw ps) \<and>
   pol_BlacklistScanRaw (mergePolicies ps) = lastSet [] [] (map pol_BlacklistScanRaw ps) \<and>
   pol_Description (mergePolicies ps) = lastSet [] [] (map pol_Description ps) \<and>
   pol_Threshold (mergePolicies ps) = lastSet 0 0 (map pol_Threshold ps) \<and>
   sc_Write (pol_Scores (mergePolicies ps)) = lastSet 0 0 (map (sc_Write \<circ> pol_Scores) ps) \<and>
   (ne_Enabled (pol_NetworkEgress (mergePolicies ps)) \<longleftrightarrow>
      (\<exists>p \<in> set ps. ne_Enabled (pol_NetworkEgress p)))"
proof -
  have enabled: "ne_Enabled (pol_NetworkEgress (mergePolicies ps)) \<longleftrightarrow>
      (\<exists>p \<in> set ps. ne_Enabled (pol_NetworkEgress p))"
    using foldl_field [of "ne_Enabled \<circ> pol_NetworkEgress" mergeOne "(\<or>)"
        "ne_Enabled \<circ> pol_NetworkEgress" zeroPolicy ps]
    by (simp add: mergePolicies_def mergeOne_def mergeNetworkEgress_def foldl_or zeroPolicy_def
        zeroNetworkEgress_def)
  have wr: "sc_Write (pol_Scores (mergePolicies ps)) = lastSet 0 0 (map (sc_Write \<circ> pol_Scores) ps)"
    using merge_scalar_field [of "sc_Write \<circ> pol_Scores" 0 ps]
    by (simp add: mergeOne_def mergeScores_def orElse_def zeroPolicy_def zeroScores_def)
  show ?thesis
    by (intro conjI enabled wr merge_list_field [of pol_ProtectedDirs] merge_list_field [of pol_BackupDirs]
        merge_list_field [of pol_SelfProtectPaths] merge_list_field [of pol_CgroupPaths]
        merge_list_field [of pol_TrustedProcesses] merge_list_field [of pol_TrustedUIDs]
        merge_list_field [of pol_TrustedExePaths] merge_list_field [of pol_BlacklistHashFiles]
        merge_list_field [of pol_BlacklistHashes] merge_list_field [of pol_SuspiciousExtensions]
        merge_list_field [of pol_RansomNoteNames] merge_list_field [of pol_Rules]
        merge_scalar_field [of pol_Action] merge_scalar_field [of pol_WindowRaw]
        merge_scalar_field [of pol_BlockTTLRaw] merge_scalar_field [of pol_BlacklistScanRaw]
        merge_scalar_field [of pol_Description] merge_scalar_field [of pol_Threshold])
      (simp_all add: mergeOne_def orElse_def zeroPolicy_def)
qed

lemma normalize_derived:
  "normalize (p\<lparr>pol_Window := w, pol_BlockTTL := t, pol_BlacklistScan := b\<rparr>) = normalize p"
proof (cases p)
  case (fields Name Description Window WindowRaw Threshold Action BlockTTL BlockTTLRaw ProtectedDirs
      BackupDirs SelfProtectPaths CgroupPaths TrustedProcesses TrustedExePaths TrustedUIDs
      BlacklistHashes BlacklistHashFiles BlacklistScan BlacklistScanRaw SuspiciousExtensions
      RansomNoteNames NetworkEgress Scores Rules)
  show ?thesis unfolding fields normalize_def Let_def policy.simps by (rule refl)
qed

lemma mergeScores_zero: "mergeScores zeroScores s = s"
  by (simp add: mergeScores_def zeroScores_def orElse_def)

lemma mergeNetworkEgress_zero: "mergeNetworkEgress zeroNetworkEgress n = n"
  by (simp add: mergeNetworkEgress_def zeroNetworkEgress_def orElse_def)

lemma mergePolicies_single:
  "mergePolicies [p] = p\<lparr>pol_Window := 0, pol_BlockTTL := 0, pol_BlacklistScan := 0\<rparr>"
  by (simp add: mergePolicies_def mergeOne_def zeroPolicy_def mergeScores_zero
      mergeNetworkEgress_zero orElse_def)

text \<open>
  Loading one file through the merge path is the same as loading it alone, no file at all
  means the default one.
\<close>

lemma LoadMany_single:
  "LoadMany readFile decode [f] = Load readFile decode f \<and>
   LoadMany readFile decode [] = Load readFile decode ''configs/ransomware.yaml''"
  by (simp add: LoadMany_def Load_def mergePolicies_single normalize_derived split: sum.splits)

end
