(* ===== verification/Event_Codec.thy ===== *)
theory Event_Codec
  imports Event
begin

text \<open>
  The wire format of events: encoders for both versions of the C \<open>struct event\<close>, the byte-order
  interface, the proof that decoding inverts encoding, which inputs decoding accepts, and
  what the timestamp conversion preserves.
\<close>

section \<open>The byte-order interface\<close>

locale byte_order =
  fixes get :: "string \<Rightarrow> int" and put :: "nat \<Rightarrow> int \<Rightarrow> string"
  assumes put_length: "length (put n v) = n"
    and get_put: "get (put n v) = v mod 256 ^ n"
    and get_nonneg: "0 \<le> get bs"
    and get_less: "get bs < 256 ^ length bs"
    and put_get: "put (length bs) (get bs) = bs"
begin

lemma put_inject: "put n v = put n w \<longleftrightarrow> v mod 256 ^ n = w mod 256 ^ n"
  by (metis get_put put_get put_length)

lemma get_inject: "length bs = length cs \<Longrightarrow> get bs = get cs \<longleftrightarrow> bs = cs"
  by (metis put_get)

lemma get_put_u32: "word_of_int (get (put 4 (uint w))) = w" for w :: u32
  using uint_lt2p [of w] by (simp add: get_put)

lemma get_put_u64: "word_of_int (get (put 8 (uint w))) = w" for w :: u64
  using uint_lt2p [of w] by (simp add: get_put)

end

lemma of_char_char_of_mod: "of_char (char_of (v mod 256 :: int)) = v mod 256"
  by (simp add: of_char_of)

lemma leValue_bounds: "0 \<le> leValue bs \<and> leValue bs < 256 ^ length bs"
proof (induction bs)
  case Nil
  then show ?case by simp
next
  case (Cons c cs)
  have "(0::int) \<le> of_char c" "(of_char c :: int) < 256"
    using of_nat_of_char [of c, where ?'a = int] by (auto simp: of_char_def horner_sum_bound)
  with Cons show ?case by simp
qed

lemma length_lePut [simp]: "length (lePut n v) = n"
  by (induction n arbitrary: v) auto

lemma leValue_lePut: "leValue (lePut n v) = v mod 256 ^ n"
proof (induction n arbitrary: v)
  case 0
  then show ?case by simp
next
  case (Suc n)
  then show ?case by (simp add: zmod_zmult2_eq)
qed

lemma lePut_leValue: "lePut (length bs) (leValue bs) = bs"
proof (induction bs)
  case Nil
  then show ?case by simp
next
  case (Cons c cs)
  have b: "(0::int) \<le> of_char c" "(of_char c :: int) < 256"
    using leValue_bounds [of "[c]"] by simp_all
  then have "(of_char c + 256 * leValue cs) mod 256 = of_char c"
    "(of_char c + 256 * leValue cs) div 256 = leValue cs" by simp_all
  with Cons show ?case by simp
qed

interpretation le: byte_order leValue lePut
  by unfold_locales (simp_all add: leValue_lePut leValue_bounds lePut_leValue)

interpretation be: byte_order "\<lambda>bs. leValue (rev bs)" "\<lambda>n v. rev (lePut n v)"
proof
  fix bs :: string
  show "leValue (rev bs) < 256 ^ length bs" using leValue_bounds [of "rev bs"] by simp
  show "rev (lePut (length bs) (leValue (rev bs))) = bs" using lePut_leValue [of "rev bs"] by simp
qed (simp_all add: leValue_lePut leValue_bounds)

interpretation any: byte_order "readUint order" "putUint order" for order
proof (cases order)
  case LittleEndian
  then show "byte_order (readUint order) (putUint order)"
    using le.byte_order_axioms by (simp add: byte_order_def)
next
  case BigEndian
  then show "byte_order (readUint order) (putUint order)"
    using be.byte_order_axioms by (simp add: byte_order_def)
qed

lemmas length_putUint [simp] = any.put_length

section \<open>Encoding\<close>

text \<open>\<open>cPad n s\<close> is the C array \<open>char[n]\<close> holding \<open>s\<close>; \<open>hole\<close> the compiler's padding before \<open>size\<close>.\<close>

definition cPad :: "nat \<Rightarrow> string \<Rightarrow> string" where
  "cPad n s = s @ replicate (n - length s) CHR 0x00"

definition fieldsV1 :: "byteOrder \<Rightarrow> string \<Rightarrow> event \<Rightarrow> string list" where
  "fieldsV1 order hole e =
     [putUint order 8 (uint (ev_MonotonicNS e)), putUint order 4 (uint (ev_PID e)),
      putUint order 4 (uint (ev_TGID e)), putUint order 4 (uint (ev_PPID e)),
      putUint order 4 (uint (ev_UID e)), putUint order 4 (uint (ev_Type e)),
      putUint order 4 (uint (ev_Arg0 e)), putUint order 4 (uint (ev_Arg1 e)), hole,
      putUint order 8 (uint (ev_Size e)), cPad 16 (ev_Comm e), cPad 256 (ev_Path e),
      cPad 256 (ev_Path2 e)]"

definition fieldsV2 :: "byteOrder \<Rightarrow> string \<Rightarrow> event \<Rightarrow> string list" where
  "fieldsV2 order reserved e =
     [putUint order 4 (uint (ev_ABIVersion e)), putUint order 4 (uint (ev_Phase e)),
      putUint order 4 (uint (ev_Source e)), putUint order 4 (uint (ev_Flags e)),
      putUint order 8 (uint (ev_SyscallID e)), putUint order 8 (uint (ev_Result e)),
      putUint order 8 (uint (ev_OperationID e)), putUint order 8 (uint (ev_RequestedBytes e)),
      putUint order 8 (uint (ev_ActualBytes e)), putUint order 4 (uint (ev_VectorCount e)), reserved]"

definition encodeV1 :: "byteOrder \<Rightarrow> string \<Rightarrow> event \<Rightarrow> string" where
  "encodeV1 order hole e = concat (fieldsV1 order hole e)"

definition encodeV2 :: "byteOrder \<Rightarrow> string \<Rightarrow> string \<Rightarrow> event \<Rightarrow> string" where
  "encodeV2 order hole reserved e = encodeV1 order hole e @ concat (fieldsV2 order reserved e)"

text \<open>What the kernel side can put into the text fields.\<close>

definition noNul :: "nat \<Rightarrow> string \<Rightarrow> bool" where
  "noNul n s \<longleftrightarrow> length s \<le> n \<and> CHR 0x00 \<notin> set s"

definition textFields :: "event \<Rightarrow> bool" where
  "textFields e \<longleftrightarrow> noNul 16 (ev_Comm e) \<and> noNul 256 (ev_Path2 e) \<and>
     (if ev_Type e = EventConnect \<and> ev_Size e = afInet6 then length (ev_Path e) = 16
      else noNul 256 (ev_Path e))"

definition headerFields :: "event \<Rightarrow> bool" where
  "headerFields e \<longleftrightarrow> ev_ABIVersion e = 2 \<and> ev_Phase e \<le> PhaseObservation \<and>
     ev_Source e \<le> SourceSched \<and> ev_Flags e AND NOT knownFlags = 0"

definition legacyFields :: "event \<Rightarrow> bool" where
  "legacyFields e \<longleftrightarrow> ev_ABIVersion e = 1 \<and> ev_Phase e = 0 \<and> ev_Source e = 0 \<and> ev_Flags e = 0 \<and>
     ev_SyscallID e = 0 \<and> ev_Result e = 0 \<and> ev_OperationID e = 0 \<and> ev_RequestedBytes e = 0 \<and>
     ev_ActualBytes e = 0 \<and> ev_VectorCount e = 0"

lemma length_cPad: "length s \<le> n \<Longrightarrow> length (cPad n s) = n"
  by (simp add: cPad_def)

lemma cString_cPad:
  assumes "noNul n s"
  shows "cString (cPad n s) = s"
proof -
  have nul: "takeWhile (\<lambda>c. c \<noteq> CHR 0x00) (replicate k CHR 0x00) = []" for k
    by (cases k) auto
  have "\<And>c. c \<in> set s \<Longrightarrow> c \<noteq> CHR 0x00" using assms by (auto simp: noNul_def)
  then show ?thesis by (simp add: cString_def cPad_def takeWhile_append2 nul)
qed

text \<open>The bytes of the \<open>i\<close>-th field sit at the sum of the lengths before it.\<close>

lemma concat_field:
  assumes "i < length fs" and "n = length (fs ! i)" and "off = sum_list (map length (take i fs))"
  shows "take n (drop off (concat fs @ rest)) = fs ! i"
proof -
  have "concat fs = concat (take i fs) @ fs ! i @ concat (drop (Suc i) fs)"
    by (metis assms(1) concat.simps(2) concat_append id_take_nth_drop)
  then show ?thesis using assms(2,3) by (simp add: length_concat)
qed

lemma textFields_lengths:
  assumes "textFields e"
  shows "length (cPad 16 (ev_Comm e)) = 16" "length (cPad 256 (ev_Path e)) = 256"
    "length (cPad 256 (ev_Path2 e)) = 256"
proof -
  have "length (ev_Path e) \<le> 256"
    using assms by (cases "ev_Type e = EventConnect \<and> ev_Size e = afInet6") (auto simp: textFields_def noNul_def)
  with assms show "length (cPad 16 (ev_Comm e)) = 16" "length (cPad 256 (ev_Path e)) = 256"
    "length (cPad 256 (ev_Path2 e)) = 256"
    by (simp_all add: textFields_def noNul_def length_cPad)
qed

lemma length_encodeV1: "textFields e \<Longrightarrow> length hole = 4 \<Longrightarrow> length (encodeV1 order hole e) = 576"
  by (simp add: encodeV1_def fieldsV1_def textFields_lengths)

lemma length_encodeV2:
  "textFields e \<Longrightarrow> length hole = 4 \<Longrightarrow> length reserved = 4 \<Longrightarrow> length (encodeV2 order hole reserved e) = 640"
  by (simp add: encodeV2_def fieldsV2_def length_encodeV1)

lemma Uint32_field:
  assumes "i < length fs" and "fs ! i = putUint order 4 (uint w)"
    and "off = sum_list (map length (take i fs))"
  shows "Uint32 order (concat fs @ rest) off = w"
  using concat_field [OF assms(1) _ assms(3), of 4 rest] assms(2) by (simp add: Uint32_def any.get_put_u32)

lemma Uint64_field:
  assumes "i < length fs" and "fs ! i = putUint order 8 (uint w)"
    and "off = sum_list (map length (take i fs))"
  shows "Uint64 order (concat fs @ rest) off = w"
  using concat_field [OF assms(1) _ assms(3), of 8 rest] assms(2) by (simp add: Uint64_def any.get_put_u64)

lemma text_field:
  assumes "i < length fs" and "fs ! i = txt" and "n = length txt" and "off = sum_list (map length (take i fs))"
  shows "take n (drop off (concat fs @ rest)) = txt"
  using concat_field [OF assms(1) _ assms(4), of n rest] assms(2,3) by simp

lemma fieldsV1_at:
  assumes "textFields e" and "length hole = 4"
    and raw_def: "raw = encodeV1 order hole e @ rest"
  shows "Uint64 order raw 0 = ev_MonotonicNS e"
    and "Uint32 order raw 8 = ev_PID e"
    and "Uint32 order raw 12 = ev_TGID e"
    and "Uint32 order raw 16 = ev_PPID e"
    and "Uint32 order raw 20 = ev_UID e"
    and "Uint32 order raw 24 = ev_Type e"
    and "Uint32 order raw 28 = ev_Arg0 e"
    and "Uint32 order raw 32 = ev_Arg1 e"
    and "Uint64 order raw 40 = ev_Size e"
    and "take 16 (drop 48 raw) = cPad 16 (ev_Comm e)"
    and "take 256 (drop 64 raw) = cPad 256 (ev_Path e)"
    and "take 256 (drop 320 raw) = cPad 256 (ev_Path2 e)"
proof -
  note len = assms(2) textFields_lengths [OF assms(1)]
  show "Uint64 order raw 0 = ev_MonotonicNS e" unfolding raw_def encodeV1_def
    by (rule Uint64_field [where i = 0]) (simp_all add: fieldsV1_def)
  show "Uint32 order raw 8 = ev_PID e" unfolding raw_def encodeV1_def
    by (rule Uint32_field [where i = 1]) (simp_all add: fieldsV1_def)
  show "Uint32 order raw 12 = ev_TGID e" unfolding raw_def encodeV1_def
    by (rule Uint32_field [where i = 2]) (simp_all add: fieldsV1_def)
  show "Uint32 order raw 16 = ev_PPID e" unfolding raw_def encodeV1_def
    by (rule Uint32_field [where i = 3]) (simp_all add: fieldsV1_def)
  show "Uint32 order raw 20 = ev_UID e" unfolding raw_def encodeV1_def
    by (rule Uint32_field [where i = 4]) (simp_all add: fieldsV1_def)
  show "Uint32 order raw 24 = ev_Type e" unfolding raw_def encodeV1_def
    by (rule Uint32_field [where i = 5]) (simp_all add: fieldsV1_def)
  show "Uint32 order raw 28 = ev_Arg0 e" unfolding raw_def encodeV1_def
    by (rule Uint32_field [where i = 6]) (simp_all add: fieldsV1_def)
  show "Uint32 order raw 32 = ev_Arg1 e" unfolding raw_def encodeV1_def
    by (rule Uint32_field [where i = 7]) (simp_all add: fieldsV1_def)
  show "Uint64 order raw 40 = ev_Size e" unfolding raw_def encodeV1_def
    by (rule Uint64_field [where i = 9]) (simp_all add: fieldsV1_def len)
  show "take 16 (drop 48 raw) = cPad 16 (ev_Comm e)" unfolding raw_def encodeV1_def
    by (rule text_field [where i = 10]) (simp_all add: fieldsV1_def len)
  show "take 256 (drop 64 raw) = cPad 256 (ev_Path e)" unfolding raw_def encodeV1_def
    by (rule text_field [where i = 11]) (simp_all add: fieldsV1_def len)
  show "take 256 (drop 320 raw) = cPad 256 (ev_Path2 e)" unfolding raw_def encodeV1_def
    by (rule text_field [where i = 12]) (simp_all add: fieldsV1_def len)
qed

lemma fieldsV2_at:
  assumes "textFields e" and "length hole = 4" and "length reserved = 4"
    and raw_def: "raw = encodeV2 order hole reserved e @ rest"
  shows "Uint32 order raw 576 = ev_ABIVersion e"
    and "Uint32 order raw 580 = ev_Phase e"
    and "Uint32 order raw 584 = ev_Source e"
    and "Uint32 order raw 588 = ev_Flags e"
    and "Uint64 order raw 592 = ev_SyscallID e"
    and "Uint64 order raw 600 = ev_Result e"
    and "Uint64 order raw 608 = ev_OperationID e"
    and "Uint64 order raw 616 = ev_RequestedBytes e"
    and "Uint64 order raw 624 = ev_ActualBytes e"
    and "Uint32 order raw 632 = ev_VectorCount e"
proof -
  have at: "drop (576 + n) raw = drop n (concat (fieldsV2 order reserved e) @ rest)" for n
    using length_encodeV1 [OF assms(1,2), of order] by (simp add: raw_def encodeV2_def)
  have u32: "Uint32 order raw (576 + n) = Uint32 order (concat (fieldsV2 order reserved e) @ rest) n"
    and u64: "Uint64 order raw (576 + n) = Uint64 order (concat (fieldsV2 order reserved e) @ rest) n" for n
    unfolding Uint32_def Uint64_def at by simp_all
  have "Uint32 order raw (576 + 0) = ev_ABIVersion e" unfolding u32
    by (rule Uint32_field [where i = 0]) (simp_all add: fieldsV2_def)
  then show "Uint32 order raw 576 = ev_ABIVersion e" by simp
  have "Uint32 order raw (576 + 4) = ev_Phase e" unfolding u32
    by (rule Uint32_field [where i = 1]) (simp_all add: fieldsV2_def)
  then show "Uint32 order raw 580 = ev_Phase e" by simp
  have "Uint32 order raw (576 + 8) = ev_Source e" unfolding u32
    by (rule Uint32_field [where i = 2]) (simp_all add: fieldsV2_def)
  then show "Uint32 order raw 584 = ev_Source e" by simp
  have "Uint32 order raw (576 + 12) = ev_Flags e" unfolding u32
    by (rule Uint32_field [where i = 3]) (simp_all add: fieldsV2_def)
  then show "Uint32 order raw 588 = ev_Flags e" by simp
  have "Uint64 order raw (576 + 16) = ev_SyscallID e" unfolding u64
    by (rule Uint64_field [where i = 4]) (simp_all add: fieldsV2_def)
  then show "Uint64 order raw 592 = ev_SyscallID e" by simp
  have "Uint64 order raw (576 + 24) = ev_Result e" unfolding u64
    by (rule Uint64_field [where i = 5]) (simp_all add: fieldsV2_def)
  then show "Uint64 order raw 600 = ev_Result e" by simp
  have "Uint64 order raw (576 + 32) = ev_OperationID e" unfolding u64
    by (rule Uint64_field [where i = 6]) (simp_all add: fieldsV2_def)
  then show "Uint64 order raw 608 = ev_OperationID e" by simp
  have "Uint64 order raw (576 + 40) = ev_RequestedBytes e" unfolding u64
    by (rule Uint64_field [where i = 7]) (simp_all add: fieldsV2_def)
  then show "Uint64 order raw 616 = ev_RequestedBytes e" by simp
  have "Uint64 order raw (576 + 48) = ev_ActualBytes e" unfolding u64
    by (rule Uint64_field [where i = 8]) (simp_all add: fieldsV2_def)
  then show "Uint64 order raw 624 = ev_ActualBytes e" by simp
  have "Uint32 order raw (576 + 56) = ev_VectorCount e" unfolding u32
    by (rule Uint32_field [where i = 9]) (simp_all add: fieldsV2_def)
  then show "Uint32 order raw 632 = ev_VectorCount e" by simp
qed

lemma decodeV1_encode:
  assumes "textFields e" and "length hole = 4"
  shows "decodeV1 order tm (encodeV1 order hole e @ rest) =
    e\<lparr>ev_Timestamp := tm, ev_ABIVersion := 1, ev_Phase := 0, ev_Source := 0, ev_Flags := 0,
      ev_SyscallID := 0, ev_Result := 0, ev_OperationID := 0, ev_RequestedBytes := 0,
      ev_ActualBytes := 0, ev_VectorCount := 0\<rparr>"
proof -
  note at = fieldsV1_at [OF assms refl, of order rest]
  have cut: "take 16 xs = take 16 (take 256 xs)" for xs :: string by simp
  have path: "take 16 (drop 64 (encodeV1 order hole e @ rest)) = ev_Path e"
    if "ev_Type e = EventConnect" "ev_Size e = afInet6"
    unfolding cut [of "drop 64 _"] at using that assms(1) by (simp add: textFields_def cPad_def)
  have "cString (cPad 256 (ev_Path e)) = ev_Path e"
    if "\<not> (ev_Type e = EventConnect \<and> ev_Size e = afInet6)"
    using that assms(1) by (intro cString_cPad) (auto simp: textFields_def)
  moreover have "cString (cPad 16 (ev_Comm e)) = ev_Comm e" "cString (cPad 256 (ev_Path2 e)) = ev_Path2 e"
    using assms(1) cString_cPad by (simp_all add: textFields_def)
  ultimately show ?thesis
    unfolding decodeV1_def Let_def taskCommLen_def pathMaxLen_def at using path
    by (auto simp: zeroEvent_def)
qed

lemma decodeV2_encode:
  assumes "textFields e" and "length hole = 4" and "length reserved = 4" and "headerFields e"
  shows "decodeV2 order (encodeV2 order hole reserved e @ rest) d =
    Inr (d\<lparr>ev_ABIVersion := ev_ABIVersion e, ev_Phase := ev_Phase e, ev_Source := ev_Source e,
      ev_Flags := ev_Flags e, ev_SyscallID := ev_SyscallID e, ev_Result := ev_Result e,
      ev_OperationID := ev_OperationID e, ev_RequestedBytes := ev_RequestedBytes e,
      ev_ActualBytes := ev_ActualBytes e, ev_VectorCount := ev_VectorCount e\<rparr>)"
proof -
  note at = fieldsV2_at [OF assms(1,2,3) refl, of order rest]
  have size: "eventSize = 576" by (simp add: go_consts)
  show ?thesis
    using assms(4) by (simp add: decodeV2_def Let_def size at headerFields_def not_less)
qed

lemma order_of_version:
  assumes "textFields e" and "length hole = 4" and "length reserved = 4" and "ev_ABIVersion e = 2"
    and raw: "raw = encodeV2 order hole reserved e @ rest"
  shows "(if Uint32 LittleEndian raw eventSize = 2 then LittleEndian
          else if Uint32 BigEndian raw eventSize = 2 then BigEndian else native) = order"
proof -
  have "take 4 (drop 576 raw) = putUint order 4 2"
  proof -
    have "drop 576 raw = concat (fieldsV2 order reserved e) @ rest"
      using length_encodeV1 [OF assms(1,2), of order] by (simp add: raw encodeV2_def)
    then show ?thesis using assms(4) by (simp add: fieldsV2_def)
  qed
  moreover have "leValue (rev (lePut 4 2)) = 33554432" by code_simp
  moreover have "leValue (lePut 4 2) = 2" by code_simp
  ultimately show ?thesis
    by (cases order) (simp_all add: Uint32_def go_consts)
qed

section \<open>Decoding inverts encoding\<close>

lemma decode_encodeV2:
  assumes "textFields e" and "headerFields e"
    and "length hole = 4" and "length reserved = 4" and "length pad \<le> 7"
  shows "fst (DecodeEvent native now uptime clk (encodeV2 order hole reserved e @ pad)) =
    Inr (e\<lparr>ev_Timestamp := fst (eventTimestamp now uptime clk (ev_MonotonicNS e))\<rparr>)"
proof -
  define raw where "raw = encodeV2 order hole reserved e @ pad"
  have n: "length raw = 640 + length pad"
    using length_encodeV2 [OF assms(1,3,4), of order] by (simp add: raw_def)
  have v1: "raw = encodeV1 order hole e @ concat (fieldsV2 order reserved e) @ pad"
    by (simp add: raw_def encodeV2_def)
  have ts: "Uint64 order raw 0 = ev_MonotonicNS e"
    using fieldsV1_at(1) [OF assms(1,3) v1] .
  have ord: "(if Uint32 LittleEndian raw eventSize = 2 then LittleEndian
      else if Uint32 BigEndian raw eventSize = 2 then BigEndian else native) = order"
    using assms by (intro order_of_version [OF assms(1,3,4) _ raw_def]) (simp add: headerFields_def)
  obtain tm clk' where tm: "eventTimestamp now uptime clk (ev_MonotonicNS e) = (tm, clk')"
    by (cases "eventTimestamp now uptime clk (ev_MonotonicNS e)")
  have "decodeV2 order raw (decodeV1 order tm raw) = Inr (e\<lparr>ev_Timestamp := tm\<rparr>)"
    using decodeV1_encode [OF assms(1,3), of order tm "concat (fieldsV2 order reserved e) @ pad"]
    unfolding raw_def decodeV2_encode [OF assms(1,3,4,2)] by (simp add: encodeV2_def)
  then show ?thesis
    using n ts tm assms(5) unfolding raw_def [symmetric] DecodeEvent_def Let_def ord
    by (simp add: decodeEvent_def go_consts)
qed

text \<open>
  C19. A version 2 record written by the kernel side in either byte order, with up to seven bytes of
  padding, decodes to exactly the event that was written, whatever the order of the machine
  that decodes it; only the wall-clock time is new.
\<close>

theorem DecodeEvent_encodeV2:
  assumes "textFields e" and "headerFields e"
    and "length hole = 4" and "length reserved = 4" and "length pad \<le> 7"
  shows "fst (DecodeEvent native now uptime clk (encodeV2 order hole reserved e @ pad)) =
    Inr (e\<lparr>ev_Timestamp := fst (eventTimestamp now uptime clk (ev_MonotonicNS e))\<rparr>)"
  using assms by (rule decode_encodeV2)

text \<open>A concrete IPv6 connection event and a rename event, used as witnesses.\<close>

definition sampleConnect :: event where
  "sampleConnect = zeroEvent\<lparr>ev_MonotonicNS := 7, ev_TGID := 42, ev_Type := EventConnect, ev_Size := 10,
     ev_Comm := ''curl'', ev_Path := replicate 16 CHR 0x01, ev_ABIVersion := 2, ev_Phase := PhaseSuccess,
     ev_Source := SourceTracepoint, ev_Flags := 31\<rparr>"

definition sampleRename :: event where
  "sampleRename = zeroEvent\<lparr>ev_MonotonicNS := 7, ev_TGID := 42, ev_Type := EventRename,
     ev_Comm := ''mv'', ev_Path := ''/srv/a'', ev_Path2 := ''/srv/a.locked'', ev_ABIVersion := 1\<rparr>"

lemma sampleConnect_ok: "textFields sampleConnect" "headerFields sampleConnect"
  by (simp_all add: sampleConnect_def textFields_def noNul_def go_consts zeroEvent_def headerFields_def
      knownFlags_def)

lemma sampleRename_ok: "textFields sampleRename" "legacyFields sampleRename"
  by (simp_all add: sampleRename_def textFields_def noNul_def go_consts zeroEvent_def legacyFields_def)

theorem DecodeEvent_encodeV2_witness:
  "fst (DecodeEvent LittleEndian 5 None None
     (encodeV2 BigEndian ''abcd'' ''efgh'' sampleConnect @ ''xyz'')) =
   Inr (sampleConnect\<lparr>ev_Timestamp := 5\<rparr>)"
proof -
  have "fst (eventTimestamp 5 None None (ev_MonotonicNS sampleConnect)) = 5"
    by (simp add: sampleConnect_def zeroEvent_def eventTimestamp_def initClock_def clockTime_def)
  then show ?thesis
    using DecodeEvent_encodeV2 [OF sampleConnect_ok, of "''abcd''" "''efgh''" "''xyz''"
        LittleEndian 5 None None BigEndian] by simp
qed

text \<open>
  A version 1 record in the machine's byte order decodes to the event that was written, with
  every version 2 field zero.
\<close>

lemma DecodeEvent_encodeV1:
  assumes "textFields e" and "legacyFields e" and "length hole = 4" and "length pad \<le> 7"
  shows "fst (DecodeEvent native now uptime clk (encodeV1 native hole e @ pad)) =
    Inr (e\<lparr>ev_Timestamp := fst (eventTimestamp now uptime clk (ev_MonotonicNS e))\<rparr>)"
proof -
  define raw where "raw = encodeV1 native hole e @ pad"
  have n: "length raw = 576 + length pad"
    using length_encodeV1 [OF assms(1,3), of native] by (simp add: raw_def)
  have ts: "Uint64 native raw 0 = ev_MonotonicNS e"
    using fieldsV1_at(1) [OF assms(1,3) raw_def] .
  have e: "decodeV1 native tm raw = e\<lparr>ev_Timestamp := tm\<rparr>" for tm
    using assms(2) unfolding raw_def decodeV1_encode [OF assms(1,3)] by (simp add: legacyFields_def)
  show ?thesis
    using n assms(4) unfolding raw_def [symmetric] DecodeEvent_def Let_def
    by (simp add: decodeEvent_def go_consts ts e split: prod.split)
qed

lemma DecodeEvent_encodeV1_witness:
  "fst (DecodeEvent BigEndian 5 None None (encodeV1 BigEndian ''abcd'' sampleRename @ ''xyz'')) =
   Inr (sampleRename\<lparr>ev_Timestamp := 5\<rparr>)"
proof -
  have "fst (eventTimestamp 5 None None (ev_MonotonicNS sampleRename)) = 5"
    by (simp add: sampleRename_def zeroEvent_def eventTimestamp_def initClock_def clockTime_def)
  then show ?thesis
    using DecodeEvent_encodeV1 [OF sampleRename_ok, of "''abcd''" "''xyz''" BigEndian 5 None None] by simp
qed

section \<open>What decoding accepts\<close>

lemma noNul_cString: "length bs \<le> n \<Longrightarrow> noNul n (cString bs)"
  using length_takeWhile_le [of "\<lambda>c. c \<noteq> CHR 0x00" bs] set_takeWhileD [of _ "\<lambda>c. c \<noteq> CHR 0x00" bs]
  by (fastforce simp: noNul_def cString_def)

lemma decodeV1_textFields:
  assumes "eventSize \<le> length raw"
  shows "textFields (decodeV1 order tm raw)"
  using assms by (simp add: decodeV1_def Let_def textFields_def go_consts noNul_cString)

lemma textFields_v2_update:
  "textFields (e\<lparr>ev_ABIVersion := v, ev_Phase := p, ev_Source := s, ev_Flags := f, ev_SyscallID := i,
     ev_Result := r, ev_OperationID := oid, ev_RequestedBytes := rb, ev_ActualBytes := ab,
     ev_VectorCount := vc\<rparr>) = textFields e"
  by (simp add: textFields_def)

text \<open>
  Decoding accepts exactly the records of the two lengths (with padding) whose version 2 header, if
  there is one, is in range, and every event it returns is one that the encoders can write: no NUL in a
  text field, none over its array, a 16-byte address for an IPv6 connection, and a header that is
  either all zero or in range.
\<close>

lemma decodeEvent_accepts:
  "(case fst (decodeEvent now uptime clk order raw) of
      Inr e \<Rightarrow> textFields e \<and> (legacyFields e \<or> headerFields e) \<and>
        (576 \<le> length raw \<and> length raw \<le> 583 \<or> 640 \<le> length raw \<and> length raw \<le> 647)
    | Inl (ShortEvent n) \<Rightarrow> n = length raw \<and> n < 576
    | Inl (InvalidLength n) \<Rightarrow> n = length raw \<and> 583 < n \<and> (n < 640 \<or> 647 < n)
    | Inl (UnsupportedVersion v) \<Rightarrow> 640 \<le> length raw \<and> v = Uint32 order raw 576 \<and> v \<noteq> 2
    | Inl (InvalidPhase p) \<Rightarrow> 640 \<le> length raw \<and> p = Uint32 order raw 580 \<and> 5 < p
    | Inl (InvalidSource s) \<Rightarrow> 640 \<le> length raw \<and> s = Uint32 order raw 584 \<and> 4 < s
    | Inl (InvalidFlags f) \<Rightarrow> 640 \<le> length raw \<and> f = Uint32 order raw 588 \<and> f AND NOT 31 \<noteq> 0)"
proof -
  have size: "eventSize = 576" "eventV2Size = 640" by (simp_all add: go_consts)
  have flags: "knownFlags = 31" by (simp add: knownFlags_def)
  have leg: "legacyFields (decodeV1 order tm raw)" for tm
    by (simp add: legacyFields_def decodeV1_def Let_def zeroEvent_def)
  have tf: "576 \<le> length raw \<Longrightarrow> textFields (decodeV1 order tm raw)" for tm
    using decodeV1_textFields [of raw order tm] by (simp add: size)
  show ?thesis
    by (auto simp: decodeEvent_def decodeV2_def Let_def size flags leg tf textFields_v2_update
        headerFields_def not_less split: prod.splits)
qed

section \<open>Timestamps\<close>

text \<open>The clock is chosen once: after the first non-zero timestamp it never changes.\<close>

lemma eventTimestamp_clock:
  "snd (eventTimestamp now uptime (Some ck) ts) = Some ck"
  by (simp add: eventTimestamp_def)

lemma uint_minus_le: "b \<le> a \<Longrightarrow> uint (a - b) = uint a - uint b" for a b :: u64
  by (simp add: uint_sub_if' word_le_def)

lemma clockTime_exact:
  assumes "\<bar>uint ts - uint (ck_Mono ck)\<bar> < 2 ^ 63"
  shows "clockTime ck ts = ck_Wall ck + (uint ts - uint (ck_Mono ck))"
proof (cases "ck_Mono ck \<le> ts")
  case True
  with assms show ?thesis by (simp add: clockTime_def Let_def uint_minus_le)
next
  case False
  then have "ts \<le> ck_Mono ck" by simp
  with False assms show ?thesis by (simp add: clockTime_def Let_def uint_minus_le)
qed

text \<open>
  Once the conversion base is set, wall-clock times of events are as far apart as their kernel
  timestamps, so ordering and windows carry over, for timestamps within \<open>2^63\<close> ns of the base; the
  base itself is kept.
\<close>

lemma eventTimestamp_distance:
  assumes "t1 \<noteq> 0" and "t2 \<noteq> 0"
    and "\<bar>uint t1 - uint (ck_Mono ck)\<bar> < 2 ^ 63" and "\<bar>uint t2 - uint (ck_Mono ck)\<bar> < 2 ^ 63"
  shows "fst (eventTimestamp now' up' (Some ck) t2) - fst (eventTimestamp now up (Some ck) t1)
           = uint t2 - uint t1 \<and>
         snd (eventTimestamp now up (Some ck) t1) = Some ck"
  using assms by (simp add: eventTimestamp_def clockTime_exact)

lemma eventTimestamp_distance_witness:
  "fst (eventTimestamp 9 None (Some \<lparr>ck_Wall = 100, ck_Mono = 50\<rparr>) 60)
     - fst (eventTimestamp 8 None (Some \<lparr>ck_Wall = 100, ck_Mono = 50\<rparr>) 20) = 40"
  using eventTimestamp_distance [of 20 60 "\<lparr>ck_Wall = 100, ck_Mono = 50\<rparr>" 9 None 8 None] by simp

end
