(* ===== verification/Scope.thy ===== *)
theory Scope
  imports Config Event
begin

text \<open>
  The pure tests of \<open>internal/agent/agent.go\<close>: which paths lie in a configured scope, which
  names and extensions are indicators of ransomware, which network peers are allowed, and
  the small conversions between actions, flags and names. Path scopes are one interface
  (\<open>path_matcher\<close>) that the three matchers of the source implement.
\<close>

section \<open>Paths under configured directories\<close>

definition hasDirPrefix :: "string \<Rightarrow> string list \<Rightarrow> bool" where
  "hasDirPrefix path dirs \<longleftrightarrow> path \<noteq> [] \<and>
     list_ex (\<lambda>dir. dir \<noteq> [] \<and>
       (let cleanDir = Clean dir; cleanPath = Clean path in
        if cleanDir = ''/'' then HasPrefix cleanPath ''/''
        else cleanPath = cleanDir \<or> HasPrefix cleanPath (cleanDir @ ''/''))) dirs"

definition matchesAnyPath :: "string \<Rightarrow> string list \<Rightarrow> bool" where
  "matchesAnyPath path candidates \<longleftrightarrow> path \<noteq> [] \<and>
     (let cleanPath = Clean path in
      list_ex (\<lambda>candidate. candidate \<noteq> [] \<and>
        (let cleanCandidate = Clean candidate in
         if cleanCandidate = ''/'' then HasPrefix cleanPath ''/''
         else cleanPath = cleanCandidate \<or> HasPrefix cleanPath (cleanCandidate @ ''/''))) candidates)"

definition matchesCgroupPath :: "string \<Rightarrow> string list \<Rightarrow> bool" where
  "matchesCgroupPath path candidates \<longleftrightarrow> path \<noteq> [] \<and>
     (let cleanPath = Clean path in
      list_ex (\<lambda>candidate. candidate \<noteq> [] \<and>
        (let c = Clean candidate; cleanCandidate = (if c = ''.'' then ''/'' else c) in
         if cleanCandidate = ''/'' then HasPrefix cleanPath ''/''
         else cleanPath = cleanCandidate \<or> HasPrefix cleanPath (cleanCandidate @ ''/''))) candidates)"

definition inProtectedScope :: "policy \<Rightarrow> string \<Rightarrow> bool" where
  "inProtectedScope p path = hasDirPrefix path (pol_ProtectedDirs p)"

definition inBackupScope :: "policy \<Rightarrow> string \<Rightarrow> bool" where
  "inBackupScope p path = hasDirPrefix path (pol_BackupDirs p)"

definition inSelfProtectScope :: "policy \<Rightarrow> string \<Rightarrow> bool" where
  "inSelfProtectScope p path = hasDirPrefix path (pol_SelfProtectPaths p)"

definition hasConfiguredPaths :: "string list \<Rightarrow> bool" where
  "hasConfiguredPaths paths = list_ex (\<lambda>path. TrimSpace path \<noteq> []) paths"

section \<open>Names and extensions\<close>

definition hasSuspiciousExtension :: "policy \<Rightarrow> string \<Rightarrow> bool" where
  "hasSuspiciousExtension p path =
     (let ext = ToLower (Ext path) in
      list_ex (\<lambda>candidate.
        let c = ToLower (TrimSpace candidate);
            c' = (if c \<noteq> [] \<and> \<not> HasPrefix c ''.'' then ''.'' @ c else c)
        in ext = c') (pol_SuspiciousExtensions p))"

definition isRansomNote :: "policy \<Rightarrow> string \<Rightarrow> bool" where
  "isRansomNote p path =
     (let base = ToLower (Base path) in
      list_ex (\<lambda>candidate. base = ToLower (TrimSpace candidate)) (pol_RansomNoteNames p))"

definition trustedComm :: "policy \<Rightarrow> string \<Rightarrow> bool" where
  "trustedComm p comm = list_ex (\<lambda>trusted. comm = trusted) (pol_TrustedProcesses p)"

definition containsUID :: "u32 list \<Rightarrow> u32 \<Rightarrow> bool" where
  "containsUID uids uid = list_ex (\<lambda>candidate. uid = candidate) uids"

definition isTrustedIdentityMatched :: "policy \<Rightarrow> string \<Rightarrow> u32 \<Rightarrow> bool" where
  "isTrustedIdentityMatched p exe uid =
     (if pol_TrustedUIDs p \<noteq> [] \<and> \<not> containsUID (pol_TrustedUIDs p) uid then False
      else if pol_TrustedExePaths p \<noteq> [] \<and> \<not> matchesAnyPath exe (pol_TrustedExePaths p) then False
      else True)"

section \<open>Network egress\<close>

definition eventIP :: "event \<Rightarrow> addr" where
  "eventIP ev =
     (if ev_Size ev = 10 then
        (if length (ev_Path ev) < 16 then NoAddr
         else Addr6 (wordOfBytes (map (\<lambda>c. int (byte c)) (take 16 (ev_Path ev)))) [])
      else if ev_Size ev \<noteq> 0 \<and> ev_Size ev \<noteq> 2 then NoAddr
      else let raw = ev_Arg0 ev in
        Addr4 (wordOfBytes [uint (raw AND 255), uint (drop_bit 8 raw AND 255),
          uint (drop_bit 16 raw AND 255), uint (drop_bit 24 raw AND 255)]))"

definition networkAllowed :: "policy \<Rightarrow> event \<Rightarrow> bool" where
  "networkAllowed p ev =
     (let ip = eventIP ev; port = sint (ev_Arg1 ev) in
      if ip = NoAddr then True
      else if list_ex (\<lambda>allowed. port = allowed) (ne_AllowedPort (pol_NetworkEgress p)) then True
      else list_ex (\<lambda>cidr.
             (case ParsePrefix cidr of None \<Rightarrow> False | Some pfx \<Rightarrow> Contains pfx ip) \<or>
             (case ParseAddr cidr of None \<Rightarrow> False | Some a \<Rightarrow> a = ip))
           (ne_AllowedCIDR (pol_NetworkEgress p)))"

section \<open>Small conversions\<close>

definition pickPath :: "event \<Rightarrow> string" where
  "pickPath ev = (if ev_Path2 ev \<noteq> [] then ev_Path2 ev else ev_Path ev)"

definition isWriteOpen :: "i32 \<Rightarrow> bool" where
  "isWriteOpen flags \<longleftrightarrow> flags AND 512 \<noteq> 0 \<or> flags AND 3 = 1 \<or> flags AND 3 = 2"

definition appendReason :: "string list \<Rightarrow> string \<Rightarrow> string list" where
  "appendReason reasons reason =
     (if list_ex (\<lambda>existing. existing = reason) reasons then reasons else reasons @ [reason])"

abbreviation (input) BlockActionDeny :: u32 where "BlockActionDeny \<equiv> 1"
abbreviation (input) BlockActionKill :: u32 where "BlockActionKill \<equiv> 2"

definition actionName :: "u32 \<Rightarrow> string" where
  "actionName action =
     (if action = BlockActionDeny then ''deny'' else if action = BlockActionKill then ''kill''
      else unknownName action)"

definition normalizeAction :: "string \<Rightarrow> string" where
  "normalizeAction action =
     (if action = ''deny'' \<or> action = ''kill'' \<or> action = ''log'' then action
      else ''unknown('' @ action @ '')'')"

definition blockAction :: "string \<Rightarrow> u32" where
  "blockAction action = (if action = ''kill'' then BlockActionKill else BlockActionDeny)"

definition eventName :: "u32 \<Rightarrow> string" where
  "eventName t =
     (if t = EventExec then ''exec'' else if t = EventOpen then ''open''
      else if t = EventWrite then ''write'' else if t = EventRename then ''rename''
      else if t = EventUnlink then ''unlink'' else if t = EventTruncate then ''truncate''
      else if t = EventBlock then ''block'' else if t = EventClose then ''close''
      else if t = EventDup then ''dup'' else if t = EventScan then ''scan''
      else if t = EventMmap then ''mmap'' else if t = EventIOUring then ''io_uring''
      else if t = EventConnect then ''connect'' else if t = EventLink then ''link''
      else unknownName t)"

lemma eventName_TypeName: "eventName (ev_Type ev) = TypeName ev"
  by (simp add: eventName_def TypeName_def Let_def)

lemma appendReason_set: "set (appendReason rs r) = insert r (set rs)"
  by (auto simp: appendReason_def list_ex_iff)

lemma appendReason_distinct [simp]: "distinct (appendReason rs r) = distinct rs"
  by (auto simp: appendReason_def list_ex_iff)

lemma appendReason_absorb: "r \<in> set rs \<Longrightarrow> appendReason rs r = rs"
  by (auto simp: appendReason_def list_ex_iff)

lemma normalizeAction_valid [simp]:
  "a \<in> {''log'', ''deny'', ''kill''} \<Longrightarrow> normalizeAction a = a"
  by (auto simp: normalizeAction_def)

section \<open>The path-matcher interface\<close>

definition underDir :: "string \<Rightarrow> string \<Rightarrow> bool" where
  "underDir path dir =
     (if dir = ''/'' then HasPrefix path ''/'' else path = dir \<or> HasPrefix path (dir @ ''/''))"

locale path_matcher =
  fixes matcher :: "string \<Rightarrow> string list \<Rightarrow> bool" and norm :: "string \<Rightarrow> string"
  assumes matcher_iff: "matcher path cs \<longleftrightarrow>
      path \<noteq> [] \<and> (\<exists>c \<in> set cs. c \<noteq> [] \<and> underDir (Clean path) (norm c))"
    and norm_Clean: "c \<noteq> [] \<Longrightarrow> norm (Clean c) = norm c"
    and norm_abs: "IsAbs c \<Longrightarrow> norm c = Clean c"
begin

lemma matcher_append: "matcher path (cs @ ds) \<longleftrightarrow> matcher path cs \<or> matcher path ds"
  by (auto simp: matcher_iff)

lemma matcher_mono: "set cs \<subseteq> set ds \<Longrightarrow> matcher path cs \<Longrightarrow> matcher path ds"
  by (auto simp: matcher_iff)

lemma matcher_Clean: "path \<noteq> [] \<Longrightarrow> matcher (Clean path) cs = matcher path cs"
  by (auto simp: matcher_iff)

lemma matcher_clean_candidates: "[] \<notin> set cs \<Longrightarrow> matcher path (map Clean cs) = matcher path cs"
  using norm_Clean by (auto simp: matcher_iff) (metis)+

lemma matcher_components:
  assumes "IsAbs path" and "\<forall>c \<in> set cs. IsAbs c"
  shows "matcher path cs \<longleftrightarrow> (\<exists>c \<in> set cs. prefix (cleanComps c) (cleanComps path))"
proof -
  have root: "HasPrefix (Clean path) ''/''"
    using assms(1) IsAbs_Clean [of path] by (cases "Clean path") (auto simp: HasPrefix_iff)
  have "underDir (Clean path) (norm c) \<longleftrightarrow> prefix (cleanComps c) (cleanComps path)" if "c \<in> set cs" for c
  proof (cases "cleanComps c = []")
    case True
    with that assms(2) have "norm c = ''/''" by (metis Clean_root_iff norm_abs)
    with True root show ?thesis by (simp add: underDir_def)
  next
    case False
    with that assms(2) have "norm c = Clean c" "Clean c \<noteq> ''/''"
      by (simp_all add: norm_abs Clean_root_iff)
    with False that assms show ?thesis using under_dir_iff [of path c] by (simp add: underDir_def)
  qed
  moreover have "path \<noteq> []" "\<forall>c \<in> set cs. c \<noteq> []" using assms by auto
  ultimately show ?thesis by (auto simp: matcher_iff)
qed

end

definition cgroupNorm :: "string \<Rightarrow> string" where
  "cgroupNorm c = (if Clean c = ''.'' then ''/'' else Clean c)"

interpretation dirs: path_matcher hasDirPrefix Clean
  by unfold_locales (auto simp: hasDirPrefix_def underDir_def list_ex_iff Let_def)

interpretation exes: path_matcher matchesAnyPath Clean
  by unfold_locales (auto simp: matchesAnyPath_def underDir_def list_ex_iff Let_def)

interpretation cgroups: path_matcher matchesCgroupPath cgroupNorm
proof
  fix path cs
  show "matchesCgroupPath path cs \<longleftrightarrow>
      path \<noteq> [] \<and> (\<exists>c \<in> set cs. c \<noteq> [] \<and> underDir (Clean path) (cgroupNorm c))"
    by (auto simp: matchesCgroupPath_def underDir_def list_ex_iff Let_def cgroupNorm_def)
next
  fix c :: string
  show "cgroupNorm (Clean c) = cgroupNorm c" by (simp add: cgroupNorm_def)
next
  fix c :: string
  assume "IsAbs c"
  then show "cgroupNorm c = Clean c" using IsAbs_Clean [of c] by (auto simp: cgroupNorm_def)
qed

text \<open>
  C25. All three path scopes are containment of directories, not of strings: for absolute paths a path
  matches exactly when the components of some configured directory are a prefix of its own
  components, with dots, doubled slashes and parent references resolved on both sides.
\<close>

theorem scopes_by_components:
  assumes "IsAbs path" and "\<forall>c \<in> set cs. IsAbs c"
  shows "(hasDirPrefix path cs \<longleftrightarrow> (\<exists>c \<in> set cs. prefix (cleanComps c) (cleanComps path))) \<and>
         matchesAnyPath path cs = hasDirPrefix path cs \<and>
         matchesCgroupPath path cs = hasDirPrefix path cs"
  using dirs.matcher_components [OF assms] exes.matcher_components [OF assms]
    cgroups.matcher_components [OF assms] by simp

theorem scopes_by_components_witness:
  "hasDirPrefix ''/srv/data/../data/x'' [''/srv//data/''] \<and> \<not> hasDirPrefix ''/srv/database'' [''/srv/data'']"
proof -
  have a: "prefix (cleanComps ''/srv//data/'') (cleanComps ''/srv/data/../data/x'')" by code_simp
  have b: "\<not> prefix (cleanComps ''/srv/data'') (cleanComps ''/srv/database'')" by code_simp
  show ?thesis
    using scopes_by_components [of "''/srv/data/../data/x''" "[''/srv//data/'']"]
      scopes_by_components [of "''/srv/database''" "[''/srv/data'']"] a b by simp
qed

lemma hasSuspiciousExtension_normalized:
  assumes "\<forall>e \<in> set (pol_SuspiciousExtensions p). normalizeExtension e = e \<and> ToLower (TrimSpace e) = e"
  shows "hasSuspiciousExtension p path \<longleftrightarrow> ToLower (Ext path) \<in> set (pol_SuspiciousExtensions p)"
proof -
  have "(let c = ToLower (TrimSpace e); c' = (if c \<noteq> [] \<and> \<not> HasPrefix c ''.'' then ''.'' @ c else c) in
      ToLower (Ext path) = c') \<longleftrightarrow> ToLower (Ext path) = e" if "e \<in> set (pol_SuspiciousExtensions p)" for e
  proof -
    have "normalizeExtension e = e" and low: "ToLower (TrimSpace e) = e" using assms that by auto
    then have "e = [] \<or> HasPrefix e ''.''" using normalizeExtension_dot [of e] by simp
    with low show ?thesis by (auto simp: Let_def)
  qed
  then show ?thesis by (auto simp: hasSuspiciousExtension_def list_ex_iff)
qed

text \<open>
  C39. A blank entry among the suspicious extensions, which normalisation keeps as the empty string,
  makes every file without an extension suspicious.
\<close>

theorem blank_extension_matches_extensionless:
  assumes "TrimSpace e = []" and "e \<in> set (pol_SuspiciousExtensions p)" and "Ext path = []"
  shows "hasSuspiciousExtension p path"
  using assms by (force simp: hasSuspiciousExtension_def list_ex_iff Let_def)

theorem blank_extension_matches_extensionless_witness:
  "(case normalize (zeroPolicy\<lparr>pol_SuspiciousExtensions := ['' '']\<rparr>) of
      Inl e \<Rightarrow> False | Inr q \<Rightarrow> pol_SuspiciousExtensions q = [[]]) \<and>
   hasSuspiciousExtension (zeroPolicy\<lparr>pol_SuspiciousExtensions := [[]]\<rparr>) ''/srv/Makefile''"
proof
  show "case normalize (zeroPolicy\<lparr>pol_SuspiciousExtensions := ['' '']\<rparr>) of
      Inl e \<Rightarrow> False | Inr q \<Rightarrow> pol_SuspiciousExtensions q = [[]]" by code_simp
  have "Ext ''/srv/Makefile'' = []" by code_simp
  then show "hasSuspiciousExtension (zeroPolicy\<lparr>pol_SuspiciousExtensions := [[]]\<rparr>) ''/srv/Makefile''"
    using blank_extension_matches_extensionless [of "[]" "zeroPolicy\<lparr>pol_SuspiciousExtensions := [[]]\<rparr>"] by simp
qed

definition connectTo10 :: event where
  "connectTo10 = zeroEvent\<lparr>ev_Type := EventConnect, ev_Arg0 := 0x0100000A, ev_Arg1 := 443, ev_Size := 2\<rparr>"

abbreviation allowing :: "policy \<Rightarrow> string list \<Rightarrow> policy" where
  "allowing p cidrs \<equiv> p\<lparr>pol_NetworkEgress := (pol_NetworkEgress p)\<lparr>ne_AllowedCIDR := cidrs\<rparr>\<rparr>"

text \<open>
  C40. A CIDR whose prefix length is padded with zeros passes the configuration check, which uses
  \<open>net.ParseCIDR\<close>, and then allows nothing, because the egress check reads it with \<open>netip.ParsePrefix\<close>: for every accepted
  CIDR, every amount of padding, every policy and every event, the decision is the one without the entry, while
  the entry without the padding is a prefix of that length and allows every address of its block.
\<close>

theorem padded_cidr_never_allows:
  assumes "CHR ''/'' \<notin> set ip" and "ParseCIDR_ok (ip @ ''/'' @ m)" and "length m = 1 \<or> hd m \<noteq> CHR ''0''"
    and "0 < k" and "c = ip @ ''/'' @ replicate k CHR ''0'' @ m" and "TrimSpace c = c"
  shows "normalizeCIDRs [c] = Inr [c] \<and>
    networkAllowed (allowing p (xs @ [c] @ ys)) ev = networkAllowed (allowing p (xs @ ys)) ev \<and>
    (\<exists>pfx. ParsePrefix (ip @ ''/'' @ m) = Some pfx \<and> int (pf_bits pfx) = decValue m \<and>
       (Contains pfx (eventIP ev) \<longrightarrow> networkAllowed (allowing p (xs @ [ip @ ''/'' @ m] @ ys)) ev))"
proof -
  have ok: "ParseCIDR_ok (ip @ CHR ''/'' # m)" using assms(2) by simp
  note padded = padded_prefix_unread [OF assms(1) ok assms(4)]
  obtain pfx where "ParsePrefix (ip @ CHR ''/'' # m) = Some pfx" "int (pf_bits pfx) = decValue m"
    using canonical_prefix_parses [OF assms(1) ok assms(3)] by blast
  moreover have "networkAllowed (allowing p (xs @ [c] @ ys)) ev = networkAllowed (allowing p (xs @ ys)) ev"
    using padded(2,3) by (simp add: networkAllowed_def Let_def assms(5))
  ultimately show ?thesis
    using padded(1) assms(5,6) by (auto simp: networkAllowed_def Let_def)
qed

theorem padded_cidr_never_allows_witness:
  "normalizeCIDRs [''10.0.0.0/08''] = Inr [''10.0.0.0/08''] \<and>
   \<not> networkAllowed (allowing zeroPolicy [''10.0.0.0/08'']) connectTo10 \<and>
   networkAllowed (allowing zeroPolicy [''10.0.0.0/8'']) connectTo10"
proof -
  have h: "ParseCIDR_ok (''10.0.0.0'' @ ''/'' @ ''8'')" "TrimSpace ''10.0.0.0/08'' = ''10.0.0.0/08''"
    "\<not> networkAllowed (allowing zeroPolicy []) connectTo10"
    "case ParsePrefix ''10.0.0.0/8'' of None \<Rightarrow> False | Some pfx \<Rightarrow> Contains pfx (eventIP connectTo10)" by code_simp+
  have "normalizeCIDRs [''10.0.0.0/08''] = Inr [''10.0.0.0/08''] \<and>
    networkAllowed (allowing zeroPolicy ([] @ [''10.0.0.0/08''] @ [])) connectTo10 =
      networkAllowed (allowing zeroPolicy ([] @ [])) connectTo10 \<and>
    (\<exists>pfx. ParsePrefix (''10.0.0.0'' @ ''/'' @ ''8'') = Some pfx \<and> int (pf_bits pfx) = decValue ''8'' \<and>
       (Contains pfx (eventIP connectTo10) \<longrightarrow>
          networkAllowed (allowing zeroPolicy ([] @ [''10.0.0.0'' @ ''/'' @ ''8''] @ [])) connectTo10))"
    by (rule padded_cidr_never_allows [OF _ h(1), where k = 1]) (simp_all add: h(2))
  then show ?thesis using h(3,4) by (auto simp del: normalizeCIDRs.simps)
qed

end
