(* ===== verification/GoSha256.thy ===== *)
theory GoSha256
  imports GoNetip
begin

text \<open>
  \<open>crypto/sha256\<close> and \<open>encoding/hex\<close> as the blacklist uses them: the digest of a file and its
  lower-case hexadecimal text. The digest is FIPS 180-4 on 32-bit words.
\<close>

section \<open>The digest\<close>

definition shaK :: "32 word list" where
  "shaK =
     [0x428A2F98, 0x71374491, 0xB5C0FBCF, 0xE9B5DBA5, 0x3956C25B, 0x59F111F1, 0x923F82A4, 0xAB1C5ED5,
      0xD807AA98, 0x12835B01, 0x243185BE, 0x550C7DC3, 0x72BE5D74, 0x80DEB1FE, 0x9BDC06A7, 0xC19BF174,
      0xE49B69C1, 0xEFBE4786, 0x0FC19DC6, 0x240CA1CC, 0x2DE92C6F, 0x4A7484AA, 0x5CB0A9DC, 0x76F988DA,
      0x983E5152, 0xA831C66D, 0xB00327C8, 0xBF597FC7, 0xC6E00BF3, 0xD5A79147, 0x06CA6351, 0x14292967,
      0x27B70A85, 0x2E1B2138, 0x4D2C6DFC, 0x53380D13, 0x650A7354, 0x766A0ABB, 0x81C2C92E, 0x92722C85,
      0xA2BFE8A1, 0xA81A664B, 0xC24B8B70, 0xC76C51A3, 0xD192E819, 0xD6990624, 0xF40E3585, 0x106AA070,
      0x19A4C116, 0x1E376C08, 0x2748774C, 0x34B0BCB5, 0x391C0CB3, 0x4ED8AA4A, 0x5B9CCA4F, 0x682E6FF3,
      0x748F82EE, 0x78A5636F, 0x84C87814, 0x8CC70208, 0x90BEFFFA, 0xA4506CEB, 0xBEF9A3F7, 0xC67178F2]"

definition shaH0 :: "32 word list" where
  "shaH0 =
     [0x6A09E667, 0xBB67AE85, 0x3C6EF372, 0xA54FF53A, 0x510E527F, 0x9B05688C, 0x1F83D9AB, 0x5BE0CD19]"

definition shaSmall0 :: "32 word \<Rightarrow> 32 word" where
  "shaSmall0 x = word_rotr 7 x XOR word_rotr 18 x XOR drop_bit 3 x"

definition shaSmall1 :: "32 word \<Rightarrow> 32 word" where
  "shaSmall1 x = word_rotr 17 x XOR word_rotr 19 x XOR drop_bit 10 x"

definition shaBig0 :: "32 word \<Rightarrow> 32 word" where
  "shaBig0 x = word_rotr 2 x XOR word_rotr 13 x XOR word_rotr 22 x"

definition shaBig1 :: "32 word \<Rightarrow> 32 word" where
  "shaBig1 x = word_rotr 6 x XOR word_rotr 11 x XOR word_rotr 25 x"

text \<open>The message schedule, newest word first: \<open>w(t) = s1(w(t-2)) + w(t-7) + s0(w(t-15)) + w(t-16)\<close>.\<close>

fun shaExtend :: "nat \<Rightarrow> 32 word list \<Rightarrow> 32 word list" where
  "shaExtend 0 ws = ws"
| "shaExtend (Suc n) ws =
     shaExtend n ((shaSmall1 (ws ! 1) + ws ! 6 + shaSmall0 (ws ! 14) + ws ! 15) # ws)"

definition shaSchedule :: "32 word list \<Rightarrow> 32 word list" where
  "shaSchedule block = rev (shaExtend 48 (rev block))"

fun shaRound :: "32 word list \<Rightarrow> 32 word \<times> 32 word \<Rightarrow> 32 word list" where
  "shaRound [a, b, c, d, e, f, g, h] (k, w) =
     (let t1 = h + shaBig1 e + ((e AND f) XOR (NOT e AND g)) + k + w;
          t2 = shaBig0 a + ((a AND b) XOR (a AND c) XOR (b AND c))
      in [t1 + t2, a, b, c, d + t1, e, f, g])"
| "shaRound s kw = s"

definition shaBlock :: "32 word list \<Rightarrow> 32 word list \<Rightarrow> 32 word list" where
  "shaBlock s block = map2 (+) s (foldl shaRound s (zip shaK (shaSchedule block)))"

fun chunks :: "nat \<Rightarrow> 'a list \<Rightarrow> 'a list list" where
  "chunks n [] = []"
| "chunks n (x # xs) =
     (if n = 0 then [] else take n (x # xs) # chunks n (drop n (x # xs)))"

definition beBytes :: "nat \<Rightarrow> int \<Rightarrow> int list" where
  "beBytes n v = map (\<lambda>i. v div 256 ^ (n - 1 - i) mod 256) [0..<n]"

definition shaPad :: "int list \<Rightarrow> int list" where
  "shaPad bs = bs @ [128] @ replicate ((119 - length bs mod 64) mod 64) 0 @ beBytes 8 (8 * int (length bs))"

definition sha256 :: "string \<Rightarrow> int list" where
  "sha256 s =
     (let bytes = map (\<lambda>c. int (byte c)) s;
          blocks = map (\<lambda>b. map wordOfBytes (chunks 4 b)) (chunks 64 (shaPad bytes))
      in concat (map (\<lambda>w. beBytes 4 (uint w)) (foldl shaBlock shaH0 blocks)))"

section \<open>Hexadecimal text\<close>

definition hexChar :: "int \<Rightarrow> char" where
  "hexChar n = (if n < 10 then char_of (48 + n) else char_of (87 + n))"

definition EncodeToString :: "int list \<Rightarrow> string" where
  "EncodeToString bs = concat (map (\<lambda>b. [hexChar (b div 16), hexChar (b mod 16)]) bs)"

section \<open>The shape of a digest\<close>

lemma length_beBytes [simp]: "length (beBytes n v) = n"
  by (simp add: beBytes_def)

lemma beBytes_range: "b \<in> set (beBytes n v) \<Longrightarrow> 0 \<le> b \<and> b < 256"
  by (auto simp: beBytes_def)

lemma length_shaRound: "length s = 8 \<Longrightarrow> length (shaRound s kw) = 8"
  by (cases "(s, kw)" rule: shaRound.cases) (auto simp: Let_def)

lemma length_shaRounds: "length s = 8 \<Longrightarrow> length (foldl shaRound s kws) = 8"
  by (induction kws arbitrary: s) (auto simp: length_shaRound)

lemma length_shaBlock: "length s = 8 \<Longrightarrow> length (shaBlock s b) = 8"
  by (simp add: shaBlock_def length_shaRounds)

lemma length_shaBlocks: "length s = 8 \<Longrightarrow> length (foldl shaBlock s bs) = 8"
  by (induction bs arbitrary: s) (auto simp: length_shaBlock)

lemma length_sha256: "length (sha256 s) = 32"
proof -
  have "length shaH0 = 8" by (simp add: shaH0_def)
  then have "length (foldl shaBlock shaH0 bs) = 8" for bs by (rule length_shaBlocks)
  then show ?thesis
    by (simp add: sha256_def Let_def length_concat o_def sum_list_triv)
qed

lemma sha256_range: "b \<in> set (sha256 s) \<Longrightarrow> 0 \<le> b \<and> b < 256"
  by (auto simp: sha256_def Let_def dest: beBytes_range)

definition isLowerHex :: "char \<Rightarrow> bool" where
  "isLowerHex c \<longleftrightarrow> isDigit c \<or> (97 \<le> byte c \<and> byte c \<le> 102)"

lemma byte_char_of_int: "0 \<le> n \<Longrightarrow> n < 256 \<Longrightarrow> byte (char_of (n :: int)) = nat n"
proof -
  assume "0 \<le> n" "n < 256"
  then have "int (byte (char_of n)) = n"
    unfolding byte_def by (simp add: of_nat_of_char)
  then show ?thesis by simp
qed

lemma hexChar_lower: "0 \<le> n \<Longrightarrow> n < 16 \<Longrightarrow> isLowerHex (hexChar n)"
  by (auto simp: isLowerHex_def hexChar_def isDigit_def byte_char_of_int)

lemma EncodeToString_lower:
  assumes "\<forall>b \<in> set bs. 0 \<le> b \<and> b < 256"
  shows "list_all isLowerHex (EncodeToString bs)"
  using assms
proof (induction bs)
  case Nil
  then show ?case by (simp add: EncodeToString_def)
next
  case (Cons b bs)
  have "0 \<le> b div 16" "b div 16 < 16" "0 \<le> b mod 16" "b mod 16 < 16" using Cons.prems by auto
  then have "isLowerHex (hexChar (b div 16))" "isLowerHex (hexChar (b mod 16))"
    by (auto intro: hexChar_lower)
  with Cons show ?case by (simp add: EncodeToString_def)
qed

lemma length_EncodeToString: "length (EncodeToString bs) = 2 * length bs"
  by (induction bs) (simp_all add: EncodeToString_def)

lemma isLowerHex_props: "isLowerHex c \<Longrightarrow> isHexDigit c \<and> byte c < 128 \<and> lowerByte c = c"
  by (auto simp: isLowerHex_def isHexDigit_def isDigit_def lowerByte_def)

end
