(* ===== verification/Blacklist.thy ===== *)
theory Blacklist
  imports Scope GoSha256
begin

text \<open>
  \<open>internal/agent/blacklist.go\<close>: the set of blacklisted SHA-256 digests, its reload from files, and
  the readers of \<open>/proc\<close>. The file system a call sees is a \<open>world\<close>: what \<open>os.Open\<close>, \<open>os.ReadFile\<close>,
  \<open>os.Readlink\<close>, \<open>os.ReadDir\<close> and \<open>os.Stat\<close> answer while it runs.
\<close>

section \<open>The file system\<close>

text \<open>\<open>ReadFailed\<close>: the file opened and a read from it failed.\<close>

datatype openResult = NotExist | OpenFailed | ReadFailed | Opened string

record fileInfo =
  fi_Size :: int
  fi_ModTime :: time
  fi_Node :: "nat \<times> nat"

record world =
  w_open :: "string \<Rightarrow> openResult"
  w_readlink :: "string \<Rightarrow> string option"
  w_readDir :: "string \<Rightarrow> (string \<times> bool) list option"
  w_stat :: "string \<Rightarrow> fileInfo option"

definition ReadFile :: "world \<Rightarrow> string \<Rightarrow> string option" where
  "ReadFile w path = (case w_open w path of Opened data \<Rightarrow> Some data | _ \<Rightarrow> None)"

text \<open>\<open>bufio.Scanner\<close> with \<open>ScanLines\<close>: lines without their terminator, the error for a line of 64 KiB or more.\<close>

definition rawLines :: "string \<Rightarrow> string list" where
  "rawLines data =
     (let parts = Split (CHR 0x0A) data in if last parts = [] then butlast parts else parts)"

definition maxScanTokenSize :: nat where
  "maxScanTokenSize = 64 * 1024"

definition scanLines :: "string \<Rightarrow> string list option" where
  "scanLines data =
     (let ls = rawLines data in
      if list_ex (\<lambda>l. maxScanTokenSize \<le> length l) ls then None
      else Some (map (\<lambda>l. TrimSuffix l [CHR 0x0D]) ls))"

section \<open>Digests\<close>

definition isHex :: "string \<Rightarrow> bool" where
  "isHex s = list_all isHexDigit s"

definition addHash :: "string list \<Rightarrow> string \<Rightarrow> string list" where
  "addHash dst hash =
     (let h = ToLower (TrimSpace hash) in
      if length h = 64 \<and> isHex h then List.insert h dst else dst)"

definition addHashTo :: "string list \<Rightarrow> string list \<Rightarrow> string list" where
  "addHashTo dst hashes = foldl addHash dst hashes"

definition fileSHA256 :: "world \<Rightarrow> string \<Rightarrow> string option" where
  "fileSHA256 w path =
     (case w_open w (Clean path) of
        Opened data \<Rightarrow> Some (EncodeToString (sha256 data))
      | _ \<Rightarrow> None)"

section \<open>The blacklist\<close>

record blacklist =
  bl_baseHashes :: "string list"
  bl_hashes :: "string list"
  bl_files :: "string list"

datatype blacklist_error = OpenHashFile string | ReadHashFile string

definition addEntry :: "string list \<Rightarrow> string \<Rightarrow> string list" where
  "addEntry hashes line =
     (let entry = TrimSpace line in
      if entry = [] \<or> HasPrefix entry ''#'' then hashes
      else case Fields entry of [] \<Rightarrow> hashes | f # _ \<Rightarrow> addHashTo hashes [f])"

definition reloadFile :: "world \<Rightarrow> string list \<Rightarrow> string \<Rightarrow> blacklist_error + string list" where
  "reloadFile w hashes path =
     (if path = [] then Inr hashes
      else case w_open w path of
        NotExist \<Rightarrow> Inr hashes
      | OpenFailed \<Rightarrow> Inl (OpenHashFile path)
      | ReadFailed \<Rightarrow> Inl (ReadHashFile path)
      | Opened data \<Rightarrow>
          (case scanLines data of
             None \<Rightarrow> Inl (ReadHashFile path)
           | Some ls \<Rightarrow> Inr (foldl addEntry hashes ls)))"

definition reloadFiles :: "world \<Rightarrow> blacklist \<Rightarrow> blacklist_error option \<times> blacklist" where
  "reloadFiles w b =
     (case errFold (reloadFile w) (addHashTo [] (bl_baseHashes b)) (bl_files b) of
        Inl e \<Rightarrow> (Some e, b)
      | Inr hashes \<Rightarrow> (None, b\<lparr>bl_hashes := hashes\<rparr>))"

definition newBlacklist :: "world \<Rightarrow> policy \<Rightarrow> blacklist_error + blacklist" where
  "newBlacklist w p =
     (let b = \<lparr>bl_baseHashes = pol_BlacklistHashes p, bl_hashes = [], bl_files = pol_BlacklistHashFiles p\<rparr> in
      case reloadFiles w b of (Some e, _) \<Rightarrow> Inl e | (None, b') \<Rightarrow> Inr b')"

definition matchHash :: "blacklist \<Rightarrow> string \<Rightarrow> bool" where
  "matchHash b hash \<longleftrightarrow> ToLower hash \<in> set (bl_hashes b)"

definition empty :: "blacklist \<Rightarrow> bool" where
  "empty b \<longleftrightarrow> length (bl_hashes b) = 0"

section \<open>Processes\<close>

record procInfo =
  pi_PID :: u32
  pi_TGID :: u32
  pi_UID :: u32
  pi_Comm :: string
  pi_Exe :: string
  pi_Cgroup :: string

definition procFile :: "u32 \<Rightarrow> string \<Rightarrow> string" where
  "procFile pid name = ''/proc/'' @ Itoa (unat pid) @ ''/'' @ name"

definition parseCgroupPath :: "string \<Rightarrow> string" where
  "parseCgroupPath data =
     (case List.find (\<lambda>line. line \<noteq> [] \<and> length (SplitN 3 (CHR '':'') line) = 3) (Split (CHR 0x0A) data) of
        None \<Rightarrow> []
      | Some line \<Rightarrow> TrimSpace (SplitN 3 (CHR '':'') line ! 2))"

definition statusLine :: "procInfo \<Rightarrow> string \<Rightarrow> procInfo" where
  "statusLine info line =
     (case Fields line of
        k # v # _ \<Rightarrow>
          (if k = ''Tgid:'' then
             (case ParseUint 32 v of None \<Rightarrow> info | Some n \<Rightarrow> info\<lparr>pi_TGID := word_of_int n\<rparr>)
           else if k = ''Uid:'' then
             (case ParseUint 32 v of None \<Rightarrow> info | Some n \<Rightarrow> info\<lparr>pi_UID := word_of_int n\<rparr>)
           else info)
      | _ \<Rightarrow> info)"

definition readProc :: "world \<Rightarrow> u32 \<Rightarrow> procInfo option" where
  "readProc w pid =
     (let info = \<lparr>pi_PID = pid, pi_TGID = pid, pi_UID = 0, pi_Comm = [], pi_Exe = [], pi_Cgroup = []\<rparr>;
          info1 = (case ReadFile w (procFile pid ''comm'') of
                     None \<Rightarrow> info | Some comm \<Rightarrow> info\<lparr>pi_Comm := TrimSpace comm\<rparr>);
          info2 = (case ReadFile w (procFile pid ''status'') of
                     None \<Rightarrow> info1 | Some status \<Rightarrow> foldl statusLine info1 (Split (CHR 0x0A) status));
          info3 = (case w_readlink w (procFile pid ''exe'') of
                     None \<Rightarrow> info2 | Some exe \<Rightarrow> info2\<lparr>pi_Exe := exe\<rparr>);
          info4 = (case ReadFile w (procFile pid ''cgroup'') of
                     None \<Rightarrow> info3 | Some cgroup \<Rightarrow> info3\<lparr>pi_Cgroup := parseCgroupPath cgroup\<rparr>)
      in if pi_Comm info4 = [] \<and> pi_Exe info4 = [] then None else Some info4)"

definition procEntry :: "world \<Rightarrow> string \<times> bool \<Rightarrow> procInfo list" where
  "procEntry w entry =
     (if \<not> snd entry then []
      else case ParseUint 32 (fst entry) of
        None \<Rightarrow> []
      | Some pid \<Rightarrow> (case readProc w (word_of_int pid) of None \<Rightarrow> [] | Some info \<Rightarrow> [info]))"

definition listProcs :: "world \<Rightarrow> procInfo list option" where
  "listProcs w =
     (case w_readDir w ''/proc'' of
        None \<Rightarrow> None
      | Some entries \<Rightarrow> Some (concat (map (procEntry w) entries)))"

section \<open>What the blacklist holds\<close>

definition validHash :: "string \<Rightarrow> bool" where
  "validHash h \<longleftrightarrow> length h = 64 \<and> isHex h"

text \<open>The digests a configuration asks for: those of the policy and those of every file that exists.\<close>

definition entryHashes :: "string \<Rightarrow> string set" where
  "entryHashes line =
     (let entry = TrimSpace line in
      if entry = [] \<or> HasPrefix entry ''#'' then {}
      else case Fields entry of [] \<Rightarrow> {} | f # _ \<Rightarrow> {h. h = ToLower (TrimSpace f) \<and> validHash h})"

definition fileHashes :: "world \<Rightarrow> string \<Rightarrow> string set" where
  "fileHashes w path =
     (if path = [] then {} else case w_open w path of
        Opened data \<Rightarrow> (case scanLines data of None \<Rightarrow> {} | Some ls \<Rightarrow> \<Union> (entryHashes ` set ls))
      | _ \<Rightarrow> {})"

lemma set_addHash: "set (addHash dst h) = set dst \<union> {x. x = ToLower (TrimSpace h) \<and> validHash x}"
  by (auto simp: addHash_def Let_def validHash_def)

lemma set_addHashTo:
  "set (addHashTo dst hs) = set dst \<union> {x. validHash x \<and> (\<exists>h \<in> set hs. x = ToLower (TrimSpace h))}"
  unfolding addHashTo_def by (induction hs arbitrary: dst) (auto simp: set_addHash)

lemma set_addEntry: "set (addEntry hashes line) = set hashes \<union> entryHashes line"
  by (auto simp: addEntry_def entryHashes_def Let_def addHashTo_def set_addHash split: list.splits)

lemma set_addEntries: "set (foldl addEntry hashes ls) = set hashes \<union> \<Union> (entryHashes ` set ls)"
  by (induction ls arbitrary: hashes) (auto simp: set_addEntry)

lemma reloadFile_Inr: "reloadFile w hashes path = Inr hs \<Longrightarrow> set hs = set hashes \<union> fileHashes w path"
  by (auto simp: reloadFile_def fileHashes_def set_addEntries split: if_splits openResult.splits option.splits)

lemma reload_Inr:
  "errFold (reloadFile w) hashes files = Inr hs \<Longrightarrow> set hs = set hashes \<union> \<Union> (fileHashes w ` set files)"
proof (induction files arbitrary: hashes)
  case Nil
  then show ?case by simp
next
  case (Cons f files)
  then obtain h where h: "reloadFile w hashes f = Inr h" "errFold (reloadFile w) h files = Inr hs"
    by (auto split: sum.splits)
  with Cons.IH [OF h(2)] reloadFile_Inr [OF h(1)] show ?case by auto
qed

lemma reloadFiles_hashes:
  "reloadFiles w b = (None, b') \<Longrightarrow> set (bl_hashes b') =
     {x. validHash x \<and> (\<exists>h \<in> set (bl_baseHashes b). x = ToLower (TrimSpace h))}
       \<union> \<Union> (fileHashes w ` set (bl_files b))"
  using reload_Inr [of w "addHashTo [] (bl_baseHashes b)" "bl_files b"]
  by (auto simp: reloadFiles_def set_addHashTo split: sum.splits)

text \<open>
  C30. A reload either replaces the blacklist by exactly the well-formed digests of the policy and of the
  files that exist, lower-cased, or fails and leaves the previous blacklist in force.
\<close>

theorem reloadFiles_spec:
  "case reloadFiles w b of
     (None, b') \<Rightarrow> set (bl_hashes b') =
        {x. validHash x \<and> (\<exists>h \<in> set (bl_baseHashes b). x = ToLower (TrimSpace h))}
          \<union> \<Union> (fileHashes w ` set (bl_files b)) \<and>
        bl_baseHashes b' = bl_baseHashes b \<and> bl_files b' = bl_files b
   | (Some e, b') \<Rightarrow> b' = b"
proof (cases "reloadFiles w b")
  case (Pair r b')
  show ?thesis
  proof (cases r)
    case None
    then show ?thesis using Pair reloadFiles_hashes [of w b b'] by (auto simp: reloadFiles_def split: sum.splits)
  next
    case (Some e)
    then show ?thesis using Pair by (auto simp: reloadFiles_def split: sum.splits)
  qed
qed

lemma digest_shape: "validHash (EncodeToString (sha256 data))" "ToLower (EncodeToString (sha256 data)) = EncodeToString (sha256 data)"
proof -
  let ?d = "EncodeToString (sha256 data)"
  have low: "list_all isLowerHex ?d" using sha256_range by (intro EncodeToString_lower) auto
  then show "validHash ?d"
    unfolding validHash_def isHex_def length_EncodeToString length_sha256
    using isLowerHex_props by (auto simp: list_all_iff)
  have "isASCII ?d" using low isLowerHex_props by (auto simp: list_all_iff isASCII_def)
  then have "ToLower ?d = map lowerByte ?d" by (rule ToLower_ASCII)
  also have "\<dots> = ?d" using low isLowerHex_props by (intro map_idI) (auto simp: list_all_iff)
  finally show "ToLower ?d = ?d" .
qed

lemma leading_0I:
  assumes "\<forall>e \<in> set encs. e \<noteq> [] \<and> hd e \<notin> byte ` set s"
  shows "leading encs s = 0"
proof (rule ccontr)
  assume "leading encs s \<noteq> 0"
  from leading_take [OF this] obtain e where
    e: "e \<in> set encs" "e \<noteq> []" "map byte (take (length e) s) = e" by blast
  then have "hd e \<in> set (map byte (take (length e) s))" by simp
  then have "hd e \<in> byte ` set s" by (auto dest: in_set_takeD)
  with assms e(1) show False by blast
qed

lemma TrimSpace_lowerHex:
  assumes "list_all isLowerHex s"
  shows "TrimSpace s = s"
proof (rule TrimSpace_id)
  have range: "47 < byte c \<and> byte c < 103" if "c \<in> set s" for c
    using assms that by (auto simp: list_all_iff isLowerHex_def isDigit_def)
  have enc: "\<forall>e \<in> set encs. hd e \<le> 47 \<or> 103 \<le> hd e \<Longrightarrow> [] \<notin> set encs \<Longrightarrow> leading encs t = 0"
    if "set t = set s" for encs t
    using range that by (intro leading_0I) force
  show "leading spaceEncodings s = 0"
    by (rule enc) (simp, code_simp, code_simp)
  show "leading (map rev spaceEncodings) (rev s) = 0"
    by (rule enc) (simp, code_simp, code_simp)
qed

lemma digest_trim: "TrimSpace (EncodeToString (sha256 data)) = EncodeToString (sha256 data)"
  using sha256_range by (intro TrimSpace_lowerHex EncodeToString_lower) auto

text \<open>
  Listing a file's digest is enough to catch the file: once the blacklist has loaded, the digest that
  the agent computes for a file matches as soon as the policy lists it in any case and with any
  surrounding space.
\<close>

lemma listed_digest_matches:
  assumes "newBlacklist w p = Inr b" and "fileSHA256 w' path = Some h"
    and "e \<in> set (pol_BlacklistHashes p)" and "ToLower (TrimSpace e) = h"
  shows "matchHash b h"
proof -
  from assms(2) obtain data where h: "h = EncodeToString (sha256 data)"
    by (auto simp: fileSHA256_def split: openResult.splits)
  have "validHash h" "ToLower h = h" unfolding h by (rule digest_shape)+
  moreover have "h \<in> set (bl_hashes b)" if "validHash h"
    using assms(1,3,4) that
    by (auto simp: newBlacklist_def Let_def reloadFiles_hashes split: option.splits prod.splits)
  ultimately show ?thesis by (simp add: matchHash_def)
qed

definition emptyWorld :: world where
  "emptyWorld = \<lparr>w_open = (\<lambda>_. NotExist), w_readlink = (\<lambda>_. None), w_readDir = (\<lambda>_. None), w_stat = (\<lambda>_. None)\<rparr>"

lemma listed_digest_matches_witness:
  "\<exists>b. newBlacklist emptyWorld (zeroPolicy\<lparr>pol_BlacklistHashes := [EncodeToString (sha256 ''abc'')]\<rparr>) = Inr b \<and>
       matchHash b (EncodeToString (sha256 ''abc''))"
proof -
  let ?h = "EncodeToString (sha256 ''abc'')"
  let ?p = "zeroPolicy\<lparr>pol_BlacklistHashes := [?h]\<rparr>"
  obtain b where b: "newBlacklist emptyWorld ?p = Inr b"
    by (simp add: newBlacklist_def reloadFiles_def zeroPolicy_def)
  have "fileSHA256 (emptyWorld\<lparr>w_open := \<lambda>_. Opened ''abc''\<rparr>) ''/bin/x'' = Some ?h"
    by (simp add: fileSHA256_def)
  moreover have "ToLower (TrimSpace ?h) = ?h" by (simp only: digest_trim digest_shape)
  ultimately have "matchHash b ?h" using listed_digest_matches [OF b, of _ "''/bin/x''" ?h ?h] by simp
  with b show ?thesis by blast
qed

end
