(* ===== verification/FdTable.thy ===== *)
theory FdTable
  imports Blacklist
begin

text \<open>
  The file-descriptor table of \<open>internal/agent/agent.go\<close>: which path each descriptor of each process
  refers to, as told by open, dup and close events. \<open>abstractFd\<close> forgets the bookkeeping; the table
  then refines the descriptor semantics \<open>fdSpec\<close>.
\<close>

section \<open>Model\<close>

record fdKey =
  fk_TGID :: u32
  fk_FD :: i32

record fdState =
  fs_Path :: string
  fs_LastSeen :: time

type_synonym fdTable = "fdKey \<rightharpoonup> fdState"

abbreviation fdk :: "u32 \<Rightarrow> i32 \<Rightarrow> fdKey" where
  "fdk tgid fd \<equiv> \<lparr>fk_TGID = tgid, fk_FD = fd\<rparr>"

definition ItoaInt :: "int \<Rightarrow> string" where
  "ItoaInt z = (if z < 0 then CHR ''-'' # Itoa (nat (- z)) else Itoa (nat z))"

definition procSymlink :: "world \<Rightarrow> u32 \<Rightarrow> string \<Rightarrow> string" where
  "procSymlink w tgid name =
     (if tgid = 0 \<or> name = [] then []
      else case w_readlink w (procFile tgid name) of
        None \<Rightarrow> []
      | Some path \<Rightarrow> TrimSuffix path '' (deleted)'')"

definition fdPath :: "fdTable \<Rightarrow> u32 \<Rightarrow> i32 \<Rightarrow> string" where
  "fdPath t tgid fd = (case t (fdk tgid fd) of None \<Rightarrow> [] | Some s \<Rightarrow> fs_Path s)"

definition touchFD :: "fdTable \<Rightarrow> u32 \<Rightarrow> i32 \<Rightarrow> time \<Rightarrow> string \<times> fdTable" where
  "touchFD t tgid fd seen =
     (case t (fdk tgid fd) of
        None \<Rightarrow> ([], t)
      | Some s \<Rightarrow>
          (if fs_Path s \<noteq> [] then (fs_Path s, t(fdk tgid fd \<mapsto> s\<lparr>fs_LastSeen := seen\<rparr>))
           else (fs_Path s, t)))"

definition resolveOpenPath :: "world \<Rightarrow> fdTable \<Rightarrow> event \<Rightarrow> string" where
  "resolveOpenPath w t ev =
     (let path = ev_Path ev in
      if IsAbs path then path
      else
        let dirfd = (ucast (ev_Size ev) :: i32);
            base =
              (if dirfd = - 100 then procSymlink w (ev_TGID ev) ''cwd''
               else let b = fdPath t (ev_TGID ev) dirfd in
                 if b = [] then procSymlink w (ev_TGID ev) (''fd/'' @ ItoaInt (sint dirfd)) else b)
        in if base = [] then path else Clean (Join2 base path))"

definition updateFD :: "world \<Rightarrow> fdTable \<Rightarrow> event \<Rightarrow> fdTable \<times> event \<times> bool" where
  "updateFD w t ev =
     (if ev_Type ev = EventOpen then
        (if ev_Path ev = [] \<or> sint (ev_Arg1 ev) < 0 then (t, ev, False)
         else let path = resolveOpenPath w t ev in
           (t(fdk (ev_TGID ev) (ev_Arg1 ev) \<mapsto> \<lparr>fs_Path = path, fs_LastSeen = ev_Timestamp ev\<rparr>),
            ev\<lparr>ev_Path := path\<rparr>, False))
      else if ev_Type ev = EventClose then (t(fdk (ev_TGID ev) (ev_Arg0 ev) := None), ev, True)
      else if ev_Type ev = EventDup then
        (if sint (ev_Arg0 ev) < 0 \<or> sint (ev_Arg1 ev) < 0 then (t, ev, True)
         else (case t (fdk (ev_TGID ev) (ev_Arg0 ev)) of
             Some s \<Rightarrow>
               (if fs_Path s \<noteq> []
                then (t(fdk (ev_TGID ev) (ev_Arg1 ev) \<mapsto> s\<lparr>fs_LastSeen := ev_Timestamp ev\<rparr>), ev, True)
                else (t(fdk (ev_TGID ev) (ev_Arg1 ev) := None), ev, True))
           | None \<Rightarrow> (t(fdk (ev_TGID ev) (ev_Arg1 ev) := None), ev, True)))
      else (t, ev, False))"

section \<open>The table refines the descriptor semantics\<close>

type_synonym absFd = "fdKey \<rightharpoonup> string"

definition abstractFd :: "fdTable \<Rightarrow> absFd" where
  "abstractFd t = (\<lambda>k. map_option fs_Path (t k))"

text \<open>Open binds a descriptor, dup copies the binding of another, close removes it.\<close>

definition fdSpec :: "string \<Rightarrow> event \<Rightarrow> absFd \<Rightarrow> absFd" where
  "fdSpec resolved ev m =
     (if ev_Type ev = EventOpen \<and> ev_Path ev \<noteq> [] \<and> 0 \<le> sint (ev_Arg1 ev)
      then m(fdk (ev_TGID ev) (ev_Arg1 ev) \<mapsto> resolved)
      else if ev_Type ev = EventClose then m(fdk (ev_TGID ev) (ev_Arg0 ev) := None)
      else if ev_Type ev = EventDup \<and> 0 \<le> sint (ev_Arg0 ev) \<and> 0 \<le> sint (ev_Arg1 ev)
      then m(fdk (ev_TGID ev) (ev_Arg1 ev) := m (fdk (ev_TGID ev) (ev_Arg0 ev)))
      else m)"

definition fdOK :: "fdTable \<Rightarrow> bool" where
  "fdOK t \<longleftrightarrow> (\<forall>k s. t k = Some s \<longrightarrow> fs_Path s \<noteq> [])"

lemma fdOK_empty [simp]: "fdOK Map.empty"
  by (simp add: fdOK_def)

lemma abstractFd_upd: "abstractFd (t(k \<mapsto> s)) = (abstractFd t)(k \<mapsto> fs_Path s)"
  by (auto simp: abstractFd_def)

lemma abstractFd_del: "abstractFd (t(k := None)) = (abstractFd t)(k := None)"
  by (auto simp: abstractFd_def)

lemma fdPath_abstract: "fdOK t \<Longrightarrow> fdPath t tgid fd = (case abstractFd t (fdk tgid fd) of None \<Rightarrow> [] | Some path \<Rightarrow> path)"
  by (auto simp: fdPath_def abstractFd_def split: option.splits)

lemma resolveOpenPath_nonempty: "ev_Path ev \<noteq> [] \<Longrightarrow> resolveOpenPath w t ev \<noteq> []"
  by (auto simp: resolveOpenPath_def Let_def)

lemma touchFD_path [simp]: "fst (touchFD t tgid fd seen) = fdPath t tgid fd"
  by (auto simp: touchFD_def fdPath_def split: option.splits)

lemma touchFD_abstract [simp]: "abstractFd (snd (touchFD t tgid fd seen)) = abstractFd t"
  by (auto simp: touchFD_def abstractFd_def split: option.splits)

lemma touchFD_fdOK [simp]: "fdOK t \<Longrightarrow> fdOK (snd (touchFD t tgid fd seen))"
  by (auto simp: touchFD_def fdOK_def split: option.splits)

lemma touchFD_fdPath [simp]: "fdPath (snd (touchFD t tgid fd seen)) tgid' fd' = fdPath t tgid' fd'"
  by (auto simp: touchFD_def fdPath_def split: option.splits)

lemma updateFD_fdOK: "fdOK t \<Longrightarrow> fdOK (fst (updateFD w t ev))"
  using resolveOpenPath_nonempty [of ev w t]
  by (auto simp: updateFD_def fdOK_def Let_def split: option.splits)

lemma updateFD_type: "updateFD w t ev = (t', ev', done') \<Longrightarrow>
    ev_Type ev' = ev_Type ev \<and> ev_TGID ev' = ev_TGID ev \<and> ev_Timestamp ev' = ev_Timestamp ev \<and>
    ev_Phase ev' = ev_Phase ev"
  by (auto simp: updateFD_def Let_def split: if_splits option.splits)

text \<open>
  C21. The descriptor table implements descriptor semantics: starting from a table with no empty path (the
  empty table is one, and every event keeps it so), each event changes the path map exactly as opening,
  closing and duplicating descriptors do, and a read of the table that only refreshes its
  time stamp changes no path.
\<close>

theorem updateFD_refines:
  assumes "fdOK t"
  shows "abstractFd (fst (updateFD w t ev)) = fdSpec (resolveOpenPath w t ev) ev (abstractFd t) \<and>
         fdOK (fst (updateFD w t ev)) \<and> abstractFd (snd (touchFD t tgid fd seen)) = abstractFd t"
proof -
  have none: "abstractFd t k = None" if "t k = None" for k using that by (simp add: abstractFd_def)
  have some: "fs_Path s \<noteq> [] \<and> abstractFd t k = Some (fs_Path s)" if "t k = Some s" for k s
    using assms that by (auto simp: fdOK_def abstractFd_def)
  have "abstractFd (fst (updateFD w t ev)) = fdSpec (resolveOpenPath w t ev) ev (abstractFd t)"
    by (auto simp: updateFD_def fdSpec_def Let_def abstractFd_upd abstractFd_del
        dest: some none split: option.splits)
  then show ?thesis using assms updateFD_fdOK by simp
qed

theorem updateFD_refines_witness:
  "let ev = zeroEvent\<lparr>ev_Type := EventOpen, ev_TGID := 7, ev_Arg1 := 3, ev_Path := ''/srv/a''\<rparr> in
   abstractFd (fst (updateFD emptyWorld Map.empty ev)) (fdk 7 3) = Some ''/srv/a''"
proof -
  let ?ev = "zeroEvent\<lparr>ev_Type := EventOpen, ev_TGID := 7, ev_Arg1 := 3, ev_Path := ''/srv/a''\<rparr>"
  have "abstractFd (fst (updateFD emptyWorld Map.empty ?ev)) =
      fdSpec (resolveOpenPath emptyWorld Map.empty ?ev) ?ev (abstractFd Map.empty)"
    using updateFD_refines [OF fdOK_empty] by blast
  then show ?thesis by (simp add: fdSpec_def resolveOpenPath_def zeroEvent_def)
qed

end
