(* ===== verification/ProcWindow.thy ===== *)
theory ProcWindow
  imports FdTable
begin

text \<open>
  The sliding window of \<open>internal/agent/agent.go\<close>: the per-process state, what an event adds to it,
  how it is pruned and how it is rebuilt from its history. A Go \<open>map[string]struct{}\<close> used as a
  set of paths is the list of its keys; scores are 64-bit integers.
\<close>

section \<open>State\<close>

definition maxRecentEvents :: nat where [go_consts]: "maxRecentEvents = 256"
definition maxTrackedPaths :: nat where [go_consts]: "maxTrackedPaths = 4096"
definition maxHistoryEvents :: nat where [go_consts]: "maxHistoryEvents = 4096"

record historyEvent =
  he_At :: time
  he_Type :: string
  he_Path :: string
  he_Path2 :: string
  he_Score :: int
  he_Reason :: string
  he_WriteCount :: nat
  he_FeaturePaths :: "string list"
  he_OpenWritePath :: string
  he_RenameSuffix :: bool
  he_FinalizeSignal :: bool

record procFeatures =
  ft_DistinctPaths :: nat
  ft_OpenWritePairs :: nat
  ft_RenameSuffixCount :: nat
  ft_EncryptionState :: string

record scoredEvent =
  se_At :: time
  se_Type :: string
  se_Path :: string
  se_Path2 :: string
  se_Score :: int
  se_Reason :: string

record procState =
  ps_TGID :: u32
  ps_PID :: u32
  ps_PPID :: u32
  ps_UID :: u32
  ps_Comm :: string
  ps_Score :: int
  ps_FirstSeen :: time
  ps_LastSeen :: time
  ps_EventCount :: nat
  ps_WriteCount :: nat
  ps_Blocked :: bool
  ps_BlockedAt :: time
  ps_Reasons :: "string list"
  ps_RecentEvents :: "scoredEvent list"
  ps_HighRateScored :: bool
  ps_Features :: procFeatures
  ps_seenPaths :: "string list"
  ps_openWritePaths :: "string list"
  ps_history :: "historyEvent list"

definition zeroFeatures :: procFeatures where
  "zeroFeatures = \<lparr>ft_DistinctPaths = 0, ft_OpenWritePairs = 0, ft_RenameSuffixCount = 0, ft_EncryptionState = []\<rparr>"

definition newProcState :: "u32 \<Rightarrow> time \<Rightarrow> procState" where
  "newProcState tgid seen =
     \<lparr>ps_TGID = tgid, ps_PID = 0, ps_PPID = 0, ps_UID = 0, ps_Comm = [], ps_Score = 0,
      ps_FirstSeen = seen, ps_LastSeen = 0, ps_EventCount = 0, ps_WriteCount = 0, ps_Blocked = False,
      ps_BlockedAt = 0, ps_Reasons = [], ps_RecentEvents = [], ps_HighRateScored = False,
      ps_Features = zeroFeatures, ps_seenPaths = [], ps_openWritePaths = [], ps_history = []\<rparr>"

section \<open>Operations\<close>

text \<open>One path into a tracked set: the test for the empty path, for a known path and for the cap.\<close>

definition trackPath :: "string list \<Rightarrow> string \<Rightarrow> string list" where
  "trackPath paths path = (if path = [] then paths else capInsert maxTrackedPaths path paths)"

definition clearWindow :: "procState \<Rightarrow> procState" where
  "clearWindow st = st\<lparr>ps_Score := 0, ps_EventCount := 0, ps_WriteCount := 0, ps_Reasons := [],
     ps_RecentEvents := [], ps_HighRateScored := False, ps_Features := zeroFeatures,
     ps_seenPaths := [], ps_openWritePaths := []\<rparr>"

definition scoredOf :: "historyEvent \<Rightarrow> scoredEvent" where
  "scoredOf e = \<lparr>se_At = he_At e, se_Type = he_Type e, se_Path = he_Path e, se_Path2 = he_Path2 e,
     se_Score = he_Score e, se_Reason = he_Reason e\<rparr>"

definition rebuildStep :: "procState \<Rightarrow> historyEvent \<Rightarrow> procState" where
  "rebuildStep st e =
     (if isZero (he_At e) then st
      else st\<lparr>
        ps_FirstSeen := (if isZero (ps_FirstSeen st) \<or> he_At e < ps_FirstSeen st then he_At e else ps_FirstSeen st),
        ps_Score := add64 (ps_Score st) (he_Score e),
        ps_EventCount := ps_EventCount st + 1,
        ps_WriteCount := ps_WriteCount st + he_WriteCount e,
        ps_RecentEvents := ps_RecentEvents st @ [scoredOf e],
        ps_Reasons := appendReason (ps_Reasons st) (he_Reason e),
        ps_seenPaths := foldl trackPath (ps_seenPaths st) (he_FeaturePaths e),
        ps_openWritePaths := trackPath (ps_openWritePaths st) (he_OpenWritePath e),
        ps_Features := (ps_Features st)\<lparr>ft_RenameSuffixCount :=
          ft_RenameSuffixCount (ps_Features st) + (if he_RenameSuffix e then 1 else 0)\<rparr>\<rparr>)"

definition rebuildFeatures :: "procState \<Rightarrow> procFeatures" where
  "rebuildFeatures st =
     (let pairs = length (ps_openWritePaths st); paths = length (ps_seenPaths st);
          enc = (if list_ex he_FinalizeSignal (ps_history st) then ''FINALIZE''
                 else ft_EncryptionState (ps_Features st))
      in (ps_Features st)\<lparr>ft_DistinctPaths := paths, ft_OpenWritePairs := pairs,
           ft_EncryptionState := (if enc = [] \<and> (3 \<le> pairs \<or> 3 \<le> paths) then ''STAGE'' else enc)\<rparr>)"

definition highRate :: "policy \<Rightarrow> procState \<Rightarrow> procState" where
  "highRate p st = st\<lparr>
     ps_Score := add64 (ps_Score st) (sc_HighRateBonus (pol_Scores p)),
     ps_HighRateScored := True,
     ps_Reasons := appendReason (ps_Reasons st) ''high-rate file mutation''\<rparr>"

definition rebuildWindow :: "policy \<Rightarrow> procState \<Rightarrow> procState" where
  "rebuildWindow p st =
     (let st1 = foldl rebuildStep ((clearWindow st)\<lparr>ps_FirstSeen := 0\<rparr>) (ps_history st);
          st2 = st1\<lparr>ps_Features := rebuildFeatures st1\<rparr>;
          st3 = (if 64 \<le> ps_WriteCount st2 then highRate p st2 else st2)
      in st3\<lparr>ps_RecentEvents := lastN maxRecentEvents (ps_RecentEvents st3)\<rparr>)"

definition inWindow :: "policy \<Rightarrow> time \<Rightarrow> historyEvent \<Rightarrow> bool" where
  "inWindow p now e \<longleftrightarrow> isZero (he_At e) \<or> timeSub now (he_At e) \<le> pol_Window p"

definition prune :: "policy \<Rightarrow> procState \<Rightarrow> time \<Rightarrow> procState" where
  "prune p st now =
     (if pol_Window p \<le> 0 then st
      else if ps_history st = [] then
        (if isZero (ps_FirstSeen st) \<or> timeSub now (ps_FirstSeen st) \<le> pol_Window p then st
         else (clearWindow st)\<lparr>ps_FirstSeen := now\<rparr>)
      else
        (let retained = filter (inWindow p now) (ps_history st) in
         if length retained = length (ps_history st) then st
         else rebuildWindow p (st\<lparr>ps_history := retained\<rparr>)))"

definition featurePaths :: "fdTable \<Rightarrow> event \<Rightarrow> string list" where
  "featurePaths t ev =
     (let fd = fdPath t (ev_TGID ev) (ev_Arg0 ev);
          rest = (if pickPath ev \<noteq> [] then [pickPath ev] else [])
      in
      if ev_Type ev = EventWrite \<or> ev_Type ev = EventScan \<or> ev_Type ev = EventMmap then
        (if fd \<noteq> [] then [fd] else rest)
      else if ev_Type ev = EventTruncate then
        (if ev_Path ev \<noteq> [] then [ev_Path ev] else if fd \<noteq> [] then [fd] else rest)
      else if ev_Type ev = EventRename \<or> ev_Type ev = EventLink then [ev_Path ev, ev_Path2 ev]
      else rest)"

definition finalizeSignal :: "policy \<Rightarrow> event \<Rightarrow> bool" where
  "finalizeSignal p ev \<longleftrightarrow>
     (ev_Type ev = EventRename \<and> hasSuspiciousExtension p (ev_Path2 ev)) \<or>
     (ev_Type ev = EventOpen \<and> (isRansomNote p (ev_Path ev) \<or> hasSuspiciousExtension p (ev_Path ev)))"

definition updateEncryptionState :: "policy \<Rightarrow> procState \<Rightarrow> event \<Rightarrow> procState" where
  "updateEncryptionState p st ev =
     (let f = ps_Features st in
      if ft_EncryptionState f = ''FINALIZE'' then st
      else if ev_Type ev = EventRename \<and> hasSuspiciousExtension p (ev_Path2 ev)
      then st\<lparr>ps_Features := f\<lparr>ft_EncryptionState := ''FINALIZE''\<rparr>\<rparr>
      else if ev_Type ev = EventOpen \<and> (isRansomNote p (ev_Path ev) \<or> hasSuspiciousExtension p (ev_Path ev))
      then st\<lparr>ps_Features := f\<lparr>ft_EncryptionState := ''FINALIZE''\<rparr>\<rparr>
      else if 3 \<le> ft_OpenWritePairs f \<or> 3 \<le> ft_DistinctPaths f
      then st\<lparr>ps_Features := f\<lparr>ft_EncryptionState := ''STAGE''\<rparr>\<rparr>
      else st)"

definition openWritePath :: "event \<Rightarrow> string" where
  "openWritePath ev =
     (if ev_Type ev = EventOpen \<and> isWriteOpen (ev_Arg0 ev) \<and> ev_Path ev \<noteq> [] then ev_Path ev else [])"

definition renameSuffix :: "policy \<Rightarrow> event \<Rightarrow> bool" where
  "renameSuffix p ev \<longleftrightarrow> ev_Type ev = EventRename \<and> hasSuspiciousExtension p (ev_Path2 ev)"

definition recordFeatures :: "policy \<Rightarrow> fdTable \<Rightarrow> procState \<Rightarrow> event \<Rightarrow> procState" where
  "recordFeatures p t st ev =
     (let seen = foldl trackPath (ps_seenPaths st) (featurePaths t ev);
          opened = trackPath (ps_openWritePaths st) (openWritePath ev);
          f = ps_Features st
      in updateEncryptionState p (st\<lparr>ps_seenPaths := seen, ps_openWritePaths := opened,
           ps_Features := f\<lparr>
             ft_RenameSuffixCount := ft_RenameSuffixCount f + (if renameSuffix p ev then 1 else 0),
             ft_DistinctPaths := length seen, ft_OpenWritePairs := length opened\<rparr>\<rparr>) ev)"

definition countsAsWrite :: "event \<Rightarrow> bool" where
  "countsAsWrite ev \<longleftrightarrow> ev_Type ev = EventWrite \<or> ev_Type ev = EventOpen"

definition historyOf :: "policy \<Rightarrow> fdTable \<Rightarrow> event \<Rightarrow> int \<Rightarrow> string \<Rightarrow> historyEvent" where
  "historyOf p t ev score reason = \<lparr>
     he_At = ev_Timestamp ev, he_Type = TypeName ev, he_Path = ev_Path ev, he_Path2 = ev_Path2 ev,
     he_Score = score, he_Reason = reason, he_WriteCount = (if countsAsWrite ev then 1 else 0),
     he_FeaturePaths = featurePaths t ev, he_OpenWritePath = openWritePath ev,
     he_RenameSuffix = renameSuffix p ev, he_FinalizeSignal = finalizeSignal p ev\<rparr>"

definition scoredEventOf :: "event \<Rightarrow> int \<Rightarrow> string \<Rightarrow> scoredEvent" where
  "scoredEventOf ev score reason = \<lparr>se_At = ev_Timestamp ev, se_Type = TypeName ev, se_Path = ev_Path ev,
     se_Path2 = ev_Path2 ev, se_Score = score, se_Reason = reason\<rparr>"

text \<open>
  What \<open>handle\<close> does to the window for a scored event: the counters and the high-rate bonus, then
  the history with its cap.
\<close>

definition addScored :: "policy \<Rightarrow> procState \<Rightarrow> event \<Rightarrow> int \<Rightarrow> string \<Rightarrow> procState" where
  "addScored p st ev score reason =
     (let st1 = st\<lparr>
            ps_Score := add64 (ps_Score st) score,
            ps_EventCount := ps_EventCount st + 1,
            ps_WriteCount := ps_WriteCount st + (if countsAsWrite ev then 1 else 0),
            ps_RecentEvents := lastN maxRecentEvents (ps_RecentEvents st @ [scoredEventOf ev score reason]),
            ps_Reasons := appendReason (ps_Reasons st) reason\<rparr>
      in if \<not> ps_HighRateScored st1 \<and> 64 \<le> ps_WriteCount st1 then highRate p st1 else st1)"

definition pushHistory :: "policy \<Rightarrow> procState \<Rightarrow> historyEvent \<Rightarrow> procState" where
  "pushHistory p st h =
     (let hist = ps_history st @ [h] in
      if maxHistoryEvents < length hist
      then rebuildWindow p (st\<lparr>ps_history := lastN maxHistoryEvents hist\<rparr>)
      else st\<lparr>ps_history := hist\<rparr>)"

definition recordScored :: "policy \<Rightarrow> fdTable \<Rightarrow> procState \<Rightarrow> event \<Rightarrow> int \<Rightarrow> string \<Rightarrow> procState" where
  "recordScored p t st ev score reason =
     pushHistory p (addScored p (recordFeatures p t st ev) ev score reason) (historyOf p t ev score reason)"

definition ruleMatches :: "procFeatures \<Rightarrow> rule \<Rightarrow> bool" where
  "ruleMatches f r =
     (let got = (if ru_Feature r = ''distinct_paths'' then Some (int (ft_DistinctPaths f))
                 else if ru_Feature r = ''open_write_pairs'' then Some (int (ft_OpenWritePairs f))
                 else if ru_Feature r = ''rename_suffix_count'' then Some (int (ft_RenameSuffixCount f))
                 else None)
      in case got of None \<Rightarrow> False
         | Some g \<Rightarrow>
             if ru_Op r = ''>'' then ru_Value r < g
             else if ru_Op r = ''>='' then ru_Value r \<le> g
             else if ru_Op r = ''=='' then g = ru_Value r
             else if ru_Op r = ''<='' then g \<le> ru_Value r
             else if ru_Op r = ''<'' then g < ru_Value r
             else False)"

definition matchRule :: "policy \<Rightarrow> procState \<Rightarrow> (string \<times> string) option" where
  "matchRule p st =
     (case List.find (ruleMatches (ps_Features st)) (pol_Rules p) of
        None \<Rightarrow> None
      | Some r \<Rightarrow> Some (if ru_Reason r = [] then ''feature rule'' else ru_Reason r, ru_Action r))"

text \<open>\<open>stateBlocked\<close> also clears an expired block; \<open>clock\<close> is \<open>time.Now()\<close>, used for a zero \<open>now\<close>.\<close>

definition stateBlocked :: "policy \<Rightarrow> time \<Rightarrow> procState \<Rightarrow> time \<Rightarrow> bool \<times> procState" where
  "stateBlocked p clock st now =
     (if \<not> ps_Blocked st then (False, st)
      else if pol_BlockTTL p \<le> 0 \<or> isZero (ps_BlockedAt st) then (True, st)
      else let now' = (if isZero now then clock else now) in
        if timeSub now' (ps_BlockedAt st) \<le> pol_BlockTTL p then (True, st)
        else (False, st\<lparr>ps_Blocked := False, ps_BlockedAt := 0\<rparr>))"

end
