(* ===== verification/HashCache.thy ===== *)
theory HashCache
  imports Blacklist "HOL-Library.AList"
begin

text \<open>
  \<open>internal/agent/hash_cache.go\<close>: digests of executables, keyed by path and valid while size,
  modification time and inode are those seen when the file was hashed. A Go map of entries is
  an association list with distinct keys; the arbitrary victim that \<open>range\<close> picks when the cache
  is full is an argument. What \<open>os.Stat\<close> and \<open>fileSHA256\<close> answer during the two hashing attempts
  is the list of attempts.
\<close>

section \<open>Model\<close>

record hashCacheEntry =
  ce_Size :: int
  ce_ModTime :: time
  ce_Hash :: string
  ce_Info :: "fileInfo option"

type_synonym hashCache = "(string \<times> hashCacheEntry) list"

definition maxHashCacheEntries :: nat where [go_consts]: "maxHashCacheEntries = 4096"

definition newHashCache :: hashCache where
  "newHashCache = []"

definition SameFile :: "fileInfo \<Rightarrow> fileInfo \<Rightarrow> bool" where
  "SameFile a b \<longleftrightarrow> fi_Node a = fi_Node b"

definition fresh :: "hashCacheEntry \<Rightarrow> fileInfo \<Rightarrow> bool" where
  "fresh entry stat \<longleftrightarrow> \<not> (ce_Size entry \<noteq> fi_Size stat \<or> ce_ModTime entry \<noteq> fi_ModTime stat \<or>
     (case ce_Info entry of None \<Rightarrow> False | Some info \<Rightarrow> \<not> SameFile info stat))"

definition get :: "hashCache \<Rightarrow> fileInfo option \<Rightarrow> string \<Rightarrow> string option \<times> hashCache" where
  "get c st path =
     (case st of None \<Rightarrow> (None, c)
      | Some stat \<Rightarrow>
          (case map_of c path of None \<Rightarrow> (None, c)
           | Some entry \<Rightarrow>
               if \<not> fresh entry stat then (None, AList.delete path c) else (Some (ce_Hash entry), c)))"

datatype hash_error = StatFailed | HashFailed | FileChanged

record hashAttempt =
  at_before :: "fileInfo option"
  at_hash :: "string option"
  at_after :: "fileInfo option"

definition evict :: "nat \<Rightarrow> string \<Rightarrow> hashCache \<Rightarrow> hashCache" where
  "evict victim path c =
     (if map_of c path = None \<and> maxHashCacheEntries \<le> length c
      then AList.delete (fst (c ! (victim mod length c))) c else c)"

definition store :: "nat \<Rightarrow> hashCache \<Rightarrow> string \<Rightarrow> fileInfo \<Rightarrow> string \<Rightarrow> hashCache" where
  "store victim c path after hash =
     AList.update path \<lparr>ce_Size = fi_Size after, ce_ModTime = fi_ModTime after, ce_Hash = hash,
       ce_Info = Some after\<rparr> (evict victim path c)"

fun attempts :: "nat \<Rightarrow> hashCache \<Rightarrow> string \<Rightarrow> hashAttempt list \<Rightarrow> (hash_error + string) \<times> hashCache" where
  "attempts victim c path [] = (Inl FileChanged, c)"
| "attempts victim c path (a # as) =
     (case at_before a of None \<Rightarrow> (Inl StatFailed, c) | Some before \<Rightarrow>
      (case at_hash a of None \<Rightarrow> (Inl HashFailed, c) | Some hash \<Rightarrow>
       (case at_after a of None \<Rightarrow> (Inl StatFailed, c) | Some after \<Rightarrow>
        if fi_Size before \<noteq> fi_Size after \<or> fi_ModTime before \<noteq> fi_ModTime after \<or> \<not> SameFile before after
        then attempts victim c path as
        else (Inr hash, store victim c path after hash))))"

definition compute ::
  "nat \<Rightarrow> hashCache \<Rightarrow> fileInfo option \<Rightarrow> string \<Rightarrow> hashAttempt \<times> hashAttempt \<Rightarrow> (hash_error + string) \<times> hashCache" where
  "compute victim c st path as =
     (case get c st path of
        (Some hash, c') \<Rightarrow> (Inr hash, c')
      | (None, c') \<Rightarrow> attempts victim c' path [fst as, snd as])"

section \<open>The cache stays well formed and bounded\<close>

definition cacheOK :: "hashCache \<Rightarrow> bool" where
  "cacheOK c \<longleftrightarrow> distinct (map fst c) \<and> length c \<le> maxHashCacheEntries"

lemma cacheOK_new: "cacheOK newHashCache"
  by (simp add: cacheOK_def newHashCache_def)

lemma cacheOK_delete: "cacheOK c \<Longrightarrow> cacheOK (AList.delete k c)"
  using length_delete_le [of k c] by (auto simp: cacheOK_def distinct_delete)

lemma get_cacheOK: "cacheOK c \<Longrightarrow> cacheOK (snd (get c st path))"
  by (auto simp: get_def cacheOK_delete split: option.splits)

lemma length_update_new: "map_of c k = None \<Longrightarrow> length (AList.update k v c) = Suc (length c)"
  by (induction c) (auto split: if_splits)

lemma length_update_old: "map_of c k \<noteq> None \<Longrightarrow> length (AList.update k v c) = length c"
  by (induction c) (auto split: if_splits)

lemma length_delete_present:
  "distinct (map fst c) \<Longrightarrow> k \<in> fst ` set c \<Longrightarrow> Suc (length (AList.delete k c)) = length c"
proof (induction c)
  case Nil
  then show ?case by simp
next
  case (Cons x c)
  show ?case
  proof (cases "fst x = k")
    case True
    with Cons.prems have "k \<notin> fst ` set c" by auto
    then have "AList.delete k c = c" by (simp add: delete_idem)
    with True show ?thesis by (cases x) (simp add: AList.delete_eq)
  next
    case False
    with Cons show ?thesis by (cases x) auto
  qed
qed

lemma evict_room:
  assumes "cacheOK c" and "map_of c path = None"
  shows "length (evict victim path c) < maxHashCacheEntries \<and> map_of (evict victim path c) path = None"
proof (cases "maxHashCacheEntries \<le> length c")
  case True
  then have "c \<noteq> []" by (auto simp: maxHashCacheEntries_def)
  then have "victim mod length c < length c" by simp
  then have "fst (c ! (victim mod length c)) \<in> fst ` set c" by simp
  from length_delete_present [OF _ this] assms True show ?thesis
    by (auto simp: evict_def cacheOK_def delete_conv' AList.map_of_delete)
next
  case False
  with assms show ?thesis by (auto simp: evict_def)
qed

lemma store_cacheOK:
  assumes "cacheOK c"
  shows "cacheOK (store victim c path after hash)"
proof (cases "map_of c path")
  case None
  with evict_room [OF assms None, of victim] assms show ?thesis
    by (auto simp: store_def cacheOK_def length_update_new distinct_update evict_def distinct_delete)
next
  case (Some e)
  with assms show ?thesis
    by (auto simp: store_def cacheOK_def evict_def length_update_old distinct_update)
qed

lemma attempts_cacheOK: "cacheOK c \<Longrightarrow> cacheOK (snd (attempts victim c path as))"
  by (induction as) (auto simp: store_cacheOK split: option.splits)

lemma compute_cacheOK: "cacheOK c \<Longrightarrow> cacheOK (snd (compute victim c st path as))"
  using get_cacheOK [of c st path] attempts_cacheOK [of "snd (get c st path)" victim path "[fst as, snd as]"]
  by (auto simp: compute_def simp del: attempts.simps split: prod.splits option.splits)

text \<open>
  The hash cache never holds two entries for a path and never more than 4096 entries: the empty
  cache is such a cache and both operations keep it so, whichever entry is evicted.
\<close>

lemma hashCache_bounded:
  "cacheOK newHashCache \<and>
   (cacheOK c \<longrightarrow> cacheOK (snd (get c st path)) \<and> cacheOK (snd (compute victim c st path as)))"
  using cacheOK_new get_cacheOK compute_cacheOK by blast

lemma hashCache_bounded_witness:
  "cacheOK (snd (compute 0 newHashCache None ''/bin/x''
     (\<lparr>at_before = None, at_hash = None, at_after = None\<rparr>, \<lparr>at_before = None, at_hash = None, at_after = None\<rparr>)))"
  using hashCache_bounded [of newHashCache None "''/bin/x''" 0] by blast

section \<open>A hit is never stale\<close>

lemma store_lookup: "map_of (store victim c path after hash) path =
    Some \<lparr>ce_Size = fi_Size after, ce_ModTime = fi_ModTime after, ce_Hash = hash, ce_Info = Some after\<rparr>"
  by (simp add: store_def update_conv')

lemma attempts_Inr:
  "attempts victim c path as = (Inr h, c') \<Longrightarrow>
   \<exists>a \<in> set as. \<exists>before after. at_before a = Some before \<and> at_after a = Some after \<and> at_hash a = Some h \<and>
     fi_Size before = fi_Size after \<and> fi_ModTime before = fi_ModTime after \<and> SameFile before after \<and>
     c' = store victim c path after h"
  by (induction as) (auto split: option.splits if_splits)

text \<open>
  C22. A digest that \<open>compute\<close> returns was either cached for a file of the same size, modification time and
  inode, or computed between two equal \<open>stat\<close> results; in the second case a later \<open>get\<close> returns it
  exactly while the file's \<open>stat\<close> is unchanged, and drops the entry otherwise.
\<close>

theorem compute_fresh:
  assumes "compute victim c st path as = (Inr h, c')"
  shows "(\<exists>stat entry. st = Some stat \<and> map_of c path = Some entry \<and> fresh entry stat \<and>
            ce_Hash entry = h \<and> c' = c) \<or>
         (\<exists>a \<in> {fst as, snd as}. \<exists>after. at_hash a = Some h \<and> at_after a = Some after \<and>
            (\<exists>before. at_before a = Some before \<and> fi_Size before = fi_Size after \<and>
               fi_ModTime before = fi_ModTime after \<and> SameFile before after) \<and>
            (\<forall>stat. fst (get c' (Some stat) path) =
               (if fi_Size stat = fi_Size after \<and> fi_ModTime stat = fi_ModTime after \<and> SameFile after stat
                then Some h else None)))"
proof (cases "get c st path")
  case (Pair r d)
  show ?thesis
  proof (cases r)
    case (Some h')
    with Pair assms have "st \<noteq> None" "h' = h" "c' = c"
      by (auto simp: compute_def get_def split: option.splits if_splits)
    with Some Pair show ?thesis by (auto simp: get_def split: option.splits if_splits)
  next
    case None
    with Pair assms have "attempts victim d path [fst as, snd as] = (Inr h, c')"
      by (simp add: compute_def)
    from attempts_Inr [OF this] obtain a before after where
      a: "a \<in> {fst as, snd as}" "at_before a = Some before" "at_after a = Some after" "at_hash a = Some h"
      "fi_Size before = fi_Size after" "fi_ModTime before = fi_ModTime after" "SameFile before after"
      and c': "c' = store victim d path after h" by auto
    have "fst (get c' (Some stat) path) =
        (if fi_Size stat = fi_Size after \<and> fi_ModTime stat = fi_ModTime after \<and> SameFile after stat
         then Some h else None)" for stat
      by (auto simp: get_def c' store_lookup fresh_def)
    with a show ?thesis by blast
  qed
qed

definition plainFile :: fileInfo where
  "plainFile = \<lparr>fi_Size = 3, fi_ModTime = 9, fi_Node = (1, 2)\<rparr>"

theorem compute_fresh_witness:
  "\<exists>c'. compute 0 newHashCache None ''/bin/x''
      (\<lparr>at_before = Some plainFile, at_hash = Some ''ab'', at_after = Some plainFile\<rparr>,
       \<lparr>at_before = None, at_hash = None, at_after = None\<rparr>) = (Inr ''ab'', c') \<and>
    fst (get c' (Some plainFile) ''/bin/x'') = Some ''ab''"
proof -
  let ?as = "(\<lparr>at_before = Some plainFile, at_hash = Some ''ab'', at_after = Some plainFile\<rparr>,
    \<lparr>at_before = None, at_hash = None, at_after = None\<rparr>)"
  obtain c' where c': "compute 0 newHashCache None ''/bin/x'' ?as = (Inr ''ab'', c')"
    by (simp add: compute_def get_def SameFile_def)
  from compute_fresh [OF c'] have "fst (get c' (Some plainFile) ''/bin/x'') = Some ''ab''"
    by (auto simp: newHashCache_def SameFile_def)
  with c' show ?thesis by blast
qed

end
