(* ===== verification/Agent.thy ===== *)
theory Agent
  imports ProcWindow HashCache
begin

text \<open>
  \<open>internal/agent/agent.go\<close>: the agent's state and its event handler. A call sees the outside through an
  \<open>env\<close>: the clock, the file system, the outcome of \<open>Sensor.BlockTGID\<close> and what hashing a file observes.
  Alerts, block-map writes and signals are appended to the ghost field \<open>ag_trace\<close>; log lines without an
  alert are not modelled. Within one call the clock is one instant.
\<close>

section \<open>State\<close>

record hashJob =
  hj_TGID :: u32
  hj_PID :: u32
  hj_PPID :: u32
  hj_UID :: u32
  hj_Comm :: string
  hj_Path :: string
  hj_Reason :: string

record cachedProcInfo =
  cp_Info :: procInfo
  cp_LastSeen :: time
  cp_NeedsRefresh :: bool

record metrics =
  mt_SchemaVersion :: string
  mt_Kind :: string
  mt_Alerts :: u64
  mt_Blocks :: u64
  mt_BlacklistMatches :: u64
  mt_RingbufDropsTotal :: u64
  mt_CaptureGapsTotal :: u64

record alert =
  al_SchemaVersion :: string
  al_Kind :: string
  al_At :: time
  al_Policy :: string
  al_Action :: string
  al_DryRun :: bool
  al_TGID :: u32
  al_PID :: u32
  al_PPID :: u32
  al_UID :: u32
  al_Comm :: string
  al_Score :: int
  al_Threshold :: int
  al_Reasons :: "string list"
  al_Features :: procFeatures
  al_Events :: "scoredEvent list"

datatype effect = Alert alert | PutBlock u32 u32 duration | SigKill u32 | MetricsLine metrics

record agent =
  ag_policy :: policy
  ag_DryRun :: bool
  ag_hasSensor :: bool
  ag_procs :: "u32 \<rightharpoonup> procState"
  ag_fdPaths :: fdTable
  ag_procInfos :: "u32 \<rightharpoonup> cachedProcInfo"
  ag_procReader :: "(u32 \<Rightarrow> procInfo option) option"
  ag_blocked :: "u32 \<rightharpoonup> time"
  ag_blacklist :: "blacklist option"
  ag_hashes :: hashCache
  ag_hashQueue :: "hashJob list"
  ag_lastDrops :: u64
  ag_lastCaptureGaps :: u64
  ag_metrics :: metrics
  ag_trace :: "effect list"

record env =
  en_now :: time
  en_world :: world
  en_block :: "u32 \<Rightarrow> u32 \<Rightarrow> duration \<Rightarrow> bool"
  en_attempts :: "string \<Rightarrow> hashAttempt \<times> hashAttempt"
  en_victim :: nat

definition hashQueueCap :: nat where [go_consts]: "hashQueueCap = 1024"

definition New :: "world \<Rightarrow> policy \<Rightarrow> bool \<Rightarrow> bool \<Rightarrow> agent" where
  "New w p dryRun hasSensor =
     \<lparr>ag_policy = p, ag_DryRun = dryRun, ag_hasSensor = hasSensor, ag_procs = Map.empty,
      ag_fdPaths = Map.empty, ag_procInfos = Map.empty, ag_procReader = None, ag_blocked = Map.empty,
      ag_blacklist = (case newBlacklist w p of Inl e \<Rightarrow> None | Inr b \<Rightarrow> Some b),
      ag_hashes = newHashCache, ag_hashQueue = [], ag_lastDrops = 0, ag_lastCaptureGaps = 0,
      ag_metrics = \<lparr>mt_SchemaVersion = ''v1'', mt_Kind = ''ebpffls_metrics'', mt_Alerts = 0, mt_Blocks = 0,
        mt_BlacklistMatches = 0, mt_RingbufDropsTotal = 0, mt_CaptureGapsTotal = 0\<rparr>,
      ag_trace = []\<rparr>"

section \<open>Effects\<close>

definition emit :: "effect \<Rightarrow> agent \<Rightarrow> agent" where
  "emit e a = a\<lparr>ag_trace := ag_trace a @ [e]\<rparr>"

definition countAlert :: "agent \<Rightarrow> agent" where
  "countAlert a = a\<lparr>ag_metrics := (ag_metrics a)\<lparr>mt_Alerts := mt_Alerts (ag_metrics a) + 1\<rparr>\<rparr>"

definition countBlock :: "agent \<Rightarrow> agent" where
  "countBlock a = a\<lparr>ag_metrics := (ag_metrics a)\<lparr>mt_Blocks := mt_Blocks (ag_metrics a) + 1\<rparr>\<rparr>"

definition countBlacklistMatch :: "agent \<Rightarrow> agent" where
  "countBlacklistMatch a =
     a\<lparr>ag_metrics := (ag_metrics a)\<lparr>mt_BlacklistMatches := mt_BlacklistMatches (ag_metrics a) + 1\<rparr>\<rparr>"

definition rememberBlocked :: "env \<Rightarrow> agent \<Rightarrow> u32 \<Rightarrow> agent" where
  "rememberBlocked en a tgid = a\<lparr>ag_blocked := (ag_blocked a)(tgid \<mapsto> en_now en)\<rparr>"

definition enforceTGID :: "env \<Rightarrow> agent \<Rightarrow> u32 \<Rightarrow> u32 \<Rightarrow> agent" where
  "enforceTGID en a tgid action =
     (if ag_DryRun a then a
      else if \<not> ag_hasSensor a then a
      else if \<not> en_block en tgid action (pol_BlockTTL (ag_policy a)) then a
      else let a1 = rememberBlocked en (emit (PutBlock tgid action (pol_BlockTTL (ag_policy a))) a) tgid
           in if action = BlockActionKill then emit (SigKill tgid) a1 else a1)"

definition alertOf :: "env \<Rightarrow> agent \<Rightarrow> procState \<Rightarrow> string \<Rightarrow> bool \<Rightarrow> alert" where
  "alertOf en a st action dryRun =
     \<lparr>al_SchemaVersion = ''v1'', al_Kind = ''ransomware_alert'', al_At = en_now en,
      al_Policy = pol_Name (ag_policy a), al_Action = action, al_DryRun = dryRun, al_TGID = ps_TGID st,
      al_PID = ps_PID st, al_PPID = ps_PPID st, al_UID = ps_UID st, al_Comm = ps_Comm st,
      al_Score = ps_Score st, al_Threshold = pol_Threshold (ag_policy a), al_Reasons = ps_Reasons st,
      al_Features = ps_Features st, al_Events = ps_RecentEvents st\<rparr>"

definition emitAlert :: "env \<Rightarrow> agent \<Rightarrow> procState \<Rightarrow> string \<Rightarrow> bool \<Rightarrow> agent" where
  "emitAlert en a st action dryRun = countAlert (emit (Alert (alertOf en a st action dryRun)) a)"

definition alertAndEnforce :: "env \<Rightarrow> agent \<Rightarrow> procState \<Rightarrow> string \<Rightarrow> agent" where
  "alertAndEnforce en a st action0 =
     (let action = normalizeAction (ToLower (TrimSpace action0));
          a1 = emitAlert en a st action (ag_DryRun a)
      in if ag_DryRun a \<or> action = ''log'' then
           (if ag_DryRun a \<and> action \<noteq> ''log'' then rememberBlocked en a1 (ps_TGID st) else a1)
         else enforceTGID en (countBlock a1) (ps_TGID st) (blockAction action))"

definition blacklistAlert ::
  "env \<Rightarrow> agent \<Rightarrow> u32 \<Rightarrow> u32 \<Rightarrow> u32 \<Rightarrow> u32 \<Rightarrow> string \<Rightarrow> string \<Rightarrow> string \<Rightarrow> string \<Rightarrow> alert" where
  "blacklistAlert en a tgid pid ppid uid comm path hash reason =
     \<lparr>al_SchemaVersion = ''v1'', al_Kind = ''ransomware_alert'', al_At = en_now en,
      al_Policy = pol_Name (ag_policy a), al_Action = ''kill'', al_DryRun = ag_DryRun a, al_TGID = tgid,
      al_PID = pid, al_PPID = ppid, al_UID = uid, al_Comm = comm,
      al_Score = pol_Threshold (ag_policy a), al_Threshold = pol_Threshold (ag_policy a),
      al_Reasons = [reason], al_Features = zeroFeatures,
      al_Events = [\<lparr>se_At = en_now en, se_Type = ''blacklist'', se_Path = path, se_Path2 = hash,
        se_Score = pol_Threshold (ag_policy a), se_Reason = reason\<rparr>]\<rparr>"

definition enforceBlacklist ::
  "env \<Rightarrow> agent \<Rightarrow> u32 \<Rightarrow> u32 \<Rightarrow> u32 \<Rightarrow> u32 \<Rightarrow> string \<Rightarrow> string \<Rightarrow> string \<Rightarrow> string \<Rightarrow> agent" where
  "enforceBlacklist en a tgid pid ppid uid comm path hash reason =
     (let a1 = countBlacklistMatch (countAlert
            (emit (Alert (blacklistAlert en a tgid pid ppid uid comm path hash reason)) a))
      in if ag_DryRun a then a1
         else enforceTGID en (countBlock a1) tgid BlockActionKill)"

section \<open>Blocked processes\<close>

definition isBlocked :: "env \<Rightarrow> agent \<Rightarrow> u32 \<Rightarrow> bool \<times> agent" where
  "isBlocked en a tgid =
     (if tgid = 0 then (False, a)
      else case ag_blocked a tgid of
        None \<Rightarrow> (False, a)
      | Some seen \<Rightarrow>
          (if 0 < pol_BlockTTL (ag_policy a) \<and> \<not> isZero seen \<and>
              pol_BlockTTL (ag_policy a) < timeSub (en_now en) seen
           then (False, a\<lparr>ag_blocked := (ag_blocked a)(tgid := None)\<rparr>)
           else (True, a)))"

definition blockedLineage :: "env \<Rightarrow> agent \<Rightarrow> event \<Rightarrow> bool \<times> agent" where
  "blockedLineage en a ev =
     (case isBlocked en a (ev_TGID ev) of
        (True, a1) \<Rightarrow> (True, a1)
      | (False, a1) \<Rightarrow> isBlocked en a1 (ev_PPID ev))"

section \<open>Process identity\<close>

definition readProcessInfo :: "env \<Rightarrow> agent \<Rightarrow> u32 \<Rightarrow> procInfo option" where
  "readProcessInfo en a tgid =
     (case ag_procReader a of Some f \<Rightarrow> f tgid | None \<Rightarrow> readProc (en_world en) tgid)"

definition procInfoOf :: "env \<Rightarrow> agent \<Rightarrow> u32 \<Rightarrow> time \<Rightarrow> procInfo option \<times> agent" where
  "procInfoOf en a tgid seen0 =
     (let seen = (if isZero seen0 then en_now en else seen0);
          keep = (\<lambda>c. a\<lparr>ag_procInfos := (ag_procInfos a)(tgid \<mapsto> c\<lparr>cp_LastSeen := seen\<rparr>)\<rparr>);
          cached = ag_procInfos a tgid
      in case cached of
           Some c \<Rightarrow>
             (if pi_Exe (cp_Info c) \<noteq> [] \<and> \<not> cp_NeedsRefresh c then (Some (cp_Info c), keep c)
              else case readProcessInfo en a tgid of
                None \<Rightarrow> (if \<not> cp_NeedsRefresh c then (Some (cp_Info c), keep c) else (None, a))
              | Some info \<Rightarrow> (Some info, a\<lparr>ag_procInfos := (ag_procInfos a)(tgid \<mapsto>
                  \<lparr>cp_Info = info, cp_LastSeen = seen, cp_NeedsRefresh = cp_NeedsRefresh c\<rparr>)\<rparr>))
         | None \<Rightarrow>
             (case readProcessInfo en a tgid of
                None \<Rightarrow> (None, a)
              | Some info \<Rightarrow> (Some info, a\<lparr>ag_procInfos := (ag_procInfos a)(tgid \<mapsto>
                  \<lparr>cp_Info = info, cp_LastSeen = seen, cp_NeedsRefresh = False\<rparr>)\<rparr>)))"

definition zeroProcInfo :: procInfo where
  "zeroProcInfo = \<lparr>pi_PID = 0, pi_TGID = 0, pi_UID = 0, pi_Comm = [], pi_Exe = [], pi_Cgroup = []\<rparr>"

definition cacheExecInfo :: "env \<Rightarrow> agent \<Rightarrow> event \<Rightarrow> agent" where
  "cacheExecInfo en a ev =
     (let seen = (if isZero (ev_Timestamp ev) then en_now en else ev_Timestamp ev);
          tgid = ev_TGID ev;
          info0 = (case ag_procInfos a tgid of None \<Rightarrow> zeroProcInfo | Some c \<Rightarrow> cp_Info c);
          a1 = a\<lparr>ag_procInfos := (ag_procInfos a)(tgid \<mapsto>
                 \<lparr>cp_Info = info0, cp_LastSeen = seen, cp_NeedsRefresh = True\<rparr>)\<rparr>
      in if ev_Phase ev \<noteq> PhaseSuccess \<or> ev_Source ev \<noteq> SourceSched then a1
         else case readProcessInfo en a1 tgid of
           None \<Rightarrow> a1
         | Some info \<Rightarrow>
             (if pi_Exe info = [] then a1
              else a1\<lparr>ag_procInfos := (ag_procInfos a1)(tgid \<mapsto>
                     \<lparr>cp_Info = info, cp_LastSeen = seen, cp_NeedsRefresh = False\<rparr>)\<rparr>))"

definition isTrustedEvent :: "env \<Rightarrow> agent \<Rightarrow> event \<Rightarrow> bool \<times> agent" where
  "isTrustedEvent en a ev =
     (let p = ag_policy a in
      if \<not> trustedComm p (ev_Comm ev) then (False, a)
      else if pol_TrustedExePaths p \<noteq> [] then
        (case procInfoOf en a (ev_TGID ev) (ev_Timestamp ev) of
           (Some info, a1) \<Rightarrow> (isTrustedIdentityMatched p (pi_Exe info) (ev_UID ev), a1)
         | (None, a1) \<Rightarrow> (isTrustedIdentityMatched p [] (ev_UID ev), a1))
      else (isTrustedIdentityMatched p [] (ev_UID ev), a))"

definition isTrustedProc :: "policy \<Rightarrow> procInfo \<Rightarrow> bool" where
  "isTrustedProc p info =
     (if \<not> trustedComm p (pi_Comm info) then False
      else isTrustedIdentityMatched p (pi_Exe info) (pi_UID info))"

definition procInPolicyCgroup :: "policy \<Rightarrow> procInfo \<Rightarrow> bool" where
  "procInPolicyCgroup p info =
     (if \<not> hasConfiguredPaths (pol_CgroupPaths p) then True
      else matchesCgroupPath (pi_Cgroup info) (pol_CgroupPaths p))"

definition inPolicyCgroup :: "env \<Rightarrow> agent \<Rightarrow> u32 \<Rightarrow> bool" where
  "inPolicyCgroup en a tgid =
     (if \<not> hasConfiguredPaths (pol_CgroupPaths (ag_policy a)) then True
      else case readProc (en_world en) tgid of
        None \<Rightarrow> False
      | Some info \<Rightarrow> procInPolicyCgroup (ag_policy a) info)"

section \<open>Blacklist lookups\<close>

definition enqueueHash :: "agent \<Rightarrow> hashJob \<Rightarrow> agent" where
  "enqueueHash a job =
     (if length (ag_hashQueue a) < hashQueueCap then a\<lparr>ag_hashQueue := ag_hashQueue a @ [job]\<rparr> else a)"

definition blacklistedEvent :: "env \<Rightarrow> agent \<Rightarrow> event \<Rightarrow> (bool \<times> string) \<times> agent" where
  "blacklistedEvent en a ev =
     (case ag_blacklist a of
        None \<Rightarrow> ((False, []), a)
      | Some bl \<Rightarrow>
          (if empty bl \<or> ev_Type ev \<noteq> EventExec \<or> ev_Path ev = [] then ((False, []), a)
           else case get (ag_hashes a) (w_stat (en_world en) (ev_Path ev)) (ev_Path ev) of
             (Some hash, c) \<Rightarrow> ((matchHash bl hash, hash), a\<lparr>ag_hashes := c\<rparr>)
           | (None, c) \<Rightarrow>
               ((False, []), enqueueHash (a\<lparr>ag_hashes := c\<rparr>)
                  \<lparr>hj_TGID = ev_TGID ev, hj_PID = ev_PID ev, hj_PPID = ev_PPID ev, hj_UID = ev_UID ev,
                   hj_Comm = ev_Comm ev, hj_Path = ev_Path ev, hj_Reason = ''blacklisted exec''\<rparr>)))"

section \<open>Sensitive events\<close>

definition fdOrPick :: "agent \<Rightarrow> event \<Rightarrow> string \<times> agent" where
  "fdOrPick a ev =
     (if pickPath ev = [] then
        (let (path, t) = touchFD (ag_fdPaths a) (ev_TGID ev) (ev_Arg0 ev) (ev_Timestamp ev)
         in (path, a\<lparr>ag_fdPaths := t\<rparr>))
      else (pickPath ev, a))"

definition backupSensitiveEvent :: "agent \<Rightarrow> event \<Rightarrow> bool \<times> agent" where
  "backupSensitiveEvent a ev =
     (let p = ag_policy a; path = pickPath ev; t = ev_Type ev in
      if t = EventOpen then (isWriteOpen (ev_Arg0 ev) \<and> inBackupScope p path, a)
      else if t = EventWrite \<or> t = EventTruncate then
        (let (path', a1) = fdOrPick a ev in (inBackupScope p path', a1))
      else if t = EventRename then (inBackupScope p (ev_Path ev) \<or> inBackupScope p (ev_Path2 ev), a)
      else if t = EventLink then (inBackupScope p (ev_Path ev) \<or> inBackupScope p (ev_Path2 ev), a)
      else if t = EventUnlink then (inBackupScope p path, a)
      else (False, a))"

definition selfProtectSensitiveEvent :: "agent \<Rightarrow> event \<Rightarrow> bool \<times> agent" where
  "selfProtectSensitiveEvent a ev =
     (let p = ag_policy a; path = pickPath ev; t = ev_Type ev in
      if t = EventOpen then (isWriteOpen (ev_Arg0 ev) \<and> inSelfProtectScope p path, a)
      else if t = EventWrite \<or> t = EventMmap \<or> t = EventTruncate then
        (let (path', a1) = fdOrPick a ev in (inSelfProtectScope p path', a1))
      else if t = EventRename then (inSelfProtectScope p (ev_Path ev) \<or> inSelfProtectScope p (ev_Path2 ev), a)
      else if t = EventLink then (inSelfProtectScope p (ev_Path ev) \<or> inSelfProtectScope p (ev_Path2 ev), a)
      else if t = EventUnlink then (inSelfProtectScope p path, a)
      else (False, a))"

definition immediateIOC :: "policy \<Rightarrow> event \<Rightarrow> string" where
  "immediateIOC p ev =
     (if ev_Type ev = EventOpen then
        (if \<not> isWriteOpen (ev_Arg0 ev) \<or> \<not> inProtectedScope p (ev_Path ev) then []
         else if isRansomNote p (ev_Path ev) then ''protected ransom note creation''
         else if hasSuspiciousExtension p (ev_Path ev) then ''protected suspicious extension write''
         else [])
      else if ev_Type ev = EventRename then
        (if \<not> inProtectedScope p (ev_Path2 ev) \<or> \<not> hasSuspiciousExtension p (ev_Path2 ev) then []
         else ''protected rename to suspicious extension'')
      else [])"

section \<open>Scoring\<close>

definition touch :: "agent \<Rightarrow> event \<Rightarrow> string \<times> agent" where
  "touch a ev =
     (let (path, t) = touchFD (ag_fdPaths a) (ev_TGID ev) (ev_Arg0 ev) (ev_Timestamp ev)
      in (path, a\<lparr>ag_fdPaths := t\<rparr>))"

definition hasActivity :: "agent \<Rightarrow> u32 \<Rightarrow> bool" where
  "hasActivity a tgid =
     (case ag_procs a tgid of None \<Rightarrow> False | Some st \<Rightarrow> ft_DistinctPaths (ps_Features st) \<noteq> 0)"

definition scoreOpen :: "policy \<Rightarrow> event \<Rightarrow> int \<times> string" where
  "scoreOpen p ev =
     (let sc = pol_Scores p; path = pickPath ev in
      if inSelfProtectScope p path \<and> isWriteOpen (ev_Arg0 ev) then (sc_SelfProtect sc, ''self-protect write-open'')
      else if \<not> inProtectedScope p path \<and> \<not> inBackupScope p path then (0, [])
      else if isWriteOpen (ev_Arg0 ev) then
        (if isRansomNote p path then (sc_RansomNote sc, ''ransom note creation'')
         else if hasSuspiciousExtension p path then (sc_SuspiciousExtension sc, ''suspicious extension write'')
         else (sc_Write sc, ''write-open in protected scope''))
      else (0, []))"

definition scoreFd :: "policy \<Rightarrow> u32 \<Rightarrow> string \<Rightarrow> int \<times> string" where
  "scoreFd p typ path =
     (let sc = pol_Scores p in
      if path = [] then (0, [])
      else if typ = EventScan then
        (if inBackupScope p path then (add64 (sc_Scan sc) (sc_BackupDestroy sc), ''directory scan on backup fd'')
         else if inProtectedScope p path then (sc_Scan sc, ''directory scan in protected scope'')
         else (0, []))
      else if typ = EventMmap then
        (if inSelfProtectScope p path then (sc_SelfProtect sc, ''self-protect writable mmap'')
         else if inBackupScope p path then (add64 (sc_Mmap sc) (sc_BackupDestroy sc), ''writable mmap on backup fd'')
         else if inProtectedScope p path then (sc_Mmap sc, ''writable mmap in protected scope'')
         else (0, []))
      else
        (if inSelfProtectScope p path then (sc_SelfProtect sc, ''self-protect fd write'')
         else if inBackupScope p path then (add64 (sc_Write sc) (sc_BackupDestroy sc), ''write syscall on backup fd'')
         else if inProtectedScope p path then (sc_Write sc, ''write syscall on protected fd'')
         else (0, [])))"

definition scoreRename :: "policy \<Rightarrow> event \<Rightarrow> int \<times> string" where
  "scoreRename p ev =
     (let sc = pol_Scores p; x = ev_Path ev; y = ev_Path2 ev in
      if inSelfProtectScope p x \<or> inSelfProtectScope p y then (sc_SelfProtect sc, ''self-protect rename'')
      else if inProtectedScope p x \<or> inProtectedScope p y \<or> inBackupScope p x \<or> inBackupScope p y then
        (if hasSuspiciousExtension p y
         then (add64 (sc_Rename sc) (sc_SuspiciousExtension sc), ''rename to suspicious extension'')
         else (sc_Rename sc, ''rename in protected scope''))
      else (0, []))"

definition scoreLink :: "policy \<Rightarrow> event \<Rightarrow> int \<times> string" where
  "scoreLink p ev =
     (let sc = pol_Scores p; x = ev_Path ev; y = ev_Path2 ev;
          oper = (if ev_Arg0 ev = 1 then ''symlink'' else ''link'') in
      if inSelfProtectScope p x \<or> inSelfProtectScope p y then (sc_SelfProtect sc, ''self-protect '' @ oper)
      else if inBackupScope p x \<or> inBackupScope p y
      then (add64 (sc_Rename sc) (sc_BackupDestroy sc), oper @ '' in backup scope'')
      else if inProtectedScope p x \<or> inProtectedScope p y then (sc_Rename sc, oper @ '' in protected scope'')
      else (0, []))"

definition scoreUnlink :: "policy \<Rightarrow> string \<Rightarrow> int \<times> string" where
  "scoreUnlink p path =
     (let sc = pol_Scores p in
      if inSelfProtectScope p path then (sc_SelfProtect sc, ''self-protect deletion'')
      else if inBackupScope p path then (add64 (sc_Unlink sc) (sc_BackupDestroy sc), ''backup deletion'')
      else if inProtectedScope p path then (sc_Unlink sc, ''unlink in protected scope'')
      else (0, []))"

definition scoreTruncate :: "policy \<Rightarrow> event \<Rightarrow> string \<Rightarrow> int \<times> string" where
  "scoreTruncate p ev path =
     (let sc = pol_Scores p; onFd = (ev_Path ev = []) in
      if inSelfProtectScope p path
      then (sc_SelfProtect sc, if onFd then ''self-protect fd truncation'' else ''self-protect truncation'')
      else if inBackupScope p path
      then (add64 (sc_Truncate sc) (sc_BackupDestroy sc), if onFd then ''backup fd truncation'' else ''backup truncation'')
      else if inProtectedScope p path
      then (sc_Truncate sc, if onFd then ''ftruncate on protected fd'' else ''truncate in protected scope'')
      else (0, []))"

definition score :: "env \<Rightarrow> agent \<Rightarrow> event \<Rightarrow> (int \<times> string) \<times> agent" where
  "score en a ev =
     (let p = ag_policy a; typ = ev_Type ev; path = pickPath ev in
      if typ = EventExec then
        (let (b, a1) = blockedLineage en a ev in
         (if b then (sc_ExecAfterBlocked (pol_Scores p), ''exec after blocked lineage'') else (0, []), a1))
      else if typ = EventIOUring then
        (if hasActivity a (ev_TGID ev)
         then (sc_IOUring (pol_Scores p), ''io_uring activity after protected file activity'') else (0, []), a)
      else if typ = EventConnect then
        (if \<not> ne_Enabled (pol_NetworkEgress p) \<or> networkAllowed p ev then ((0, []), a)
         else if hasActivity a (ev_TGID ev)
         then ((ne_Score (pol_NetworkEgress p), ''network egress after suspicious activity''), a)
         else ((0, []), a))
      else if typ = EventScan \<or> typ = EventMmap \<or> typ = EventWrite then
        (let (fdp, a1) = touch a ev in (scoreFd p typ fdp, a1))
      else if typ = EventOpen then (scoreOpen p ev, a)
      else if typ = EventRename then (scoreRename p ev, a)
      else if typ = EventLink then (scoreLink p ev, a)
      else if typ = EventUnlink then (scoreUnlink p path, a)
      else if typ = EventTruncate then
        (let (path', a1) = fdOrPick a ev in (scoreTruncate p ev path', a1))
      else ((0, []), a))"

section \<open>Handling an event\<close>

definition state :: "env \<Rightarrow> agent \<Rightarrow> event \<Rightarrow> procState" where
  "state en a ev =
     (let ts = (if isZero (ev_Timestamp ev) then en_now en else ev_Timestamp ev);
          st = (case ag_procs a (ev_TGID ev) of Some s \<Rightarrow> s | None \<Rightarrow> newProcState (ev_TGID ev) ts)
      in st\<lparr>ps_PID := ev_PID ev, ps_PPID := ev_PPID ev, ps_UID := ev_UID ev, ps_Comm := ev_Comm ev,
            ps_LastSeen := ts\<rparr>)"

definition putState :: "agent \<Rightarrow> u32 \<Rightarrow> procState \<Rightarrow> agent" where
  "putState a tgid st = a\<lparr>ag_procs := (ag_procs a)(tgid \<mapsto> st)\<rparr>"

definition recordIOC :: "policy \<Rightarrow> procState \<Rightarrow> scoredEvent \<Rightarrow> string \<Rightarrow> procState" where
  "recordIOC p st se reason = st\<lparr>
     ps_Score := max (ps_Score st) (pol_Threshold p), ps_EventCount := ps_EventCount st + 1,
     ps_Reasons := appendReason (ps_Reasons st) reason,
     ps_RecentEvents := lastN maxRecentEvents (ps_RecentEvents st @ [se])\<rparr>"

definition inlineIOCReason :: "policy \<Rightarrow> event \<Rightarrow> string" where
  "inlineIOCReason p ev =
     (if ev_Arg0 ev = EventOpen then
        (if isRansomNote p (ev_Path ev) then ''protected ransom note creation''
         else ''protected suspicious extension write'')
      else if ev_Arg0 ev = EventRename then ''protected rename to suspicious extension''
      else if ev_Arg0 ev = EventUnlink then ''protected suspicious IOC unlink''
      else ''protected inline IOC'')"

definition handleInlineIOCBlock :: "env \<Rightarrow> agent \<Rightarrow> event \<Rightarrow> agent" where
  "handleInlineIOCBlock en a ev =
     (let p = ag_policy a; action = actionName (ev_Arg1 ev) in
      if action \<noteq> ''deny'' \<and> action \<noteq> ''kill'' then a
      else
        let (blocked, st) = stateBlocked p (en_now en) (prune p (state en a ev) (ev_Timestamp ev)) (ev_Timestamp ev)
        in if blocked then putState a (ev_TGID ev) st
           else
             let reason = inlineIOCReason p ev;
                 st' = (recordIOC p st \<lparr>se_At = ev_Timestamp ev, se_Type = eventName (ev_Arg0 ev),
                          se_Path = ev_Path ev, se_Path2 = [], se_Score = pol_Threshold p,
                          se_Reason = reason\<rparr> reason)\<lparr>ps_Blocked := True, ps_BlockedAt := ev_Timestamp ev\<rparr>
             in countBlock (emitAlert en (putState a (ev_TGID ev) st') st' action False))"

definition policyAction :: "policy \<Rightarrow> string" where
  "policyAction p = normalizeAction (ToLower (TrimSpace (pol_Action p)))"

definition handleIOC :: "env \<Rightarrow> agent \<Rightarrow> event \<Rightarrow> string \<Rightarrow> agent" where
  "handleIOC en a ev reason =
     (let p = ag_policy a; action = policyAction p;
          st = recordFeatures p (ag_fdPaths a) (prune p (state en a ev) (ev_Timestamp ev)) ev;
          st1 = (if action \<noteq> ''log'' then st\<lparr>ps_Blocked := True, ps_BlockedAt := ev_Timestamp ev\<rparr> else st);
          st2 = recordIOC p st1 (scoredEventOf ev (pol_Threshold p) reason) reason
      in alertAndEnforce en (putState a (ev_TGID ev) st2) st2 action)"

definition block :: "env \<Rightarrow> agent \<Rightarrow> u32 \<Rightarrow> procState \<Rightarrow> agent" where
  "block en a tgid st =
     (let action = policyAction (ag_policy a);
          st1 = (if action \<noteq> ''log'' then
                   st\<lparr>ps_Blocked := True,
                      ps_BlockedAt := (if isZero (ps_LastSeen st) then en_now en else ps_LastSeen st)\<rparr>
                 else st)
      in alertAndEnforce en (putState a tgid st1) st1 action)"

definition checkThreshold :: "env \<Rightarrow> agent \<Rightarrow> event \<Rightarrow> procState \<Rightarrow> agent" where
  "checkThreshold en a ev st =
     (if pol_Threshold (ag_policy a) \<le> ps_Score st then
        let (blocked, st') = stateBlocked (ag_policy a) (en_now en) st (ev_Timestamp ev)
        in if blocked then putState a (ev_TGID ev) st' else block en a (ev_TGID ev) st'
      else putState a (ev_TGID ev) st)"

definition handleScored :: "env \<Rightarrow> agent \<Rightarrow> event \<Rightarrow> int \<Rightarrow> string \<Rightarrow> agent" where
  "handleScored en a ev sc reason =
     (let p = ag_policy a; now = ev_Timestamp ev; tgid = ev_TGID ev;
          st0 = recordScored p (ag_fdPaths a) (prune p (state en a ev) now) ev sc reason;
          (blocked, st) = stateBlocked p (en_now en) st0 now
      in case matchRule p st of
           Some (why, action) \<Rightarrow>
             (if blocked then checkThreshold en a ev st
              else
                let st1 = (if action \<noteq> ''log'' then st\<lparr>ps_Blocked := True, ps_BlockedAt := now\<rparr> else st);
                    st2 = st1\<lparr>ps_Reasons := appendReason (ps_Reasons st1) why\<rparr>
                in alertAndEnforce en (putState a tgid st2) st2 action)
         | None \<Rightarrow> checkThreshold en a ev st)"

text \<open>From the exec cache on: what \<open>handle\<close> does with an event that is in the policy's scope.\<close>

definition detect :: "env \<Rightarrow> agent \<Rightarrow> event \<Rightarrow> agent" where
  "detect en a ev =
     (let reason = immediateIOC (ag_policy a) ev in
      if reason \<noteq> [] then handleIOC en a ev reason
      else let ((sc, why), a1) = score en a ev in
        if sc = 0 then a1 else handleScored en a1 ev sc why)"

definition screen :: "env \<Rightarrow> agent \<Rightarrow> event \<Rightarrow> agent" where
  "screen en a ev =
     (let ((hit, hash), a1) = blacklistedEvent en a ev in
      if hit then
        enforceBlacklist en a1 (ev_TGID ev) (ev_PID ev) (ev_PPID ev) (ev_UID ev) (ev_Comm ev) (ev_Path ev)
          hash ''blacklisted exec''
      else
        let (trusted, a2) = isTrustedEvent en a1 ev in
        if \<not> trusted then detect en a2 ev
        else let (backup, a3) = backupSensitiveEvent a2 ev in
          if backup then detect en a3 ev
          else let (self, a4) = selfProtectSensitiveEvent a3 ev in
            if self then detect en a4 ev else a4)"

definition handleInScope :: "env \<Rightarrow> agent \<Rightarrow> event \<Rightarrow> agent" where
  "handleInScope en a ev =
     (if ev_Type ev = EventExec then
        let a1 = cacheExecInfo en a ev in
        if ev_Phase ev = PhaseSuccess then a1
        else let (lineage, a2) = blockedLineage en a1 ev in
          if lineage \<and> \<not> ag_DryRun a2 then enforceTGID en a2 (ev_TGID ev) BlockActionKill
          else screen en a2 ev
      else screen en a ev)"

definition BlockReasonInlineIOC :: u64 where [go_consts]: "BlockReasonInlineIOC = 3"

definition handle :: "env \<Rightarrow> agent \<Rightarrow> event \<Rightarrow> agent" where
  "handle en a ev0 =
     (let ev = (if isZero (ev_Timestamp ev0) then ev0\<lparr>ev_Timestamp := en_now en\<rparr> else ev0) in
      if ev_Type ev = EventBlock then
        (if ev_Size ev = BlockReasonInlineIOC then handleInlineIOCBlock en a ev else a)
      else if ev_Phase ev = PhaseFailure \<or> (ev_Type ev = EventWrite \<and> ev_Phase ev = PhaseSuccess) then a
      else
        let (t, ev1, stop) = updateFD (en_world en) (ag_fdPaths a) ev;
            a1 = a\<lparr>ag_fdPaths := t\<rparr>
        in if stop then a1
           else if \<not> inPolicyCgroup en a1 (ev_TGID ev1) then a1
           else handleInScope en a1 ev1)"

section \<open>Timers and workers\<close>

definition idleTTL :: "policy \<Rightarrow> duration" where
  "idleTTL p =
     (let ttl = mul64 (pol_Window p) 3;
          ttl1 = (if ttl < minute then minute else ttl)
      in if ttl1 < pol_BlockTTL p then pol_BlockTTL p else ttl1)"

text \<open>Go's integer division truncates towards zero; the TTL is positive, so \<open>div\<close> is the same.\<close>

definition pruneInterval :: "policy \<Rightarrow> duration" where
  "pruneInterval p =
     (let interval = idleTTL p div 2 in
      if interval < second then second else if minute < interval then minute else interval)"

definition ringbufDropInterval :: "policy \<Rightarrow> duration" where
  "ringbufDropInterval p =
     (let interval = pol_Window p in
      if interval \<le> 0 then 30 * second else if interval < 5 * second then 5 * second
      else if minute < interval then minute else interval)"

definition metricsInterval :: "policy \<Rightarrow> duration" where
  "metricsInterval p =
     (let interval = pol_Window p in
      if interval \<le> 0 then 30 * second else if interval < 10 * second then 10 * second
      else if minute < interval then minute else interval)"

definition idle :: "time \<Rightarrow> duration \<Rightarrow> time \<Rightarrow> bool" where
  "idle now ttl seen \<longleftrightarrow> \<not> (isZero seen \<or> timeSub now seen \<le> ttl)"

definition pruneIdle :: "agent \<Rightarrow> time \<Rightarrow> agent" where
  "pruneIdle a now =
     (let ttl = idleTTL (ag_policy a);
          procs = keepWhere (\<lambda>_ st. \<not> idle now ttl (ps_LastSeen st)) (ag_procs a)
      in a\<lparr>ag_procs := procs,
           ag_fdPaths := keepWhere (\<lambda>_ s. \<not> idle now ttl (fs_LastSeen s)) (ag_fdPaths a),
           ag_procInfos := keepWhere (\<lambda>_ c. \<not> idle now ttl (cp_LastSeen c)) (ag_procInfos a),
           ag_blocked := keepWhere (\<lambda>tgid seen0.
             let seen = (if isZero seen0 then (case procs tgid of Some st \<Rightarrow> ps_LastSeen st | None \<Rightarrow> seen0)
                         else seen0)
             in \<not> idle now ttl seen) (ag_blocked a)\<rparr>)"

definition captureGapDelta :: "agent \<Rightarrow> u64 \<Rightarrow> u64 \<times> agent" where
  "captureGapDelta a current =
     (let previous = ag_lastCaptureGaps a;
          a1 = a\<lparr>ag_lastCaptureGaps := current, ag_metrics := (ag_metrics a)\<lparr>mt_CaptureGapsTotal := current\<rparr>\<rparr>
      in (if current < previous then current else current - previous, a1))"

definition ringbufDropDelta :: "agent \<Rightarrow> u64 \<Rightarrow> u64 \<times> agent" where
  "ringbufDropDelta a current =
     (let previous = ag_lastDrops a;
          a1 = a\<lparr>ag_lastDrops := current, ag_metrics := (ag_metrics a)\<lparr>mt_RingbufDropsTotal := current\<rparr>\<rparr>
      in (if current < previous then current else current - previous, a1))"

text \<open>\<open>drops\<close> and \<open>gaps\<close> are what \<open>Sensor.RingbufDrops\<close> and \<open>Sensor.CaptureGaps\<close> return (\<open>None\<close> an error).\<close>

definition logRingbufDrops :: "agent \<Rightarrow> u64 option \<Rightarrow> u64 option \<Rightarrow> agent" where
  "logRingbufDrops a drops gaps =
     (if \<not> ag_hasSensor a then a
      else case drops of
        None \<Rightarrow> a
      | Some d \<Rightarrow>
          (let a1 = snd (ringbufDropDelta a d) in
           case gaps of None \<Rightarrow> a1 | Some g \<Rightarrow> snd (captureGapDelta a1 g)))"

definition logMetrics :: "agent \<Rightarrow> agent" where
  "logMetrics a =
     (let m = (ag_metrics a)\<lparr>mt_SchemaVersion := ''v1'', mt_Kind := ''ebpffls_metrics''\<rparr>
      in emit (MetricsLine m) (a\<lparr>ag_metrics := m\<rparr>))"

definition hashOf :: "env \<Rightarrow> agent \<Rightarrow> string \<Rightarrow> string option \<times> agent" where
  "hashOf en a path =
     (case compute (en_victim en) (ag_hashes a) (w_stat (en_world en) path) path (en_attempts en path) of
        (Inl _, c) \<Rightarrow> (None, a\<lparr>ag_hashes := c\<rparr>)
      | (Inr hash, c) \<Rightarrow> (Some hash, a\<lparr>ag_hashes := c\<rparr>))"

text \<open>One iteration of \<open>hashWorker\<close>: the oldest job of the queue.\<close>

definition hashWorkerStep :: "env \<Rightarrow> agent \<Rightarrow> agent" where
  "hashWorkerStep en a =
     (case (ag_blacklist a, ag_hashQueue a) of
        (Some bl, job # rest) \<Rightarrow>
          (let (r, a1) = hashOf en (a\<lparr>ag_hashQueue := rest\<rparr>) (hj_Path job) in
           case r of None \<Rightarrow> a1
           | Some hash \<Rightarrow>
               (if matchHash bl hash
                then enforceBlacklist en a1 (hj_TGID job) (hj_PID job) (hj_PPID job) (hj_UID job) (hj_Comm job)
                       (hj_Path job) hash (hj_Reason job)
                else a1))
      | _ \<Rightarrow> a)"

definition procHash :: "env \<Rightarrow> agent \<Rightarrow> string \<Rightarrow> string option \<times> agent" where
  "procHash en a path = (if path = [] then (None, a) else hashOf en a path)"

definition scanProc :: "env \<Rightarrow> blacklist \<Rightarrow> agent \<Rightarrow> procInfo \<Rightarrow> agent" where
  "scanProc en bl a info =
     (if \<not> procInPolicyCgroup (ag_policy a) info then a
      else if isTrustedProc (ag_policy a) info then a
      else case procHash en a (pi_Exe info) of
        (None, a1) \<Rightarrow> a1
      | (Some hash, a1) \<Rightarrow>
          (if matchHash bl hash
           then enforceBlacklist en a1 (pi_TGID info) (pi_PID info) 0 0 (pi_Comm info) (pi_Exe info) hash
                  ''blacklisted running process''
           else a1))"

definition scanBlacklistOnce :: "env \<Rightarrow> agent \<Rightarrow> agent" where
  "scanBlacklistOnce en a =
     (case ag_blacklist a of
        None \<Rightarrow> a
      | Some bl \<Rightarrow>
          (let bl' = snd (reloadFiles (en_world en) bl);
               a1 = a\<lparr>ag_blacklist := Some bl'\<rparr>
           in case listProcs (en_world en) of
                None \<Rightarrow> a1
              | Some procs \<Rightarrow> foldl (scanProc en bl') a1 procs))"

end
