(* ===== verification/ProcWindow_Laws.thy ===== *)
theory ProcWindow_Laws
  imports ProcWindow
begin

text \<open>
  Laws of the sliding window: the bounds every operation keeps, the closed form of a rebuild, and
  the equivalence of the incremental window with a rebuild of its history.
\<close>

named_theorems window_simps \<open>fields that the window operations leave alone or set\<close>

section \<open>Tracked paths\<close>

lemma trackPath_distinct [simp]: "distinct (trackPath ps q) = distinct ps"
  by (simp add: trackPath_def)

lemma trackPath_bound [bounded_intros]: "length ps \<le> maxTrackedPaths \<Longrightarrow> length (trackPath ps q) \<le> maxTrackedPaths"
  by (simp add: trackPath_def bounded_intros)

lemma trackPaths_distinct [simp]: "distinct (foldl trackPath ps qs) = distinct ps"
  by (induction qs arbitrary: ps) auto

lemma trackPaths_bound [bounded_intros]:
  "length ps \<le> maxTrackedPaths \<Longrightarrow> length (foldl trackPath ps qs) \<le> maxTrackedPaths"
  by (induction qs arbitrary: ps) (auto intro: bounded_intros)

lemma trackPaths_mono: "set ps \<subseteq> set (foldl trackPath ps qs)"
proof (induction qs arbitrary: ps)
  case Nil
  then show ?case by simp
next
  case (Cons q qs)
  have "set ps \<subseteq> set (trackPath ps q)" by (simp add: trackPath_def capInsert_mono)
  also have "\<dots> \<subseteq> set (foldl trackPath (trackPath ps q) qs)" by (rule Cons.IH)
  finally show ?case by simp
qed

section \<open>Reasons and scores\<close>

definition reasonsOf :: "string list \<Rightarrow> string list" where
  "reasonsOf rs = foldl appendReason [] rs"

lemma reasonsOf_snoc: "reasonsOf (rs @ [r]) = appendReason (reasonsOf rs) r"
  by (simp add: reasonsOf_def)

lemma reasonsOf_props: "distinct (reasonsOf rs) \<and> set (reasonsOf rs) = set rs"
  by (induction rs rule: rev_induct) (auto simp: reasonsOf_def appendReason_set)

lemma foldl_add64: "foldl add64 (wrap64 a) xs = wrap64 (a + sum_list xs)"
  by (induction xs arbitrary: a) (simp_all add: add64_def add.assoc)

lemma foldl_add64_0: "foldl add64 0 xs = wrap64 (sum_list xs)"
  using foldl_add64 [of 0 xs] by (simp add: wrap64_id int64_def)

section \<open>The closed form of a rebuild\<close>

definition timed :: "historyEvent list \<Rightarrow> historyEvent list" where
  "timed h = filter (\<lambda>e. \<not> isZero (he_At e)) h"

definition writesOf :: "historyEvent list \<Rightarrow> nat" where
  "writesOf h = sum_list (map he_WriteCount h)"

definition bonus :: "policy \<Rightarrow> historyEvent list \<Rightarrow> int" where
  "bonus p h = (if 64 \<le> writesOf h then sc_HighRateBonus (pol_Scores p) else 0)"

definition seenOf :: "historyEvent list \<Rightarrow> string list" where
  "seenOf h = foldl trackPath [] (concat (map he_FeaturePaths h))"

definition openedOf :: "historyEvent list \<Rightarrow> string list" where
  "openedOf h = foldl trackPath [] (map he_OpenWritePath h)"

definition stageOf :: "bool \<Rightarrow> nat \<Rightarrow> nat \<Rightarrow> string" where
  "stageOf final pairs paths =
     (if final then ''FINALIZE'' else if 3 \<le> pairs \<or> 3 \<le> paths then ''STAGE'' else [])"

definition featuresOf :: "historyEvent list \<Rightarrow> historyEvent list \<Rightarrow> procFeatures" where
  "featuresOf all h = \<lparr>
     ft_DistinctPaths = length (seenOf h), ft_OpenWritePairs = length (openedOf h),
     ft_RenameSuffixCount = length (filter he_RenameSuffix h),
     ft_EncryptionState = stageOf (list_ex he_FinalizeSignal all) (length (openedOf h)) (length (seenOf h))\<rparr>"

lemma rebuildSteps:
  fixes st0 :: procState and h :: "historyEvent list"
  defines "st \<equiv> foldl rebuildStep st0 h"
  shows "ps_Score st = foldl add64 (ps_Score st0) (map he_Score (timed h))"
    and "ps_EventCount st = ps_EventCount st0 + length (timed h)"
    and "ps_WriteCount st = ps_WriteCount st0 + writesOf (timed h)"
    and "ps_RecentEvents st = ps_RecentEvents st0 @ map scoredOf (timed h)"
    and "ps_Reasons st = foldl appendReason (ps_Reasons st0) (map he_Reason (timed h))"
    and "ps_seenPaths st = foldl trackPath (ps_seenPaths st0) (concat (map he_FeaturePaths (timed h)))"
    and "ps_openWritePaths st = foldl trackPath (ps_openWritePaths st0) (map he_OpenWritePath (timed h))"
    and "ps_Features st = (ps_Features st0)\<lparr>ft_RenameSuffixCount :=
           ft_RenameSuffixCount (ps_Features st0) + length (filter he_RenameSuffix (timed h))\<rparr>"
    and "ps_history st = ps_history st0"
    and "ps_HighRateScored st = ps_HighRateScored st0"
  unfolding st_def timed_def writesOf_def
  by (induction h rule: rev_induct) (simp_all add: rebuildStep_def)

text \<open>Everything of a state but its window: identity, times of sight and the block.\<close>

definition sameOutside :: "procState \<Rightarrow> procState \<Rightarrow> bool" where
  "sameOutside a b \<longleftrightarrow> ps_TGID a = ps_TGID b \<and> ps_PID a = ps_PID b \<and> ps_PPID a = ps_PPID b \<and>
     ps_UID a = ps_UID b \<and> ps_Comm a = ps_Comm b \<and> ps_LastSeen a = ps_LastSeen b \<and>
     ps_Blocked a = ps_Blocked b \<and> ps_BlockedAt a = ps_BlockedAt b"

lemma rebuildSteps_outside: "sameOutside (foldl rebuildStep st0 h) st0"
  by (induction h rule: rev_induct) (simp_all add: sameOutside_def rebuildStep_def)

lemma rebuildWindow_fields:
  fixes st :: procState and p :: policy
  defines "h \<equiv> timed (ps_history st)" and "r \<equiv> rebuildWindow p st"
  shows "ps_Score r = wrap64 (sum_list (map he_Score h) + bonus p h)"
    and "ps_EventCount r = length h"
    and "ps_WriteCount r = writesOf h"
    and "ps_HighRateScored r = (64 \<le> writesOf h)"
    and "ps_RecentEvents r = lastN maxRecentEvents (map scoredOf h)"
    and "ps_Reasons r = (if 64 \<le> writesOf h then appendReason (reasonsOf (map he_Reason h)) ''high-rate file mutation''
           else reasonsOf (map he_Reason h))"
    and "ps_seenPaths r = seenOf h"
    and "ps_openWritePaths r = openedOf h"
    and "ps_Features r = featuresOf (ps_history st) h"
    and "ps_history r = ps_history st"
    and "sameOutside r st"
proof -
  let ?st0 = "(clearWindow st)\<lparr>ps_FirstSeen := 0\<rparr>"
  define st1 where "st1 = foldl rebuildStep ?st0 (ps_history st)"
  have r: "r = (let st2 = st1\<lparr>ps_Features := rebuildFeatures st1\<rparr>;
      st3 = (if 64 \<le> ps_WriteCount st2 then highRate p st2 else st2)
      in st3\<lparr>ps_RecentEvents := lastN maxRecentEvents (ps_RecentEvents st3)\<rparr>)"
    by (simp add: r_def rebuildWindow_def st1_def Let_def)
  note f = rebuildSteps [of ?st0 "ps_history st", folded h_def st1_def, simplified clearWindow_def, simplified]
  show "ps_Score r = wrap64 (sum_list (map he_Score h) + bonus p h)"
    by (simp add: r Let_def highRate_def f bonus_def foldl_add64_0 add64_def)
  show "ps_EventCount r = length h" by (simp add: r Let_def highRate_def f)
  show "ps_WriteCount r = writesOf h" by (simp add: r Let_def highRate_def f)
  show "ps_HighRateScored r = (64 \<le> writesOf h)" by (simp add: r Let_def highRate_def f)
  show "ps_RecentEvents r = lastN maxRecentEvents (map scoredOf h)" by (simp add: r Let_def highRate_def f)
  show "ps_Reasons r = (if 64 \<le> writesOf h then appendReason (reasonsOf (map he_Reason h)) ''high-rate file mutation''
      else reasonsOf (map he_Reason h))" by (simp add: r Let_def highRate_def f reasonsOf_def)
  show "ps_seenPaths r = seenOf h" by (simp add: r Let_def highRate_def f seenOf_def)
  show "ps_openWritePaths r = openedOf h" by (simp add: r Let_def highRate_def f openedOf_def)
  show "ps_Features r = featuresOf (ps_history st) h"
    by (simp add: r Let_def highRate_def f rebuildFeatures_def featuresOf_def seenOf_def openedOf_def
        zeroFeatures_def stageOf_def)
  show "ps_history r = ps_history st" by (simp add: r Let_def highRate_def f)
  show "sameOutside r st"
    using rebuildSteps_outside [of ?st0 "ps_history st", folded st1_def]
    by (simp add: r Let_def highRate_def sameOutside_def clearWindow_def)
qed

section \<open>Bounds\<close>

text \<open>The bounds the source announces: alert payload, tracked paths and history stay within their caps.\<close>

definition windowOK :: "procState \<Rightarrow> bool" where
  "windowOK st \<longleftrightarrow>
     length (ps_RecentEvents st) \<le> maxRecentEvents \<and>
     length (ps_history st) \<le> maxHistoryEvents \<and>
     distinct (ps_seenPaths st) \<and> length (ps_seenPaths st) \<le> maxTrackedPaths \<and>
     distinct (ps_openWritePaths st) \<and> length (ps_openWritePaths st) \<le> maxTrackedPaths \<and>
     distinct (ps_Reasons st) \<and>
     ft_DistinctPaths (ps_Features st) = length (ps_seenPaths st) \<and>
     ft_OpenWritePairs (ps_Features st) = length (ps_openWritePaths st)"

lemma seenOf_ok: "distinct (seenOf h) \<and> length (seenOf h) \<le> maxTrackedPaths"
  by (simp add: seenOf_def bounded_intros)

lemma openedOf_ok: "distinct (openedOf h) \<and> length (openedOf h) \<le> maxTrackedPaths"
  by (simp add: openedOf_def bounded_intros)

lemma windowOK_new: "windowOK (newProcState tgid seen)"
  by (simp add: windowOK_def newProcState_def zeroFeatures_def)

lemma windowOK_rebuild: "length (ps_history st) \<le> maxHistoryEvents \<Longrightarrow> windowOK (rebuildWindow p st)"
  using seenOf_ok [of "timed (ps_history st)"] openedOf_ok [of "timed (ps_history st)"]
    reasonsOf_props [of "map he_Reason (timed (ps_history st))"]
  by (simp add: windowOK_def rebuildWindow_fields featuresOf_def)

lemma windowOK_prune: "windowOK st \<Longrightarrow> windowOK (prune p st now)"
proof -
  assume ok: "windowOK st"
  have "length (ps_history st) \<le> maxHistoryEvents" using ok by (simp add: windowOK_def)
  with length_filter_le have "length (filter (inWindow p now) (ps_history st)) \<le> maxHistoryEvents"
    by (rule le_trans)
  then have "windowOK (rebuildWindow p (st\<lparr>ps_history := filter (inWindow p now) (ps_history st)\<rparr>))"
    by (intro windowOK_rebuild) simp
  moreover have "ps_history st = [] \<Longrightarrow> windowOK ((clearWindow st)\<lparr>ps_FirstSeen := now\<rparr>)"
    by (simp add: windowOK_def clearWindow_def zeroFeatures_def)
  ultimately show ?thesis using ok by (simp add: prune_def Let_def)
qed

lemma updateEncryptionState_fields:
  "ps_seenPaths (updateEncryptionState p st ev) = ps_seenPaths st"
  "ps_openWritePaths (updateEncryptionState p st ev) = ps_openWritePaths st"
  "ps_Reasons (updateEncryptionState p st ev) = ps_Reasons st"
  "ps_RecentEvents (updateEncryptionState p st ev) = ps_RecentEvents st"
  "ps_history (updateEncryptionState p st ev) = ps_history st"
  "ps_Score (updateEncryptionState p st ev) = ps_Score st"
  "ps_EventCount (updateEncryptionState p st ev) = ps_EventCount st"
  "ps_WriteCount (updateEncryptionState p st ev) = ps_WriteCount st"
  "ps_HighRateScored (updateEncryptionState p st ev) = ps_HighRateScored st"
  "ft_DistinctPaths (ps_Features (updateEncryptionState p st ev)) = ft_DistinctPaths (ps_Features st)"
  "ft_OpenWritePairs (ps_Features (updateEncryptionState p st ev)) = ft_OpenWritePairs (ps_Features st)"
  "ft_RenameSuffixCount (ps_Features (updateEncryptionState p st ev)) = ft_RenameSuffixCount (ps_Features st)"
  "sameOutside (updateEncryptionState p st ev) st"
  by (simp_all add: updateEncryptionState_def Let_def sameOutside_def)

lemma recordFeatures_fields [window_simps]:
  "ps_seenPaths (recordFeatures p t st ev) = foldl trackPath (ps_seenPaths st) (featurePaths t ev)"
  "ps_openWritePaths (recordFeatures p t st ev) = trackPath (ps_openWritePaths st) (openWritePath ev)"
  "ps_Reasons (recordFeatures p t st ev) = ps_Reasons st"
  "ps_RecentEvents (recordFeatures p t st ev) = ps_RecentEvents st"
  "ps_history (recordFeatures p t st ev) = ps_history st"
  "ps_Score (recordFeatures p t st ev) = ps_Score st"
  "ps_EventCount (recordFeatures p t st ev) = ps_EventCount st"
  "ps_WriteCount (recordFeatures p t st ev) = ps_WriteCount st"
  "ps_HighRateScored (recordFeatures p t st ev) = ps_HighRateScored st"
  "ft_DistinctPaths (ps_Features (recordFeatures p t st ev)) = length (foldl trackPath (ps_seenPaths st) (featurePaths t ev))"
  "ft_OpenWritePairs (ps_Features (recordFeatures p t st ev)) = length (trackPath (ps_openWritePaths st) (openWritePath ev))"
  "ft_RenameSuffixCount (ps_Features (recordFeatures p t st ev)) =
     ft_RenameSuffixCount (ps_Features st) + (if renameSuffix p ev then 1 else 0)"
  by (simp_all add: recordFeatures_def Let_def updateEncryptionState_fields)

lemma recordFeatures_outside: "sameOutside (recordFeatures p t st ev) st"
  by (simp add: recordFeatures_def Let_def updateEncryptionState_def sameOutside_def)

lemma windowOK_recordFeatures: "windowOK st \<Longrightarrow> windowOK (recordFeatures p t st ev)"
  by (simp add: windowOK_def window_simps bounded_intros)

lemma windowOK_addScored: "windowOK st \<Longrightarrow> windowOK (addScored p st ev score reason)"
  by (simp add: windowOK_def addScored_def Let_def highRate_def)

lemma windowOK_pushHistory: "windowOK st \<Longrightarrow> windowOK (pushHistory p st h)"
proof (cases "maxHistoryEvents < length (ps_history st @ [h])")
  case True
  then show ?thesis by (simp add: pushHistory_def Let_def windowOK_rebuild)
next
  case False
  then show "windowOK st \<Longrightarrow> ?thesis" by (simp add: pushHistory_def Let_def windowOK_def)
qed

lemma windowOK_recordScored: "windowOK st \<Longrightarrow> windowOK (recordScored p t st ev score reason)"
  by (simp add: recordScored_def windowOK_pushHistory windowOK_addScored windowOK_recordFeatures)

section \<open>The incremental window is the rebuilt one\<close>

definition synced :: "policy \<Rightarrow> procState \<Rightarrow> bool" where
  "synced p st \<longleftrightarrow>
     (\<forall>e \<in> set (ps_history st). \<not> isZero (he_At e)) \<and>
     ps_Score st = wrap64 (sum_list (map he_Score (ps_history st)) + bonus p (ps_history st)) \<and>
     ps_EventCount st = length (ps_history st) \<and>
     ps_WriteCount st = writesOf (ps_history st) \<and>
     ps_HighRateScored st = (64 \<le> writesOf (ps_history st)) \<and>
     ps_RecentEvents st = lastN maxRecentEvents (map scoredOf (ps_history st)) \<and>
     set (ps_Reasons st) = he_Reason ` set (ps_history st) \<union>
       (if 64 \<le> writesOf (ps_history st) then {''high-rate file mutation''} else {}) \<and>
     ps_seenPaths st = seenOf (ps_history st) \<and>
     ps_openWritePaths st = openedOf (ps_history st) \<and>
     ps_Features st = featuresOf (ps_history st) (ps_history st)"

definition sameWindow :: "procState \<Rightarrow> procState \<Rightarrow> bool" where
  "sameWindow a b \<longleftrightarrow> ps_Score a = ps_Score b \<and> ps_EventCount a = ps_EventCount b \<and>
     ps_WriteCount a = ps_WriteCount b \<and> ps_HighRateScored a = ps_HighRateScored b \<and>
     ps_RecentEvents a = ps_RecentEvents b \<and> set (ps_Reasons a) = set (ps_Reasons b) \<and>
     ps_seenPaths a = ps_seenPaths b \<and> ps_openWritePaths a = ps_openWritePaths b \<and>
     ps_Features a = ps_Features b \<and> ps_history a = ps_history b"

lemma timed_id: "\<forall>e \<in> set h. \<not> isZero (he_At e) \<Longrightarrow> timed h = h"
  by (simp add: timed_def)

lemma synced_rebuild:
  "\<forall>e \<in> set (ps_history st). \<not> isZero (he_At e) \<Longrightarrow> synced p (rebuildWindow p st)"
  by (simp add: synced_def rebuildWindow_fields timed_id appendReason_set reasonsOf_props)

lemma synced_sameWindow: "synced p st \<Longrightarrow> sameWindow st (rebuildWindow p st)"
  by (simp add: sameWindow_def synced_def rebuildWindow_fields timed_id appendReason_set reasonsOf_props)

lemma empty_history_facts [simp]:
  "bonus p [] = 0" "writesOf [] = 0" "seenOf [] = []" "openedOf [] = []" "featuresOf [] [] = zeroFeatures"
  "wrap64 0 = 0"
  by (simp_all add: bonus_def writesOf_def seenOf_def openedOf_def featuresOf_def zeroFeatures_def stageOf_def
      wrap64_id int64_def)

lemma synced_new: "synced p (newProcState tgid seen)"
  by (simp add: synced_def newProcState_def)

lemma synced_prune:
  assumes "synced p st"
  shows "synced p (prune p st now)"
proof -
  have "synced p (rebuildWindow p (st\<lparr>ps_history := filter (inWindow p now) (ps_history st)\<rparr>))"
    using assms by (intro synced_rebuild) (simp add: synced_def)
  moreover have "ps_history st = [] \<Longrightarrow> synced p ((clearWindow st)\<lparr>ps_FirstSeen := now\<rparr>)"
    by (simp add: synced_def clearWindow_def)
  ultimately show ?thesis using assms by (simp add: prune_def Let_def)
qed

lemma seenOf_snoc: "seenOf (h @ [e]) = foldl trackPath (seenOf h) (he_FeaturePaths e)"
  by (simp add: seenOf_def)

lemma openedOf_snoc: "openedOf (h @ [e]) = trackPath (openedOf h) (he_OpenWritePath e)"
  by (simp add: openedOf_def)

lemma writesOf_snoc: "writesOf (h @ [e]) = writesOf h + he_WriteCount e"
  by (simp add: writesOf_def)

lemma trackPath_length_ge: "length ps \<le> length (trackPath ps q)"
  by (simp add: trackPath_def capInsert_length_ge)

lemma trackPaths_length_ge: "length ps \<le> length (foldl trackPath ps qs)"
  by (induction qs arbitrary: ps) (auto intro: le_trans trackPath_length_ge)

lemma recordFeatures_features:
  assumes "ps_Features st = featuresOf h h" "ps_seenPaths st = seenOf h" "ps_openWritePaths st = openedOf h"
  shows "ps_Features (recordFeatures p t st ev) =
    featuresOf (h @ [historyOf p t ev score reason]) (h @ [historyOf p t ev score reason])"
proof -
  let ?e = "historyOf p t ev score reason"
  have grow: "length (seenOf h) \<le> length (seenOf (h @ [?e]))" "length (openedOf h) \<le> length (openedOf (h @ [?e]))"
    by (simp_all add: seenOf_snoc openedOf_snoc trackPath_length_ge trackPaths_length_ge)
  have "ft_EncryptionState (ps_Features (recordFeatures p t st ev)) =
      stageOf (list_ex he_FinalizeSignal (h @ [?e])) (length (openedOf (h @ [?e]))) (length (seenOf (h @ [?e])))"
    using grow assms
    by (auto simp: recordFeatures_def updateEncryptionState_def Let_def featuresOf_def stageOf_def
        historyOf_def finalizeSignal_def seenOf_snoc openedOf_snoc)
  then show ?thesis
    using assms by (intro procFeatures.equality)
      (simp_all add: window_simps featuresOf_def seenOf_snoc openedOf_snoc historyOf_def)
qed

text \<open>Every event that is scored also enters the history with the same score, reason and paths.\<close>

lemma addScored_fields [window_simps]:
  "ps_EventCount (addScored p st ev score reason) = Suc (ps_EventCount st)"
  "ps_WriteCount (addScored p st ev score reason) = ps_WriteCount st + (if countsAsWrite ev then 1 else 0)"
  "ps_RecentEvents (addScored p st ev score reason) =
     lastN maxRecentEvents (ps_RecentEvents st @ [scoredEventOf ev score reason])"
  "ps_seenPaths (addScored p st ev score reason) = ps_seenPaths st"
  "ps_openWritePaths (addScored p st ev score reason) = ps_openWritePaths st"
  "ps_Features (addScored p st ev score reason) = ps_Features st"
  "ps_history (addScored p st ev score reason) = ps_history st"
  "sameOutside (addScored p st ev score reason) st"
  by (simp_all add: addScored_def Let_def highRate_def sameOutside_def)

lemma addScored_highRate:
  assumes "ps_HighRateScored st = (64 \<le> ps_WriteCount st)"
  shows "ps_HighRateScored (addScored p st ev score reason) =
      (64 \<le> ps_WriteCount st + (if countsAsWrite ev then 1 else 0))"
    and "ps_Score (addScored p st ev score reason) =
      wrap64 (ps_Score st + score +
        (if \<not> 64 \<le> ps_WriteCount st \<and> 64 \<le> ps_WriteCount st + (if countsAsWrite ev then 1 else 0)
         then sc_HighRateBonus (pol_Scores p) else 0))"
    and "set (ps_Reasons (addScored p st ev score reason)) =
      insert reason (set (ps_Reasons st)) \<union>
        (if \<not> 64 \<le> ps_WriteCount st \<and> 64 \<le> ps_WriteCount st + (if countsAsWrite ev then 1 else 0)
         then {''high-rate file mutation''} else {})"
  using assms by (simp_all add: addScored_def Let_def highRate_def appendReason_set add64_def insert_commute)

lemma synced_addScored:
  assumes "synced p st" and "\<not> isZero (ev_Timestamp ev)"
    and e_def: "e = historyOf p t ev score reason"
  shows "synced p ((addScored p (recordFeatures p t st ev) ev score reason)\<lparr>ps_history := ps_history st @ [e]\<rparr>)"
proof -
  let ?h = "ps_history st" and ?st1 = "recordFeatures p t st ev"
  have w: "writesOf (?h @ [e]) = ps_WriteCount st + (if countsAsWrite ev then 1 else 0)"
    using assms(1) by (simp add: writesOf_snoc e_def historyOf_def synced_def)
  have hr: "ps_HighRateScored ?st1 = (64 \<le> ps_WriteCount ?st1)"
    using assms(1) by (simp add: window_simps synced_def)
  have wh: "ps_WriteCount st = writesOf ?h" using assms(1) by (simp add: synced_def)
  have score: "wrap64 (ps_Score st + x) = wrap64 (sum_list (map he_Score ?h) + bonus p ?h + x)" for x
    using assms(1) by (simp add: synced_def)
  have feat: "ps_Features ?st1 = featuresOf (?h @ [e]) (?h @ [e])"
    unfolding e_def using assms(1) by (intro recordFeatures_features) (simp_all add: synced_def)
  have recent: "lastN maxRecentEvents (ps_RecentEvents st @ [scoredEventOf ev score reason]) =
      lastN maxRecentEvents (map scoredOf (?h @ [e]))"
    using assms(1) lastN_append_lastN [of maxRecentEvents "map scoredOf ?h" "scoredOf e"]
    by (simp add: synced_def e_def historyOf_def scoredOf_def scoredEventOf_def)
  let ?d = "if \<not> 64 \<le> writesOf ?h \<and> 64 \<le> writesOf (?h @ [e]) then sc_HighRateBonus (pol_Scores p) else 0"
  have b: "bonus p (?h @ [e]) = bonus p ?h + ?d" by (simp add: bonus_def writesOf_snoc)
  have s: "sum_list (map he_Score (?h @ [e])) = sum_list (map he_Score ?h) + score"
    by (simp add: e_def historyOf_def)
  have "ps_Score (addScored p ?st1 ev score reason) = wrap64 (ps_Score st + (score + ?d))"
    using addScored_highRate(2) [OF hr, of p ev score reason] by (simp only: window_simps w wh add.assoc)
  also have "\<dots> = wrap64 (sum_list (map he_Score ?h) + bonus p ?h + (score + ?d))" by (rule score)
  also have "\<dots> = wrap64 (sum_list (map he_Score (?h @ [e])) + bonus p (?h @ [e]))"
    unfolding b s by (rule arg_cong [where f = wrap64]) simp
  finally have total: "ps_Score (addScored p ?st1 ev score reason) =
      wrap64 (sum_list (map he_Score (?h @ [e])) + bonus p (?h @ [e]))" .
  have reasons: "set (ps_Reasons (addScored p ?st1 ev score reason)) = he_Reason ` set (?h @ [e]) \<union>
      (if 64 \<le> writesOf (?h @ [e]) then {''high-rate file mutation''} else {})"
  proof -
    have "set (ps_Reasons st) = he_Reason ` set ?h \<union> (if 64 \<le> writesOf ?h then {''high-rate file mutation''} else {})"
      using assms(1) by (simp add: synced_def)
    moreover have "he_Reason e = reason" by (simp add: e_def historyOf_def)
    ultimately show ?thesis
      using addScored_highRate(3) [OF hr, of p ev score reason] w wh
      by (cases "64 \<le> writesOf ?h") (auto simp: window_simps)
  qed
  have high: "ps_HighRateScored (addScored p ?st1 ev score reason) = (64 \<le> writesOf (?h @ [e]))"
    using addScored_highRate(1) [OF hr, of p ev score reason] w by (simp add: window_simps)
  have "\<not> isZero (he_At e)" "\<forall>x \<in> set ?h. \<not> isZero (he_At x)"
    "ps_EventCount st = length ?h" "ps_seenPaths st = seenOf ?h" "ps_openWritePaths st = openedOf ?h"
    using assms(1,2) by (simp_all add: synced_def e_def historyOf_def)
  moreover have "he_FeaturePaths e = featurePaths t ev" "he_OpenWritePath e = openWritePath ev"
    by (simp_all add: e_def historyOf_def)
  ultimately show ?thesis
    unfolding synced_def using feat recent w total reasons high
    by (simp add: window_simps seenOf_snoc openedOf_snoc)
qed

lemma synced_recordScored:
  assumes "synced p st" and "\<not> isZero (ev_Timestamp ev)"
  shows "synced p (recordScored p t st ev score reason)"
proof -
  let ?e = "historyOf p t ev score reason"
  let ?a = "addScored p (recordFeatures p t st ev) ev score reason"
  have h: "ps_history ?a = ps_history st" by (simp add: window_simps)
  have "\<forall>x \<in> set (ps_history st). \<not> isZero (he_At x)" using assms(1) unfolding synced_def by (rule conjunct1)
  then have "\<forall>x \<in> set (ps_history st @ [?e]). \<not> isZero (he_At x)"
    using assms(2) by (simp add: historyOf_def)
  then have "\<forall>x \<in> set (lastN maxHistoryEvents (ps_history st @ [?e])). \<not> isZero (he_At x)"
    by (meson set_lastN subsetD)
  then have "synced p (rebuildWindow p (?a\<lparr>ps_history := lastN maxHistoryEvents (ps_history st @ [?e])\<rparr>))"
    by (intro synced_rebuild) simp
  moreover have "synced p (?a\<lparr>ps_history := ps_history st @ [?e]\<rparr>)"
    by (rule synced_addScored [OF assms refl])
  ultimately show ?thesis
    unfolding recordScored_def pushHistory_def Let_def h
    by (cases "maxHistoryEvents < length (ps_history st @ [?e])") (simp_all only: if_True if_False)
qed

section \<open>Theorems\<close>

definition windowStep :: "policy \<Rightarrow> procState \<Rightarrow> fdTable \<times> event \<times> int \<times> string \<Rightarrow> procState" where
  "windowStep p st x = (case x of (t, ev, score, reason) \<Rightarrow>
     recordScored p t (prune p st (ev_Timestamp ev)) ev score reason)"

lemma windowStep_inv:
  assumes "synced p st \<and> windowOK st" and "\<not> isZero (ev_Timestamp (fst (snd x)))"
  shows "synced p (windowStep p st x) \<and> windowOK (windowStep p st x)"
  using assms by (cases x)
    (simp add: windowStep_def synced_recordScored synced_prune windowOK_recordScored windowOK_prune)

text \<open>
  C1. The incremental window is exact: after any sequence of scored events, each pruning first and with any
  state of the descriptor table, the score, counters, features, reasons and recent events kept by the
  increments are those a rebuild from the retained history computes, and all bounds hold.
\<close>

theorem window_run_is_rebuild:
  assumes "\<forall>x \<in> set xs. \<not> isZero (ev_Timestamp (fst (snd x)))"
  shows "let st = foldl (windowStep p) (newProcState tgid seen) xs in
    sameWindow st (rebuildWindow p st) \<and> windowOK st"
proof -
  have "synced p (foldl (windowStep p) (newProcState tgid seen) xs) \<and>
      windowOK (foldl (windowStep p) (newProcState tgid seen) xs)"
    by (rule foldl_invariant) (use assms windowStep_inv synced_new windowOK_new in auto)
  then show ?thesis using synced_sameWindow by (simp add: Let_def)
qed

theorem window_run_is_rebuild_witness:
  "sameWindow (foldl (windowStep zeroPolicy) (newProcState 7 1)
       [(Map.empty, zeroEvent\<lparr>ev_Timestamp := 5, ev_Type := EventWrite\<rparr>, 3, ''w'')])
     (rebuildWindow zeroPolicy (foldl (windowStep zeroPolicy) (newProcState 7 1)
       [(Map.empty, zeroEvent\<lparr>ev_Timestamp := 5, ev_Type := EventWrite\<rparr>, 3, ''w'')]))"
  using window_run_is_rebuild [of "[(Map.empty, zeroEvent\<lparr>ev_Timestamp := 5, ev_Type := EventWrite\<rparr>, 3, ''w'')]"]
  by (simp add: Let_def)

text \<open>
  Every operation on a window keeps its bounds: at most 256 recent events, 4096 history entries and 4096
  paths in each tracked set, no duplicate path or reason, and feature counts equal to the sizes of the sets.
\<close>

lemma window_bounded:
  assumes "windowOK st"
  shows "windowOK (prune p st now) \<and> windowOK (recordFeatures p t st ev) \<and>
         windowOK (recordScored p t st ev score reason) \<and> windowOK (snd (stateBlocked p clock st now)) \<and>
         windowOK (rebuildWindow p st) \<and> windowOK (newProcState tgid seen)"
proof -
  have "windowOK (snd (stateBlocked p clock st now))"
    using assms by (simp add: stateBlocked_def Let_def windowOK_def)
  moreover have "windowOK (rebuildWindow p st)"
    using assms by (intro windowOK_rebuild) (simp add: windowOK_def)
  ultimately show ?thesis
    using assms by (simp add: windowOK_prune windowOK_recordFeatures windowOK_recordScored windowOK_new)
qed

lemma window_bounded_witness:
  "windowOK (recordScored zeroPolicy Map.empty (newProcState 7 1) zeroEvent 3 ''w'')"
  using window_bounded [of "newProcState 7 1"] windowOK_new by blast

text \<open>
  Pruning keeps exactly the events of the last window (and those without a time), and pruning again at the
  same instant changes nothing.
\<close>

lemma prune_exact:
  assumes "0 < pol_Window p"
  shows "ps_history (prune p st now) = filter (inWindow p now) (ps_history st) \<and>
         prune p (prune p st now) now = prune p st now"
proof (cases "ps_history st = []")
  case True
  then show ?thesis using assms by (simp add: prune_def clearWindow_def)
next
  case False
  define r where "r = filter (inWindow p now) (ps_history st)"
  show ?thesis
  proof (cases "length r = length (ps_history st)")
    case True
    then have "r = ps_history st" unfolding r_def by (metis filter_id_conv length_filter_less less_irrefl)
    with True False assms show ?thesis by (simp add: prune_def Let_def r_def [symmetric])
  next
    case ne: False
    have first: "isZero (ps_FirstSeen (rebuildWindow p (st\<lparr>ps_history := []\<rparr>)))"
      by (simp add: rebuildWindow_def Let_def highRate_def clearWindow_def)
    have "filter (inWindow p now) r = r" by (simp add: r_def)
    then show ?thesis
      using assms False ne first
      by (cases "r = []") (simp_all add: prune_def Let_def r_def [symmetric] rebuildWindow_fields)
  qed
qed

lemma prune_exact_witness:
  "ps_history (prune (zeroPolicy\<lparr>pol_Window := 10\<rparr>)
     ((newProcState 7 1)\<lparr>ps_history := [historyOf zeroPolicy Map.empty (zeroEvent\<lparr>ev_Timestamp := 5\<rparr>) 1 ''w'',
        historyOf zeroPolicy Map.empty (zeroEvent\<lparr>ev_Timestamp := 95\<rparr>) 1 ''w'']\<rparr>) 100) =
   [historyOf zeroPolicy Map.empty (zeroEvent\<lparr>ev_Timestamp := 95\<rparr>) 1 ''w'']"
  using prune_exact [of "zeroPolicy\<lparr>pol_Window := 10\<rparr>"]
  by (simp add: inWindow_def historyOf_def timeSub_def sat64_def)

end
