(* ===== verification/Agent_Laws.thy ===== *)
theory Agent_Laws
  imports Agent ProcWindow_Laws
begin

text \<open>
  Safety of the agent. \<open>stepOK tgid a b\<close> says what one call may do to the outside: only alert on, block and
  kill \<open>tgid\<close>, enforce nothing in a dry run, and count every alert. \<open>agentOK\<close> is the invariant of the
  agent's own state. Both are shown operation by operation and composed along \<open>handle\<close>.
\<close>

named_theorems step_intros \<open>what a single operation does to the outside\<close>
named_theorems keeps \<open>the operations keep the invariant of the agent\<close>

section \<open>What a step may do to the outside\<close>

fun okEffect :: "u32 \<Rightarrow> bool \<Rightarrow> effect \<Rightarrow> bool" where
  "okEffect tgid dry (Alert al) = (al_TGID al = tgid)"
| "okEffect tgid dry (PutBlock t action ttl) = (t = tgid \<and> \<not> dry)"
| "okEffect tgid dry (SigKill t) = (t = tgid \<and> \<not> dry)"
| "okEffect tgid dry (MetricsLine m) = False"

fun isAlert :: "effect \<Rightarrow> bool" where
  "isAlert (Alert al) = True"
| "isAlert _ = False"

definition stepOK :: "u32 \<Rightarrow> agent \<Rightarrow> agent \<Rightarrow> bool" where
  "stepOK tgid a b \<longleftrightarrow>
     ag_policy b = ag_policy a \<and> ag_DryRun b = ag_DryRun a \<and> ag_hasSensor b = ag_hasSensor a \<and>
     (\<exists>es. ag_trace b = ag_trace a @ es \<and> list_all (okEffect tgid (ag_DryRun a)) es \<and>
        mt_Alerts (ag_metrics b) = mt_Alerts (ag_metrics a) + of_nat (length (filter isAlert es)))"

lemma stepOK_quiet:
  "ag_policy b = ag_policy a \<Longrightarrow> ag_DryRun b = ag_DryRun a \<Longrightarrow> ag_hasSensor b = ag_hasSensor a \<Longrightarrow>
   ag_trace b = ag_trace a \<Longrightarrow> mt_Alerts (ag_metrics b) = mt_Alerts (ag_metrics a) \<Longrightarrow> stepOK tgid a b"
  by (auto simp: stepOK_def intro: exI [where x = "[]"])

lemma stepOK_refl [simp]: "stepOK tgid a a"
  by (rule stepOK_quiet) simp_all

lemma stepOK_trans: "stepOK tgid a b \<Longrightarrow> stepOK tgid b c \<Longrightarrow> stepOK tgid a c"
proof -
  assume ab: "stepOK tgid a b" and bc: "stepOK tgid b c"
  from ab obtain es where es: "ag_trace b = ag_trace a @ es" "list_all (okEffect tgid (ag_DryRun a)) es"
    "mt_Alerts (ag_metrics b) = mt_Alerts (ag_metrics a) + of_nat (length (filter isAlert es))"
    by (auto simp: stepOK_def)
  from bc obtain fs where fs: "ag_trace c = ag_trace b @ fs" "list_all (okEffect tgid (ag_DryRun b)) fs"
    "mt_Alerts (ag_metrics c) = mt_Alerts (ag_metrics b) + of_nat (length (filter isAlert fs))"
    by (auto simp: stepOK_def)
  have "ag_DryRun b = ag_DryRun a" using ab by (simp add: stepOK_def)
  with es fs have "ag_trace c = ag_trace a @ (es @ fs) \<and> list_all (okEffect tgid (ag_DryRun a)) (es @ fs) \<and>
      mt_Alerts (ag_metrics c) = mt_Alerts (ag_metrics a) + of_nat (length (filter isAlert (es @ fs)))"
    by simp
  then show ?thesis using ab bc unfolding stepOK_def by auto
qed

lemma stepOK_if:
  "(c \<Longrightarrow> stepOK tgid a x) \<Longrightarrow> (\<not> c \<Longrightarrow> stepOK tgid a y) \<Longrightarrow> stepOK tgid a (if c then x else y)"
  by simp

lemma stepOK_emit_other:
  "okEffect tgid (ag_DryRun a) e \<Longrightarrow> \<not> isAlert e \<Longrightarrow> stepOK tgid a (emit e a)"
  by (auto simp: stepOK_def emit_def intro: exI [where x = "[e]"])

lemma stepOK_alert:
  "al_TGID al = tgid \<Longrightarrow> stepOK tgid a (countAlert (emit (Alert al) a))"
  by (auto simp: stepOK_def emit_def countAlert_def intro: exI [where x = "[Alert al]"])

lemma stepOK_countBlock [step_intros]: "stepOK tgid a (countBlock a)"
  by (rule stepOK_quiet) (simp_all add: countBlock_def)

lemma stepOK_countBlacklistMatch [step_intros]: "stepOK tgid a (countBlacklistMatch a)"
  by (rule stepOK_quiet) (simp_all add: countBlacklistMatch_def)

lemma stepOK_rememberBlocked [step_intros]: "stepOK tgid a (rememberBlocked en a t)"
  by (rule stepOK_quiet) (simp_all add: rememberBlocked_def)

lemma stepOK_putState [step_intros]: "stepOK tgid a (putState a t st)"
  by (rule stepOK_quiet) (simp_all add: putState_def)

lemma stepOK_enforceTGID [step_intros]: "stepOK tgid a (enforceTGID en a tgid action)"
proof (cases "ag_DryRun a \<or> \<not> ag_hasSensor a \<or> \<not> en_block en tgid action (pol_BlockTTL (ag_policy a))")
  case True
  then show ?thesis by (auto simp: enforceTGID_def)
next
  case False
  let ?a1 = "emit (PutBlock tgid action (pol_BlockTTL (ag_policy a))) a"
  have "stepOK tgid a ?a1" using False by (intro stepOK_emit_other) auto
  then have a2: "stepOK tgid a (rememberBlocked en ?a1 tgid)" by (rule stepOK_trans) (rule step_intros)
  have "stepOK tgid (rememberBlocked en ?a1 tgid) (emit (SigKill tgid) (rememberBlocked en ?a1 tgid))"
    using False by (intro stepOK_emit_other) (auto simp: rememberBlocked_def emit_def)
  then have "stepOK tgid a (emit (SigKill tgid) (rememberBlocked en ?a1 tgid))" by (rule stepOK_trans [OF a2])
  with a2 show ?thesis unfolding enforceTGID_def Let_def by (intro stepOK_if stepOK_refl)
qed

lemma stepOK_emitAlert [step_intros]: "ps_TGID st = tgid \<Longrightarrow> stepOK tgid a (emitAlert en a st action dry)"
  unfolding emitAlert_def by (rule stepOK_alert) (simp add: alertOf_def)

lemma stepOK_alertAndEnforce [step_intros]:
  assumes "ps_TGID st = tgid"
  shows "stepOK tgid a (alertAndEnforce en a st action)"
proof -
  let ?act = "normalizeAction (ToLower (TrimSpace action))"
  let ?a1 = "emitAlert en a st ?act (ag_DryRun a)"
  have a1: "stepOK tgid a ?a1" using assms by (rule step_intros)
  have "stepOK tgid a (rememberBlocked en ?a1 tgid)" using a1 by (rule stepOK_trans) (rule step_intros)
  moreover have "stepOK tgid a (countBlock ?a1)" using a1 by (rule stepOK_trans) (rule step_intros)
  then have "stepOK tgid a (enforceTGID en (countBlock ?a1) tgid (blockAction ?act))"
    by (rule stepOK_trans) (rule step_intros)
  ultimately show ?thesis using a1 unfolding alertAndEnforce_def Let_def assms by (intro stepOK_if)
qed

lemma stepOK_enforceBlacklist [step_intros]:
  "stepOK tgid a (enforceBlacklist en a tgid pid ppid uid comm path hash reason)"
proof -
  let ?al = "blacklistAlert en a tgid pid ppid uid comm path hash reason"
  have "stepOK tgid a (countAlert (emit (Alert ?al) a))"
    by (rule stepOK_alert) (simp add: blacklistAlert_def)
  then have a1: "stepOK tgid a (countBlacklistMatch (countAlert (emit (Alert ?al) a)))"
    by (rule stepOK_trans) (rule step_intros)
  then have "stepOK tgid a (countBlock (countBlacklistMatch (countAlert (emit (Alert ?al) a))))"
    by (rule stepOK_trans) (rule step_intros)
  then have "stepOK tgid a (enforceTGID en (countBlock (countBlacklistMatch (countAlert (emit (Alert ?al) a)))) tgid 2)"
    by (rule stepOK_trans) (rule step_intros)
  with a1 show ?thesis unfolding enforceBlacklist_def Let_def by (intro stepOK_if)
qed

section \<open>The invariant of the agent's state\<close>

definition agentOK :: "agent \<Rightarrow> bool" where
  "agentOK a \<longleftrightarrow>
     (\<forall>k st. ag_procs a k = Some st \<longrightarrow> windowOK st \<and> ps_TGID st = k) \<and>
     fdOK (ag_fdPaths a) \<and> cacheOK (ag_hashes a) \<and> length (ag_hashQueue a) \<le> hashQueueCap"

lemma agentOK_New: "agentOK (New w p dry sensor)"
  by (simp add: agentOK_def New_def cacheOK_new)

text \<open>Operations that only look things up: they alert on nothing and keep every window.\<close>

definition calm :: "agent \<Rightarrow> agent \<Rightarrow> bool" where
  "calm a b \<longleftrightarrow> ag_policy b = ag_policy a \<and> ag_DryRun b = ag_DryRun a \<and> ag_hasSensor b = ag_hasSensor a \<and>
     ag_trace b = ag_trace a \<and> ag_metrics b = ag_metrics a \<and> ag_procs b = ag_procs a \<and>
     abstractFd (ag_fdPaths b) = abstractFd (ag_fdPaths a) \<and>
     (fdOK (ag_fdPaths a) \<longrightarrow> fdOK (ag_fdPaths b)) \<and> (cacheOK (ag_hashes a) \<longrightarrow> cacheOK (ag_hashes b)) \<and>
     (length (ag_hashQueue a) \<le> hashQueueCap \<longrightarrow> length (ag_hashQueue b) \<le> hashQueueCap)"

lemma calm_refl [simp]: "calm a a"
  by (simp add: calm_def)

lemma calm_trans: "calm a b \<Longrightarrow> calm b c \<Longrightarrow> calm a c"
  by (simp add: calm_def)

lemma calm_stepOK: "calm a b \<Longrightarrow> stepOK tgid a b"
  by (rule stepOK_quiet) (simp_all add: calm_def)

lemma calm_agentOK: "calm a b \<Longrightarrow> agentOK a \<Longrightarrow> agentOK b"
  by (simp add: calm_def agentOK_def)

lemma calm_isBlocked: "calm a (snd (isBlocked en a t))"
  by (simp add: isBlocked_def calm_def split: option.split)

lemma calm_blockedLineage: "calm a (snd (blockedLineage en a ev))"
  using calm_isBlocked [of a en "ev_TGID ev"] calm_isBlocked [of "snd (isBlocked en a (ev_TGID ev))" en "ev_PPID ev"]
  by (auto simp: blockedLineage_def intro: calm_trans split: prod.splits bool.splits)

lemma calm_procInfoOf: "calm a (snd (procInfoOf en a tgid seen))"
  by (simp add: procInfoOf_def Let_def calm_def split: option.split)

lemma calm_cacheExecInfo: "calm a (cacheExecInfo en a ev)"
  by (simp add: cacheExecInfo_def Let_def calm_def split: option.split)

lemma calm_isTrustedEvent: "calm a (snd (isTrustedEvent en a ev))"
  using calm_procInfoOf [of a en "ev_TGID ev" "ev_Timestamp ev"]
  by (auto simp: isTrustedEvent_def Let_def split: prod.splits option.splits)

lemma calm_hashes: "(cacheOK (ag_hashes a) \<Longrightarrow> cacheOK c) \<Longrightarrow> calm a (a\<lparr>ag_hashes := c\<rparr>)"
  by (simp add: calm_def)

lemma calm_enqueueHash: "calm a (enqueueHash a job)"
  by (simp add: enqueueHash_def calm_def)

lemma calm_blacklistedEvent: "calm a (snd (blacklistedEvent en a ev))"
proof -
  define g where "g = get (ag_hashes a) (w_stat (en_world en) (ev_Path ev)) (ev_Path ev)"
  have c: "calm a (a\<lparr>ag_hashes := snd g\<rparr>)"
    unfolding g_def by (rule calm_hashes) (rule get_cacheOK)
  have "calm a (enqueueHash (a\<lparr>ag_hashes := snd g\<rparr>) job)" for job
    using c calm_enqueueHash by (rule calm_trans)
  with c show ?thesis
    by (cases g) (auto simp: blacklistedEvent_def g_def [symmetric] split: option.splits)
qed

lemma calm_touchFD: "calm a (a\<lparr>ag_fdPaths := snd (touchFD (ag_fdPaths a) tgid fd seen)\<rparr>)"
  by (simp add: calm_def)

lemma calm_touch: "calm a (snd (touch a ev))"
  using calm_touchFD [of a "ev_TGID ev" "ev_Arg0 ev" "ev_Timestamp ev"]
  by (auto simp: touch_def split: prod.splits)

lemma calm_fdOrPick: "calm a (snd (fdOrPick a ev))"
  using calm_touchFD [of a "ev_TGID ev" "ev_Arg0 ev" "ev_Timestamp ev"]
  by (auto simp: fdOrPick_def split: prod.splits)

lemma calm_backupSensitiveEvent: "calm a (snd (backupSensitiveEvent a ev))"
  using calm_fdOrPick [of a ev] by (auto simp: backupSensitiveEvent_def Let_def split: prod.splits)

lemma calm_selfProtectSensitiveEvent: "calm a (snd (selfProtectSensitiveEvent a ev))"
  using calm_fdOrPick [of a ev] by (auto simp: selfProtectSensitiveEvent_def Let_def split: prod.splits)

lemma calm_score: "calm a (snd (score en a ev))"
  using calm_fdOrPick [of a ev] calm_touch [of a ev] calm_blockedLineage [of a en ev]
  by (auto simp: score_def Let_def split: prod.splits)

lemma calm_hashOf: "calm a (snd (hashOf en a path))"
proof -
  define r where "r = compute (en_victim en) (ag_hashes a) (w_stat (en_world en) path) path (en_attempts en path)"
  have "calm a (a\<lparr>ag_hashes := snd r\<rparr>)"
    unfolding r_def by (rule calm_hashes) (rule compute_cacheOK)
  then show ?thesis by (cases r) (auto simp: hashOf_def r_def [symmetric] split: sum.splits)
qed

section \<open>Windows\<close>

lemma prune_TGID [simp]: "ps_TGID (prune p st now) = ps_TGID st"
  using rebuildWindow_fields(11) [of p "st\<lparr>ps_history := filter (inWindow p now) (ps_history st)\<rparr>"]
  by (simp add: prune_def Let_def clearWindow_def sameOutside_def)

lemma recordFeatures_TGID [simp]: "ps_TGID (recordFeatures p t st ev) = ps_TGID st"
  using recordFeatures_outside [of p t st ev] by (simp add: sameOutside_def)

lemma recordScored_TGID [simp]: "ps_TGID (recordScored p t st ev sc reason) = ps_TGID st"
proof -
  let ?a = "addScored p (recordFeatures p t st ev) ev sc reason"
  have a: "ps_TGID ?a = ps_TGID st"
    using addScored_fields(8) [of p "recordFeatures p t st ev" ev sc reason] by (simp add: sameOutside_def)
  have "ps_TGID (rebuildWindow p (?a\<lparr>ps_history := h\<rparr>)) = ps_TGID ?a" for h
    using rebuildWindow_fields(11) [of p "?a\<lparr>ps_history := h\<rparr>"] by (simp add: sameOutside_def)
  with a show ?thesis by (simp add: recordScored_def pushHistory_def Let_def)
qed

lemma stateBlocked_TGID [simp]: "ps_TGID (snd (stateBlocked p clock st now)) = ps_TGID st"
  by (simp add: stateBlocked_def Let_def)

lemma stateBlocked_windowOK: "windowOK st \<Longrightarrow> windowOK (snd (stateBlocked p clock st now))"
  by (simp add: stateBlocked_def Let_def windowOK_def)

lemma windowOK_flags [simp]:
  "windowOK (st\<lparr>ps_Blocked := b, ps_BlockedAt := t\<rparr>) = windowOK st"
  by (simp add: windowOK_def)

lemma windowOK_reason: "windowOK st \<Longrightarrow> windowOK (st\<lparr>ps_Reasons := appendReason (ps_Reasons st) r\<rparr>)"
  by (simp add: windowOK_def)

lemma windowOK_recordIOC: "windowOK st \<Longrightarrow> windowOK (recordIOC p st se reason)"
  by (simp add: windowOK_def recordIOC_def)

lemma recordIOC_TGID [simp]: "ps_TGID (recordIOC p st se reason) = ps_TGID st"
  by (simp add: recordIOC_def)

lemma newProcState_TGID: "ps_TGID (newProcState tgid seen) = tgid"
  by (simp add: newProcState_def)

lemma state_ok:
  assumes "agentOK a"
  shows "windowOK (state en a ev)" and "ps_TGID (state en a ev) = ev_TGID ev"
proof -
  define st where "st = (case ag_procs a (ev_TGID ev) of Some s \<Rightarrow> s
    | None \<Rightarrow> newProcState (ev_TGID ev) (if isZero (ev_Timestamp ev) then en_now en else ev_Timestamp ev))"
  have "windowOK st \<and> ps_TGID st = ev_TGID ev"
    using assms windowOK_new by (auto simp: st_def agentOK_def newProcState_TGID split: option.splits)
  then show "windowOK (state en a ev)" "ps_TGID (state en a ev) = ev_TGID ev"
    by (simp_all add: state_def Let_def st_def [symmetric] windowOK_def)
qed

lemma agentOK_putState: "agentOK a \<Longrightarrow> windowOK st \<Longrightarrow> ps_TGID st = tgid \<Longrightarrow> agentOK (putState a tgid st)"
  by (simp add: agentOK_def putState_def)

text \<open>Effects leave the state behind the invariant alone.\<close>

lemma agentOK_emit [keeps]: "agentOK (emit e a) = agentOK a"
  by (simp add: agentOK_def emit_def)

lemma agentOK_counts [keeps]: "agentOK (countAlert a) = agentOK a" "agentOK (countBlock a) = agentOK a"
  "agentOK (countBlacklistMatch a) = agentOK a" "agentOK (rememberBlocked en a t) = agentOK a"
  by (simp_all add: agentOK_def countAlert_def countBlock_def countBlacklistMatch_def rememberBlocked_def)

lemma agentOK_enforceTGID [keeps]: "agentOK (enforceTGID en a tgid action) = agentOK a"
  by (simp add: enforceTGID_def Let_def keeps)

lemma agentOK_emitAlert [keeps]: "agentOK (emitAlert en a st action dry) = agentOK a"
  by (simp add: emitAlert_def keeps)

lemma agentOK_alertAndEnforce [keeps]: "agentOK (alertAndEnforce en a st action) = agentOK a"
  by (simp add: alertAndEnforce_def Let_def keeps)

lemma agentOK_enforceBlacklist [keeps]:
  "agentOK (enforceBlacklist en a tgid pid ppid uid comm path hash reason) = agentOK a"
  by (simp add: enforceBlacklist_def Let_def keeps)

section \<open>Composition along \<open>handle\<close>\<close>

text \<open>\<open>safe tgid a b\<close>: the step does to the outside what it may, and keeps the invariant.\<close>

definition safe :: "u32 \<Rightarrow> agent \<Rightarrow> agent \<Rightarrow> bool" where
  "safe tgid a b \<longleftrightarrow> stepOK tgid a b \<and> (agentOK a \<longrightarrow> agentOK b)"

lemma safe_refl [simp]: "safe tgid a a"
  by (simp add: safe_def)

lemma safe_trans: "safe tgid a b \<Longrightarrow> safe tgid b c \<Longrightarrow> safe tgid a c"
  by (auto simp: safe_def intro: stepOK_trans)

lemma safe_calm: "calm a b \<Longrightarrow> safe tgid a b"
  by (auto simp: safe_def calm_stepOK calm_agentOK)

lemma safe_if:
  "(c \<Longrightarrow> safe tgid a x) \<Longrightarrow> (\<not> c \<Longrightarrow> safe tgid a y) \<Longrightarrow> safe tgid a (if c then x else y)"
  by simp

lemma safe_putState: "windowOK st \<Longrightarrow> ps_TGID st = tgid \<Longrightarrow> safe tgid a (putState a tgid st)"
  by (simp add: safe_def step_intros agentOK_putState)

lemma safe_alertAndEnforce: "ps_TGID st = tgid \<Longrightarrow> safe tgid a (alertAndEnforce en a st action)"
  by (simp add: safe_def step_intros keeps)

lemma safe_putAlert:
  "windowOK st \<Longrightarrow> ps_TGID st = tgid \<Longrightarrow> safe tgid a (alertAndEnforce en (putState a tgid st) st action)"
  by (rule safe_trans [OF safe_putState safe_alertAndEnforce])

lemma safe_inlineIOC:
  assumes "agentOK a"
  shows "safe (ev_TGID ev) a (handleInlineIOCBlock en a ev)"
proof -
  let ?p = "ag_policy a" and ?now = "ev_Timestamp ev"
  define x where "x = stateBlocked ?p (en_now en) (prune ?p (state en a ev) ?now) ?now"
  have ok: "windowOK (snd x)" "ps_TGID (snd x) = ev_TGID ev"
    unfolding x_def using state_ok [OF assms] by (simp_all add: stateBlocked_windowOK windowOK_prune)
  have put: "safe (ev_TGID ev) a (putState a (ev_TGID ev) st)"
    if "windowOK st" "ps_TGID st = ev_TGID ev" for st using that by (rule safe_putState)
  have "safe (ev_TGID ev) a (countBlock (emitAlert en (putState a (ev_TGID ev) st) st action False))"
    if "windowOK st" "ps_TGID st = ev_TGID ev" for st action
  proof -
    have "safe (ev_TGID ev) b (countBlock (emitAlert en b st action False))" for b
      unfolding safe_def keeps
      using stepOK_trans [OF stepOK_emitAlert [OF that(2)] stepOK_countBlock] by simp
    with put [OF that] show ?thesis by (rule safe_trans)
  qed
  moreover have "windowOK ((recordIOC ?p (snd x) se r)\<lparr>ps_Blocked := True, ps_BlockedAt := ?now\<rparr>)" for se r
    using ok by (simp add: windowOK_recordIOC)
  ultimately show ?thesis
    using ok put unfolding handleInlineIOCBlock_def Let_def x_def [symmetric]
    by (cases x) simp
qed

lemma safe_handleIOC:
  assumes "agentOK a"
  shows "safe (ev_TGID ev) a (handleIOC en a ev reason)"
  unfolding handleIOC_def Let_def
  using state_ok [OF assms, of en ev]
  by (intro safe_putAlert windowOK_recordIOC) (simp_all add: windowOK_recordFeatures windowOK_prune)

lemma safe_block:
  assumes "windowOK st" and "ps_TGID st = tgid"
  shows "safe tgid a (block en a tgid st)"
  unfolding block_def Let_def using assms by (intro safe_putAlert) simp_all

lemma safe_checkThreshold:
  assumes "windowOK st" and "ps_TGID st = ev_TGID ev"
  shows "safe (ev_TGID ev) a (checkThreshold en a ev st)"
proof -
  define x where "x = stateBlocked (ag_policy a) (en_now en) st (ev_Timestamp ev)"
  have "windowOK (snd x)" "ps_TGID (snd x) = ev_TGID ev"
    unfolding x_def using assms by (simp_all add: stateBlocked_windowOK)
  then show ?thesis
    using assms unfolding checkThreshold_def x_def [symmetric]
    by (cases x) (simp add: safe_putState safe_block)
qed

lemma safe_handleScored:
  assumes "agentOK a"
  shows "safe (ev_TGID ev) a (handleScored en a ev sc reason)"
proof -
  let ?p = "ag_policy a" and ?now = "ev_Timestamp ev"
  let ?st0 = "recordScored ?p (ag_fdPaths a) (prune ?p (state en a ev) ?now) ev sc reason"
  obtain bl st where x: "stateBlocked ?p (en_now en) ?st0 ?now = (bl, st)" by (metis surj_pair)
  have st0: "windowOK ?st0" "ps_TGID ?st0 = ev_TGID ev"
    using state_ok [OF assms, of en ev] by (simp_all add: windowOK_recordScored windowOK_prune)
  have ok: "windowOK st" "ps_TGID st = ev_TGID ev"
    using stateBlocked_windowOK [OF st0(1), of ?p "en_now en" ?now]
      stateBlocked_TGID [of ?p "en_now en" ?st0 ?now] st0(2) unfolding x by simp_all
  show ?thesis
  proof (cases "matchRule ?p st")
    case None
    show ?thesis
      unfolding handleScored_def Let_def x prod.case None option.case using ok by (rule safe_checkThreshold)
  next
    case (Some r)
    obtain why action where r: "r = (why, action)" by (metis surj_pair)
    show ?thesis
      unfolding handleScored_def Let_def x prod.case Some r option.case
      by (intro safe_if safe_checkThreshold safe_putAlert windowOK_reason) (simp_all add: ok)
  qed
qed

lemma safe_detect:
  assumes "agentOK a"
  shows "safe (ev_TGID ev) a (detect en a ev)"
proof -
  have c: "calm a (snd (score en a ev))" by (rule calm_score)
  then have "agentOK (snd (score en a ev))" using assms by (rule calm_agentOK)
  then have "safe (ev_TGID ev) a (handleScored en (snd (score en a ev)) ev sc why)" for sc why
    using safe_trans [OF safe_calm [OF c] safe_handleScored] by blast
  then show ?thesis
    using safe_handleIOC [OF assms, of ev en] safe_calm [OF c]
    by (auto simp: detect_def Let_def split: prod.splits)
qed

lemma safe_screen:
  assumes "agentOK a"
  shows "safe (ev_TGID ev) a (screen en a ev)"
proof -
  obtain hit hash a1 where 1: "blacklistedEvent en a ev = ((hit, hash), a1)"
    by (metis surj_pair)
  obtain tr a2 where 2: "isTrustedEvent en a1 ev = (tr, a2)" by (metis surj_pair)
  obtain ba a3 where 3: "backupSensitiveEvent a2 ev = (ba, a3)" by (metis surj_pair)
  obtain se a4 where 4: "selfProtectSensitiveEvent a3 ev = (se, a4)" by (metis surj_pair)
  have c1: "calm a a1" using calm_blacklistedEvent [of a en ev] 1 by simp
  have c2: "calm a a2" using calm_isTrustedEvent [of a1 en ev] 2 c1 by (auto intro: calm_trans)
  have c3: "calm a a3" using calm_backupSensitiveEvent [of a2 ev] 3 c2 by (auto intro: calm_trans)
  have c4: "calm a a4" using calm_selfProtectSensitiveEvent [of a3 ev] 4 c3 by (auto intro: calm_trans)
  have d: "safe (ev_TGID ev) a (detect en b ev)" if "calm a b" for b
    using safe_trans [OF safe_calm [OF that] safe_detect [OF calm_agentOK [OF that assms]]] .
  have e: "safe (ev_TGID ev) a (enforceBlacklist en a1 (ev_TGID ev) pid ppid uid comm path h r)"
    for pid ppid uid comm path h r
    using safe_calm [OF c1] by (rule safe_trans) (simp add: safe_def step_intros keeps)
  show ?thesis
    unfolding screen_def Let_def 1 2 3 4 prod.case
    using c2 c3 c4 by (intro safe_if d e safe_calm)
qed

lemma safe_handleInScope:
  assumes "agentOK a"
  shows "safe (ev_TGID ev) a (handleInScope en a ev)"
proof -
  obtain b a2 where b: "blockedLineage en (cacheExecInfo en a ev) ev = (b, a2)" by (metis surj_pair)
  have c1: "calm a (cacheExecInfo en a ev)" by (rule calm_cacheExecInfo)
  have c2: "calm a a2" using calm_blockedLineage [of "cacheExecInfo en a ev" en ev] b c1 by (auto intro: calm_trans)
  have s: "safe (ev_TGID ev) a (screen en a2 ev)"
    using safe_trans [OF safe_calm [OF c2] safe_screen [OF calm_agentOK [OF c2 assms]]] .
  have e: "safe (ev_TGID ev) a (enforceTGID en a2 (ev_TGID ev) action)" for action
    using safe_calm [OF c2] by (rule safe_trans) (simp add: safe_def step_intros keeps)
  show ?thesis
    unfolding handleInScope_def Let_def b prod.case
    by (intro safe_if safe_calm [OF c1] s e safe_screen [OF assms])
qed

lemma safe_handle:
  assumes "agentOK a"
  shows "safe (ev_TGID ev) a (handle en a ev)"
proof -
  define ev1 where "ev1 = (if isZero (ev_Timestamp ev) then ev\<lparr>ev_Timestamp := en_now en\<rparr> else ev)"
  have t1: "ev_TGID ev1 = ev_TGID ev" by (simp add: ev1_def)
  obtain t ev2 stop where u: "updateFD (en_world en) (ag_fdPaths a) ev1 = (t, ev2, stop)" by (metis surj_pair)
  have t2: "ev_TGID ev2 = ev_TGID ev" using updateFD_type [OF u] t1 by simp
  have "fdOK t" using updateFD_fdOK [of "ag_fdPaths a" "en_world en" ev1] assms u by (simp add: agentOK_def)
  then have ok: "agentOK (a\<lparr>ag_fdPaths := t\<rparr>)" using assms by (simp add: agentOK_def)
  have fd: "safe (ev_TGID ev) a (a\<lparr>ag_fdPaths := t\<rparr>)"
    using ok by (simp add: safe_def stepOK_quiet)
  have s: "safe (ev_TGID ev) a (handleInScope en (a\<lparr>ag_fdPaths := t\<rparr>) ev2)"
    using safe_trans [OF fd safe_handleInScope [OF ok, of ev2 en, unfolded t2]] .
  have i: "safe (ev_TGID ev) a (handleInlineIOCBlock en a ev1)"
    using safe_inlineIOC [OF assms, of ev1 en] by (simp add: t1)
  show ?thesis
    unfolding handle_def Let_def ev1_def [symmetric] u prod.case
    using fd s i by (intro safe_if safe_refl)
qed

end
