(* ===== verification/Agent_Run.thy ===== *)
theory Agent_Run
  imports Agent_Laws
begin

text \<open>
  The agent as a state machine: events, the hash worker, the blacklist scanner and the three tickers of
  \<open>Run\<close> as steps, each handler being one step. The invariants hold in every reachable state.
\<close>

section \<open>Steps\<close>

inductive agentStep :: "agent \<Rightarrow> agent \<Rightarrow> bool" where
  event: "agentStep a (handle en a ev)"
| hashJob: "agentStep a (hashWorkerStep en a)"
| scan: "agentStep a (scanBlacklistOnce en a)"
| pruneTick: "agentStep a (pruneIdle a now)"
| dropTick: "agentStep a (logRingbufDrops a drops gaps)"
| metricsTick: "agentStep a (logMetrics a)"

inductive_cases agentStepE: "agentStep a b"

inductive reachable :: "agent \<Rightarrow> agent \<Rightarrow> bool" for a0 where
  start: "reachable a0 a0"
| step: "reachable a0 a \<Longrightarrow> agentStep a b \<Longrightarrow> reachable a0 b"

fun enforces :: "effect \<Rightarrow> bool" where
  "enforces (PutBlock t action ttl) = True"
| "enforces (SigKill t) = True"
| "enforces _ = False"

definition traceOK :: "agent \<Rightarrow> bool" where
  "traceOK a \<longleftrightarrow> (ag_DryRun a \<longrightarrow> (\<forall>e \<in> set (ag_trace a). \<not> enforces e)) \<and>
     mt_Alerts (ag_metrics a) = of_nat (length (filter isAlert (ag_trace a)))"

lemma okEffect_dry: "okEffect tgid True e \<Longrightarrow> \<not> enforces e"
  by (cases e) auto

lemma stepOK_traceOK: "stepOK tgid a b \<Longrightarrow> traceOK a \<Longrightarrow> traceOK b"
  using okEffect_dry by (fastforce simp: stepOK_def traceOK_def list_all_iff)

definition machineOK :: "agent \<Rightarrow> bool" where
  "machineOK a \<longleftrightarrow> agentOK a \<and> traceOK a"

lemma safe_machineOK: "safe tgid a b \<Longrightarrow> machineOK a \<Longrightarrow> machineOK b"
  by (auto simp: safe_def machineOK_def intro: stepOK_traceOK)

lemma machineOK_New: "machineOK (New w p dry sensor)"
  using agentOK_New by (simp add: machineOK_def traceOK_def) (simp add: New_def)

section \<open>Every step keeps the invariants\<close>

lemma machineOK_handle: "machineOK a \<Longrightarrow> machineOK (handle en a ev)"
  by (rule safe_machineOK [OF safe_handle]) (simp_all add: machineOK_def)

lemma safe_hashEnforce:
  assumes "hashOf en a path = (r, a1)"
  shows "safe tgid a a1" and "safe tgid a (enforceBlacklist en a1 tgid pid ppid uid comm path' hash reason)"
proof -
  have "calm a a1" using calm_hashOf [of a en path] assms by simp
  then show s: "safe tgid a a1" by (rule safe_calm)
  show "safe tgid a (enforceBlacklist en a1 tgid pid ppid uid comm path' hash reason)"
    using s by (rule safe_trans) (simp add: safe_def step_intros keeps)
qed

lemma machineOK_hashWorker:
  assumes "machineOK a"
  shows "machineOK (hashWorkerStep en a)"
proof (cases "ag_blacklist a = None \<or> ag_hashQueue a = []")
  case True
  then show ?thesis using assms by (auto simp: hashWorkerStep_def split: option.split list.split)
next
  case False
  then obtain bl job rest where b: "ag_blacklist a = Some bl" "ag_hashQueue a = job # rest"
    by (cases "ag_hashQueue a") auto
  let ?a = "a\<lparr>ag_hashQueue := rest\<rparr>"
  have ok: "machineOK ?a" using assms b by (simp add: machineOK_def agentOK_def traceOK_def)
  obtain r a1 where r: "hashOf en ?a (hj_Path job) = (r, a1)" by (metis surj_pair)
  note s = safe_hashEnforce [OF r]
  show ?thesis
    using safe_machineOK [OF s(1) ok] safe_machineOK [OF s(2) ok]
    by (auto simp: hashWorkerStep_def b r Let_def split: option.split)
qed

lemma machineOK_scanProc: "machineOK a \<Longrightarrow> machineOK (scanProc en bl a info)"
proof -
  assume ok: "machineOK a"
  obtain r a1 where r: "hashOf en a (pi_Exe info) = (r, a1)" by (metis surj_pair)
  note s = safe_hashEnforce [OF r]
  show ?thesis
    using ok safe_machineOK [OF s(1) ok] safe_machineOK [OF s(2) ok]
    by (auto simp: scanProc_def procHash_def r split: option.split)
qed

lemma machineOK_scan: "machineOK a \<Longrightarrow> machineOK (scanBlacklistOnce en a)"
proof -
  assume ok: "machineOK a"
  have "machineOK (a\<lparr>ag_blacklist := b\<rparr>)" for b
    using ok by (simp add: machineOK_def agentOK_def traceOK_def)
  moreover have "machineOK x \<Longrightarrow> machineOK (foldl (scanProc en bl) x procs)" for x bl procs
    by (rule foldl_invariant) (simp_all add: machineOK_scanProc)
  ultimately show ?thesis using ok by (simp add: scanBlacklistOnce_def Let_def split: option.split)
qed

lemma machineOK_pruneIdle: "machineOK a \<Longrightarrow> machineOK (pruneIdle a now)"
  by (auto simp: machineOK_def agentOK_def traceOK_def pruneIdle_def Let_def fdOK_def keepWhere_Some_iff)

lemma machineOK_drops: "machineOK a \<Longrightarrow> machineOK (logRingbufDrops a drops gaps)"
  by (simp add: machineOK_def agentOK_def traceOK_def logRingbufDrops_def ringbufDropDelta_def
      captureGapDelta_def Let_def split: option.split)

lemma machineOK_metrics: "machineOK a \<Longrightarrow> machineOK (logMetrics a)"
  by (auto simp: machineOK_def agentOK_def traceOK_def logMetrics_def Let_def emit_def)

lemmas machineOK_steps = machineOK_handle machineOK_hashWorker machineOK_scan machineOK_pruneIdle
  machineOK_drops machineOK_metrics

lemma reachable_machineOK: "reachable a0 a \<Longrightarrow> machineOK a0 \<Longrightarrow> machineOK a"
  by (induction rule: reachable.induct) (auto elim!: agentStepE intro: machineOK_steps)

lemma agentStep_options: "agentStep a b \<Longrightarrow> machineOK a \<Longrightarrow> ag_DryRun b = ag_DryRun a \<and> ag_policy b = ag_policy a \<and>
    ag_hasSensor b = ag_hasSensor a"
proof (erule agentStepE)
  fix en ev
  assume "b = handle en a ev" "machineOK a"
  then show ?thesis using safe_handle [of a ev en] by (simp add: machineOK_def safe_def stepOK_def)
next
  fix en
  assume b: "b = hashWorkerStep en a"
  have e: "ag_DryRun x = ag_DryRun a \<and> ag_policy x = ag_policy a \<and>
    ag_hasSensor x = ag_hasSensor a"
    if "safe t (a\<lparr>ag_hashQueue := rest\<rparr>) x" for t x rest
    using that by (simp add: safe_def stepOK_def)
  show ?thesis
  proof (cases "ag_blacklist a = None \<or> ag_hashQueue a = []")
    case True
    then show ?thesis by (auto simp: b hashWorkerStep_def split: option.split list.split)
  next
    case False
    then obtain bl job rest where q: "ag_blacklist a = Some bl" "ag_hashQueue a = job # rest"
      by (cases "ag_hashQueue a") auto
    obtain r a1 where r: "hashOf en (a\<lparr>ag_hashQueue := rest\<rparr>) (hj_Path job) = (r, a1)" by (metis surj_pair)
    show ?thesis
      using e [OF safe_hashEnforce(1) [OF r]] e [OF safe_hashEnforce(2) [OF r]]
      by (auto simp: b hashWorkerStep_def q r Let_def split: option.split)
  qed
next
  fix en
  assume b: "b = scanBlacklistOnce en a"
  have one: "ag_DryRun (scanProc en bl x info) = ag_DryRun x \<and> ag_policy (scanProc en bl x info) = ag_policy x \<and>
    ag_hasSensor (scanProc en bl x info) = ag_hasSensor x" for bl x info
  proof -
    obtain r a1 where r: "hashOf en x (pi_Exe info) = (r, a1)" by (metis surj_pair)
    show ?thesis
      using safe_hashEnforce(1) [OF r, of 0] safe_hashEnforce(2) [OF r]
      by (auto simp: scanProc_def procHash_def r safe_def stepOK_def split: option.split)
  qed
  have "ag_DryRun (foldl (scanProc en bl) x procs) = ag_DryRun x \<and> ag_policy (foldl (scanProc en bl) x procs) = ag_policy x \<and>
    ag_hasSensor (foldl (scanProc en bl) x procs) = ag_hasSensor x"
    for bl x procs by (induction procs arbitrary: x) (simp_all add: one)
  then show ?thesis by (simp add: b scanBlacklistOnce_def Let_def split: option.split)
qed (simp_all add: pruneIdle_def logRingbufDrops_def ringbufDropDelta_def captureGapDelta_def
    logMetrics_def emit_def Let_def split: option.split)

lemma reachable_options:
  "reachable a0 a \<Longrightarrow> machineOK a0 \<Longrightarrow> ag_DryRun a = ag_DryRun a0 \<and> ag_policy a = ag_policy a0 \<and>
    ag_hasSensor a = ag_hasSensor a0"
  by (induction rule: reachable.induct) (auto dest: agentStep_options reachable_machineOK)

section \<open>Theorems\<close>

definition quietEnv :: env where
  "quietEnv = \<lparr>en_now = 100, en_world = emptyWorld, en_block = (\<lambda>_ _ _. True),
     en_attempts = (\<lambda>_. (\<lparr>at_before = None, at_hash = None, at_after = None\<rparr>,
       \<lparr>at_before = None, at_hash = None, at_after = None\<rparr>)), en_victim = 0\<rparr>"

definition srvPolicy :: "string \<Rightarrow> policy" where
  "srvPolicy action = zeroPolicy\<lparr>pol_Window := 10, pol_Threshold := 5, pol_Action := action,
     pol_ProtectedDirs := [''/srv''], pol_Scores := zeroScores\<lparr>sc_Unlink := 8\<rparr>\<rparr>"

definition unlinkEvent :: event where
  "unlinkEvent = zeroEvent\<lparr>ev_Timestamp := 50, ev_TGID := 7, ev_PID := 7, ev_Type := EventUnlink, ev_Path := ''/srv/a''\<rparr>"

text \<open>
  In a dry run nothing is ever enforced: in every state reachable from a new agent by any interleaving of
  events, hash jobs, scans and ticks, no process has been blocked or killed.
\<close>

lemma dry_run_never_enforces:
  assumes "reachable (New w p True sensor) a"
  shows "\<forall>e \<in> set (ag_trace a). \<not> enforces e"
proof -
  have "machineOK a" using assms machineOK_New by (rule reachable_machineOK)
  moreover have "ag_DryRun a" using reachable_options [OF assms machineOK_New] by (simp add: New_def)
  ultimately show ?thesis by (simp add: machineOK_def traceOK_def)
qed

lemma dry_run_never_enforces_witness:
  "list_all (\<lambda>e. \<not> enforces e)
     (ag_trace (handle quietEnv (New emptyWorld (srvPolicy ''kill'') True True) unlinkEvent))"
  unfolding list_all_iff
  by (rule dry_run_never_enforces [of emptyWorld "srvPolicy ''kill''" True])
    (rule reachable.step [OF reachable.start agentStep.event])

text \<open>
  C4. The agent's own state stays bounded and consistent in every reachable state: windows within their caps and
  filed under their process, no empty path in the descriptor table, at most 4096 cached digests, at
  most 1024 queued hash jobs, and the alert counter equal to the number of alerts emitted.
\<close>

theorem reachable_bounded:
  assumes "reachable (New w p dry sensor) a"
  shows "(\<forall>k st. ag_procs a k = Some st \<longrightarrow> windowOK st \<and> ps_TGID st = k) \<and> fdOK (ag_fdPaths a) \<and>
         length (ag_hashes a) \<le> 4096 \<and> length (ag_hashQueue a) \<le> 1024 \<and>
         mt_Alerts (ag_metrics a) = of_nat (length (filter isAlert (ag_trace a)))"
  using reachable_machineOK [OF assms machineOK_New]
  by (simp add: machineOK_def agentOK_def traceOK_def cacheOK_def go_consts)

theorem reachable_bounded_witness:
  "length (ag_hashQueue (handle quietEnv (New emptyWorld (srvPolicy ''kill'') False True) unlinkEvent)) \<le> 1024"
  using reachable_bounded [OF reachable.step [OF reachable.start agentStep.event]] by blast

text \<open>
  C3. Handling an event can only alert on, block or kill the process the event belongs to.
\<close>

theorem handle_only_own_process:
  assumes "agentOK a"
  shows "\<exists>es. ag_trace (handle en a ev) = ag_trace a @ es \<and>
    (\<forall>e \<in> set es. case e of Alert al \<Rightarrow> al_TGID al = ev_TGID ev
       | PutBlock t action ttl \<Rightarrow> t = ev_TGID ev \<and> \<not> ag_DryRun a
       | SigKill t \<Rightarrow> t = ev_TGID ev \<and> \<not> ag_DryRun a
       | MetricsLine m \<Rightarrow> False)"
proof -
  from safe_handle [OF assms, of ev en] obtain es where es: "ag_trace (handle en a ev) = ag_trace a @ es"
    "list_all (okEffect (ev_TGID ev) (ag_DryRun a)) es" by (auto simp: safe_def stepOK_def)
  have "case e of Alert al \<Rightarrow> al_TGID al = ev_TGID ev
       | PutBlock t action ttl \<Rightarrow> t = ev_TGID ev \<and> \<not> ag_DryRun a
       | SigKill t \<Rightarrow> t = ev_TGID ev \<and> \<not> ag_DryRun a
       | MetricsLine m \<Rightarrow> False" if "e \<in> set es" for e
    using es(2) that by (cases e) (auto simp: list_all_iff)
  with es(1) show ?thesis by blast
qed

theorem handle_only_own_process_witness:
  "list_all (\<lambda>e. case e of Alert al \<Rightarrow> al_TGID al = ev_TGID unlinkEvent
     | PutBlock t action ttl \<Rightarrow> t = ev_TGID unlinkEvent | SigKill t \<Rightarrow> t = ev_TGID unlinkEvent
     | MetricsLine m \<Rightarrow> False)
     (ag_trace (handle quietEnv (New emptyWorld (srvPolicy ''kill'') False True) unlinkEvent))"
proof -
  let ?a = "New emptyWorld (srvPolicy ''kill'') False True"
  have n: "ag_trace ?a = []" by (simp add: New_def)
  show ?thesis
    using handle_only_own_process [OF agentOK_New [of emptyWorld "srvPolicy ''kill''" False True], of quietEnv unlinkEvent]
    unfolding n append_Nil list_all_iff by (fastforce split: effect.splits)
qed

end
