(* ===== verification/Agent_Timers.thy ===== *)
theory Agent_Timers
  imports Agent_Run
begin

text \<open>
  The periodic work of the agent: idle pruning, the ticker intervals and the counters of the sensor. What
  pruning does to a cache and what a counter reading yields are the interfaces \<open>idle_cache\<close> and
  \<open>counter_delta\<close>; the agent's caches and counters are their instances.
\<close>

section \<open>Idle caches\<close>

locale idle_cache =
  fixes cache :: "agent \<Rightarrow> ('k \<rightharpoonup> 'v)" and seen :: "'v \<Rightarrow> time"
  assumes pruned: "cache (pruneIdle a now) = keepWhere (\<lambda>_ v. \<not> idle now (idleTTL (ag_policy a)) (seen v)) (cache a)"
begin

lemma kept_iff:
  "cache (pruneIdle a now) k = Some v \<longleftrightarrow> cache a k = Some v \<and> \<not> idle now (idleTTL (ag_policy a)) (seen v)"
  by (simp add: pruned keepWhere_Some_iff)

lemma recent_kept:
  "cache a k = Some v \<Longrightarrow> timeSub now (seen v) \<le> idleTTL (ag_policy a) \<Longrightarrow> cache (pruneIdle a now) k = Some v"
  by (simp add: kept_iff idle_def)

lemma idle_dropped:
  "cache a k = Some v \<Longrightarrow> idle now (idleTTL (ag_policy a)) (seen v) \<Longrightarrow> cache (pruneIdle a now) k = None"
  by (simp add: pruned keepWhere_None_iff)

lemma prune_shrinks: "dom (cache (pruneIdle a now)) \<subseteq> dom (cache a)"
  unfolding pruned by (rule dom_keepWhere)

lemma prune_later:
  assumes "now \<le> later" and "ag_policy b = ag_policy a" and "cache b = cache a"
  shows "dom (cache (pruneIdle b later)) \<subseteq> dom (cache (pruneIdle a now))"
proof
  fix k assume "k \<in> dom (cache (pruneIdle b later))"
  then obtain v where v: "cache a k = Some v" "\<not> idle later (idleTTL (ag_policy a)) (seen v)"
    using kept_iff [of b later k] assms(2,3) by auto
  have "timeSub now (seen v) \<le> timeSub later (seen v)" using assms(1) by (rule timeSub_mono)
  with v have "cache (pruneIdle a now) k = Some v" by (auto simp: kept_iff idle_def)
  then show "k \<in> dom (cache (pruneIdle a now))" by blast
qed

end

interpretation procs: idle_cache ag_procs ps_LastSeen
  by unfold_locales (simp add: pruneIdle_def Let_def)

interpretation fds: idle_cache ag_fdPaths fs_LastSeen
  by unfold_locales (simp add: pruneIdle_def Let_def)

interpretation infos: idle_cache ag_procInfos cp_LastSeen
  by unfold_locales (simp add: pruneIdle_def Let_def)

lemma idleTTL_minute: "minute \<le> idleTTL p"
  by (simp add: idleTTL_def Let_def)

lemma idleTTL_block: "pol_BlockTTL p \<le> idleTTL p"
  by (simp add: idleTTL_def Let_def)

text \<open>
  Idle pruning forgets exactly what has not been seen for the idle time: in the windows, the descriptor table
  and the process cache an entry survives if and only if it has no time or is not older than the idle time.
\<close>

lemma pruneIdle_exact:
  "(ag_procs (pruneIdle a now) k = Some st \<longleftrightarrow>
      ag_procs a k = Some st \<and> \<not> idle now (idleTTL (ag_policy a)) (ps_LastSeen st)) \<and>
   (ag_fdPaths (pruneIdle a now) key = Some s \<longleftrightarrow>
      ag_fdPaths a key = Some s \<and> \<not> idle now (idleTTL (ag_policy a)) (fs_LastSeen s)) \<and>
   (ag_procInfos (pruneIdle a now) k = Some c \<longleftrightarrow>
      ag_procInfos a k = Some c \<and> \<not> idle now (idleTTL (ag_policy a)) (cp_LastSeen c))"
  using procs.kept_iff fds.kept_iff infos.kept_iff by blast

text \<open>
  C29. A block is never forgotten early: a recorded block that is not older than the block TTL survives idle pruning,
  because the idle time is never shorter than the TTL (nor than a minute).
\<close>

theorem pruneIdle_keeps_blocks:
  assumes "ag_blocked a t = Some seen" and "\<not> isZero seen" and "timeSub now seen \<le> pol_BlockTTL (ag_policy a)"
  shows "ag_blocked (pruneIdle a now) t = Some seen"
  using assms idleTTL_block [of "ag_policy a"]
  by (simp add: pruneIdle_def Let_def keepWhere_Some_iff idle_def)

theorem pruneIdle_keeps_blocks_witness:
  "ag_blocked (pruneIdle ((New emptyWorld (zeroPolicy\<lparr>pol_BlockTTL := 600 * second\<rparr>) False True)
     \<lparr>ag_blocked := [7 \<mapsto> 1]\<rparr>) (500 * second)) 7 = Some 1"
  by (rule pruneIdle_keeps_blocks) (simp_all add: New_def timeSub_def sat64_def second_def)

text \<open>
  The ticker intervals are always between a second and a minute, so no policy can stop or flood the
  periodic work; the idle time is at least a minute and, when three windows fit into 64 bits, at
  least three windows.
\<close>

lemma intervals_bounded:
  "second \<le> pruneInterval p \<and> pruneInterval p \<le> minute \<and>
   5 * second \<le> ringbufDropInterval p \<and> ringbufDropInterval p \<le> minute \<and>
   10 * second \<le> metricsInterval p \<and> metricsInterval p \<le> minute \<and>
   minute \<le> idleTTL p \<and> (int64 (pol_Window p * 3) \<longrightarrow> 3 * pol_Window p \<le> idleTTL p)"
  by (auto simp: pruneInterval_def ringbufDropInterval_def metricsInterval_def Let_def go_consts
      idleTTL_def mul64_def wrap64_id)

lemma intervals_bounded_witness:
  "minute \<le> idleTTL (zeroPolicy\<lparr>pol_Window := 10 * second\<rparr>) \<and>
   3 * (10 * second) \<le> idleTTL (zeroPolicy\<lparr>pol_Window := 10 * second\<rparr>)"
  using intervals_bounded [of "zeroPolicy\<lparr>pol_Window := 10 * second\<rparr>"]
  by (simp add: int64_def second_def)

lemma wrap64_third: "0 < w \<Longrightarrow> int64 w \<Longrightarrow> \<not> int64 (w * 3) \<Longrightarrow> wrap64 (w * 3) = w * 3 - 2 ^ 64"
proof -
  assume "0 < w" "int64 w" "\<not> int64 (w * 3)"
  then have b: "2 ^ 63 \<le> w * 3" "w * 3 < 3 * 2 ^ 63" by (simp_all add: int64_def)
  have "int64 (w * 3 - 2 ^ 64)" using b by (simp add: int64_def)
  moreover have "wrap64 (w * 3) = wrap64 (w * 3 - 2 ^ 64)" by (rule wrap64_cong) simp
  ultimately show ?thesis by (simp add: wrap64_id)
qed

text \<open>
  C37. A window of more than a third of the 64-bit range wraps the idle time. For every positive window of which three do not
  fit into 64 bits, the idle time is three windows less \<open>2 ^ 64\<close>, raised to a minute and to the block TTL; unless the
  TTL is as long as the window, it is shorter than the window, and a process last seen one window ago, whose events
  the window still covers, is forgotten by the next idle pruning.
\<close>

theorem idleTTL_wraps:
  assumes "0 < pol_Window (ag_policy a)" and "int64 (pol_Window (ag_policy a))" and "\<not> int64 (pol_Window (ag_policy a) * 3)"
    and "pol_BlockTTL (ag_policy a) < pol_Window (ag_policy a)"
    and "ag_procs a t = Some st" and "\<not> isZero (ps_LastSeen st)"
    and "timeSub now (ps_LastSeen st) = pol_Window (ag_policy a)"
  shows "idleTTL (ag_policy a) = max (max minute (pol_Window (ag_policy a) * 3 - 2 ^ 64)) (pol_BlockTTL (ag_policy a)) \<and>
    idleTTL (ag_policy a) < pol_Window (ag_policy a) \<and> ag_procs (pruneIdle a now) t = None"
proof -
  let ?p = "ag_policy a"
  have ttl: "idleTTL ?p = max (max minute (pol_Window ?p * 3 - 2 ^ 64)) (pol_BlockTTL ?p)"
    using wrap64_third [OF assms(1-3)] by (simp add: idleTTL_def mul64_def Let_def max_def)
  moreover have "idleTTL ?p < pol_Window ?p"
    using assms(1-4) unfolding ttl by (simp add: int64_def minute_def)
  moreover from this have "ag_procs (pruneIdle a now) t = None"
    using procs.idle_dropped [OF assms(5), of now] assms(6,7) by (simp add: idle_def not_le)
  ultimately show ?thesis by blast
qed

theorem idleTTL_wraps_witness:
  "\<exists>q. normalize (zeroPolicy\<lparr>pol_WindowRaw := ''1000000h''\<rparr>) = Inr q \<and> idleTTL q = 10 * minute \<and>
     ag_procs (pruneIdle ((New emptyWorld q False True)\<lparr>ag_procs := [7 \<mapsto> (newProcState 7 1)\<lparr>ps_LastSeen := 1\<rparr>]\<rparr>)
       (1000000 * 3600 * second + 1)) 7 = None"
proof -
  have "case normalize (zeroPolicy\<lparr>pol_WindowRaw := ''1000000h''\<rparr>) of
      Inl e \<Rightarrow> False | Inr q \<Rightarrow> pol_Window q = 3600000000000000000 \<and> pol_BlockTTL q = 600000000000" by code_simp
  then obtain q where q: "normalize (zeroPolicy\<lparr>pol_WindowRaw := ''1000000h''\<rparr>) = Inr q"
      "pol_Window q = 3600000000000000000" "pol_BlockTTL q = 600000000000"
    by (cases "normalize (zeroPolicy\<lparr>pol_WindowRaw := ''1000000h''\<rparr>)") auto
  let ?a = "(New emptyWorld q False True)\<lparr>ag_procs := [7 \<mapsto> (newProcState 7 1)\<lparr>ps_LastSeen := 1\<rparr>]\<rparr>"
  have p: "ag_policy ?a = q" by (simp add: New_def)
  show ?thesis
    using idleTTL_wraps [of ?a 7 "(newProcState 7 1)\<lparr>ps_LastSeen := 1\<rparr>" "1000000 * 3600 * second + 1"] q unfolding p
    by (simp add: int64_def go_consts timeSub_def sat64_def)
qed

section \<open>Counters\<close>

text \<open>The sum of what successive readings report.\<close>

fun sumDeltas :: "(agent \<Rightarrow> u64 \<Rightarrow> u64 \<times> agent) \<Rightarrow> agent \<Rightarrow> u64 list \<Rightarrow> u64" where
  "sumDeltas delta a [] = 0"
| "sumDeltas delta a (c # cs) = fst (delta a c) + sumDeltas delta (snd (delta a c)) cs"

locale counter_delta =
  fixes delta :: "agent \<Rightarrow> u64 \<Rightarrow> u64 \<times> agent" and last_read :: "agent \<Rightarrow> u64"
  assumes delta_value: "fst (delta a c) = (if c < last_read a then c else c - last_read a)"
    and delta_last: "last_read (snd (delta a c)) = c"
begin

lemma sum_monotone:
  "sorted (last_read a # cs) \<Longrightarrow> sumDeltas delta a cs = last (last_read a # cs) - last_read a"
proof (induction cs arbitrary: a)
  case Nil
  then show ?case by simp
next
  case (Cons c cs)
  then have le: "last_read a \<le> c" and s: "sorted (last_read (snd (delta a c)) # cs)"
    by (simp_all add: delta_last)
  from Cons.IH [OF s] le show ?case by (simp add: delta_value delta_last not_less [symmetric])
qed

lemma reset_counts_from_zero: "c < last_read a \<Longrightarrow> fst (delta a c) = c"
  by (simp add: delta_value)

end

interpretation drops: counter_delta ringbufDropDelta ag_lastDrops
  by unfold_locales (simp_all add: ringbufDropDelta_def Let_def)

interpretation gaps: counter_delta captureGapDelta ag_lastCaptureGaps
  by unfold_locales (simp_all add: captureGapDelta_def Let_def)

text \<open>
  No drop or gap is reported twice or lost: over readings that never decrease, the reported deltas of either
  counter add up to the last reading minus the one recorded before; a reading below the previous one is taken as
  a restarted counter and reported in full.
\<close>

lemma deltas_add_up:
  assumes "sorted (ag_lastDrops a # ds)" and "sorted (ag_lastCaptureGaps a # gs)"
  shows "sumDeltas ringbufDropDelta a ds = last (ag_lastDrops a # ds) - ag_lastDrops a \<and>
         sumDeltas captureGapDelta a gs = last (ag_lastCaptureGaps a # gs) - ag_lastCaptureGaps a \<and>
         (\<forall>c < ag_lastDrops a. fst (ringbufDropDelta a c) = c) \<and>
         (\<forall>c < ag_lastCaptureGaps a. fst (captureGapDelta a c) = c)"
  using drops.sum_monotone [OF assms(1)] gaps.sum_monotone [OF assms(2)]
    drops.reset_counts_from_zero gaps.reset_counts_from_zero by blast

lemma deltas_add_up_witness:
  "sumDeltas ringbufDropDelta (New emptyWorld zeroPolicy False True) [3, 10] = 10"
  using deltas_add_up [of "New emptyWorld zeroPolicy False True" "[3, 10]" "[]"]
  by (simp add: New_def)

end
