(* ===== verification/Polling.thy ===== *)
theory Polling
  imports Event
begin

text \<open>
  \<open>internal/sensor/sensor.go\<close>: the event reader of the ultra-legacy mode, which polls one cursor and one ring
  of slots per CPU out of two BPF maps. The maps belong to the kernel and change while they are read, so a
  lookup is a parameter that also takes the number of lookups made before it: \<open>cursor n cpu\<close> and
  \<open>events n slot\<close> are the answers to the \<open>n\<close>-th lookup, \<open>None\<close> an error.
\<close>

section \<open>State\<close>

definition mapPollingBatchSize :: nat where [go_consts]: "mapPollingBatchSize = 128"
definition ultraLegacyMaxCPUs :: u32 where [go_consts]: "ultraLegacyMaxCPUs = 256"

datatype poll_error =
    MissingMaps
  | UnsupportedSlotSize u32
  | InvalidLayout
  | UnguardedShards
  | LookupFailed
  | CursorRegressed u32 u64 u64

record pollingShard =
  sh_tail :: u64
  sh_head :: u64

record pollingReader =
  pr_shards :: "pollingShard list"
  pr_slotsPerCPU :: u32
  pr_guarded :: bool
  pr_nextCPU :: u32
  pr_pending :: "string list"
  pr_lost :: u64
  pr_lookups :: nat

type_synonym cursorMap = "nat \<Rightarrow> u32 \<Rightarrow> u64 option"
type_synonym eventsMap = "nat \<Rightarrow> u32 \<Rightarrow> string option"

text \<open>\<open>MaxEntries\<close> and \<open>ValueSize\<close> of a map.\<close>

record mapShape =
  ms_MaxEntries :: u32
  ms_ValueSize :: u32

definition validateUltraLegacySlotSize :: "u32 \<Rightarrow> poll_error option" where
  "validateUltraLegacySlotSize sz =
     (if unat sz \<noteq> 8 + eventSize \<and> unat sz \<noteq> 8 + eventV2Size \<and> unat sz \<noteq> 16 + eventV2Size
      then Some (UnsupportedSlotSize sz) else None)"

definition newMapPollingEventReader :: "mapShape option \<Rightarrow> mapShape option \<Rightarrow> poll_error + pollingReader" where
  "newMapPollingEventReader events cursor =
     (case (events, cursor) of
        (Some ev, Some cur) \<Rightarrow>
          (case validateUltraLegacySlotSize (ms_ValueSize ev) of
             Some e \<Rightarrow> Inl e
           | None \<Rightarrow>
               let shards = ms_MaxEntries cur; guarded = (unat (ms_ValueSize ev) = 16 + eventV2Size) in
               if ms_ValueSize cur \<noteq> 8 \<or> shards = 0 \<or> ultraLegacyMaxCPUs < shards \<or> ms_MaxEntries ev = 0 \<or>
                  ms_MaxEntries ev mod shards \<noteq> 0 then Inl InvalidLayout
               else if 1 < shards \<and> \<not> guarded then Inl UnguardedShards
               else Inr \<lparr>pr_shards = replicate (unat shards) \<lparr>sh_tail = 0, sh_head = 0\<rparr>,
                 pr_slotsPerCPU = ms_MaxEntries ev div shards, pr_guarded = guarded, pr_nextCPU = 0,
                 pr_pending = [], pr_lost = 0, pr_lookups = 0\<rparr>)
      | _ \<Rightarrow> Inl MissingMaps)"

section \<open>Slots\<close>

definition committedSlotSequence :: "byteOrder \<Rightarrow> string \<Rightarrow> bool \<Rightarrow> u64" where
  "committedSlotSequence native raw guarded =
     (if length raw < 8 then 0
      else let seq = Uint64 native raw 0 in
        if guarded \<and> (length raw < 16 \<or> Uint64 native raw (length raw - 8) \<noteq> seq) then 0 else seq)"

definition ultraLegacySlotEvent :: "string \<Rightarrow> string" where
  "ultraLegacySlotEvent rawSlot =
     (if length rawSlot \<le> 8 then []
      else let stop = (if length rawSlot = 16 + eventV2Size then length rawSlot - 8 else length rawSlot)
           in drop 8 (take stop rawSlot))"

definition recordLoss :: "u64 \<Rightarrow> pollingReader \<Rightarrow> pollingReader" where
  "recordLoss count r = (if count = 0 then r else r\<lparr>pr_lost := pr_lost r + count\<rparr>)"

section \<open>One batch\<close>

definition putShard :: "u32 \<Rightarrow> pollingShard \<Rightarrow> pollingReader \<Rightarrow> pollingReader" where
  "putShard cpu sh r = r\<lparr>pr_shards := (pr_shards r)[unat cpu := sh]\<rparr>"

definition snapshotCPU ::
  "cursorMap \<Rightarrow> pollingReader \<Rightarrow> u32 \<Rightarrow> (poll_error option \<times> bool) \<times> pollingReader" where
  "snapshotCPU cursor r cpu =
     (let sh = pr_shards r ! unat cpu; r0 = r\<lparr>pr_lookups := pr_lookups r + 1\<rparr>; tl = sh_tail sh in
      case cursor (pr_lookups r) cpu of
        None \<Rightarrow> ((Some LookupFailed, False), r0)
      | Some head \<Rightarrow>
          (if head < tl then
             ((Some (CursorRegressed cpu head tl), False), putShard cpu (sh\<lparr>sh_head := head\<rparr>) r0)
           else
             let unread = head - tl; slots = (ucast (pr_slotsPerCPU r) :: u64) in
             if slots < unread then
               ((None, head - slots < head),
                putShard cpu \<lparr>sh_tail = head - slots, sh_head = head\<rparr> (recordLoss (unread - slots) r0))
             else ((None, tl < head), putShard cpu (sh\<lparr>sh_head := head\<rparr>) r0)))"

fun snapshots ::
  "cursorMap \<Rightarrow> pollingReader \<Rightarrow> u32 list \<Rightarrow> poll_error option \<times> u32 list \<times> pollingReader" where
  "snapshots cursor r [] = (None, [], r)"
| "snapshots cursor r (cpu # cpus) =
     (case snapshotCPU cursor r cpu of
        ((Some e, _), r1) \<Rightarrow> (Some e, [], r1)
      | ((None, active), r1) \<Rightarrow>
          (case snapshots cursor r1 cpus of
             (e, acts, r2) \<Rightarrow> (e, if active then cpu # acts else acts, r2)))"

definition pollOrder :: "pollingReader \<Rightarrow> u32 list" where
  "pollOrder r =
     map (\<lambda>offset. (pr_nextCPU r + of_nat offset) mod of_nat (length (pr_shards r))) [0..<length (pr_shards r)]"

text \<open>
  One iteration of the drain loop: the sequence number of the slot, read a second time in a guarded ring, decides
  between delivery, loss and retry. The result says whether the CPU is queued again; \<open>None\<close> is an error.
\<close>

definition slotSequence ::
  "byteOrder \<Rightarrow> eventsMap \<Rightarrow> pollingReader \<Rightarrow> u32 \<Rightarrow> u64 \<Rightarrow> (u64 \<times> string) option \<times> pollingReader" where
  "slotSequence native events r slot expected =
     (let n = pr_lookups r; r1 = r\<lparr>pr_lookups := n + 1\<rparr> in
      case events n slot of
        None \<Rightarrow> (None, r1)
      | Some raw \<Rightarrow>
          let seq = committedSlotSequence native raw (pr_guarded r) in
          if pr_guarded r \<and> seq = expected then
            (let r2 = r1\<lparr>pr_lookups := n + 2\<rparr> in
             case events (n + 1) slot of
               None \<Rightarrow> (None, r2)
             | Some confirmed \<Rightarrow> (Some (committedSlotSequence native confirmed True, raw), r2))
          else (Some (seq, raw), r1))"

definition readSlot ::
  "byteOrder \<Rightarrow> eventsMap \<Rightarrow> pollingReader \<Rightarrow> u32 \<Rightarrow> bool option \<times> pollingReader" where
  "readSlot native events r cpu =
     (let sh = pr_shards r ! unat cpu; tl = sh_tail sh; expected = tl + 1;
          slot = cpu * pr_slotsPerCPU r + ucast (tl mod ucast (pr_slotsPerCPU r));
          next = (cpu + 1) mod of_nat (length (pr_shards r))
      in case slotSequence native events r slot expected of
           (None, r1) \<Rightarrow> (None, r1)
         | (Some (seq, raw), r1) \<Rightarrow>
             (if seq = expected then
                (Some (expected < sh_head sh),
                 (putShard cpu (sh\<lparr>sh_tail := expected\<rparr>) r1)
                   \<lparr>pr_pending := pr_pending r1 @ [ultraLegacySlotEvent raw], pr_nextCPU := next\<rparr>)
              else if expected < seq then
                (let lastLost = min (seq - 1) (sh_head sh) in
                 (Some False, (putShard cpu (sh\<lparr>sh_tail := lastLost\<rparr>) (recordLoss (lastLost - tl) r1))
                    \<lparr>pr_nextCPU := next\<rparr>))
              else (Some False, r1\<lparr>pr_nextCPU := next\<rparr>)))"

lemma recordLoss_sel [simp]:
  "pr_pending (recordLoss c r) = pr_pending r" "pr_shards (recordLoss c r) = pr_shards r"
  "pr_slotsPerCPU (recordLoss c r) = pr_slotsPerCPU r" "pr_guarded (recordLoss c r) = pr_guarded r"
  "pr_nextCPU (recordLoss c r) = pr_nextCPU r" "pr_lookups (recordLoss c r) = pr_lookups r"
  "pr_lost (recordLoss c r) = pr_lost r + c"
  by (simp_all add: recordLoss_def)

lemma putShard_sel [simp]:
  "pr_pending (putShard cpu s r) = pr_pending r" "pr_slotsPerCPU (putShard cpu s r) = pr_slotsPerCPU r"
  "pr_guarded (putShard cpu s r) = pr_guarded r" "pr_nextCPU (putShard cpu s r) = pr_nextCPU r"
  "pr_lookups (putShard cpu s r) = pr_lookups r" "pr_lost (putShard cpu s r) = pr_lost r"
  "pr_shards (putShard cpu s r) = (pr_shards r)[unat cpu := s]"
  by (simp_all add: putShard_def)

lemma slotSequence_frame:
  assumes "slotSequence native events r slot x = (res, r1)"
  shows "\<exists>n. r1 = r\<lparr>pr_lookups := n\<rparr>"
  using assms by (auto simp: slotSequence_def Let_def split: option.splits if_splits)

lemma readSlot_pending:
  assumes "readSlot native events r cpu = (Some again, r1)"
  shows "if again then length (pr_pending r1) = Suc (length (pr_pending r))
         else length (pr_pending r) \<le> length (pr_pending r1)"
proof -
  obtain res r0 where s: "slotSequence native events r (cpu * pr_slotsPerCPU r +
      ucast (sh_tail (pr_shards r ! unat cpu) mod ucast (pr_slotsPerCPU r)))
      (sh_tail (pr_shards r ! unat cpu) + 1) = (res, r0)" by (metis surj_pair)
  then have "pr_pending r0 = pr_pending r" using slotSequence_frame by fastforce
  then show ?thesis
    using assms s by (auto simp: readSlot_def Let_def split: option.splits if_splits prod.splits)
qed

text \<open>The drain loop: a CPU with more events goes to the back of the queue, until the batch is full.\<close>

function drain ::
  "byteOrder \<Rightarrow> eventsMap \<Rightarrow> pollingReader \<Rightarrow> u32 list \<Rightarrow> poll_error option \<times> pollingReader" where
  "drain native events r [] = (None, r)"
| "drain native events r (cpu # active) =
     (if mapPollingBatchSize \<le> length (pr_pending r) then (None, r)
      else case readSlot native events r cpu of
        (None, r1) \<Rightarrow> (Some LookupFailed, r1)
      | (Some again, r1) \<Rightarrow> drain native events r1 (if again then active @ [cpu] else active))"
  by pat_completeness auto
termination
proof (relation "measures [\<lambda>(_, _, r, active). mapPollingBatchSize - length (pr_pending r),
    \<lambda>(_, _, r, active). length active]", goal_cases)
  case 1
  show ?case by simp
next
  case (2 native events r cpu active x r1 again)
  then show ?case using readSlot_pending [of native events r cpu again r1] by (auto split: if_splits)
qed

text \<open>\<open>sort.SliceStable\<close> by the native timestamp of the sample.\<close>

definition pollBatch ::
  "byteOrder \<Rightarrow> cursorMap \<Rightarrow> eventsMap \<Rightarrow> pollingReader \<Rightarrow> poll_error option \<times> pollingReader" where
  "pollBatch native cursor events r =
     (case snapshots cursor r (pollOrder r) of
        (Some e, _, r1) \<Rightarrow> (Some e, r1)
      | (None, active, r1) \<Rightarrow>
          (case drain native events r1 active of
             (Some e, r2) \<Rightarrow> (Some e, r2)
           | (None, r2) \<Rightarrow> (None, r2\<lparr>pr_pending := sort_key (\<lambda>raw. Uint64 native raw 0) (pr_pending r2)\<rparr>)))"

text \<open>One turn of the loop of \<open>Read\<close>: \<open>Inr None\<close> when it goes on to wait for the next tick.\<close>

definition readTurn ::
  "byteOrder \<Rightarrow> cursorMap \<Rightarrow> eventsMap \<Rightarrow> pollingReader \<Rightarrow> (poll_error + string option) \<times> pollingReader" where
  "readTurn native cursor events r =
     (let (e, r1) = (if pr_pending r = [] then pollBatch native cursor events r else (None, r)) in
      case e of
        Some err \<Rightarrow> (Inl err, r1)
      | None \<Rightarrow>
          (case pr_pending r1 of
             [] \<Rightarrow> (Inr None, r1)
           | record # rest \<Rightarrow> (Inr (Some record), r1\<lparr>pr_pending := rest\<rparr>)))"

definition parseCPURange :: "string \<Rightarrow> (int \<times> int) option" where
  "parseCPURange span =
     (case Split (CHR ''-'') (TrimSpace span) of
        [a] \<Rightarrow> (case ParseUint 32 a of None \<Rightarrow> None | Some lo \<Rightarrow> Some (lo, lo))
      | [a, b] \<Rightarrow>
          (case ParseUint 32 a of None \<Rightarrow> None
           | Some lo \<Rightarrow>
               (case ParseUint 32 b of None \<Rightarrow> None
                | Some hi \<Rightarrow> if hi < lo then None else Some (lo, hi)))
      | _ \<Rightarrow> None)"

datatype coverage_error = EmptyCPUList | InvalidCPURange string | CPUNotCovered int

fun checkSpans :: "u32 \<Rightarrow> string list \<Rightarrow> coverage_error option" where
  "checkSpans shards [] = None"
| "checkSpans shards (span # spans) =
     (case parseCPURange span of
        None \<Rightarrow> Some (InvalidCPURange span)
      | Some (lo, hi) \<Rightarrow>
          if uint shards \<le> hi then Some (CPUNotCovered hi) else checkSpans shards spans)"

definition validateCPUShardCoverage :: "string \<Rightarrow> u32 \<Rightarrow> coverage_error option" where
  "validateCPUShardCoverage possible shards =
     (if TrimSpace possible = [] then Some EmptyCPUList
      else checkSpans shards (Split (CHR '','') (TrimSpace possible)))"

section \<open>The invariant\<close>

text \<open>
  \<open>pollOK\<close>: the layout a new reader has. \<open>balance\<close>: what the tails have moved past, less what was lost and what is
  still pending, in 64-bit arithmetic.
\<close>

definition pollOK :: "pollingReader \<Rightarrow> bool" where
  "pollOK r \<longleftrightarrow> 0 < length (pr_shards r) \<and> length (pr_shards r) \<le> 256 \<and> 0 < pr_slotsPerCPU r \<and>
     unat (pr_nextCPU r) < length (pr_shards r) \<and>
     (\<forall>sh \<in> set (pr_shards r). sh_tail sh \<le> sh_head sh)"

definition sumTails :: "pollingReader \<Rightarrow> u64" where
  "sumTails r = sum_list (map sh_tail (pr_shards r))"

definition balance :: "pollingReader \<Rightarrow> u64" where
  "balance r = sumTails r - pr_lost r - of_nat (length (pr_pending r))"

lemma sum_list_update_word:
  "i < length xs \<Longrightarrow> sum_list (xs[i := x]) = sum_list xs - xs ! i + (x :: 'a :: len word)"
  by (induction xs arbitrary: i) (auto simp: nth_Cons' algebra_simps split: nat.splits)

lemma sumTails_putShard:
  "unat cpu < length (pr_shards r) \<Longrightarrow>
   sumTails (putShard cpu sh r) = sumTails r - sh_tail (pr_shards r ! unat cpu) + sh_tail sh"
  by (simp add: sumTails_def map_update sum_list_update_word)

lemma balance_cong:
  "pr_shards r = pr_shards r' \<Longrightarrow> pr_lost r = pr_lost r' \<Longrightarrow> length (pr_pending r) = length (pr_pending r') \<Longrightarrow>
   balance r = balance r'"
  by (simp add: balance_def sumTails_def)

end
