(* ===== verification/Polling_Laws.thy ===== *)
theory Polling_Laws
  imports Polling
begin

text \<open>
  The polling reader loses nothing silently: what its cursors move past is delivered, pending or counted as lost.
\<close>

section \<open>Steps keep the layout and the balance\<close>

text \<open>
  \<open>pollStep r r'\<close>: what every step of a batch keeps. The layout stays well formed and the tails
  advance by exactly what is newly pending or newly lost.
\<close>

definition pollStep :: "pollingReader \<Rightarrow> pollingReader \<Rightarrow> bool" where
  "pollStep r r' \<longleftrightarrow> (pollOK r \<longrightarrow> pollOK r') \<and> balance r' = balance r \<and>
     length (pr_shards r') = length (pr_shards r) \<and>
     pr_slotsPerCPU r' = pr_slotsPerCPU r \<and> pr_guarded r' = pr_guarded r"

lemma pollStep_refl [simp, intro]: "pollStep r r"
  by (simp add: pollStep_def)

lemma pollStep_trans [trans]: "pollStep r s \<Longrightarrow> pollStep s t \<Longrightarrow> pollStep r t"
  by (simp add: pollStep_def)

lemma pollStep_lookups [simp, intro]: "pollStep r (r\<lparr>pr_lookups := n\<rparr>)"
  by (simp add: pollStep_def pollOK_def balance_def sumTails_def)

lemma pollOK_shard:
  "pollOK r \<Longrightarrow> unat cpu < length (pr_shards r) \<Longrightarrow>
   sh_tail (pr_shards r ! unat cpu) \<le> sh_head (pr_shards r ! unat cpu)"
  by (simp add: pollOK_def)

lemma mod_shards:
  assumes "0 < n" "n \<le> 256"
  shows "unat (x mod of_nat n :: u32) < n"
proof -
  have n: "unat (of_nat n :: u32) = n" using assms by (simp add: unat_of_nat)
  show ?thesis unfolding unat_mod n using assms by simp
qed

lemma pollOK_putShard:
  "pollOK r \<Longrightarrow> sh_tail sh \<le> sh_head sh \<Longrightarrow> pollOK (putShard cpu sh r)"
  by (auto simp: pollOK_def dest!: set_update_subset_insert [THEN subsetD])

lemma pollOK_frame [simp]:
  "pollOK (recordLoss c r) = pollOK r" "pollOK (r\<lparr>pr_lookups := n\<rparr>) = pollOK r"
  "pollOK (r\<lparr>pr_pending := p\<rparr>) = pollOK r"
  by (simp_all add: pollOK_def)

lemma pollOK_next: "pollOK r \<Longrightarrow> pollOK (r\<lparr>pr_nextCPU := x mod of_nat (length (pr_shards r))\<rparr>)"
  using mod_shards [of "length (pr_shards r)" x] by (simp add: pollOK_def)

lemma pollOrder_bound:
  "pollOK r \<Longrightarrow> cpu \<in> set (pollOrder r) \<Longrightarrow> unat cpu < length (pr_shards r)"
  using mod_shards by (auto simp: pollOrder_def pollOK_def)

lemma rotate_mod_inj:
  assumes "a < n" "i < n" "j < n" "(a + i) mod n = (a + j) mod (n :: nat)"
  shows "i = j"
proof -
  have "(a + k) mod n = (if a + k < n then a + k else a + k - n)" if "k < n" for k
    using assms(1) that by (simp add: le_mod_geq)
  with assms show ?thesis by (auto split: if_splits)
qed

lemma unat_pollOrder:
  assumes "pollOK r" and "i < length (pr_shards r)"
  shows "unat ((pr_nextCPU r + of_nat i) mod of_nat (length (pr_shards r)) :: u32) =
    (unat (pr_nextCPU r) + i) mod length (pr_shards r)"
proof -
  have b: "length (pr_shards r) \<le> 256" "unat (pr_nextCPU r) < 256" "i < 256"
    using assms by (auto simp: pollOK_def)
  have "unat (of_nat (length (pr_shards r)) :: u32) = length (pr_shards r)" "unat (of_nat i :: u32) = i"
    using b by (simp_all add: unat_of_nat)
  moreover from this have "unat (pr_nextCPU r + of_nat i) = unat (pr_nextCPU r) + i"
    using b by (simp add: unat_word_ariths)
  ultimately show ?thesis by (simp add: unat_mod)
qed

lemma pollOrder_distinct:
  assumes "pollOK r"
  shows "distinct (pollOrder r)"
proof -
  have "inj_on (\<lambda>i. (pr_nextCPU r + of_nat i) mod of_nat (length (pr_shards r)) :: u32)
      (set [0..<length (pr_shards r)])"
  proof (rule inj_onI)
    fix i j
    assume i: "i \<in> set [0..<length (pr_shards r)]" and j: "j \<in> set [0..<length (pr_shards r)]"
      and e: "(pr_nextCPU r + of_nat i) mod of_nat (length (pr_shards r)) =
        (pr_nextCPU r + of_nat j) mod (of_nat (length (pr_shards r)) :: u32)"
    from i j have b: "i < length (pr_shards r)" "j < length (pr_shards r)" by simp_all
    from assms have a: "unat (pr_nextCPU r) < length (pr_shards r)" by (simp add: pollOK_def)
    have "(unat (pr_nextCPU r) + i) mod length (pr_shards r) = (unat (pr_nextCPU r) + j) mod length (pr_shards r)"
      unfolding unat_pollOrder [OF assms b(1), symmetric] unat_pollOrder [OF assms b(2), symmetric] e ..
    then show "i = j" by (rule rotate_mod_inj [OF a b])
  qed
  then show ?thesis by (simp add: pollOrder_def distinct_map)
qed

text \<open>The queue of the drain loop: distinct CPUs of the layout, each with an unread event.\<close>

definition unread :: "pollingReader \<Rightarrow> u32 \<Rightarrow> bool" where
  "unread r cpu \<longleftrightarrow> unat cpu < length (pr_shards r) \<and>
     sh_tail (pr_shards r ! unat cpu) < sh_head (pr_shards r ! unat cpu)"

definition sameOthers :: "u32 \<Rightarrow> pollingReader \<Rightarrow> pollingReader \<Rightarrow> bool" where
  "sameOthers cpu r r' \<longleftrightarrow> (\<forall>c. c \<noteq> cpu \<longrightarrow> unread r' c = unread r c)"

lemma unread_putShard:
  "unat cpu < length (pr_shards r) \<Longrightarrow>
   unread (putShard cpu sh r) c = (if c = cpu then sh_tail sh < sh_head sh else unread r c)"
  by (auto simp: unread_def nth_list_update word_unat_eq_iff)

lemma unread_frame [simp]:
  "unread (recordLoss k r) = unread r" "unread (r\<lparr>pr_lookups := n\<rparr>) = unread r"
  "unread (r\<lparr>pr_pending := p\<rparr>) = unread r" "unread (r\<lparr>pr_nextCPU := x\<rparr>) = unread r"
  by (simp_all add: unread_def fun_eq_iff)

lemma snapshotCPU_step:
  assumes ok: "pollOK r" and cpu: "unat cpu < length (pr_shards r)"
    and s: "snapshotCPU cursor r cpu = ((None, act), r1)"
  shows "pollStep r r1 \<and> sameOthers cpu r r1 \<and> act = unread r1 cpu"
proof -
  let ?sh = "pr_shards r ! unat cpu" and ?slots = "ucast (pr_slotsPerCPU r) :: u64"
  let ?r0 = "r\<lparr>pr_lookups := pr_lookups r + 1\<rparr>"
  obtain head where h: "sh_tail ?sh \<le> head"
    and cases: "?slots < head - sh_tail ?sh \<and> act = (head - ?slots < head) \<and>
        r1 = putShard cpu \<lparr>sh_tail = head - ?slots, sh_head = head\<rparr> (recordLoss (head - sh_tail ?sh - ?slots) ?r0) \<or>
      act = (sh_tail ?sh < head) \<and> r1 = putShard cpu (?sh\<lparr>sh_head := head\<rparr>) ?r0"
    using s by (auto simp: snapshotCPU_def Let_def not_less split: option.splits if_splits)
  have le: "?slots < head - sh_tail ?sh \<Longrightarrow> head - ?slots \<le> head"
    using h by unat_arith
  have "pollOK r1"
    using cases ok h le by (elim disjE conjE; simp; intro pollOK_putShard; simp)
  moreover have "balance r1 = balance r"
    using cases cpu by (elim disjE conjE; simp add: balance_def sumTails_putShard; simp add: sumTails_def)
  moreover have "sameOthers cpu r r1 \<and> act = unread r1 cpu"
    using cases cpu by (elim disjE conjE; simp add: sameOthers_def unread_putShard)
  ultimately show ?thesis using cases by (auto simp: pollStep_def)
qed

lemma readSlot_step:
  assumes ok: "pollOK r" and open_: "unread r cpu"
    and s: "readSlot native events r cpu = (Some again, r1)"
  shows "pollStep r r1 \<and> sameOthers cpu r r1 \<and> (again \<longrightarrow> unread r1 cpu)"
proof -
  let ?sh = "pr_shards r ! unat cpu" and ?x = "(cpu + 1) mod of_nat (length (pr_shards r)) :: u32"
  have cpu: "unat cpu < length (pr_shards r)" and less: "sh_tail ?sh < sh_head ?sh"
    using open_ by (simp_all add: unread_def)
  obtain res r0 where q: "slotSequence native events r (cpu * pr_slotsPerCPU r +
      ucast (sh_tail ?sh mod ucast (pr_slotsPerCPU r))) (sh_tail ?sh + 1) = (res, r0)" by (metis surj_pair)
  then obtain n where r0: "r0 = r\<lparr>pr_lookups := n\<rparr>" using slotSequence_frame by blast
  let ?done = "\<lambda>raw. (putShard cpu (?sh\<lparr>sh_tail := sh_tail ?sh + 1\<rparr>) r0)
      \<lparr>pr_pending := pr_pending r @ [ultraLegacySlotEvent raw], pr_nextCPU := ?x\<rparr>"
  let ?skip = "\<lambda>l. (putShard cpu (?sh\<lparr>sh_tail := l\<rparr>) (recordLoss (l - sh_tail ?sh) r0))\<lparr>pr_nextCPU := ?x\<rparr>"
  obtain seq raw where cases:
    "again = (sh_tail ?sh + 1 < sh_head ?sh) \<and> r1 = ?done raw \<or>
     \<not> again \<and> r1 = ?skip (min (seq - 1) (sh_head ?sh)) \<or> \<not> again \<and> r1 = r0\<lparr>pr_nextCPU := ?x\<rparr>"
    using s q r0 by (auto simp: readSlot_def Let_def split: option.splits if_splits prod.splits)
  have inc: "sh_tail ?sh + 1 \<le> sh_head ?sh" using less by (rule inc_le)
  have "pollOK (q\<lparr>pr_nextCPU := ?x\<rparr>)" if "pollOK q" "length (pr_shards q) = length (pr_shards r)" for q
    using pollOK_next [OF that(1), of "cpu + 1"] that(2) by simp
  then have "pollOK r1"
    using cases ok inc by (elim disjE conjE; simp add: r0 pollOK_putShard)
  moreover have "balance r1 = balance r"
    using cases cpu
    by (elim disjE conjE; simp add: balance_def sumTails_def r0 map_update sum_list_update_word)
  moreover have "sameOthers cpu r r1 \<and> (again \<longrightarrow> unread r1 cpu)"
    using cases cpu by (elim disjE conjE; simp add: sameOthers_def unread_putShard r0)
  ultimately show ?thesis using cases by (auto simp: pollStep_def r0)
qed

lemma snapshots_step:
  assumes "pollOK r" and "distinct cpus" and "\<forall>cpu \<in> set cpus. unat cpu < length (pr_shards r)"
    and "snapshots cursor r cpus = (None, acts, r1)"
  shows "pollStep r r1 \<and> distinct acts \<and> set acts \<subseteq> set cpus \<and> (\<forall>cpu \<in> set acts. unread r1 cpu) \<and>
    (\<forall>c. c \<notin> set cpus \<longrightarrow> unread r1 c = unread r c)"
  using assms
proof (induction cpus arbitrary: r acts r1)
  case Nil
  then show ?case by simp
next
  case (Cons cpu cpus)
  obtain e act r2 where s: "snapshotCPU cursor r cpu = ((e, act), r2)" by (metis surj_pair)
  with Cons.prems(4) have e: "e = None" by (cases e) auto
  obtain e' acts' r3 where t: "snapshots cursor r2 cpus = (e', acts', r3)" by (metis surj_pair)
  have eqs: "e' = None" "r3 = r1" "acts = (if act then cpu # acts' else acts')"
    using Cons.prems(4) s t e by auto
  have step: "pollStep r r2" "sameOthers cpu r r2" "act = unread r2 cpu"
    using snapshotCPU_step [of r cpu cursor act r2] Cons.prems(1,3) s e by auto
  then have "pollOK r2" "length (pr_shards r2) = length (pr_shards r)"
    using Cons.prems(1) by (simp_all add: pollStep_def)
  then have ih: "pollStep r2 r1 \<and> distinct acts' \<and> set acts' \<subseteq> set cpus \<and> (\<forall>c \<in> set acts'. unread r1 c) \<and>
      (\<forall>c. c \<notin> set cpus \<longrightarrow> unread r1 c = unread r2 c)"
    using Cons.IH [of r2 acts' r1] Cons.prems(2,3) t eqs by auto
  then have "pollStep r r1" using step(1) pollStep_trans by blast
  moreover have "act \<Longrightarrow> unread r1 cpu" using ih step(3) Cons.prems(2) by auto
  moreover have "c \<notin> set (cpu # cpus) \<Longrightarrow> unread r1 c = unread r c" for c
    using ih step(2) by (auto simp: sameOthers_def)
  ultimately show ?case using ih eqs(3) Cons.prems(2) by auto
qed

lemma drain_step:
  assumes "pollOK r" and "distinct active" and "\<forall>cpu \<in> set active. unread r cpu"
    and "drain native events r active = (None, r1)"
  shows "pollStep r r1"
  using assms
proof (induction native events r active arbitrary: r1 rule: drain.induct)
  case (1 native events r)
  then show ?case by simp
next
  case (2 native events r cpu active)
  show ?case
  proof (cases "mapPollingBatchSize \<le> length (pr_pending r)")
    case True
    with "2.prems" show ?thesis by simp
  next
    case False
    obtain res r2 where s: "readSlot native events r cpu = (res, r2)" by (metis surj_pair)
    with False "2.prems"(4) obtain again where res: "res = Some again" by (cases res) auto
    have step: "pollStep r r2" "sameOthers cpu r r2" "again \<longrightarrow> unread r2 cpu"
      using readSlot_step [of r cpu native events again r2] "2.prems"(1,3) s res by auto
    have "pollOK r2" using step(1) "2.prems"(1) by (simp add: pollStep_def)
    moreover have "\<forall>c \<in> set (if again then active @ [cpu] else active). unread r2 c"
      using step(2,3) "2.prems"(2,3) by (auto simp: sameOthers_def)
    moreover have "distinct (if again then active @ [cpu] else active)" using "2.prems"(2) by auto
    moreover have "drain native events r2 (if again then active @ [cpu] else active) = (None, r1)"
      using "2.prems"(4) False s res by simp
    ultimately have "pollStep r2 r1" by (intro "2.IH" [OF False s [symmetric] res])
    with step(1) show ?thesis by (rule pollStep_trans)
  qed
qed

lemma balance_sort [simp]: "balance (r\<lparr>pr_pending := sort_key f (pr_pending r)\<rparr>) = balance r"
  by (simp add: balance_def sumTails_def)

lemma pollBatch_step:
  assumes ok: "pollOK r" and b: "pollBatch native cursor events r = (None, r')"
  shows "pollStep r r'"
proof -
  obtain e acts r1 where s: "snapshots cursor r (pollOrder r) = (e, acts, r1)" by (metis surj_pair)
  obtain e' r2 where d: "drain native events r1 acts = (e', r2)" by (metis surj_pair)
  have e: "e = None" "e' = None" and r': "r' = r2\<lparr>pr_pending := sort_key (\<lambda>raw. Uint64 native raw 0) (pr_pending r2)\<rparr>"
    using b s d by (auto simp: pollBatch_def split: option.splits)
  have 1: "pollStep r r1" "distinct acts" "\<forall>cpu \<in> set acts. unread r1 cpu"
    using snapshots_step [OF ok pollOrder_distinct [OF ok]] pollOrder_bound [OF ok] s e by auto
  then have "pollStep r1 r2" using drain_step [of r1 acts native events r2] ok d e by (simp add: pollStep_def)
  moreover have "pollStep r2 r'" by (simp add: r' pollStep_def)
  ultimately show ?thesis using 1(1) pollStep_trans by blast
qed

lemma balance_pop: "pr_pending r = x # rest \<Longrightarrow> balance (r\<lparr>pr_pending := rest\<rparr>) = balance r + 1"
  by (simp add: balance_def sumTails_def)

lemma readTurn_step:
  assumes ok: "pollOK r" and t: "readTurn native cursor events r = (Inr out, r')"
  shows "pollOK r' \<and> balance r' = balance r + (case out of None \<Rightarrow> 0 | Some _ \<Rightarrow> 1)"
proof -
  obtain e r1 where b: "(if pr_pending r = [] then pollBatch native cursor events r else (None, r)) = (e, r1)"
    by (metis surj_pair)
  then have e: "e = None" using t by (auto simp: readTurn_def split: option.splits)
  then have "pollStep r r1" using b pollBatch_step [OF ok] by (auto split: if_splits)
  then have 1: "pollOK r1" "balance r1 = balance r" using ok by (simp_all add: pollStep_def)
  have 2: "(out = None \<and> r' = r1) \<or> (\<exists>x rest. out = Some x \<and> pr_pending r1 = x # rest \<and> r' = r1\<lparr>pr_pending := rest\<rparr>)"
    using t b e by (auto simp: readTurn_def split: list.splits)
  then show ?thesis using 1 by (elim disjE) (auto simp: balance_pop)
qed

section \<open>Nothing is lost silently\<close>

text \<open>\<open>n\<close> turns of \<open>Read\<close>, with what they deliver; \<open>None\<close> once a turn reports an error.\<close>

fun readTurns ::
  "byteOrder \<Rightarrow> cursorMap \<Rightarrow> eventsMap \<Rightarrow> nat \<Rightarrow> pollingReader \<Rightarrow> (string list \<times> pollingReader) option" where
  "readTurns native cursor events 0 r = Some ([], r)"
| "readTurns native cursor events (Suc n) r =
     (case readTurn native cursor events r of
        (Inl e, _) \<Rightarrow> None
      | (Inr out, r1) \<Rightarrow>
          (case readTurns native cursor events n r1 of
             None \<Rightarrow> None
           | Some (rest, r2) \<Rightarrow> Some ((case out of None \<Rightarrow> rest | Some x \<Rightarrow> x # rest), r2)))"

lemma readTurns_balance:
  assumes "pollOK r" and "readTurns native cursor events n r = Some (out, r')"
  shows "pollOK r' \<and> balance r' = balance r + of_nat (length out)"
  using assms
proof (induction n arbitrary: r out)
  case 0
  then show ?case by simp
next
  case (Suc n)
  obtain res r1 where t: "readTurn native cursor events r = (res, r1)" by (metis surj_pair)
  with Suc.prems(2) obtain x where res: "res = Inr x" by (cases res) auto
  obtain rest r2 where m: "readTurns native cursor events n r1 = Some (rest, r2)"
    using Suc.prems(2) t res by (auto split: option.splits)
  have out: "r' = r2" "out = (case x of None \<Rightarrow> rest | Some y \<Rightarrow> y # rest)"
    using Suc.prems(2) t res m by auto
  have 1: "pollOK r1 \<and> balance r1 = balance r + (case x of None \<Rightarrow> 0 | Some _ \<Rightarrow> 1)"
    using readTurn_step Suc.prems(1) t res by blast
  then have "pollOK r2 \<and> balance r2 = balance r1 + of_nat (length rest)" using Suc.IH m out(1) by blast
  then show ?case using 1 out by (cases x) auto
qed

lemma newMapPollingEventReader_ok:
  assumes "newMapPollingEventReader ev cur = Inr r"
  shows "pollOK r \<and> balance r = 0 \<and> pr_pending r = []"
proof -
  obtain e c where ec: "ev = Some e" "cur = Some c" using assms
    by (auto simp: newMapPollingEventReader_def split: option.splits)
  let ?n = "ms_MaxEntries c" and ?m = "ms_MaxEntries e"
  have c: "?n \<noteq> 0" "\<not> 256 < ?n" "?m \<noteq> 0" "?m mod ?n = 0"
    and r: "pr_shards r = replicate (unat ?n) \<lparr>sh_tail = 0, sh_head = 0\<rparr>" "pr_slotsPerCPU r = ?m div ?n"
      "pr_nextCPU r = 0" "pr_pending r = []" "pr_lost r = 0"
    using assms ec by (auto simp: newMapPollingEventReader_def Let_def go_consts split: option.splits if_splits)
  have n: "0 < unat ?n" "unat ?n \<le> 256" using c by (simp_all add: unat_gt_0 word_less_nat_alt)
  have "?m div ?n \<noteq> 0" using c(3,4) by (metis add.left_neutral div_mult_mod_eq mult_zero_left add_0)
  then have "pollOK r" using n r by (auto simp: pollOK_def word_neq_0_conv)
  then show ?thesis by (simp add: r balance_def sumTails_def sum_list_replicate)
qed

text \<open>
  C23. The polling reader loses nothing silently: after any number of turns without an error, whatever the kernel
  writes in between, the events its cursors have moved past are exactly those delivered, those still
  pending and those counted as lost (in 64-bit arithmetic).
\<close>

theorem polling_accounts:
  assumes "newMapPollingEventReader ev cur = Inr r" and "readTurns native cursor events n r = Some (out, r')"
  shows "sumTails r' = pr_lost r' + of_nat (length out) + of_nat (length (pr_pending r'))"
proof -
  have "balance r' = of_nat (length out)"
    using newMapPollingEventReader_ok [OF assms(1)] readTurns_balance [OF _ assms(2)] by simp
  then show ?thesis by (simp add: balance_def algebra_simps)
qed

text \<open>One CPU with two slots of 584 bytes, and a kernel that has written the first.\<close>

definition oneCPU :: pollingReader where
  "oneCPU = \<lparr>pr_shards = [\<lparr>sh_tail = 0, sh_head = 0\<rparr>], pr_slotsPerCPU = 2, pr_guarded = False, pr_nextCPU = 0,
     pr_pending = [], pr_lost = 0, pr_lookups = 0\<rparr>"

definition firstSlot :: string where
  "firstSlot = CHR 0x01 # replicate 583 (CHR 0x00)"

lemma oneCPU_new:
  "newMapPollingEventReader (Some \<lparr>ms_MaxEntries = 2, ms_ValueSize = 584\<rparr>) (Some \<lparr>ms_MaxEntries = 1, ms_ValueSize = 8\<rparr>)
   = Inr oneCPU"
  by (simp add: newMapPollingEventReader_def validateUltraLegacySlotSize_def oneCPU_def go_consts Let_def)

lemma oneCPU_turn:
  "readTurns LittleEndian (\<lambda>_ _. Some 1) (\<lambda>_ _. Some firstSlot) 1 oneCPU =
   Some ([replicate 576 (CHR 0x00)], oneCPU\<lparr>pr_shards := [\<lparr>sh_tail = 1, sh_head = 1\<rparr>], pr_lookups := 2\<rparr>)"
  by code_simp

theorem polling_accounts_witness:
  "sumTails (oneCPU\<lparr>pr_shards := [\<lparr>sh_tail = 1, sh_head = 1\<rparr>], pr_lookups := 2\<rparr>) = 1"
  using polling_accounts [OF oneCPU_new oneCPU_turn] by (simp add: oneCPU_def)

section \<open>A batch is bounded\<close>

lemma slotSequence_lookups:
  "slotSequence native events r slot x = (res, r1) \<Longrightarrow> pr_lookups r1 \<le> pr_lookups r + 2"
  by (auto simp: slotSequence_def Let_def split: option.splits if_splits)

lemma readSlot_lookups:
  assumes "readSlot native events r cpu = (res, r1)"
  shows "pr_lookups r1 \<le> pr_lookups r + 2 \<and> length (pr_pending r1) \<le> Suc (length (pr_pending r))"
proof -
  obtain q r0 where s: "slotSequence native events r (cpu * pr_slotsPerCPU r +
      ucast (sh_tail (pr_shards r ! unat cpu) mod ucast (pr_slotsPerCPU r)))
      (sh_tail (pr_shards r ! unat cpu) + 1) = (q, r0)" by (metis surj_pair)
  have "pr_lookups r0 \<le> pr_lookups r + 2" using slotSequence_lookups s by blast
  moreover have "pr_pending r0 = pr_pending r" using slotSequence_frame s by fastforce
  ultimately show ?thesis
    using assms s by (auto simp: readSlot_def Let_def split: option.splits if_splits prod.splits)
qed

lemma drain_bounded:
  assumes "drain native events r active = (e, r1)" and "length (pr_pending r) \<le> mapPollingBatchSize"
  shows "pr_lookups r1 \<le> pr_lookups r + 2 * (mapPollingBatchSize - length (pr_pending r) + length active) \<and>
    length (pr_pending r1) \<le> mapPollingBatchSize"
  using assms
proof (induction native events r active arbitrary: r1 rule: drain.induct)
  case (1 native events r)
  then show ?case by simp
next
  case (2 native events r cpu active)
  show ?case
  proof (cases "mapPollingBatchSize \<le> length (pr_pending r)")
    case True
    with "2.prems" show ?thesis by simp
  next
    case False
    obtain res r2 where s: "readSlot native events r cpu = (res, r2)" by (metis surj_pair)
    note b = readSlot_lookups [OF s]
    show ?thesis
    proof (cases res)
      case None
      with "2.prems"(1) False s b show ?thesis by auto
    next
      case (Some again)
      let ?q = "if again then active @ [cpu] else active"
      have "drain native events r2 ?q = (e, r1)" using "2.prems"(1) False s Some by simp
      moreover have "length (pr_pending r2) \<le> mapPollingBatchSize" using b False by simp
      ultimately have "pr_lookups r1 \<le> pr_lookups r2 + 2 * (mapPollingBatchSize - length (pr_pending r2) + length ?q) \<and>
          length (pr_pending r1) \<le> mapPollingBatchSize"
        by (rule "2.IH" [OF False s [symmetric] Some])
      then show ?thesis
        using b False readSlot_pending [of native events r cpu again r2] s Some by (auto split: if_splits)
    qed
  qed
qed

lemma snapshotCPU_frame:
  "snapshotCPU cursor r cpu = (x, r1) \<Longrightarrow> pr_lookups r1 = Suc (pr_lookups r) \<and> pr_pending r1 = pr_pending r"
  by (auto simp: snapshotCPU_def Let_def split: option.splits if_splits)

lemma snapshots_frame:
  "snapshots cursor r cpus = (e, acts, r1) \<Longrightarrow>
   pr_lookups r1 \<le> pr_lookups r + length cpus \<and> pr_pending r1 = pr_pending r \<and> length acts \<le> length cpus"
proof (induction cpus arbitrary: r e acts r1)
  case Nil
  then show ?case by simp
next
  case (Cons cpu cpus)
  obtain x act r2 where s: "snapshotCPU cursor r cpu = ((x, act), r2)" by (metis surj_pair)
  obtain e' acts' r3 where t: "snapshots cursor r2 cpus = (e', acts', r3)" by (metis surj_pair)
  show ?case
    using Cons.prems s t snapshotCPU_frame [OF s] Cons.IH [OF t] by (cases x) (auto split: if_splits)
qed

text \<open>
  A batch always ends and is bounded, whatever the kernel writes meanwhile: it returns at most 128 events and makes
  at most one cursor lookup per CPU and two slot lookups for each event of a full batch and each CPU.
\<close>

lemma pollBatch_bounded:
  assumes "pr_pending r = []"
  shows "length (pr_pending (snd (pollBatch native cursor events r))) \<le> 128 \<and>
    pr_lookups (snd (pollBatch native cursor events r)) \<le>
      pr_lookups r + length (pr_shards r) + 2 * (128 + length (pr_shards r))"
proof -
  obtain e acts r1 where s: "snapshots cursor r (pollOrder r) = (e, acts, r1)" by (metis surj_pair)
  obtain e' r2 where d: "drain native events r1 acts = (e', r2)" by (metis surj_pair)
  have n: "length (pollOrder r) = length (pr_shards r)" by (simp add: pollOrder_def)
  show ?thesis
    using snapshots_frame [OF s] drain_bounded [OF d] assms n s d
    by (cases e; cases e') (auto simp: pollBatch_def go_consts)
qed

lemma pollBatch_bounded_witness:
  "length (pr_pending (snd (pollBatch LittleEndian (\<lambda>_ _. Some 1) (\<lambda>_ _. Some firstSlot) oneCPU))) \<le> 128 \<and>
   pr_lookups (snd (pollBatch LittleEndian (\<lambda>_ _. Some 1) (\<lambda>_ _. Some firstSlot) oneCPU)) \<le> 259"
  using pollBatch_bounded [of oneCPU LittleEndian "\<lambda>_ _. Some 1" "\<lambda>_ _. Some firstSlot"] by (simp add: oneCPU_def)

section \<open>Only published events are delivered\<close>

text \<open>
  An event is delivered only from a slot that was published under the very next sequence number of its CPU; in a
  guarded ring both guards of the slot carried that number in two successive lookups, so a slot
  that was being overwritten is not delivered.
\<close>

lemma readSlot_published:
  assumes "readSlot native events r cpu = (res, r')" and "pr_pending r' \<noteq> pr_pending r"
  shows "\<exists>raw. let expected = sh_tail (pr_shards r ! unat cpu) + 1;
      slot = cpu * pr_slotsPerCPU r + ucast (sh_tail (pr_shards r ! unat cpu) mod ucast (pr_slotsPerCPU r)) in
    events (pr_lookups r) slot = Some raw \<and> pr_pending r' = pr_pending r @ [ultraLegacySlotEvent raw] \<and>
    committedSlotSequence native raw (pr_guarded r) = expected \<and>
    (pr_guarded r \<longrightarrow> (\<exists>again. events (Suc (pr_lookups r)) slot = Some again \<and>
       committedSlotSequence native again True = expected))"
  using assms
  by (auto simp: readSlot_def slotSequence_def Let_def split: option.splits if_splits prod.splits)

lemma readSlot_published_witness:
  "committedSlotSequence LittleEndian firstSlot False = 1 \<and>
   pr_pending (snd (readSlot LittleEndian (\<lambda>_ _. Some firstSlot) (oneCPU\<lparr>pr_shards := [\<lparr>sh_tail = 0, sh_head = 1\<rparr>]\<rparr>) 0)) =
     [ultraLegacySlotEvent firstSlot]"
proof -
  let ?r = "oneCPU\<lparr>pr_shards := [\<lparr>sh_tail = 0, sh_head = 1\<rparr>]\<rparr>" and ?ev = "\<lambda>_ _. Some firstSlot"
  have p: "pr_pending (snd (readSlot LittleEndian ?ev ?r 0)) \<noteq> pr_pending ?r" by code_simp
  obtain res r' where q: "readSlot LittleEndian ?ev ?r 0 = (res, r')" by (metis surj_pair)
  then show ?thesis
    using readSlot_published [OF q] p by (auto simp: Let_def oneCPU_def)
qed

end
