(* ===== verification/SensorPolicy.thy ===== *)
theory SensorPolicy
  imports Scope
begin

text \<open>
  \<open>internal/sensor/sensor.go\<close>: the kernel maps that carry the policy and the blocks. The BPF maps are those of
  \<open>github.com/cilium/ebpf\<close>: a handle of type \<open>'m\<close> and the operations \<open>mapOps\<close> on it are parameters, and
  \<open>lawfulMap\<close> states the documented behaviour the code relies on. \<open>os.Stat\<close> is the parameter \<open>stat\<close>.
\<close>

section \<open>BPF maps\<close>

record blockEntry =
  be_ExpiresNs :: u64
  be_Reason :: u32
  be_Action :: u32

datatype mapKey = K32 u32 | K64 u64 | KDir u64 u64
datatype mapVal = V8 "8 word" | V32 u32 | V64 u64 | VBlock blockEntry

datatype 'm deleteResult = Deleted 'm | KeyNotExist | DeleteFailed

record 'm mapOps =
  op_put :: "'m \<Rightarrow> mapKey \<Rightarrow> mapVal \<Rightarrow> 'm option"
  op_delete :: "'m \<Rightarrow> mapKey \<Rightarrow> 'm deleteResult"
  op_keys :: "'m \<Rightarrow> mapKey list option"
  op_keySize :: "'m \<Rightarrow> nat"

definition lawfulMap :: "'m mapOps \<Rightarrow> ('m \<Rightarrow> mapKey \<rightharpoonup> mapVal) \<Rightarrow> bool" where
  "lawfulMap ops view \<longleftrightarrow>
     (\<forall>m k v m'. op_put ops m k v = Some m' \<longrightarrow> view m' = (view m)(k \<mapsto> v)) \<and>
     (\<forall>m k m'. op_delete ops m k = Deleted m' \<longrightarrow> view m' = (view m)(k := None)) \<and>
     (\<forall>m k. op_delete ops m k = KeyNotExist \<longrightarrow> view m k = None) \<and>
     (\<forall>m ks. op_keys ops m = Some ks \<longrightarrow> set ks = dom (view m))"

datatype sensor_error =
    MapMissing
  | ZeroTGID
  | UnsupportedBlockAction u32
  | DenyUnavailable
  | UptimeFailed
  | MapFailed
  | UnsupportedKeySize nat
  | UnsupportedEnforcement string

section \<open>The sensor\<close>

record capabilities =
  ca_Mode :: string
  ca_DenyAvailable :: bool
  ca_DenyOpenat :: bool
  ca_UserspaceKill :: bool
  ca_LSMHooks :: "string list"
  ca_OverrideHooks :: "string list"

record 'm sensorMaps =
  sm_BlockedTgids :: "'m option"
  sm_IocExtensions :: "'m option"
  sm_IocRansomNotes :: "'m option"
  sm_ProtectedDirs :: "'m option"
  sm_InlineIOCAction :: "'m option"
  sm_AllowedCgroups :: "'m option"
  sm_CgroupScopeEnabled :: "'m option"

abbreviation (input) BlockReasonPolicy :: u32 where "BlockReasonPolicy \<equiv> 1"

definition BlockTGID ::
  "'m mapOps \<Rightarrow> duration option \<Rightarrow> capabilities \<Rightarrow> 'm sensorMaps \<Rightarrow> u32 \<Rightarrow> u32 \<Rightarrow> duration \<Rightarrow>
   sensor_error option \<times> 'm sensorMaps" where
  "BlockTGID ops uptime caps sm tgid action ttl =
     (case sm_BlockedTgids sm of
        None \<Rightarrow> (Some MapMissing, sm)
      | Some m \<Rightarrow>
          if tgid = 0 then (Some ZeroTGID, sm)
          else if action \<noteq> BlockActionDeny \<and> action \<noteq> BlockActionKill then (Some (UnsupportedBlockAction action), sm)
          else if action = BlockActionDeny \<and> \<not> ca_DenyAvailable caps then (Some DenyUnavailable, sm)
          else
            let put = (\<lambda>expires.
              case op_put ops m (K32 tgid)
                  (VBlock \<lparr>be_ExpiresNs = expires, be_Reason = BlockReasonPolicy, be_Action = action\<rparr>) of
                None \<Rightarrow> (Some MapFailed, sm)
              | Some m' \<Rightarrow> (None, sm\<lparr>sm_BlockedTgids := Some m'\<rparr>))
            in if 0 < ttl then
                 (case uptime of None \<Rightarrow> (Some UptimeFailed, sm) | Some up \<Rightarrow> put (word_of_int (add64 up ttl)))
               else put 0)"

definition UnblockTGID :: "'m mapOps \<Rightarrow> 'm sensorMaps \<Rightarrow> u32 \<Rightarrow> sensor_error option \<times> 'm sensorMaps" where
  "UnblockTGID ops sm tgid =
     (case sm_BlockedTgids sm of
        None \<Rightarrow> (Some MapMissing, sm)
      | Some m \<Rightarrow>
          if tgid = 0 then (Some ZeroTGID, sm)
          else (case op_delete ops m (K32 tgid) of
                  Deleted m' \<Rightarrow> (None, sm\<lparr>sm_BlockedTgids := Some m'\<rparr>)
                | _ \<Rightarrow> (Some MapFailed, sm)))"

section \<open>Sets of keys\<close>

fun deleteAll :: "'m mapOps \<Rightarrow> mapKey list \<Rightarrow> 'm \<Rightarrow> sensor_error option \<times> 'm" where
  "deleteAll ops [] m = (None, m)"
| "deleteAll ops (k # ks) m =
     (case op_delete ops m k of
        Deleted m' \<Rightarrow> deleteAll ops ks m'
      | KeyNotExist \<Rightarrow> deleteAll ops ks m
      | DeleteFailed \<Rightarrow> (Some MapFailed, m))"

definition clearMap :: "'m mapOps \<Rightarrow> 'm \<Rightarrow> sensor_error option \<times> 'm" where
  "clearMap ops m =
     (if op_keySize ops m \<noteq> 8 \<and> op_keySize ops m \<noteq> 16 then (Some (UnsupportedKeySize (op_keySize ops m)), m)
      else case op_keys ops m of
        None \<Rightarrow> (Some MapFailed, m)
      | Some ks \<Rightarrow> deleteAll ops ks m)"

text \<open>
  The loop the three synchronisations share: \<open>keyOf\<close> gives the key of a configured value, \<open>None\<close> when the value
  is skipped; a key already written is skipped as well.
\<close>

fun syncLoop ::
  "'m mapOps \<Rightarrow> (string \<Rightarrow> mapKey option) \<Rightarrow> mapKey list \<Rightarrow> string list \<Rightarrow> 'm \<Rightarrow> (sensor_error + nat) \<times> 'm" where
  "syncLoop ops keyOf seen [] m = (Inr (length seen), m)"
| "syncLoop ops keyOf seen (v # vs) m =
     (case keyOf v of
        None \<Rightarrow> syncLoop ops keyOf seen vs m
      | Some k \<Rightarrow>
          if k \<in> set seen then syncLoop ops keyOf seen vs m
          else (case op_put ops m k (V8 1) of
                  None \<Rightarrow> (Inl MapFailed, m)
                | Some m' \<Rightarrow> syncLoop ops keyOf (k # seen) vs m'))"

definition syncSet ::
  "'m mapOps \<Rightarrow> (string \<Rightarrow> mapKey option) \<Rightarrow> string list \<Rightarrow> 'm \<Rightarrow> (sensor_error + nat) \<times> 'm" where
  "syncSet ops keyOf vs m =
     (case clearMap ops m of
        (Some e, m') \<Rightarrow> (Inl e, m')
      | (None, m') \<Rightarrow> syncLoop ops keyOf [] vs m')"

text \<open>\<open>hash/fnv\<close>'s 64-bit FNV-1a.\<close>

definition fnv64a :: "string \<Rightarrow> u64" where
  "fnv64a s = foldl (\<lambda>h c. (h XOR of_nat (byte c)) * 1099511628211) 14695981039346656037 s"

definition iocHash :: "string \<Rightarrow> u64" where
  "iocHash v = fnv64a (ToLower v)"

definition hashKey :: "(string \<Rightarrow> u64) \<Rightarrow> string \<Rightarrow> mapKey option" where
  "hashKey hash v = (let value = TrimSpace v in if value = [] then None else Some (K64 (hash value)))"

definition syncHashSet ::
  "'m mapOps \<Rightarrow> (string \<Rightarrow> u64) \<Rightarrow> string list \<Rightarrow> 'm option \<Rightarrow> (sensor_error + nat) \<times> 'm option" where
  "syncHashSet ops hash values m =
     (case m of None \<Rightarrow> (Inl MapMissing, None) | Some m0 \<Rightarrow> map_prod id Some (syncSet ops (hashKey hash) values m0))"

text \<open>\<open>stat\<close> gives device and inode; \<open>None\<close> is an error or missing stat data.\<close>

definition dirKeyOf :: "(string \<Rightarrow> (u64 \<times> u64) option) \<Rightarrow> string \<Rightarrow> mapKey option" where
  "dirKeyOf stat v =
     (let dir = TrimSpace v in
      if dir = [] then None
      else case stat dir of None \<Rightarrow> None | Some (dev, ino) \<Rightarrow> Some (KDir dev ino))"

definition syncProtectedDirs ::
  "'m mapOps \<Rightarrow> (string \<Rightarrow> (u64 \<times> u64) option) \<Rightarrow> string list \<Rightarrow> 'm option \<Rightarrow> (sensor_error + nat) \<times> 'm option" where
  "syncProtectedDirs ops stat dirs m =
     (case m of None \<Rightarrow> (Inl MapMissing, None) | Some m0 \<Rightarrow> map_prod id Some (syncSet ops (dirKeyOf stat) dirs m0))"

definition cgroupFSPath :: "string \<Rightarrow> string" where
  "cgroupFSPath p =
     (let path = TrimSpace p in
      if path = [] \<or> path = ''/'' then ''/sys/fs/cgroup''
      else
        let relative = Clean (TrimPrefix path ''/'') in
        if relative = ''..'' \<or> HasPrefix relative ''../'' then []
        else Join2 ''/sys/fs/cgroup'' relative)"

definition cgroupKey :: "(string \<Rightarrow> (u64 \<times> u64) option) \<Rightarrow> string \<Rightarrow> mapKey option" where
  "cgroupKey stat v =
     (let path = TrimSpace v in
      if path = [] then None
      else let fs = cgroupFSPath path in
        if fs = [] then None
        else case stat fs of None \<Rightarrow> None | Some (dev, ino) \<Rightarrow> Some (K64 ino))"

definition putEnabled :: "'m mapOps \<Rightarrow> 'm \<Rightarrow> nat \<Rightarrow> (sensor_error + nat) \<times> 'm" where
  "putEnabled ops enabled count =
     (case op_put ops enabled (K32 0) (V8 (if 0 < count then 1 else 0)) of
        None \<Rightarrow> (Inl MapFailed, enabled)
      | Some e \<Rightarrow> (Inr count, e))"

definition syncCgroupScope ::
  "'m mapOps \<Rightarrow> (string \<Rightarrow> (u64 \<times> u64) option) \<Rightarrow> string list \<Rightarrow> 'm option \<Rightarrow> 'm option \<Rightarrow>
   (sensor_error + nat) \<times> 'm option \<times> 'm option" where
  "syncCgroupScope ops stat paths allowed enabled =
     (case (allowed, enabled) of
        (Some al, Some en) \<Rightarrow>
          (case syncSet ops (cgroupKey stat) paths al of
             (Inl e, al') \<Rightarrow> (Inl e, Some al', Some en)
           | (Inr count, al') \<Rightarrow>
               (case putEnabled ops en count of (res, en') \<Rightarrow> (res, Some al', Some en')))
      | _ \<Rightarrow> (Inl MapMissing, allowed, enabled))"

section \<open>Configuration\<close>

definition ConfigurePolicy ::
  "'m mapOps \<Rightarrow> (string \<Rightarrow> (u64 \<times> u64) option) \<Rightarrow> policy \<Rightarrow> 'm sensorMaps \<Rightarrow> sensor_error option \<times> 'm sensorMaps" where
  "ConfigurePolicy ops stat p sm =
     (case syncHashSet ops iocHash (pol_SuspiciousExtensions p) (sm_IocExtensions sm) of (r1, m1) \<Rightarrow>
      let sm1 = sm\<lparr>sm_IocExtensions := m1\<rparr> in
      case r1 of Inl e \<Rightarrow> (Some e, sm1) | Inr _ \<Rightarrow>
      (case syncHashSet ops iocHash (pol_RansomNoteNames p) (sm_IocRansomNotes sm1) of (r2, m2) \<Rightarrow>
       let sm2 = sm1\<lparr>sm_IocRansomNotes := m2\<rparr> in
       case r2 of Inl e \<Rightarrow> (Some e, sm2) | Inr _ \<Rightarrow>
       (case syncProtectedDirs ops stat (pol_ProtectedDirs p) (sm_ProtectedDirs sm2) of (r3, m3) \<Rightarrow>
        let sm3 = sm2\<lparr>sm_ProtectedDirs := m3\<rparr> in
        case r3 of Inl e \<Rightarrow> (Some e, sm3) | Inr _ \<Rightarrow>
        (case syncCgroupScope ops stat (pol_CgroupPaths p) (sm_AllowedCgroups sm3) (sm_CgroupScopeEnabled sm3) of
           (r4, al, en) \<Rightarrow>
             ((case r4 of Inl e \<Rightarrow> Some e | Inr _ \<Rightarrow> None),
              sm3\<lparr>sm_AllowedCgroups := al, sm_CgroupScopeEnabled := en\<rparr>)))))"

definition ConfigureEnforcement ::
  "'m mapOps \<Rightarrow> string \<Rightarrow> bool \<Rightarrow> 'm sensorMaps \<Rightarrow> sensor_error option \<times> 'm sensorMaps" where
  "ConfigureEnforcement ops action dryRun sm =
     (let act = ToLower (TrimSpace action) in
      if act \<noteq> ''log'' \<and> act \<noteq> ''deny'' \<and> act \<noteq> ''kill'' then (Some (UnsupportedEnforcement action), sm)
      else
        let v = (if dryRun then 0 else if act = ''deny'' then BlockActionDeny
                 else if act = ''kill'' then BlockActionKill else 0) in
        case sm_InlineIOCAction sm of
          None \<Rightarrow> (None, sm)
        | Some m \<Rightarrow>
            (case op_put ops m (K32 0) (V32 v) of
               None \<Rightarrow> (Some MapFailed, sm)
             | Some m' \<Rightarrow> (None, sm\<lparr>sm_InlineIOCAction := Some m'\<rparr>)))"

section \<open>Capabilities\<close>

definition recordDenyHook :: "string \<Rightarrow> string \<Rightarrow> capabilities \<Rightarrow> capabilities" where
  "recordDenyHook kind name c =
     (let c1 = c\<lparr>ca_DenyAvailable := True\<rparr> in
      if kind = ''lsm'' then
        c1\<lparr>ca_LSMHooks := ca_LSMHooks c1 @ [name], ca_DenyOpenat := (ca_DenyOpenat c1 \<or> name = ''file_open'')\<rparr>
      else
        c1\<lparr>ca_OverrideHooks := ca_OverrideHooks c1 @ [name], ca_DenyOpenat := (ca_DenyOpenat c1 \<or> name = ''openat'')\<rparr>)"

text \<open>
  \<open>strings.EqualFold\<close> against \<open>deny\<close>: none of its letters has a case variant outside ASCII, so folding is the
  byte map.
\<close>

definition foldsToDeny :: "string \<Rightarrow> bool" where
  "foldsToDeny s \<longleftrightarrow> map lowerByte s = ''deny''"

definition validatePolicyCapabilities :: "capabilities \<Rightarrow> policy \<Rightarrow> bool \<Rightarrow> sensor_error option" where
  "validatePolicyCapabilities caps p dryRun =
     (if dryRun \<or> ca_DenyAvailable caps then None
      else if foldsToDeny (TrimSpace (pol_Action p)) then Some DenyUnavailable
      else if list_ex (\<lambda>r. let a = ToLower (TrimSpace (ru_Action r)) in a = ''deny'' \<or> a = ''block'') (pol_Rules p)
      then Some DenyUnavailable
      else None)"

end
