(* ===== verification/SensorAttach.thy ===== *)
theory SensorAttach
  imports SensorPolicy
begin

text \<open>
  \<open>internal/sensor/sensor.go\<close>: attaching the BPF programs and initialising and closing a sensor. Whether a program
  is in the loaded object, and whether the kernel accepts an attachment (\<open>link.Tracepoint\<close>, \<open>link.Kprobe\<close>,
  \<open>link.Kretprobe\<close>, \<open>link.AttachLSM\<close>), are the parameters of an \<open>attachEnv\<close>. The ghost field \<open>sn_open\<close>
  holds the links that are open in the kernel, \<open>sn_links\<close> those the sensor keeps and will close;
  \<open>sn_reader\<close> and \<open>sn_closer\<close> say whether the event reader and the loaded objects are open.
\<close>

section \<open>State\<close>

datatype attachLink = Tracepoint string string | Kprobe string string | Kretprobe string string | LSMHook string

record attachEnv =
  ae_arch :: string
  ae_prog :: "string \<Rightarrow> bool"
  ae_tracepoint :: "string \<Rightarrow> string \<Rightarrow> bool"
  ae_kprobe :: "string \<Rightarrow> string \<Rightarrow> bool"
  ae_kretprobe :: "string \<Rightarrow> string \<Rightarrow> bool"
  ae_lsm :: "string \<Rightarrow> bool"
  ae_lsmFile :: "string option"
  ae_reader :: bool

record 'm sensor =
  sn_mode :: string
  sn_maps :: "'m sensorMaps"
  sn_SyscallABI :: "'m option"
  sn_links :: "attachLink list"
  sn_open :: "attachLink list"
  sn_reader :: bool
  sn_closer :: bool
  sn_capabilities :: capabilities

datatype attach_error =
    MissingProgram string
  | AttachFailed string
  | ConfigureFailed string
  | ABIMapMissing
  | UnsupportedABIOp string
  | UnsupportedABISymbol string string
  | ABIWriteFailed

definition runtimeModeCore :: string where "runtimeModeCore = ''core''"
definition runtimeModeLegacyPerf :: string where "runtimeModeLegacyPerf = ''legacy_perf''"
definition runtimeModeUltraLegacyMap :: string where "runtimeModeUltraLegacyMap = ''ultra_legacy_map''"

definition openLink :: "attachLink \<Rightarrow> 'm sensor \<Rightarrow> 'm sensor" where
  "openLink l s = s\<lparr>sn_open := sn_open s @ [l]\<rparr>"

definition closeLink :: "attachLink \<Rightarrow> 'm sensor \<Rightarrow> 'm sensor" where
  "closeLink l s = s\<lparr>sn_open := remove1 l (sn_open s)\<rparr>"

definition keepLinks :: "attachLink list \<Rightarrow> 'm sensor \<Rightarrow> 'm sensor" where
  "keepLinks ls s = s\<lparr>sn_links := sn_links s @ ls\<rparr>"

section \<open>Tracepoints\<close>

definition optionalSyscallTracepoint :: "string \<Rightarrow> string \<Rightarrow> string \<Rightarrow> bool" where
  "optionalSyscallTracepoint category name arch =
     (if category \<noteq> ''syscalls'' \<or> arch \<noteq> ''arm64'' then False
      else let oper = TrimPrefix (TrimPrefix name ''sys_enter_'') ''sys_exit_'' in
        oper \<in> set [''dup2'', ''rename'', ''unlink'', ''link'', ''symlink'', ''open''])"

definition tracepoints :: "(string \<times> string \<times> string \<times> bool) list" where
  "tracepoints = [
     (''syscalls'', ''sys_enter_execve'', ''TraceExecve'', False),
     (''sched'', ''sched_process_exec'', ''TraceExecSuccess'', False),
     (''sched'', ''sched_process_exit'', ''TraceProcessExit'', False),
     (''syscalls'', ''sys_enter_openat'', ''TraceOpenat'', False),
     (''syscalls'', ''sys_exit_openat'', ''TraceOpenatExit'', False),
     (''syscalls'', ''sys_enter_write'', ''TraceWrite'', False),
     (''syscalls'', ''sys_exit_write'', ''TraceWriteExit'', False),
     (''syscalls'', ''sys_enter_pwrite64'', ''TracePwrite64'', False),
     (''syscalls'', ''sys_exit_pwrite64'', ''TracePwrite64Exit'', False),
     (''syscalls'', ''sys_enter_writev'', ''TraceWritev'', False),
     (''syscalls'', ''sys_exit_writev'', ''TraceWritevExit'', False),
     (''syscalls'', ''sys_enter_copy_file_range'', ''TraceCopyFileRange'', True),
     (''syscalls'', ''sys_enter_getdents64'', ''TraceGetdents64'', False),
     (''syscalls'', ''sys_enter_mmap'', ''TraceMmap'', False),
     (''syscalls'', ''sys_enter_io_uring_enter'', ''TraceIoUringEnter'', True),
     (''syscalls'', ''sys_enter_connect'', ''TraceConnect'', True),
     (''syscalls'', ''sys_enter_close'', ''TraceClose'', False),
     (''syscalls'', ''sys_enter_dup'', ''TraceDup'', False),
     (''syscalls'', ''sys_exit_dup'', ''TraceDupExit'', False),
     (''syscalls'', ''sys_enter_dup2'', ''TraceDup2'', False),
     (''syscalls'', ''sys_exit_dup2'', ''TraceDup2Exit'', False),
     (''syscalls'', ''sys_enter_dup3'', ''TraceDup3'', False),
     (''syscalls'', ''sys_exit_dup3'', ''TraceDup3Exit'', False),
     (''syscalls'', ''sys_enter_fcntl'', ''TraceFcntl'', False),
     (''syscalls'', ''sys_exit_fcntl'', ''TraceFcntlExit'', False),
     (''syscalls'', ''sys_enter_rename'', ''TraceRename'', False),
     (''syscalls'', ''sys_enter_renameat'', ''TraceRenameat'', False),
     (''syscalls'', ''sys_enter_renameat2'', ''TraceRenameat2'', True),
     (''syscalls'', ''sys_enter_link'', ''TraceLink'', True),
     (''syscalls'', ''sys_enter_linkat'', ''TraceLinkat'', True),
     (''syscalls'', ''sys_enter_symlink'', ''TraceSymlink'', True),
     (''syscalls'', ''sys_enter_symlinkat'', ''TraceSymlinkat'', True),
     (''syscalls'', ''sys_enter_unlink'', ''TraceUnlink'', False),
     (''syscalls'', ''sys_enter_unlinkat'', ''TraceUnlinkat'', False),
     (''syscalls'', ''sys_enter_truncate'', ''TraceTruncate'', False),
     (''syscalls'', ''sys_enter_ftruncate'', ''TraceFtruncate'', False)]"

definition attachTracepoint ::
  "attachEnv \<Rightarrow> 'm sensor \<Rightarrow> string \<times> string \<times> string \<times> bool \<Rightarrow> attach_error option \<times> 'm sensor" where
  "attachTracepoint ae s tp =
     (case tp of (category, name, prog, opt) \<Rightarrow>
      let optional = (opt \<or> optionalSyscallTracepoint category name (ae_arch ae)) in
      if \<not> ae_prog ae prog then (if optional then None else Some (MissingProgram name), s)
      else if \<not> ae_tracepoint ae category name then (if optional then None else Some (AttachFailed name), s)
      else (None, keepLinks [Tracepoint category name] (openLink (Tracepoint category name) s)))"

text \<open>A loop whose body may return an error.\<close>

fun stopLoop :: "('s \<Rightarrow> 'a \<Rightarrow> 'e option \<times> 's) \<Rightarrow> 's \<Rightarrow> 'a list \<Rightarrow> 'e option \<times> 's" where
  "stopLoop f s [] = (None, s)"
| "stopLoop f s (x # xs) = (case f s x of (Some e, s1) \<Rightarrow> (Some e, s1) | (None, s1) \<Rightarrow> stopLoop f s1 xs)"

definition attachOpenat2 :: "attachEnv \<Rightarrow> 'm sensor \<Rightarrow> 'm sensor" where
  "attachOpenat2 ae s =
     (let entry = Tracepoint ''syscalls'' ''sys_enter_openat2''; exit = Tracepoint ''syscalls'' ''sys_exit_openat2'' in
      if \<not> ae_prog ae ''TraceOpenat2'' \<or> \<not> ae_prog ae ''TraceOpenat2Exit'' then s
      else if \<not> ae_tracepoint ae ''syscalls'' ''sys_enter_openat2'' then s
      else
        let s1 = openLink entry s in
        if \<not> ae_tracepoint ae ''syscalls'' ''sys_exit_openat2'' then closeLink entry s1
        else keepLinks [entry, exit] (openLink exit s1))"

definition attachTracepoints :: "attachEnv \<Rightarrow> 'm sensor \<Rightarrow> attach_error option \<times> 'm sensor" where
  "attachTracepoints ae s =
     (if sn_mode s = runtimeModeUltraLegacyMap then (None, s)
      else case stopLoop (attachTracepoint ae) s tracepoints of
        (Some e, s1) \<Rightarrow> (Some e, s1)
      | (None, s1) \<Rightarrow> (None, attachOpenat2 ae s1))"

section \<open>LSM programs\<close>

definition lsmPrograms :: "(string \<times> string) list" where
  "lsmPrograms = [
     (''EnforceFileOpen'', ''file_open''), (''EnforceFilePermission'', ''file_permission''),
     (''EnforcePathTruncate'', ''path_truncate''), (''EnforcePathRename'', ''path_rename''),
     (''EnforceInodeRename'', ''inode_rename''), (''EnforcePathMknod'', ''path_mknod''),
     (''EnforceInodeCreate'', ''inode_create''), (''EnforcePathUnlink'', ''path_unlink''),
     (''EnforceBprmCheckSecurity'', ''bprm_check_security'')]"

definition bpfLSMActiveFromData :: "string \<Rightarrow> bool" where
  "bpfLSMActiveFromData data = list_ex (\<lambda>lsm. lsm = ''bpf'') (Split (CHR '','') (TrimSpace data))"

definition bpfLSMActive :: "attachEnv \<Rightarrow> bool" where
  "bpfLSMActive ae = (case ae_lsmFile ae of None \<Rightarrow> False | Some data \<Rightarrow> bpfLSMActiveFromData data)"

definition attachLSM :: "attachEnv \<Rightarrow> 'm sensor \<Rightarrow> string \<times> string \<Rightarrow> 'm sensor" where
  "attachLSM ae s prog =
     (case prog of (field, name) \<Rightarrow>
      if \<not> ae_prog ae field \<or> \<not> ae_lsm ae name then s
      else keepLinks [LSMHook name] (openLink (LSMHook name)
        (s\<lparr>sn_capabilities := recordDenyHook ''lsm'' name (sn_capabilities s)\<rparr>)))"

definition attachLSMPrograms :: "attachEnv \<Rightarrow> 'm sensor \<Rightarrow> 'm sensor" where
  "attachLSMPrograms ae s = (if bpfLSMActive ae then foldl (attachLSM ae) s lsmPrograms else s)"

section \<open>Kprobes\<close>

definition kprobeSymbols :: "string \<Rightarrow> string \<Rightarrow> string list" where
  "kprobeSymbols oper arch =
     (let first = (if arch = ''amd64'' then ''__x64_sys_'' else if arch = ''arm64'' then ''__arm64_sys_''
                   else ''__'' @ arch @ ''_sys_'')
      in [first @ oper, ''__se_sys_'' @ oper, ''sys_'' @ oper])"

definition abiKeys :: "(string \<times> u32) list" where
  "abiKeys = [(''execve'', 1), (''open'', 2), (''openat'', 3), (''write'', 4), (''pwrite64'', 5), (''writev'', 6),
     (''rename'', 7), (''link'', 8), (''symlink'', 9), (''unlink'', 10), (''truncate'', 11), (''ftruncate'', 12)]"

definition syscallABIForSymbol :: "string \<Rightarrow> string \<Rightarrow> attach_error + u32 \<times> u32" where
  "syscallABIForSymbol oper symbol =
     (case map_of abiKeys oper of
        None \<Rightarrow> Inl (UnsupportedABIOp oper)
      | Some key \<Rightarrow>
          if symbol = ''__x64_sys_'' @ oper then Inr (key, 2)
          else if symbol = ''__se_sys_'' @ oper \<or> symbol = ''sys_'' @ oper then Inr (key, 1)
          else Inl (UnsupportedABISymbol symbol oper))"

definition configureKprobeABI ::
  "'m mapOps \<Rightarrow> string \<Rightarrow> string \<Rightarrow> 'm sensor \<Rightarrow> attach_error option \<times> 'm sensor" where
  "configureKprobeABI ops oper symbol s =
     (if sn_mode s \<noteq> runtimeModeUltraLegacyMap then (None, s)
      else case sn_SyscallABI s of
        None \<Rightarrow> (Some ABIMapMissing, s)
      | Some m \<Rightarrow>
          (case syscallABIForSymbol oper symbol of
             Inl e \<Rightarrow> (Some e, s)
           | Inr (key, abi) \<Rightarrow>
               (case op_put ops m (K32 key) (V32 abi) of
                  None \<Rightarrow> (Some ABIWriteFailed, s)
                | Some m' \<Rightarrow> (None, s\<lparr>sn_SyscallABI := Some m'\<rparr>))))"

fun attachKprobeWith ::
  "'m mapOps \<Rightarrow> attachEnv \<Rightarrow> string \<Rightarrow> string \<Rightarrow> string list \<Rightarrow> 'm sensor \<Rightarrow>
   (attach_error + attachLink) \<times> 'm sensor" where
  "attachKprobeWith ops ae oper prog [] s = (Inl (AttachFailed oper), s)"
| "attachKprobeWith ops ae oper prog (sy # sys) s =
     (if \<not> ae_kprobe ae sy prog then attachKprobeWith ops ae oper prog sys s
      else
        let l = Kprobe sy prog; s1 = openLink l s in
        case configureKprobeABI ops oper sy s1 of
          (Some e, s2) \<Rightarrow> (Inl (ConfigureFailed sy), closeLink l s2)
        | (None, s2) \<Rightarrow> (Inr l, s2))"

fun attachKretprobe ::
  "attachEnv \<Rightarrow> string \<Rightarrow> string list \<Rightarrow> 'm sensor \<Rightarrow> (attach_error + attachLink) \<times> 'm sensor" where
  "attachKretprobe ae prog [] s = (Inl (AttachFailed prog), s)"
| "attachKretprobe ae prog (sy # sys) s =
     (if ae_kretprobe ae sy prog then (Inr (Kretprobe sy prog), openLink (Kretprobe sy prog) s)
      else attachKretprobe ae prog sys s)"

fun attachPairLoop ::
  "'m mapOps \<Rightarrow> attachEnv \<Rightarrow> string \<Rightarrow> string \<Rightarrow> string \<Rightarrow> string list \<Rightarrow> 'm sensor \<Rightarrow>
   (attach_error + attachLink list) \<times> 'm sensor" where
  "attachPairLoop ops ae oper entry exit [] s = (Inl (AttachFailed oper), s)"
| "attachPairLoop ops ae oper entry exit (sy # sys) s =
     (if \<not> ae_kprobe ae sy entry then attachPairLoop ops ae oper entry exit sys s
      else
        let e = Kprobe sy entry; x = Kretprobe sy exit; s1 = openLink e s in
        if \<not> ae_kretprobe ae sy exit then attachPairLoop ops ae oper entry exit sys (closeLink e s1)
        else
          case configureKprobeABI ops oper sy (openLink x s1) of
            (Some err, s2) \<Rightarrow> (Inl (ConfigureFailed sy), closeLink x (closeLink e s2))
          | (None, s2) \<Rightarrow> (Inr [e, x], s2))"

definition attachKprobePairWith ::
  "'m mapOps \<Rightarrow> attachEnv \<Rightarrow> string \<Rightarrow> string \<Rightarrow> string \<Rightarrow> 'm sensor \<Rightarrow>
   (attach_error + attachLink list) \<times> 'm sensor" where
  "attachKprobePairWith ops ae oper entry exit s =
     (if \<not> ae_prog ae entry \<or> \<not> ae_prog ae exit then (Inl (MissingProgram oper), s)
      else attachPairLoop ops ae oper entry exit (kprobeSymbols oper (ae_arch ae)) s)"

definition kprobePairs :: "(string \<times> string \<times> string \<times> bool) list" where
  "kprobePairs = [
     (''open'', ''KpOverrideOpen'', ''KpRetOpen'', True), (''openat'', ''KpOverrideOpenat'', ''KpRetOpenat'', False),
     (''write'', ''KpOverrideWrite'', ''KpRetWrite'', False),
     (''pwrite64'', ''KpOverridePwrite64'', ''KpRetPwrite64'', False),
     (''writev'', ''KpOverrideWritev'', ''KpRetWritev'', False)]"

definition kprobes :: "(string \<times> string \<times> bool) list" where
  "kprobes = [
     (''openat'', ''KpOverrideOpenat'', False), (''open'', ''KpOverrideOpen'', True),
     (''openat2'', ''KpOverrideOpenat2'', True), (''rename'', ''KpOverrideRename'', False),
     (''renameat'', ''KpOverrideRenameat'', False), (''renameat2'', ''KpOverrideRenameat2'', True),
     (''link'', ''KpOverrideLink'', True), (''linkat'', ''KpOverrideLinkat'', True),
     (''symlink'', ''KpOverrideSymlink'', True), (''symlinkat'', ''KpOverrideSymlinkat'', True),
     (''unlink'', ''KpOverrideUnlink'', False), (''unlinkat'', ''KpOverrideUnlinkat'', False),
     (''truncate'', ''KpOverrideTruncate'', False), (''ftruncate'', ''KpOverrideFtruncate'', False),
     (''execve'', ''KpOverrideExecve'', False), (''write'', ''KpOverrideWrite'', False),
     (''pwrite64'', ''KpOverridePwrite64'', False), (''writev'', ''KpOverrideWritev'', False),
     (''copy_file_range'', ''KpOverrideCopyFileRange'', True), (''getdents64'', ''KpOverrideGetdents64'', False),
     (''mmap'', ''KpOverrideMmap'', False), (''io_uring_enter'', ''KpOverrideIoUringEnter'', True)]"

definition kretprobes :: "(string \<times> string) list" where
  "kretprobes = [(''open'', ''KpRetOpen''), (''openat'', ''KpRetOpenat'')]"

definition pairedOp :: "'m sensor \<Rightarrow> string \<Rightarrow> bool" where
  "pairedOp s oper \<longleftrightarrow> sn_mode s = runtimeModeUltraLegacyMap \<and> oper \<in> set (map fst kprobePairs)"

definition attachPair ::
  "'m mapOps \<Rightarrow> attachEnv \<Rightarrow> 'm sensor \<Rightarrow> string \<times> string \<times> string \<times> bool \<Rightarrow> attach_error option \<times> 'm sensor" where
  "attachPair ops ae s pair =
     (case pair of (oper, entry, exit, optional) \<Rightarrow>
      case attachKprobePairWith ops ae oper entry exit s of
        (Inl e, s1) \<Rightarrow> (if optional then None else Some e, s1)
      | (Inr ls, s1) \<Rightarrow> (None, keepLinks ls s1))"

definition attachProcessExit :: "attachEnv \<Rightarrow> 'm sensor \<Rightarrow> attach_error option \<times> 'm sensor" where
  "attachProcessExit ae s =
     (let l = Kprobe ''do_exit'' ''KpProcessExit'' in
      if \<not> ae_prog ae ''KpProcessExit'' then (Some (MissingProgram ''do_exit''), s)
      else if \<not> ae_kprobe ae ''do_exit'' ''KpProcessExit'' then (Some (AttachFailed ''do_exit''), s)
      else (None, keepLinks [l] (openLink l s)))"

definition attachOverride ::
  "'m mapOps \<Rightarrow> attachEnv \<Rightarrow> 'm sensor \<Rightarrow> string \<times> string \<times> bool \<Rightarrow> attach_error option \<times> 'm sensor" where
  "attachOverride ops ae s kp =
     (case kp of (oper, prog, opt) \<Rightarrow>
      if pairedOp s oper \<or> \<not> ae_prog ae prog then (None, s)
      else case attachKprobeWith ops ae oper prog (kprobeSymbols oper (ae_arch ae)) s of
        (Inl e, s1) \<Rightarrow> (if opt \<or> sn_mode s \<noteq> runtimeModeUltraLegacyMap then None else Some e, s1)
      | (Inr l, s1) \<Rightarrow>
          (None, keepLinks [l]
             (if sn_mode s \<noteq> runtimeModeUltraLegacyMap
              then s1\<lparr>sn_capabilities := recordDenyHook ''override'' oper (sn_capabilities s1)\<rparr> else s1)))"

definition attachReturn :: "attachEnv \<Rightarrow> 'm sensor \<Rightarrow> string \<times> string \<Rightarrow> 'm sensor" where
  "attachReturn ae s kp =
     (case kp of (oper, prog) \<Rightarrow>
      if pairedOp s oper \<or> \<not> ae_prog ae prog then s
      else case attachKretprobe ae prog (kprobeSymbols oper (ae_arch ae)) s of
        (Inl e, s1) \<Rightarrow> s1
      | (Inr l, s1) \<Rightarrow> keepLinks [l] s1)"

definition attachUltraLegacy :: "'m mapOps \<Rightarrow> attachEnv \<Rightarrow> 'm sensor \<Rightarrow> attach_error option \<times> 'm sensor" where
  "attachUltraLegacy ops ae s =
     (if sn_mode s \<noteq> runtimeModeUltraLegacyMap then (None, s)
      else case attachProcessExit ae s of
        (Some e, s1) \<Rightarrow> (Some e, s1)
      | (None, s1) \<Rightarrow> stopLoop (attachPair ops ae) s1 kprobePairs)"

definition attachKprobePrograms :: "'m mapOps \<Rightarrow> attachEnv \<Rightarrow> 'm sensor \<Rightarrow> attach_error option \<times> 'm sensor" where
  "attachKprobePrograms ops ae s =
     (case attachUltraLegacy ops ae s of
        (Some e, s1) \<Rightarrow> (Some e, s1)
      | (None, s1) \<Rightarrow>
          (case stopLoop (attachOverride ops ae) s1 kprobes of
             (Some e, s2) \<Rightarrow> (Some e, s2)
           | (None, s2) \<Rightarrow> (None, foldl (attachReturn ae) s2 kretprobes)))"

section \<open>Initialising\<close>

datatype init_error = Configuration sensor_error | Attaching attach_error | Capability sensor_error | ReaderFailed

fun isConfiguration :: "init_error \<Rightarrow> bool" where
  "isConfiguration (Configuration e) = True"
| "isConfiguration e = False"

definition attachAll :: "'m mapOps \<Rightarrow> attachEnv \<Rightarrow> 'm sensor \<Rightarrow> attach_error option \<times> 'm sensor" where
  "attachAll ops ae s =
     (case attachTracepoints ae s of
        (Some e, s1) \<Rightarrow> (Some e, s1)
      | (None, s1) \<Rightarrow> attachKprobePrograms ops ae (attachLSMPrograms ae s1))"

text \<open>\<open>ae_reader\<close> says whether \<open>newEventReader\<close> succeeds.\<close>

definition initialize ::
  "'m mapOps \<Rightarrow> (string \<Rightarrow> (u64 \<times> u64) option) \<Rightarrow> attachEnv \<Rightarrow> policy \<Rightarrow> bool \<Rightarrow> 'm sensor \<Rightarrow>
   init_error option \<times> 'm sensor" where
  "initialize ops stat ae p dryRun s =
     (case ConfigurePolicy ops stat p (sn_maps s) of (e1, m1) \<Rightarrow>
      let s1 = s\<lparr>sn_maps := m1\<rparr> in
      case e1 of Some e \<Rightarrow> (Some (Configuration e), s1) | None \<Rightarrow>
      (case ConfigureEnforcement ops (pol_Action p) True m1 of (e2, m2) \<Rightarrow>
       let s2 = s1\<lparr>sn_maps := m2\<rparr> in
       case e2 of Some e \<Rightarrow> (Some (Configuration e), s2) | None \<Rightarrow>
       (case attachAll ops ae s2 of (e3, s3) \<Rightarrow>
        case e3 of Some e \<Rightarrow> (Some (Attaching e), s3) | None \<Rightarrow>
        (case validatePolicyCapabilities (sn_capabilities s3) p dryRun of
           Some e \<Rightarrow> (Some (Capability e), s3)
         | None \<Rightarrow>
             if \<not> ae_reader ae then (Some ReaderFailed, s3)
             else
               case ConfigureEnforcement ops (pol_Action p) dryRun (sn_maps s3) of (e5, m5) \<Rightarrow>
                 (map_option Configuration e5, s3\<lparr>sn_reader := True, sn_maps := m5\<rparr>)))))"

definition Close :: "'m sensor \<Rightarrow> 'm sensor" where
  "Close s = (fold closeLink (sn_links s) s)\<lparr>sn_reader := False, sn_closer := False\<rparr>"

section \<open>Choosing a runtime\<close>

datatype new_error = UnsupportedMode string | LoadConfiguration | InitConfiguration init_error | CleanupFailed | NoRuntime

definition sensorModeCandidates :: "string \<Rightarrow> new_error + string list" where
  "sensorModeCandidates modeValue =
     (let mode = ToLower (TrimSpace modeValue) in
      if mode = [] \<or> mode = ''auto'' then
        Inr [runtimeModeCore, runtimeModeLegacyPerf, runtimeModeUltraLegacyMap]
      else if mode = runtimeModeCore \<or> mode = runtimeModeLegacyPerf \<or> mode = runtimeModeUltraLegacyMap then Inr [mode]
      else if mode = ''legacy'' then Inr [runtimeModeLegacyPerf]
      else Inl (UnsupportedMode mode))"

text \<open>
  What loading the objects of a mode gives: their maps, or an error and whether it is a configuration error. No
  loader of the sources returns an object to close together with an error.
\<close>

datatype 'm loadResult = LoadFailed bool | Loaded "'m sensorMaps" "'m option"

record 'm objectLoaders =
  ol_core :: "'m loadResult"
  ol_legacyPerf :: "'m loadResult"
  ol_ultraLegacyMap :: "'m loadResult"

text \<open>The error of \<open>loadSensorObjectsAuto\<close> wraps only that of the last loader.\<close>

definition loadSensorObjectsAuto :: "'m objectLoaders \<Rightarrow> 'm loadResult" where
  "loadSensorObjectsAuto loaders =
     (case ol_core loaders of
        Loaded maps abi \<Rightarrow> Loaded maps abi
      | LoadFailed _ \<Rightarrow>
          (case ol_legacyPerf loaders of
             Loaded maps abi \<Rightarrow> Loaded maps abi
           | LoadFailed _ \<Rightarrow> ol_ultraLegacyMap loaders))"

definition loadSensorObjectsWith :: "string \<Rightarrow> 'm objectLoaders \<Rightarrow> 'm loadResult" where
  "loadSensorObjectsWith modeValue loaders =
     (let mode = ToLower (TrimSpace modeValue) in
      if mode = [] \<or> mode = ''auto'' then loadSensorObjectsAuto loaders
      else if mode = runtimeModeCore then ol_core loaders
      else if mode = runtimeModeLegacyPerf \<or> mode = ''legacy'' then ol_legacyPerf loaders
      else if mode = runtimeModeUltraLegacyMap then ol_ultraLegacyMap loaders
      else LoadFailed False)"

definition newSensor :: "string \<Rightarrow> 'm sensorMaps \<Rightarrow> 'm option \<Rightarrow> 'm sensor" where
  "newSensor mode maps abi =
     \<lparr>sn_mode = mode, sn_maps = maps, sn_SyscallABI = abi, sn_links = [], sn_open = [], sn_reader = False,
      sn_closer = True,
      sn_capabilities = \<lparr>ca_Mode = mode, ca_DenyAvailable = False, ca_DenyOpenat = False, ca_UserspaceKill = True,
        ca_LSMHooks = [], ca_OverrideHooks = []\<rparr>\<rparr>"

text \<open>
  \<open>closeOK\<close> says whether closing a sensor reports no error. The second result lists the sensors that were
  abandoned, as they are after \<open>Close\<close>.
\<close>

fun tryModes ::
  "(string \<Rightarrow> 'm loadResult) \<Rightarrow> (string \<Rightarrow> 'm sensor \<Rightarrow> init_error option \<times> 'm sensor) \<Rightarrow> ('m sensor \<Rightarrow> bool) \<Rightarrow>
   string list \<Rightarrow> (new_error + 'm sensor) \<times> 'm sensor list" where
  "tryModes load init closeOK [] = (Inl NoRuntime, [])"
| "tryModes load init closeOK (mode # modes) =
     (case load mode of
        LoadFailed config \<Rightarrow> if config then (Inl LoadConfiguration, []) else tryModes load init closeOK modes
      | Loaded maps abi \<Rightarrow>
          (case init mode (newSensor mode maps abi) of
             (None, s) \<Rightarrow> (Inr s, [])
           | (Some e, s) \<Rightarrow>
               if \<not> closeOK s then (Inl CleanupFailed, [Close s])
               else if isConfiguration e then (Inl (InitConfiguration e), [Close s])
               else (case tryModes load init closeOK modes of (r, ss) \<Rightarrow> (r, Close s # ss))))"

definition newSensorWith ::
  "string \<Rightarrow> 'm objectLoaders \<Rightarrow> (string \<Rightarrow> 'm sensor \<Rightarrow> init_error option \<times> 'm sensor) \<Rightarrow>
   ('m sensor \<Rightarrow> bool) \<Rightarrow> (new_error + 'm sensor) \<times> 'm sensor list" where
  "newSensorWith modeValue loaders init closeOK =
     (case sensorModeCandidates modeValue of
        Inl e \<Rightarrow> (Inl e, [])
      | Inr modes \<Rightarrow> tryModes (\<lambda>mode. loadSensorObjectsWith mode loaders) init closeOK modes)"

definition NewWithOptions ::
  "string \<Rightarrow> 'm objectLoaders \<Rightarrow> 'm mapOps \<Rightarrow> (string \<Rightarrow> (u64 \<times> u64) option) \<Rightarrow> (string \<Rightarrow> attachEnv) \<Rightarrow>
   ('m sensor \<Rightarrow> bool) \<Rightarrow> policy \<Rightarrow> bool \<Rightarrow> (new_error + 'm sensor) \<times> 'm sensor list" where
  "NewWithOptions modeEnv loaders ops stat ae closeOK p dryRun =
     newSensorWith (TrimSpace modeEnv) loaders (\<lambda>mode. initialize ops stat (ae mode) p dryRun) closeOK"

end
