(* ===== verification/SensorEvents.thy ===== *)
theory SensorEvents
  imports Polling_Laws SensorAttach "HOL-Library.Sublist"
begin

text \<open>
  \<open>internal/sensor/sensor.go\<close>: the choice of the event reader, the perf reader, the counters and \<open>Events\<close>, the goroutine
  that reads, decodes and sends events. The goroutine, its consumer and the cancelled context run
  concurrently: \<open>pumpStep\<close> interleaves them, with the two channels as bounded queues. Opening and reading a
  ring or perf buffer is that of \<open>github.com/cilium/ebpf\<close>: its answers are parameters.
\<close>

section \<open>Readers\<close>

datatype eventReader = PollingEvents pollingReader | PerfEvents u64 | RingbufEvents

datatype reader_error =
    EventsMapMissing
  | CursorMapMissing
  | PollingInit poll_error
  | CPUListUnreadable
  | Coverage coverage_error
  | OpenFailed

text \<open>\<open>possible\<close> is the content of \<open>/sys/devices/system/cpu/possible\<close>, \<open>opened\<close> whether the buffer could be opened.\<close>

definition newEventReader ::
  "string \<Rightarrow> mapShape option \<Rightarrow> mapShape option \<Rightarrow> string option \<Rightarrow> bool \<Rightarrow> reader_error + eventReader" where
  "newEventReader mode events eventCursor possible opened =
     (if events = None then Inl EventsMapMissing
      else if mode = runtimeModeUltraLegacyMap then
        (if eventCursor = None then Inl CursorMapMissing
         else case newMapPollingEventReader events eventCursor of
           Inl e \<Rightarrow> Inl (PollingInit e)
         | Inr rd \<Rightarrow>
             if pr_guarded rd then
               (case possible of
                  None \<Rightarrow> Inl CPUListUnreadable
                | Some cpus \<Rightarrow>
                    (case validateCPUShardCoverage cpus (of_nat (length (pr_shards rd))) of
                       Some e \<Rightarrow> Inl (Coverage e)
                     | None \<Rightarrow> Inr (PollingEvents rd)))
             else Inr (PollingEvents rd))
      else if mode = runtimeModeLegacyPerf then
        (if opened then Inr (PerfEvents 0) else Inl OpenFailed)
      else (if opened then Inr RingbufEvents else Inl OpenFailed))"

text \<open>What a \<open>Read\<close> returns: a sample, the closed error of its library, or another error.\<close>

datatype readResult = Sample string | ReaderClosed | ReadFailed

text \<open>The records of the perf library: lost samples, or the raw sample.\<close>

datatype perfRecord = PerfRecord u64 string | PerfClosed | PerfFailed

text \<open>
  \<open>perfEventReader.Read\<close> on the records to come: the result, the lost counter and what is left, or \<open>None\<close> while it
  waits for more.
\<close>

fun perfRead :: "u64 \<Rightarrow> perfRecord list \<Rightarrow> (readResult \<times> u64 \<times> perfRecord list) option" where
  "perfRead lost [] = None"
| "perfRead lost (PerfClosed # rs) = Some (ReaderClosed, lost, rs)"
| "perfRead lost (PerfFailed # rs) = Some (ReadFailed, lost, rs)"
| "perfRead lost (PerfRecord n raw # rs) =
     (if 0 < n then perfRead (lost + n) rs else Some (Sample raw, lost, rs))"

section \<open>Counters\<close>

text \<open>A counter map: \<open>None\<close> when the runtime has none, otherwise the answer of its lookup.\<close>

definition RingbufDrops :: "u64 option option \<Rightarrow> u64 option" where
  "RingbufDrops drops = (case drops of None \<Rightarrow> Some 0 | Some answer \<Rightarrow> answer)"

definition CaptureGaps :: "u64 option option \<Rightarrow> eventReader \<Rightarrow> u64 option" where
  "CaptureGaps gaps rd =
     (case (case gaps of None \<Rightarrow> Some 0 | Some answer \<Rightarrow> answer) of
        None \<Rightarrow> None
      | Some g \<Rightarrow>
          Some (case rd of PollingEvents r \<Rightarrow> g + pr_lost r | PerfEvents lost \<Rightarrow> g + lost | RingbufEvents \<Rightarrow> g))"

section \<open>Sending events\<close>

datatype pump_error = NoReader | ReadError | DecodeFailed decode_error

datatype pumpPhase = Reading | Sending event | Reporting | Stopped

text \<open>
  Two ghost fields record what was read so far: \<open>pu_log\<close> the samples, each with the clock readings of its decoding, and
  \<open>pu_reads\<close> what every \<open>Read\<close> returned, each with whether the context was cancelled by then.
\<close>

record pump =
  pu_phase :: pumpPhase
  pu_clock :: "eventClock option"
  pu_events :: "event list"
  pu_errs :: "pump_error list"
  pu_cancelled :: bool
  pu_received :: "event list"
  pu_reported :: "pump_error list"
  pu_log :: "(string \<times> time \<times> duration option) list"
  pu_reads :: "(readResult \<times> bool) list"

definition eventsCap :: nat where [go_consts]: "eventsCap = 1024"

definition startPump :: "bool \<Rightarrow> eventClock option \<Rightarrow> pump" where
  "startPump hasReader clk =
     \<lparr>pu_phase = (if hasReader then Reading else Stopped), pu_clock = clk, pu_events = [],
      pu_errs = (if hasReader then [] else [NoReader]), pu_cancelled = False, pu_received = [], pu_reported = [],
      pu_log = [], pu_reads = []\<rparr>"

definition pumpRead :: "byteOrder \<Rightarrow> readResult \<Rightarrow> time \<Rightarrow> duration option \<Rightarrow> pump \<Rightarrow> pump" where
  "pumpRead native r now uptime p =
     (case r of
        ReaderClosed \<Rightarrow> p\<lparr>pu_phase := Stopped\<rparr>
      | ReadFailed \<Rightarrow> p\<lparr>pu_phase := (if pu_cancelled p then Stopped else Reporting)\<rparr>
      | Sample raw \<Rightarrow>
          (case DecodeEvent native now uptime (pu_clock p) raw of
             (Inl e, clk) \<Rightarrow>
               p\<lparr>pu_clock := clk, pu_errs := (if pu_errs p = [] then [DecodeFailed e] else pu_errs p),
                 pu_log := pu_log p @ [(raw, now, uptime)]\<rparr>
           | (Inr ev, clk) \<Rightarrow>
               p\<lparr>pu_phase := Sending ev, pu_clock := clk, pu_log := pu_log p @ [(raw, now, uptime)]\<rparr>))
     \<lparr>pu_reads := pu_reads p @ [(r, pu_cancelled p)]\<rparr>"

inductive pumpStep :: "byteOrder \<Rightarrow> pump \<Rightarrow> pump \<Rightarrow> bool" for native where
  reads: "pu_phase p = Reading \<Longrightarrow> pumpStep native p (pumpRead native r now uptime p)"
| sends: "pu_phase p = Sending ev \<Longrightarrow> length (pu_events p) < eventsCap \<Longrightarrow>
    pumpStep native p (p\<lparr>pu_events := pu_events p @ [ev], pu_phase := Reading\<rparr>)"
| sendCancelled: "pu_phase p = Sending ev \<Longrightarrow> pu_cancelled p \<Longrightarrow> pumpStep native p (p\<lparr>pu_phase := Stopped\<rparr>)"
| reports: "pu_phase p = Reporting \<Longrightarrow> pu_errs p = [] \<Longrightarrow>
    pumpStep native p (p\<lparr>pu_errs := [ReadError], pu_phase := Stopped\<rparr>)"
| reportCancelled: "pu_phase p = Reporting \<Longrightarrow> pu_cancelled p \<Longrightarrow> pumpStep native p (p\<lparr>pu_phase := Stopped\<rparr>)"
| cancels: "pumpStep native p (p\<lparr>pu_cancelled := True\<rparr>)"
| receives: "pu_events p = ev # rest \<Longrightarrow>
    pumpStep native p (p\<lparr>pu_events := rest, pu_received := pu_received p @ [ev]\<rparr>)"
| receivesError: "pu_errs p = e # rest \<Longrightarrow>
    pumpStep native p (p\<lparr>pu_errs := rest, pu_reported := pu_reported p @ [e]\<rparr>)"

inductive_cases pumpStepE: "pumpStep native p q"

inductive pumpReachable :: "byteOrder \<Rightarrow> pump \<Rightarrow> pump \<Rightarrow> bool" for native p0 where
  start: "pumpReachable native p0 p0"
| step: "pumpReachable native p0 p \<Longrightarrow> pumpStep native p q \<Longrightarrow> pumpReachable native p0 q"

section \<open>Order and bounds\<close>

text \<open>The events a log of samples decodes to, with the clock threaded through, and the clock after it.\<close>

fun decodeLog :: "byteOrder \<Rightarrow> eventClock option \<Rightarrow> (string \<times> time \<times> duration option) list \<Rightarrow> event list \<times> eventClock option" where
  "decodeLog native clk [] = ([], clk)"
| "decodeLog native clk ((raw, now, uptime) # log) =
     (case DecodeEvent native now uptime clk raw of
        (Inl e, clk') \<Rightarrow> decodeLog native clk' log
      | (Inr ev, clk') \<Rightarrow> (case decodeLog native clk' log of (evs, c) \<Rightarrow> (ev # evs, c)))"

lemma decodeLog_snoc:
  "decodeLog native clk (log @ [(raw, now, uptime)]) =
     (case decodeLog native clk log of (evs, c) \<Rightarrow>
       (case DecodeEvent native now uptime c raw of (Inl e, c') \<Rightarrow> (evs, c') | (Inr ev, c') \<Rightarrow> (evs @ [ev], c')))"
  by (induction log arbitrary: clk) (auto split: prod.splits sum.splits)

definition inFlight :: "pump \<Rightarrow> event list \<Rightarrow> bool" where
  "inFlight p rest \<longleftrightarrow>
     (case pu_phase p of
        Sending ev \<Rightarrow> rest = [ev]
      | Stopped \<Rightarrow> rest = [] \<or> length rest = 1 \<and> pu_cancelled p
      | _ \<Rightarrow> rest = [])"

definition pumpInv :: "byteOrder \<Rightarrow> eventClock option \<Rightarrow> pump \<Rightarrow> bool" where
  "pumpInv native clk p \<longleftrightarrow>
     length (pu_events p) \<le> eventsCap \<and> length (pu_errs p) \<le> 1 \<and>
     (\<exists>rest. decodeLog native clk (pu_log p) = (pu_received p @ pu_events p @ rest, pu_clock p) \<and> inFlight p rest)"

lemma pumpRead_inv:
  assumes "pumpInv native clk p" and "pu_phase p = Reading"
  shows "pumpInv native clk (pumpRead native r now uptime p)"
proof -
  have d: "decodeLog native clk (pu_log p) = (pu_received p @ pu_events p, pu_clock p)"
    using assms by (auto simp: pumpInv_def inFlight_def)
  show ?thesis
  proof (cases r)
    case (Sample raw)
    obtain x c where x: "DecodeEvent native now uptime (pu_clock p) raw = (x, c)" by (metis surj_pair)
    show ?thesis
      using assms x by (cases x) (simp_all add: Sample pumpRead_def pumpInv_def decodeLog_snoc d inFlight_def)
  qed (use assms d in \<open>simp_all add: pumpRead_def pumpInv_def inFlight_def\<close>)
qed

lemma pumpStep_inv: "pumpStep native p q \<Longrightarrow> pumpInv native clk p \<Longrightarrow> pumpInv native clk q"
proof (induction rule: pumpStep.induct)
  case (reads p r now uptime)
  then show ?case by (simp add: pumpRead_inv)
qed (auto simp: pumpInv_def inFlight_def split: pumpPhase.splits)

lemma startPump_inv: "pumpInv native clk (startPump hasReader clk)"
  by (simp add: pumpInv_def startPump_def inFlight_def)

lemma pumpReachable_inv: "pumpReachable native (startPump hasReader clk) p \<Longrightarrow> pumpInv native clk p"
  by (induction rule: pumpReachable.induct) (auto simp: startPump_inv intro: pumpStep_inv)

text \<open>
  However the goroutine of \<open>Events\<close>, its consumer and a cancellation interleave, the consumer gets exactly the decodable
  samples, in the order in which they were read and without gaps or repetitions: what it received, followed
  by what is buffered, is what the samples read so far decode to, less the event being sent, and only after a
  cancellation less the one event that was dropped. The channels stay within their capacities.
\<close>

lemma events_in_order:
  assumes "pumpReachable native (startPump hasReader clk) p"
  shows "\<exists>rest. fst (decodeLog native clk (pu_log p)) = pu_received p @ pu_events p @ rest \<and>
      (case pu_phase p of Sending ev \<Rightarrow> rest = [ev] | Stopped \<Rightarrow> rest = [] \<or> length rest = 1 \<and> pu_cancelled p | _ \<Rightarrow> rest = []) \<and>
    length (pu_events p) \<le> 1024 \<and> length (pu_errs p) \<le> 1"
  using pumpReachable_inv [OF assms] by (auto simp: pumpInv_def inFlight_def go_consts)

lemma events_in_order_witness:
  "\<exists>p. pumpReachable LittleEndian (startPump True None) p \<and> pu_log p = [(replicate eventSize CHR 0x00, 5, None)] \<and>
     length (pu_received p) = 1 \<and> pu_received p = fst (decodeLog LittleEndian None (pu_log p))"
proof -
  let ?raw = "replicate eventSize CHR 0x00" and ?p0 = "startPump True None"
  obtain tm clk where t: "eventTimestamp 5 None None (Uint64 LittleEndian ?raw 0) = (tm, clk)" by (metis surj_pair)
  then obtain ev where d: "DecodeEvent LittleEndian 5 None None ?raw = (Inr ev, clk)"
    by (simp add: DecodeEvent_def decodeEvent_def Let_def eventV2Size_def)
  let ?p1 = "?p0\<lparr>pu_phase := Sending ev, pu_clock := clk, pu_log := [(?raw, 5, None)],
    pu_reads := [(Sample ?raw, False)]\<rparr>"
  let ?p2 = "?p1\<lparr>pu_events := pu_events ?p1 @ [ev], pu_phase := Reading\<rparr>"
  let ?p3 = "?p2\<lparr>pu_events := [], pu_received := pu_received ?p2 @ [ev]\<rparr>"
  have "pumpStep LittleEndian ?p0 (pumpRead LittleEndian (Sample ?raw) 5 None ?p0)"
    by (rule pumpStep.reads) (simp add: startPump_def)
  then have "pumpStep LittleEndian ?p0 ?p1" using d by (simp add: pumpRead_def startPump_def)
  moreover have "pumpStep LittleEndian ?p1 ?p2" by (rule pumpStep.sends) (simp_all add: startPump_def go_consts)
  moreover have "pumpStep LittleEndian ?p2 ?p3" by (rule pumpStep.receives) (simp add: startPump_def)
  ultimately have r: "pumpReachable LittleEndian ?p0 ?p3" by (meson pumpReachable.intros)
  show ?thesis
    using events_in_order [OF r] r by (intro exI [of _ ?p3]) (simp add: startPump_def)
qed

section \<open>Readers and counters\<close>

text \<open>A sharded polling reader is only opened where it has a ring for every possible CPU.\<close>

lemma checkSpans_None:
  "checkSpans shards spans = None \<Longrightarrow> span \<in> set spans \<Longrightarrow>
   \<exists>lo hi. parseCPURange span = Some (lo, hi) \<and> hi < uint shards"
  by (induction spans) (auto split: option.splits prod.splits if_splits)

lemma newEventReader_covers:
  assumes "newEventReader mode events cursor possible opened = Inr (PollingEvents rd)" and "pr_guarded rd"
  shows "\<exists>cpus. possible = Some cpus \<and> (\<forall>span \<in> set (Split (CHR '','') (TrimSpace cpus)).
    \<exists>lo hi. parseCPURange span = Some (lo, hi) \<and> hi < uint (of_nat (length (pr_shards rd)) :: u32))"
  using assms checkSpans_None
  by (auto simp: newEventReader_def validateCPUShardCoverage_def split: if_splits sum.splits option.splits)

fun lostSamples :: "perfRecord list \<Rightarrow> u64" where
  "lostSamples [] = 0"
| "lostSamples (PerfRecord n raw # rs) = n + lostSamples rs"
| "lostSamples (_ # rs) = lostSamples rs"

text \<open>Every lost sample a perf read passes over is reported by \<open>CaptureGaps\<close>.\<close>

lemma perfRead_accounts:
  "perfRead lost rs = Some (r, lost', rest) \<Longrightarrow> lost' + lostSamples rest = lost + lostSamples rs"
  by (induction lost rs rule: perfRead.induct) (auto split: if_splits simp: word_gt_0)

lemma CaptureGaps_perf:
  assumes "perfRead lost rs = Some (r, lost', rest)" and "lostSamples rest = 0"
  shows "CaptureGaps (Some (Some g)) (PerfEvents lost') = Some (g + lost + lostSamples rs)"
  using perfRead_accounts [OF assms(1)] assms(2) by (simp add: CaptureGaps_def)

end
