(* ===== verification/AgentSystem.thy ===== *)
theory AgentSystem
  imports SensorEvents Agent_Run
begin

text \<open>
  \<open>internal/agent/agent.go\<close>: \<open>Run\<close>, its select loop and its goroutines, composed with the goroutines of the sensor's
  \<open>Events\<close>. Every goroutine is an \<open>actor\<close>; a step of the system is a step of one of them, and nothing is assumed
  about the scheduler or about which ready case a \<open>select\<close> takes. A handler is one step, as in \<open>agentStep\<close>.
\<close>

section \<open>State\<close>

datatype actor = Context | Pump | Closer | RunLoop | HashWorker | Scanner

datatype run_error = AgentSensorNil | EventsError pump_error

datatype scanner = ScanOff | FirstScan | ScanTicking

text \<open>
  \<open>sy_read\<close> is the call of \<open>Read\<close> in progress, with whether the reader was closed when it began; \<open>sy_errsNil\<close> says
  that \<open>Run\<close> has set its variable \<open>errs\<close> to nil; \<open>sy_result\<close> is the value \<open>Run\<close> has returned.
\<close>

record system =
  sy_agent :: agent
  sy_pump :: pump
  sy_read :: "bool option"
  sy_readerClosed :: bool
  sy_closer :: bool
  sy_errsClosed :: bool
  sy_eventsClosed :: bool
  sy_errsNil :: bool
  sy_hashWorker :: bool
  sy_scanner :: scanner
  sy_result :: "run_error option option"

definition startSystem :: "bool \<Rightarrow> eventClock option \<Rightarrow> agent \<Rightarrow> system" where
  "startSystem hasReader clk a =
     \<lparr>sy_agent = a, sy_pump = startPump hasReader clk, sy_read = None, sy_readerClosed = False,
      sy_closer = hasReader, sy_errsClosed = False, sy_eventsClosed = False, sy_errsNil = False,
      sy_hashWorker = (ag_blacklist a \<noteq> None),
      sy_scanner = (if ag_blacklist a \<noteq> None then FirstScan else ScanOff), sy_result = None\<rparr>"

text \<open>\<open>Run\<close> up to its loop.\<close>

definition Run :: "bool \<Rightarrow> eventClock option \<Rightarrow> agent \<Rightarrow> run_error + system" where
  "Run hasReader clk a = (if \<not> ag_hasSensor a then Inl AgentSensorNil else Inr (startSystem hasReader clk a))"

definition onPump :: "(pump \<Rightarrow> pump) \<Rightarrow> system \<Rightarrow> system" where
  "onPump f s = s\<lparr>sy_pump := f (sy_pump s)\<rparr>"

definition onAgent :: "(agent \<Rightarrow> agent) \<Rightarrow> system \<Rightarrow> system" where
  "onAgent f s = s\<lparr>sy_agent := f (sy_agent s)\<rparr>"

definition returns :: "run_error option \<Rightarrow> system \<Rightarrow> system" where
  "returns r s = s\<lparr>sy_result := Some r\<rparr>"

lemma system_sel [simp]:
  "sy_agent (onPump f s) = sy_agent s" "sy_pump (onPump f s) = f (sy_pump s)" "sy_read (onPump f s) = sy_read s"
  "sy_readerClosed (onPump f s) = sy_readerClosed s" "sy_closer (onPump f s) = sy_closer s"
  "sy_errsClosed (onPump f s) = sy_errsClosed s" "sy_eventsClosed (onPump f s) = sy_eventsClosed s"
  "sy_errsNil (onPump f s) = sy_errsNil s" "sy_result (onPump f s) = sy_result s"
  "sy_hashWorker (onPump f s) = sy_hashWorker s" "sy_scanner (onPump f s) = sy_scanner s"
  "sy_agent (onAgent g s) = g (sy_agent s)" "sy_pump (onAgent g s) = sy_pump s" "sy_read (onAgent g s) = sy_read s"
  "sy_readerClosed (onAgent g s) = sy_readerClosed s" "sy_closer (onAgent g s) = sy_closer s"
  "sy_errsClosed (onAgent g s) = sy_errsClosed s" "sy_eventsClosed (onAgent g s) = sy_eventsClosed s"
  "sy_errsNil (onAgent g s) = sy_errsNil s" "sy_result (onAgent g s) = sy_result s"
  "sy_hashWorker (onAgent g s) = sy_hashWorker s" "sy_scanner (onAgent g s) = sy_scanner s"
  "sy_agent (returns r s) = sy_agent s" "sy_pump (returns r s) = sy_pump s" "sy_read (returns r s) = sy_read s"
  "sy_readerClosed (returns r s) = sy_readerClosed s" "sy_closer (returns r s) = sy_closer s"
  "sy_errsClosed (returns r s) = sy_errsClosed s" "sy_eventsClosed (returns r s) = sy_eventsClosed s"
  "sy_errsNil (returns r s) = sy_errsNil s" "sy_result (returns r s) = Some r"
  "sy_hashWorker (returns r s) = sy_hashWorker s" "sy_scanner (returns r s) = sy_scanner s"
  by (simp_all add: onPump_def onAgent_def returns_def)

section \<open>Steps\<close>

definition receiveEvent :: "pump \<Rightarrow> pump" where
  "receiveEvent p = p\<lparr>pu_events := tl (pu_events p), pu_received := pu_received p @ [hd (pu_events p)]\<rparr>"

definition receiveError :: "pump \<Rightarrow> pump" where
  "receiveError p = p\<lparr>pu_errs := tl (pu_errs p), pu_reported := pu_reported p @ [hd (pu_errs p)]\<rparr>"

fun isSample :: "readResult \<Rightarrow> bool" where
  "isSample (Sample raw) = True"
| "isSample _ = False"

text \<open>
  The goroutine of \<open>Events\<close>: a \<open>Read\<close> that begins after the reader was closed returns an error. Its
  sends and reports are the steps of the pump that leave those phases. On return it closes \<open>stopCloser\<close>, then
  \<open>errs\<close>, then \<open>events\<close>.
\<close>

inductive eventsStep :: "byteOrder \<Rightarrow> system \<Rightarrow> system \<Rightarrow> bool" for native where
  readBegins: "pu_phase (sy_pump s) = Reading \<Longrightarrow> sy_read s = None \<Longrightarrow>
    eventsStep native s (s\<lparr>sy_read := Some (sy_readerClosed s)\<rparr>)"
| readReturns: "pu_phase (sy_pump s) = Reading \<Longrightarrow> sy_read s = Some closed \<Longrightarrow> \<not> (closed \<and> isSample r) \<Longrightarrow>
    eventsStep native s (onPump (pumpRead native r now uptime) (s\<lparr>sy_read := None\<rparr>))"
| pumpMoves: "pu_phase (sy_pump s) \<noteq> Reading \<Longrightarrow> pumpStep native (sy_pump s) p \<Longrightarrow> pu_phase p \<noteq> pu_phase (sy_pump s) \<Longrightarrow>
    eventsStep native s (onPump (\<lambda>_. p) s)"
| closeErrs: "pu_phase (sy_pump s) = Stopped \<Longrightarrow> \<not> sy_errsClosed s \<Longrightarrow> eventsStep native s (s\<lparr>sy_errsClosed := True\<rparr>)"
| closeEvents: "sy_errsClosed s \<Longrightarrow> \<not> sy_eventsClosed s \<Longrightarrow> eventsStep native s (s\<lparr>sy_eventsClosed := True\<rparr>)"

text \<open>The goroutine that closes the reader when the context is cancelled, and ends with \<open>stopCloser\<close>.\<close>

inductive closerStep :: "system \<Rightarrow> system \<Rightarrow> bool" where
  closerCloses: "sy_closer s \<Longrightarrow> pu_cancelled (sy_pump s) \<Longrightarrow>
    closerStep s (s\<lparr>sy_closer := False, sy_readerClosed := True\<rparr>)"
| closerStops: "sy_closer s \<Longrightarrow> pu_phase (sy_pump s) = Stopped \<Longrightarrow> closerStep s (s\<lparr>sy_closer := False\<rparr>)"

text \<open>One turn of the loop of \<open>Run\<close>, a rule for each case of its \<open>select\<close>.\<close>

inductive selectStep :: "system \<Rightarrow> system \<Rightarrow> bool" where
  runDone: "sy_result s = None \<Longrightarrow> pu_cancelled (sy_pump s) \<Longrightarrow> selectStep s (returns None s)"
| runError: "sy_result s = None \<Longrightarrow> \<not> sy_errsNil s \<Longrightarrow> pu_errs (sy_pump s) = e # es \<Longrightarrow>
    selectStep s (returns (Some (EventsError e)) (onPump receiveError s))"
| runErrsClosed: "sy_result s = None \<Longrightarrow> \<not> sy_errsNil s \<Longrightarrow> pu_errs (sy_pump s) = [] \<Longrightarrow> sy_errsClosed s \<Longrightarrow>
    selectStep s (s\<lparr>sy_errsNil := True\<rparr>)"
| runEvent: "sy_result s = None \<Longrightarrow> pu_events (sy_pump s) = ev # evs \<Longrightarrow>
    selectStep s (onAgent (\<lambda>a. handle en a ev) (onPump receiveEvent s))"
| runEventsClosed: "sy_result s = None \<Longrightarrow> pu_events (sy_pump s) = [] \<Longrightarrow> sy_eventsClosed s \<Longrightarrow>
    selectStep s (returns None s)"
| runPrune: "sy_result s = None \<Longrightarrow> selectStep s (onAgent (\<lambda>a. pruneIdle a now) s)"
| runDrops: "sy_result s = None \<Longrightarrow> selectStep s (onAgent (\<lambda>a. logRingbufDrops a drops gaps) s)"
| runMetrics: "sy_result s = None \<Longrightarrow> selectStep s (onAgent logMetrics s)"

inductive hashWorker :: "system \<Rightarrow> system \<Rightarrow> bool" where
  hashJob: "sy_hashWorker s \<Longrightarrow> ag_hashQueue (sy_agent s) \<noteq> [] \<Longrightarrow> hashWorker s (onAgent (hashWorkerStep en) s)"
| hashDone: "sy_hashWorker s \<Longrightarrow> pu_cancelled (sy_pump s) \<Longrightarrow> hashWorker s (s\<lparr>sy_hashWorker := False\<rparr>)"

text \<open>The period of the scanner, and the scanner: a first scan at once, then one with every tick.\<close>

definition scanInterval :: "policy \<Rightarrow> duration" where
  "scanInterval p = (if pol_BlacklistScan p \<le> 0 then 5 * second else pol_BlacklistScan p)"

inductive scanBlacklist :: "system \<Rightarrow> system \<Rightarrow> bool" where
  scanFirst: "sy_scanner s = FirstScan \<Longrightarrow>
    scanBlacklist s (onAgent (scanBlacklistOnce en) (s\<lparr>sy_scanner := ScanTicking\<rparr>))"
| scanTick: "sy_scanner s = ScanTicking \<Longrightarrow> scanBlacklist s (onAgent (scanBlacklistOnce en) s)"
| scanDone: "sy_scanner s = ScanTicking \<Longrightarrow> pu_cancelled (sy_pump s) \<Longrightarrow> scanBlacklist s (s\<lparr>sy_scanner := ScanOff\<rparr>)"

inductive sysStep :: "byteOrder \<Rightarrow> actor \<Rightarrow> system \<Rightarrow> system \<Rightarrow> bool" for native where
  cancelled: "sysStep native Context s (onPump (pu_cancelled_update (\<lambda>_. True)) s)"
| pumps: "eventsStep native s t \<Longrightarrow> sysStep native Pump s t"
| closes: "closerStep s t \<Longrightarrow> sysStep native Closer s t"
| selects: "selectStep s t \<Longrightarrow> sysStep native RunLoop s t"
| hashes: "hashWorker s t \<Longrightarrow> sysStep native HashWorker s t"
| scans: "scanBlacklist s t \<Longrightarrow> sysStep native Scanner s t"

lemmas actor_cases = sysStep.cases eventsStep.cases closerStep.cases selectStep.cases hashWorker.cases scanBlacklist.cases

lemma scanInterval_positive: "0 < scanInterval p"
  by (simp add: scanInterval_def second_def)

text \<open>A run with the actors that moved.\<close>

inductive sysRun :: "byteOrder \<Rightarrow> system \<Rightarrow> actor list \<Rightarrow> system \<Rightarrow> bool" for native s where
  start: "sysRun native s [] s"
| step: "sysRun native s xs t \<Longrightarrow> sysStep native x t u \<Longrightarrow> sysRun native s (xs @ [x]) u"

section \<open>The agent's part of a run\<close>

text \<open>What the agent does between events.\<close>

inductive upkeep :: "agent \<Rightarrow> agent \<Rightarrow> bool" where
  hashed: "upkeep a (hashWorkerStep en a)"
| scanned: "upkeep a (scanBlacklistOnce en a)"
| pruned: "upkeep a (pruneIdle a now)"
| dropsRead: "upkeep a (logRingbufDrops a drops gaps)"
| metricsLogged: "upkeep a (logMetrics a)"

text \<open>The agent got to \<open>a\<close> by handling \<open>evs\<close> in this order.\<close>

inductive agentRun :: "agent \<Rightarrow> event list \<Rightarrow> agent \<Rightarrow> bool" for a0 where
  idle: "agentRun a0 [] a0"
| handled: "agentRun a0 evs a \<Longrightarrow> agentRun a0 (evs @ [ev]) (handle en a ev)"
| kept: "agentRun a0 evs a \<Longrightarrow> upkeep a b \<Longrightarrow> agentRun a0 evs b"

lemma upkeep_step: "upkeep a b \<Longrightarrow> agentStep a b"
  by (induction rule: upkeep.induct) (rule agentStep.intros)+

lemma agentRun_reachable: "agentRun a0 evs a \<Longrightarrow> reachable a0 a"
  by (induction rule: agentRun.induct) (auto intro: reachable.intros agentStep.intros upkeep_step)


lemma pumpStep_phase:
  assumes "pumpStep native p q" and "pu_phase p \<noteq> Reading" and "pu_phase q \<noteq> pu_phase p"
  shows "pu_received q = pu_received p \<and> pu_log q = pu_log p \<and> pu_phase p \<noteq> Stopped \<and> pu_cancelled q = pu_cancelled p \<and>
    pu_reported q = pu_reported p \<and> (pu_phase q = Stopped \<or> pu_phase q = Reading \<and> (\<exists>ev. pu_phase p = Sending ev))"
  using assms by (auto elim!: pumpStepE)

lemma pumpRead_sel [simp]:
  "pu_received (pumpRead native r now uptime p) = pu_received p"
  "pu_cancelled (pumpRead native r now uptime p) = pu_cancelled p"
  "pu_events (pumpRead native r now uptime p) = pu_events p"
  "pu_reported (pumpRead native r now uptime p) = pu_reported p"
  by (simp_all add: pumpRead_def split: readResult.split prod.split sum.split)

lemma receiveEvent_step: "pu_events p = ev # evs \<Longrightarrow> pumpStep native p (receiveEvent p)"
  using pumpStep.receives [of p ev evs native] by (simp add: receiveEvent_def)

lemma receiveError_step: "pu_errs p = e # es \<Longrightarrow> pumpStep native p (receiveError p)"
  using pumpStep.receivesError [of p e es native] by (simp add: receiveError_def)

lemma receive_sel [simp]:
  "pu_phase (receiveEvent p) = pu_phase p" "pu_cancelled (receiveEvent p) = pu_cancelled p"
  "pu_phase (receiveError p) = pu_phase p" "pu_cancelled (receiveError p) = pu_cancelled p"
  "pu_received (receiveError p) = pu_received p" "pu_events (receiveError p) = pu_events p"
  by (simp_all add: receiveEvent_def receiveError_def)

text \<open>A step of the system projects to a step of the pump or of the agent, or hands an event from one to the other.\<close>

lemma sysStep_pump: "sysStep native x s t \<Longrightarrow> sy_pump t = sy_pump s \<or> pumpStep native (sy_pump s) (sy_pump t)"
  by (elim actor_cases) (auto intro: pumpStep.intros receiveEvent_step receiveError_step)

lemma eventsStep_frame:
  "eventsStep native s t \<Longrightarrow> pu_received (sy_pump t) = pu_received (sy_pump s) \<and> sy_agent t = sy_agent s"
proof (erule eventsStep.cases, goal_cases)
  case (3 s' p)
  then show ?case using pumpStep_phase [of native "sy_pump s'" p] by simp
qed simp_all

lemma sysStep_agent:
  "sysStep native x s t \<Longrightarrow>
   pu_received (sy_pump t) = pu_received (sy_pump s) \<and> (sy_agent t = sy_agent s \<or> upkeep (sy_agent s) (sy_agent t)) \<or>
   (\<exists>ev en. pu_received (sy_pump t) = pu_received (sy_pump s) @ [ev] \<and> sy_agent t = handle en (sy_agent s) ev)"
proof (erule sysStep.cases, goal_cases)
  case (2 s' t')
  then show ?case using eventsStep_frame by simp
qed (auto simp: receiveEvent_def intro: upkeep.intros elim!: closerStep.cases selectStep.cases hashWorker.cases
    scanBlacklist.cases)

lemma sysRun_projects:
  assumes "sysRun native (startSystem hasReader clk a) xs s"
  shows "pumpReachable native (startPump hasReader clk) (sy_pump s) \<and>
    agentRun a (pu_received (sy_pump s)) (sy_agent s)"
  using assms
proof (induction rule: sysRun.induct)
  case start
  show ?case by (simp add: startSystem_def startPump_def pumpReachable.start agentRun.idle)
next
  case (step xs s x t)
  have "pumpReachable native (startPump hasReader clk) (sy_pump t)"
    using sysStep_pump [OF step.hyps(2)] step.IH by (elim disjE conjE) (simp, rule pumpReachable.step)
  moreover have "agentRun a (pu_received (sy_pump t)) (sy_agent t)"
    using sysStep_agent [OF step.hyps(2)] step.IH
    by (elim disjE conjE exE) (simp, simp add: agentRun.kept, simp add: agentRun.handled)
  ultimately show ?case by blast
qed

section \<open>The channels\<close>

definition channelsOK :: "system \<Rightarrow> bool" where
  "channelsOK s \<longleftrightarrow>
     (sy_errsClosed s \<longrightarrow> pu_phase (sy_pump s) = Stopped) \<and> (sy_eventsClosed s \<longrightarrow> sy_errsClosed s) \<and>
     (sy_read s \<noteq> None \<longrightarrow> pu_phase (sy_pump s) = Reading) \<and>
     (sy_readerClosed s \<longrightarrow> pu_cancelled (sy_pump s)) \<and>
     (sy_result s = Some None \<longrightarrow>
        pu_cancelled (sy_pump s) \<or> sy_eventsClosed s \<and> pu_events (sy_pump s) = []) \<and>
     (\<forall>r. sy_result s = Some (Some r) \<longrightarrow> (\<exists>e \<in> set (pu_reported (sy_pump s)). r = EventsError e))"

lemma channelsOK_events: "eventsStep native s t \<Longrightarrow> channelsOK s \<Longrightarrow> channelsOK t"
proof (erule eventsStep.cases, goal_cases)
  case (3 s' p)
  then show ?case using pumpStep_phase [of native "sy_pump s'" p] by (auto simp: channelsOK_def)
qed (auto simp: channelsOK_def)

lemma channelsOK_select: "selectStep s t \<Longrightarrow> channelsOK s \<Longrightarrow> channelsOK t"
  by (erule selectStep.cases) (auto simp: channelsOK_def receiveEvent_def receiveError_def)

lemma channelsOK_closer: "closerStep s t \<Longrightarrow> channelsOK s \<Longrightarrow> channelsOK t"
  by (erule closerStep.cases) (auto simp: channelsOK_def)

lemma channelsOK_hashWorker: "hashWorker s t \<Longrightarrow> channelsOK s \<Longrightarrow> channelsOK t"
  by (erule hashWorker.cases) (simp_all add: channelsOK_def)

lemma channelsOK_scanner: "scanBlacklist s t \<Longrightarrow> channelsOK s \<Longrightarrow> channelsOK t"
  by (erule scanBlacklist.cases) (simp_all add: channelsOK_def)

lemma channelsOK_step:
  assumes "sysStep native x s t" and "channelsOK s"
  shows "channelsOK t"
  using assms
proof (cases rule: sysStep.cases)
  case cancelled
  then show ?thesis using assms(2) by (simp add: channelsOK_def)
qed (use assms(2) channelsOK_events channelsOK_select channelsOK_closer channelsOK_hashWorker channelsOK_scanner in blast)+

lemma channelsOK_start: "channelsOK (startSystem hasReader clk a)"
  by (simp add: channelsOK_def startSystem_def)

lemma channelsOK_run: "sysRun native (startSystem hasReader clk a) xs s \<Longrightarrow> channelsOK s"
proof (induction rule: sysRun.induct)
  case start
  show ?case by (rule channelsOK_start)
next
  case (step xs s x t)
  then show ?case by (rule_tac channelsOK_step)
qed


section \<open>What the agent handles\<close>

text \<open>
  C12. From the kernel to the handlers: at any moment of any run of the whole agent, the events its handlers have processed, in
  this order, are those the samples read so far decode to, less the events still buffered and at most the one in
  flight; everything else the agent did in between is hashing, scanning, pruning and reporting. When \<open>Run\<close> has returned
  nil without a cancellation, every decodable sample has been handled.
\<close>

theorem run_handles_stream:
  assumes "Run hasReader clk a = Inr s0" and "sysRun native s0 xs s"
  shows "\<exists>handled rest. agentRun a handled (sy_agent s) \<and>
    fst (decodeLog native clk (pu_log (sy_pump s))) = handled @ pu_events (sy_pump s) @ rest \<and>
    length rest \<le> 1 \<and>
    (sy_result s = Some None \<and> \<not> pu_cancelled (sy_pump s) \<longrightarrow> pu_events (sy_pump s) = [] \<and> rest = [])"
proof -
  have s0: "s0 = startSystem hasReader clk a" using assms(1) by (simp add: Run_def split: if_splits)
  have p: "pumpInv native clk (sy_pump s)" and a: "agentRun a (pu_received (sy_pump s)) (sy_agent s)"
    using sysRun_projects [OF assms(2) [unfolded s0]] pumpReachable_inv by blast+
  obtain rest where rest: "decodeLog native clk (pu_log (sy_pump s)) =
      (pu_received (sy_pump s) @ pu_events (sy_pump s) @ rest, pu_clock (sy_pump s))" "inFlight (sy_pump s) rest"
    using p by (auto simp: pumpInv_def)
  have "length rest \<le> 1" using rest(2) by (auto simp: inFlight_def split: pumpPhase.splits)
  moreover have "pu_events (sy_pump s) = [] \<and> rest = []" if "sy_result s = Some None" "\<not> pu_cancelled (sy_pump s)"
    using channelsOK_run [OF assms(2) [unfolded s0]] that rest(2) by (auto simp: channelsOK_def inFlight_def)
  ultimately show ?thesis using a rest(1) by auto
qed

section \<open>What \<open>Run\<close> returns\<close>

text \<open>The errors of the samples that do not decode.\<close>

fun decodeErrors :: "byteOrder \<Rightarrow> eventClock option \<Rightarrow> (string \<times> time \<times> duration option) list \<Rightarrow> decode_error list" where
  "decodeErrors native clk [] = []"
| "decodeErrors native clk ((raw, now, uptime) # log) =
     (case DecodeEvent native now uptime clk raw of
        (Inl e, clk') \<Rightarrow> e # decodeErrors native clk' log
      | (Inr ev, clk') \<Rightarrow> decodeErrors native clk' log)"

lemma decodeErrors_snoc:
  "decodeErrors native clk (log @ [(raw, now, uptime)]) = decodeErrors native clk log @
     (case fst (DecodeEvent native now uptime (snd (decodeLog native clk log)) raw) of Inl e \<Rightarrow> [e] | Inr ev \<Rightarrow> [])"
  by (induction log arbitrary: clk) (auto split: prod.splits sum.splits)

text \<open>
  How the reading ended: the last \<open>Read\<close> returned an error other than the closed one while the context was not
  cancelled (\<open>readFailed\<close>), or it returned no sample (\<open>readEnded\<close>).
\<close>

definition readFailed :: "pump \<Rightarrow> bool" where
  "readFailed p \<longleftrightarrow> pu_reads p \<noteq> [] \<and> last (pu_reads p) = (readResult.ReadFailed, False)"

definition readEnded :: "pump \<Rightarrow> bool" where
  "readEnded p \<longleftrightarrow> pu_reads p \<noteq> [] \<and> fst (last (pu_reads p)) \<in> {ReaderClosed, readResult.ReadFailed}"

text \<open>What an error on the channel says of the goroutine that sent it.\<close>

fun errorOK :: "byteOrder \<Rightarrow> bool \<Rightarrow> eventClock option \<Rightarrow> pump \<Rightarrow> pump_error \<Rightarrow> bool" where
  "errorOK native hasReader clk p NoReader = (\<not> hasReader)"
| "errorOK native hasReader clk p ReadError = (hasReader \<and> pu_phase p = Stopped \<and> readFailed p)"
| "errorOK native hasReader clk p (DecodeFailed e) = (e \<in> set (decodeErrors native clk (pu_log p)))"

definition errorsOK :: "byteOrder \<Rightarrow> bool \<Rightarrow> eventClock option \<Rightarrow> pump \<Rightarrow> bool" where
  "errorsOK native hasReader clk p \<longleftrightarrow>
     (\<forall>e \<in> set (pu_errs p) \<union> set (pu_reported p). errorOK native hasReader clk p e) \<and>
     (\<not> hasReader \<longrightarrow> pu_phase p = Stopped) \<and>
     (pu_phase p = Reporting \<longrightarrow> readFailed p) \<and>
     (pu_phase p = Stopped \<and> hasReader \<longrightarrow> pu_cancelled p \<or> readEnded p)"

text \<open>A read only moves a goroutine that is still reading, which has not reported a failed read.\<close>

lemma errorOK_read:
  assumes "errorOK native hasReader clk p e" and "pu_phase p = Reading"
    and "set (decodeErrors native clk (pu_log p)) \<subseteq> set (decodeErrors native clk (pu_log q))"
  shows "errorOK native hasReader clk q e"
  using assms by (cases e) auto

lemma errorOK_moved:
  assumes "errorOK native hasReader clk p e" and "pu_log q = pu_log p" and "pu_reads q = pu_reads p"
    and "pu_phase p = Stopped \<longrightarrow> pu_phase q = Stopped"
  shows "errorOK native hasReader clk q e"
  using assms by (cases e) (auto simp: readFailed_def)

lemma readFailed_ended: "readFailed p \<Longrightarrow> readEnded p"
  by (simp add: readFailed_def readEnded_def)

lemma errorsOK_read:
  assumes "errorsOK native hasReader clk p" and "pumpInv native clk p" and "pu_phase p = Reading"
  shows "errorsOK native hasReader clk (pumpRead native r now uptime p)"
proof (cases r)
  case (Sample raw)
  have c: "snd (decodeLog native clk (pu_log p)) = pu_clock p" using assms(2) by (auto simp: pumpInv_def)
  obtain x c' where x: "DecodeEvent native now uptime (pu_clock p) raw = (x, c')" by (metis surj_pair)
  let ?q = "pumpRead native r now uptime p"
  have log: "pu_log ?q = pu_log p @ [(raw, now, uptime)]"
    using x by (cases x) (simp_all add: Sample pumpRead_def)
  have sub: "set (decodeErrors native clk (pu_log p)) \<subseteq> set (decodeErrors native clk (pu_log ?q))"
    unfolding log decodeErrors_snoc by simp
  have new: "x = Inl e \<Longrightarrow> errorOK native hasReader clk ?q (DecodeFailed e)" for e
    unfolding errorOK.simps log decodeErrors_snoc c x by simp
  have "set (pu_errs ?q) \<union> set (pu_reported ?q) \<subseteq> set (pu_errs p) \<union> set (pu_reported p) \<union> {DecodeFailed e |e. x = Inl e}"
    using x by (cases x) (auto simp: Sample pumpRead_def)
  moreover have "pu_phase ?q \<noteq> Stopped" "pu_phase ?q \<noteq> Reporting" "hasReader"
    using x assms(1,3) by (cases x; simp add: Sample pumpRead_def errorsOK_def)+
  ultimately show ?thesis
    using assms(1,3) new errorOK_read [OF _ assms(3) sub] unfolding errorsOK_def by auto
next
  case ReaderClosed
  have "errorOK native hasReader clk p e \<Longrightarrow> errorOK native hasReader clk (pumpRead native r now uptime p) e" for e
    by (rule errorOK_read [OF _ assms(3)]) (simp_all add: ReaderClosed pumpRead_def)
  then show ?thesis using assms(1,3) by (auto simp: errorsOK_def pumpRead_def ReaderClosed readEnded_def)
next
  case ReadFailed
  have "errorOK native hasReader clk p e \<Longrightarrow> errorOK native hasReader clk (pumpRead native r now uptime p) e" for e
    by (rule errorOK_read [OF _ assms(3)]) (simp_all add: ReadFailed pumpRead_def)
  then show ?thesis
    using assms(1,3) by (auto simp: errorsOK_def pumpRead_def ReadFailed readFailed_def readEnded_def split: if_splits)
qed

lemma errorsOK_step:
  assumes "pumpStep native p q" and "errorsOK native hasReader clk p" and "pumpInv native clk p"
  shows "errorsOK native hasReader clk q"
  using assms
proof (cases rule: pumpStep.cases)
  case (reads r now uptime)
  then show ?thesis using assms errorsOK_read by simp
next
  case reports
  then have "\<not> pu_phase p = Stopped" "readFailed p" "hasReader" using assms(2) by (auto simp: errorsOK_def)
  with reports show ?thesis
    using assms(2) errorOK_moved [of native hasReader clk p _ q] readFailed_ended [of q]
    by (auto simp: errorsOK_def readFailed_def)
qed (use assms(2) errorOK_moved [of native hasReader clk p _ q] in \<open>auto simp: errorsOK_def readFailed_def readEnded_def\<close>)

lemma errorsOK_reachable:
  assumes "pumpReachable native (startPump hasReader clk) p"
  shows "errorsOK native hasReader clk p"
  using assms
proof (induction rule: pumpReachable.induct)
  case start
  show ?case by (simp add: errorsOK_def startPump_def)
next
  case (step p q)
  then show ?case using errorsOK_step pumpReachable_inv by blast
qed

text \<open>
  C14. \<open>Run\<close> returns for a reason. It returns nil only after a cancellation, or once the channel of events is closed and drained
  because there was no reader or the last \<open>Read\<close> returned no sample. It returns an error only because there was no
  reader, because the last \<open>Read\<close> failed with an error that is not that of a closed reader while the context was not
  cancelled, or with the decoding error of a sample that was read.
\<close>

theorem run_returns:
  assumes "Run hasReader clk a = Inr s0" and "sysRun native s0 xs s" and "sy_result s = Some r"
  shows "case r of
      None \<Rightarrow> pu_cancelled (sy_pump s) \<or>
        sy_eventsClosed s \<and> pu_phase (sy_pump s) = Stopped \<and> pu_events (sy_pump s) = [] \<and>
        (hasReader \<longrightarrow> pu_reads (sy_pump s) \<noteq> [] \<and>
           fst (last (pu_reads (sy_pump s))) \<in> {ReaderClosed, readResult.ReadFailed})
    | Some AgentSensorNil \<Rightarrow> False
    | Some (EventsError NoReader) \<Rightarrow> \<not> hasReader
    | Some (EventsError ReadError) \<Rightarrow>
        hasReader \<and> pu_reads (sy_pump s) \<noteq> [] \<and> last (pu_reads (sy_pump s)) = (readResult.ReadFailed, False)
    | Some (EventsError (DecodeFailed e)) \<Rightarrow> e \<in> set (decodeErrors native clk (pu_log (sy_pump s)))"
proof -
  have s0: "s0 = startSystem hasReader clk a" using assms(1) by (simp add: Run_def split: if_splits)
  have c: "channelsOK s" using channelsOK_run [OF assms(2) [unfolded s0]] .
  have e: "errorsOK native hasReader clk (sy_pump s)"
    using sysRun_projects [OF assms(2) [unfolded s0]] errorsOK_reachable by blast
  show ?thesis
  proof (cases r)
    case None
    then show ?thesis using c e assms(3) by (auto simp: channelsOK_def errorsOK_def readEnded_def)
  next
    case (Some x)
    then obtain y where y: "y \<in> set (pu_reported (sy_pump s))" "x = EventsError y"
      using c assms(3) by (auto simp: channelsOK_def)
    then have "errorOK native hasReader clk (sy_pump s) y" using e by (simp add: errorsOK_def)
    then show ?thesis using Some y(2) by (cases y) (auto simp: readFailed_def)
  qed
qed


section \<open>Shutdown\<close>

text \<open>The steps the goroutine of \<open>Events\<close> still has to do once the reader is closed.\<close>

definition shutdownWork :: "system \<Rightarrow> nat" where
  "shutdownWork s =
     (case pu_phase (sy_pump s) of
        Reading \<Rightarrow> (case sy_read s of Some False \<Rightarrow> 6 | None \<Rightarrow> 4 | Some True \<Rightarrow> 3)
      | Sending ev \<Rightarrow> 5
      | Reporting \<Rightarrow> 3
      | Stopped \<Rightarrow> if \<not> sy_errsClosed s then 2 else if \<not> sy_eventsClosed s then 1 else 0)"

lemma pumpRead_phase:
  "pu_phase p = Reading \<Longrightarrow> pu_phase (pumpRead native r now uptime p) =
     (case r of Sample raw \<Rightarrow>
        (case fst (DecodeEvent native now uptime (pu_clock p) raw) of Inl e \<Rightarrow> Reading | Inr ev \<Rightarrow> Sending ev)
      | ReaderClosed \<Rightarrow> Stopped | readResult.ReadFailed \<Rightarrow> if pu_cancelled p then Stopped else Reporting)"
  by (auto simp: pumpRead_def split: readResult.split prod.split sum.split)

lemma shutdown_pump_step:
  "eventsStep native s t \<Longrightarrow> channelsOK s \<Longrightarrow> sy_readerClosed s \<Longrightarrow> shutdownWork t < shutdownWork s"
proof (erule eventsStep.cases, goal_cases)
  case (2 s' closed r now uptime)
  then have "pu_cancelled (sy_pump s')" by (simp add: channelsOK_def)
  with 2 show ?case
    by (cases r) (auto simp: shutdownWork_def channelsOK_def pumpRead_phase split: sum.split bool.split)
next
  case (3 s' p)
  then show ?case using pumpStep_phase [of native "sy_pump s'" p]
    by (auto simp: shutdownWork_def channelsOK_def split: pumpPhase.splits option.splits)
qed (auto simp: shutdownWork_def channelsOK_def split: pumpPhase.splits)

lemma shutdownWork_cong:
  "pu_phase (sy_pump s) = pu_phase (sy_pump t) \<Longrightarrow> sy_read s = sy_read t \<Longrightarrow> sy_errsClosed s = sy_errsClosed t \<Longrightarrow>
   sy_eventsClosed s = sy_eventsClosed t \<Longrightarrow> shutdownWork s = shutdownWork t"
  by (cases "pu_phase (sy_pump t)") (simp_all add: shutdownWork_def)

lemma pump_step: "sysStep native Pump s t \<Longrightarrow> eventsStep native s t"
  by (erule sysStep.cases) simp_all

lemma shutdown_other_step:
  "sysStep native x s t \<Longrightarrow> x \<noteq> Pump \<Longrightarrow> shutdownWork t = shutdownWork s"
  by (elim actor_cases) (simp_all, (rule shutdownWork_cong; simp)+)

lemma readerClosed_step: "sysStep native x s t \<Longrightarrow> sy_readerClosed s \<Longrightarrow> sy_readerClosed t"
  by (elim actor_cases) simp_all

lemma shutdown_run:
  assumes "sysRun native s xs t" and "channelsOK s" and "sy_readerClosed s"
  shows "channelsOK t \<and> sy_readerClosed t \<and> count_list xs Pump + shutdownWork t \<le> shutdownWork s"
  using assms
proof (induction rule: sysRun.induct)
  case start
  then show ?case by simp
next
  case (step xs t x u)
  note t = step.IH [OF step.prems]
  have "(if x = Pump then 1 else 0) + shutdownWork u \<le> shutdownWork t"
    using shutdown_pump_step [of native t u] shutdown_other_step [OF step.hyps(2)] pump_step [of native t u] step.hyps(2) t
    by auto
  moreover have "channelsOK u" "sy_readerClosed u"
    using channelsOK_step [OF step.hyps(2)] readerClosed_step [OF step.hyps(2)] t by blast+
  ultimately show ?case using t by auto
qed

lemma shutdownWork_bound: "shutdownWork s \<le> 6"
  by (auto simp: shutdownWork_def split: pumpPhase.split option.split bool.split)

lemma shutdown_progress:
  assumes "channelsOK s" and "sy_readerClosed s" and "\<not> sy_eventsClosed s"
  shows "\<exists>t. eventsStep native s t"
proof (cases "pu_phase (sy_pump s)")
  case Reading
  then show ?thesis
    using eventsStep.readBegins [of s native] eventsStep.readReturns [of s _ ReaderClosed native]
    by (cases "sy_read s") auto
next
  case (Sending ev)
  then have "pumpStep native (sy_pump s) ((sy_pump s)\<lparr>pu_phase := Stopped\<rparr>)"
    using assms by (intro pumpStep.sendCancelled) (auto simp: channelsOK_def)
  then show ?thesis using Sending eventsStep.pumpMoves [of s native] by fastforce
next
  case Reporting
  then have "pumpStep native (sy_pump s) ((sy_pump s)\<lparr>pu_phase := Stopped\<rparr>)"
    using assms by (intro pumpStep.reportCancelled) (auto simp: channelsOK_def)
  then show ?thesis using Reporting eventsStep.pumpMoves [of s native] by fastforce
next
  case Stopped
  then show ?thesis using assms(3) eventsStep.closeErrs [of s native] eventsStep.closeEvents [of s native] by blast
qed

text \<open>
  C13. A cancelled agent shuts down: once the context is cancelled and the reader closed, the goroutine of \<open>Events\<close> makes at most six
  more steps in any run, whatever it was doing and even if nobody receives any more, and until it has closed
  both channels it is never blocked.
\<close>

theorem shutdown_terminates:
  assumes "sysRun native (startSystem hasReader clk a) xs s" and "sy_readerClosed s" and "sysRun native s ys t"
  shows "count_list ys Pump \<le> 6 \<and> (sy_eventsClosed t \<or> (\<exists>u. sysStep native Pump t u))"
proof -
  have t: "channelsOK t" "sy_readerClosed t" "count_list ys Pump + shutdownWork t \<le> shutdownWork s"
    using shutdown_run [OF assms(3) channelsOK_run [OF assms(1)] assms(2)] by blast+
  then have "sy_eventsClosed t \<or> (\<exists>u. sysStep native Pump t u)" using shutdown_progress sysStep.pumps by blast
  then show ?thesis using t(3) shutdownWork_bound [of s] by simp
qed

section \<open>Errors that are lost or fatal\<close>

lemma sysRun_Cons: "sysStep native x s t \<Longrightarrow> sysRun native t xs u \<Longrightarrow> sysRun native s (x # xs) u"
proof (rotate_tac, induction rule: sysRun.induct)
  case start
  then show ?case using sysRun.step [OF sysRun.start] by fastforce
next
  case (step xs u y v)
  then show ?case using sysRun.step [of native s "x # xs" u y v] by simp
qed

text \<open>
  C32. A failed read can end \<open>Run\<close> with nil: after reporting the error the goroutine closes both channels, and a \<open>select\<close> that finds the
  buffered error and the closed channel of events ready may take the latter.
\<close>

theorem read_error_lost:
  "\<exists>xs s. sysRun native (startSystem True clk a) xs s \<and> sy_result s = Some None \<and>
     pu_errs (sy_pump s) = [ReadError] \<and> \<not> pu_cancelled (sy_pump s)"
proof -
  let ?s0 = "startSystem True clk a"
  let ?s1 = "?s0\<lparr>sy_read := Some False\<rparr>"
  let ?s2 = "onPump (pumpRead native readResult.ReadFailed 0 None) (?s1\<lparr>sy_read := None\<rparr>)"
  let ?s3 = "onPump (\<lambda>_. (sy_pump ?s2)\<lparr>pu_errs := [ReadError], pu_phase := Stopped\<rparr>) ?s2"
  let ?s4 = "?s3\<lparr>sy_errsClosed := True\<rparr>"
  let ?s5 = "?s4\<lparr>sy_eventsClosed := True\<rparr>"
  note defs = startSystem_def startPump_def pumpRead_def onPump_def
  have 1: "sysStep native Pump ?s0 ?s1"
    using sysStep.pumps [OF eventsStep.readBegins [of ?s0 native]] by (simp add: defs)
  have 2: "sysStep native Pump ?s1 ?s2" by (rule sysStep.pumps, rule eventsStep.readReturns [where closed = False]) (simp_all add: defs)
  have "pumpStep native (sy_pump ?s2) ((sy_pump ?s2)\<lparr>pu_errs := [ReadError], pu_phase := Stopped\<rparr>)"
    by (rule pumpStep.reports) (simp_all add: defs)
  then have 3: "sysStep native Pump ?s2 ?s3" by (intro sysStep.pumps eventsStep.pumpMoves) (simp_all add: defs)
  have 4: "sysStep native Pump ?s3 ?s4" by (rule sysStep.pumps, rule eventsStep.closeErrs) (simp_all add: defs)
  have 5: "sysStep native Pump ?s4 ?s5" by (rule sysStep.pumps, rule eventsStep.closeEvents) (simp_all add: defs)
  have 6: "sysStep native RunLoop ?s5 (returns None ?s5)"
    by (rule sysStep.selects, rule selectStep.runEventsClosed) (simp_all add: defs)
  note run = sysRun_Cons [OF 1 sysRun_Cons [OF 2 sysRun_Cons [OF 3 sysRun_Cons [OF 4 sysRun_Cons [OF 5
      sysRun_Cons [OF 6 sysRun.start]]]]]]
  show ?thesis by (intro exI conjI) (rule run, simp_all add: defs)
qed

text \<open>
  C33. One record that does not decode can end the agent: the goroutine of \<open>Events\<close> goes on to the next record, but the error
  it leaves in the channel makes \<open>Run\<close> return.
\<close>

theorem undecodable_record_stops_run:
  assumes "fst (DecodeEvent native now uptime clk raw) = Inl e"
  shows "\<exists>xs s. sysRun native (startSystem True clk a) xs s \<and> sy_result s = Some (Some (EventsError (DecodeFailed e))) \<and>
    pu_phase (sy_pump s) = Reading \<and> pu_log (sy_pump s) = [(raw, now, uptime)] \<and> \<not> pu_cancelled (sy_pump s)"
proof -
  obtain c where d: "DecodeEvent native now uptime clk raw = (Inl e, c)" using assms by (metis eq_fst_iff)
  let ?s0 = "startSystem True clk a"
  let ?s1 = "?s0\<lparr>sy_read := Some False\<rparr>"
  let ?s2 = "onPump (pumpRead native (Sample raw) now uptime) (?s1\<lparr>sy_read := None\<rparr>)"
  let ?s3 = "returns (Some (EventsError (DecodeFailed e))) (onPump receiveError ?s2)"
  note defs = startSystem_def startPump_def pumpRead_def onPump_def d
  have 1: "sysStep native Pump ?s0 ?s1"
    using sysStep.pumps [OF eventsStep.readBegins [of ?s0 native]] by (simp add: defs)
  have 2: "sysStep native Pump ?s1 ?s2" by (rule sysStep.pumps, rule eventsStep.readReturns [where closed = False]) (simp_all add: defs)
  have 3: "sysStep native RunLoop ?s2 ?s3" by (rule sysStep.selects, rule selectStep.runError) (simp_all add: defs)
  note run = sysRun_Cons [OF 1 sysRun_Cons [OF 2 sysRun_Cons [OF 3 sysRun.start]]]
  show ?thesis by (intro exI conjI) (rule run, simp_all add: defs receiveError_def)
qed


section \<open>Instances\<close>

lemma quiet_shutdown:
  "\<exists>s t. sysRun LittleEndian (startSystem True None a) [Context, Closer] s \<and> sy_readerClosed s \<and>
     sysRun LittleEndian s [Pump, Pump, Pump, Pump] t \<and> sy_eventsClosed t"
proof -
  let ?s0 = "startSystem True None a"
  let ?s1 = "onPump (pu_cancelled_update (\<lambda>_. True)) ?s0"
  let ?s2 = "?s1\<lparr>sy_closer := False, sy_readerClosed := True\<rparr>"
  let ?s3 = "?s2\<lparr>sy_read := Some True\<rparr>"
  let ?s4 = "onPump (pumpRead LittleEndian ReaderClosed 0 None) (?s3\<lparr>sy_read := None\<rparr>)"
  let ?s5 = "?s4\<lparr>sy_errsClosed := True\<rparr>"
  let ?s6 = "?s5\<lparr>sy_eventsClosed := True\<rparr>"
  note defs = startSystem_def startPump_def pumpRead_def onPump_def
  have 1: "sysStep LittleEndian Context ?s0 ?s1" by (rule sysStep.cancelled)
  have 2: "sysStep LittleEndian Closer ?s1 ?s2" by (rule sysStep.closes, rule closerStep.closerCloses) (simp_all add: defs)
  have 3: "sysStep LittleEndian Pump ?s2 ?s3"
    using sysStep.pumps [OF eventsStep.readBegins [of ?s2 LittleEndian]] by (simp add: defs)
  have 4: "sysStep LittleEndian Pump ?s3 ?s4" by (rule sysStep.pumps, rule eventsStep.readReturns [where closed = True]) (simp_all add: defs)
  have 5: "sysStep LittleEndian Pump ?s4 ?s5" by (rule sysStep.pumps, rule eventsStep.closeErrs) (simp_all add: defs)
  have 6: "sysStep LittleEndian Pump ?s5 ?s6" by (rule sysStep.pumps, rule eventsStep.closeEvents) (simp_all add: defs)
  have a: "sysRun LittleEndian ?s0 [Context, Closer] ?s2"
    using sysRun_Cons [OF 1 sysRun_Cons [OF 2 sysRun.start]] .
  have b: "sysRun LittleEndian ?s2 [Pump, Pump, Pump, Pump] ?s6"
    using sysRun_Cons [OF 3 sysRun_Cons [OF 4 sysRun_Cons [OF 5 sysRun_Cons [OF 6 sysRun.start]]]] .
  show ?thesis by (rule exI [of _ ?s2], rule exI [of _ ?s6], intro conjI a b) simp_all
qed

theorem shutdown_terminates_witness:
  "\<exists>s t. sysRun LittleEndian s [Pump, Pump, Pump, Pump] t \<and> count_list [Pump, Pump, Pump, Pump] Pump \<le> 6 \<and> sy_eventsClosed t"
proof -
  obtain s t where r: "sysRun LittleEndian (startSystem True None (New emptyWorld zeroPolicy True True)) [Context, Closer] s"
    "sy_readerClosed s" "sysRun LittleEndian s [Pump, Pump, Pump, Pump] t" "sy_eventsClosed t"
    using quiet_shutdown by blast
  show ?thesis using shutdown_terminates [OF r(1-3)] r(3,4) by blast
qed

lemma one_event:
  assumes "Run True None a = Inr s0" and "DecodeEvent LittleEndian 5 None None raw = (Inr ev, clk)"
  shows "\<exists>xs s. sysRun LittleEndian s0 xs s \<and> pu_log (sy_pump s) = [(raw, 5, None)] \<and> pu_events (sy_pump s) = [] \<and>
    sy_agent s = handle quietEnv a ev \<and> sy_result s = Some None \<and> \<not> pu_cancelled (sy_pump s)"
proof -
  let ?s0 = "startSystem True None a"
  have s0: "s0 = ?s0" using assms(1) by (simp add: Run_def split: if_splits)
  let ?s1 = "?s0\<lparr>sy_read := Some False\<rparr>"
  let ?s2 = "onPump (pumpRead LittleEndian (Sample raw) 5 None) (?s1\<lparr>sy_read := None\<rparr>)"
  let ?s3 = "onPump (\<lambda>_. (sy_pump ?s2)\<lparr>pu_events := pu_events (sy_pump ?s2) @ [ev], pu_phase := Reading\<rparr>) ?s2"
  let ?s4 = "onAgent (\<lambda>a. handle quietEnv a ev) (onPump receiveEvent ?s3)"
  let ?s5 = "?s4\<lparr>sy_read := Some False\<rparr>"
  let ?s6 = "onPump (pumpRead LittleEndian ReaderClosed 0 None) (?s5\<lparr>sy_read := None\<rparr>)"
  let ?s7 = "?s6\<lparr>sy_errsClosed := True\<rparr>"
  let ?s8 = "?s7\<lparr>sy_eventsClosed := True\<rparr>"
  note defs = startSystem_def startPump_def pumpRead_def onPump_def onAgent_def receiveEvent_def assms(2) eventsCap_def
  have 1: "sysStep LittleEndian Pump ?s0 ?s1" using sysStep.pumps [OF eventsStep.readBegins [of ?s0 LittleEndian]] by (simp add: defs)
  have 2: "sysStep LittleEndian Pump ?s1 ?s2" by (rule sysStep.pumps, rule eventsStep.readReturns [where closed = False]) (simp_all add: defs)
  have "pumpStep LittleEndian (sy_pump ?s2) ((sy_pump ?s2)\<lparr>pu_events := pu_events (sy_pump ?s2) @ [ev], pu_phase := Reading\<rparr>)"
    by (rule pumpStep.sends) (simp_all add: defs)
  then have 3: "sysStep LittleEndian Pump ?s2 ?s3" by (intro sysStep.pumps eventsStep.pumpMoves) (simp_all add: defs)
  have 4: "sysStep LittleEndian RunLoop ?s3 ?s4" by (rule sysStep.selects, rule selectStep.runEvent) (simp_all add: defs)
  have 5: "sysStep LittleEndian Pump ?s4 ?s5" using sysStep.pumps [OF eventsStep.readBegins [of ?s4 LittleEndian]] by (simp add: defs)
  have 6: "sysStep LittleEndian Pump ?s5 ?s6" by (rule sysStep.pumps, rule eventsStep.readReturns [where closed = False]) (simp_all add: defs)
  have 7: "sysStep LittleEndian Pump ?s6 ?s7" by (rule sysStep.pumps, rule eventsStep.closeErrs) (simp_all add: defs)
  have 8: "sysStep LittleEndian Pump ?s7 ?s8" by (rule sysStep.pumps, rule eventsStep.closeEvents) (simp_all add: defs)
  have 9: "sysStep LittleEndian RunLoop ?s8 (returns None ?s8)" by (rule sysStep.selects, rule selectStep.runEventsClosed) (simp_all add: defs)
  note run = sysRun_Cons [OF 1 sysRun_Cons [OF 2 sysRun_Cons [OF 3 sysRun_Cons [OF 4 sysRun_Cons [OF 5
    sysRun_Cons [OF 6 sysRun_Cons [OF 7 sysRun_Cons [OF 8 sysRun_Cons [OF 9 sysRun.start]]]]]]]]]
  show ?thesis unfolding s0 by (intro exI conjI) (rule run, simp_all add: defs)
qed

lemma zero_record_decodes: "\<exists>ev clk. DecodeEvent LittleEndian 5 None None (replicate eventSize CHR 0x00) = (Inr ev, clk)"
proof -
  obtain tm clk where "eventTimestamp 5 None None (Uint64 LittleEndian (replicate eventSize CHR 0x00) 0) = (tm, clk)"
    by (metis surj_pair)
  then show ?thesis by (simp add: DecodeEvent_def decodeEvent_def Let_def eventV2Size_def)
qed

theorem run_handles_stream_witness:
  "\<exists>a. agentRun (New emptyWorld zeroPolicy True True)
      (fst (decodeLog LittleEndian None [(replicate eventSize CHR 0x00, 5, None)])) a"
proof -
  let ?a = "New emptyWorld zeroPolicy True True"
  have r: "Run True None ?a = Inr (startSystem True None ?a)" by (simp add: Run_def New_def)
  obtain ev clk where d: "DecodeEvent LittleEndian 5 None None (replicate eventSize CHR 0x00) = (Inr ev, clk)"
    using zero_record_decodes by blast
  obtain xs s where s: "sysRun LittleEndian (startSystem True None ?a) xs s" "pu_events (sy_pump s) = []"
    "pu_log (sy_pump s) = [(replicate eventSize CHR 0x00, 5, None)]" "sy_result s = Some None" "\<not> pu_cancelled (sy_pump s)"
    using one_event [OF r d] by blast
  from run_handles_stream [OF r s(1)] s show ?thesis by auto
qed

theorem run_returns_witness:
  "\<exists>xs s. sysRun LittleEndian (startSystem True None (New emptyWorld zeroPolicy True True)) xs s \<and>
     sy_result s = Some None \<and> \<not> pu_cancelled (sy_pump s) \<and> sy_eventsClosed s"
proof -
  let ?a = "New emptyWorld zeroPolicy True True"
  have r: "Run True None ?a = Inr (startSystem True None ?a)" by (simp add: Run_def New_def)
  obtain ev clk where d: "DecodeEvent LittleEndian 5 None None (replicate eventSize CHR 0x00) = (Inr ev, clk)"
    using zero_record_decodes by blast
  obtain xs s where s: "sysRun LittleEndian (startSystem True None ?a) xs s" "sy_result s = Some None"
    "\<not> pu_cancelled (sy_pump s)"
    using one_event [OF r d] by blast
  from run_returns [OF r s(1,2)] s show ?thesis by auto
qed

theorem undecodable_record_stops_run_witness:
  "\<exists>xs s. sysRun LittleEndian (startSystem True None (New emptyWorld zeroPolicy True True)) xs s \<and>
     (\<exists>e. sy_result s = Some (Some (EventsError (DecodeFailed e)))) \<and> pu_log (sy_pump s) = [([], 5, None)]"
proof -
  obtain e where "fst (DecodeEvent LittleEndian 5 None None []) = Inl e"
    by (simp add: DecodeEvent_def decodeEvent_def Let_def eventSize_def eventV2Size_def)
  from undecodable_record_stops_run [OF this] show ?thesis by blast
qed

end
