(* ===== verification/PollingRead.thy ===== *)
theory PollingRead
  imports Polling_Laws
begin

text \<open>
  \<open>Read\<close> and \<open>Close\<close> of the map polling reader of \<open>internal/sensor/sensor.go\<close>, with its \<open>closed\<close> channel, and the
  liveness of the reader: a published event is delivered by the next batch.
\<close>

section \<open>Read and Close\<close>

datatype pollRead = PollClosed | PollError poll_error | PollRecord string

text \<open>
  A call of \<open>Read\<close>, turn by turn: each turn says whether the \<open>closed\<close> channel was found closed on entry, and
  whether the wait for the next tick ended by it. The result is \<open>None\<close> while the call still waits.
\<close>

fun pollingRead ::
  "byteOrder \<Rightarrow> cursorMap \<Rightarrow> eventsMap \<Rightarrow> poll_error option \<Rightarrow> (bool \<times> bool) list \<Rightarrow> pollingReader \<Rightarrow>
   pollRead option \<times> pollingReader" where
  "pollingRead native cursor events initErr [] r = (None, r)"
| "pollingRead native cursor events initErr ((closed, closedWaiting) # turns) r =
     (if closed then (Some PollClosed, r)
      else case initErr of
        Some e \<Rightarrow> (Some (PollError e), r)
      | None \<Rightarrow>
          (case readTurn native cursor events r of
             (Inl e, r1) \<Rightarrow> (Some (PollError e), r1)
           | (Inr (Some record), r1) \<Rightarrow> (Some (PollRecord record), r1)
           | (Inr None, r1) \<Rightarrow>
               if closedWaiting then (Some PollClosed, r1)
               else pollingRead native cursor events initErr turns r1))"

text \<open>
  The \<open>closed\<close> channel and the \<open>sync.Once\<close> that guards it. Closing a closed channel panics: \<open>None\<close>.
\<close>

record pollingGuard =
  pg_closed :: bool
  pg_once :: bool

definition newPollingGuard :: pollingGuard where
  "newPollingGuard = \<lparr>pg_closed = False, pg_once = False\<rparr>"

definition closeChannel :: "bool \<Rightarrow> bool option" where
  "closeChannel closed = (if closed then None else Some True)"

definition pollingClose :: "pollingGuard \<Rightarrow> pollingGuard option" where
  "pollingClose g =
     (if pg_once g then Some g
      else case closeChannel (pg_closed g) of None \<Rightarrow> None | Some c \<Rightarrow> Some \<lparr>pg_closed = c, pg_once = True\<rparr>)"

fun closes :: "nat \<Rightarrow> pollingGuard \<Rightarrow> pollingGuard option" where
  "closes 0 g = Some g"
| "closes (Suc n) g = (case pollingClose g of None \<Rightarrow> None | Some g1 \<Rightarrow> closes n g1)"

text \<open>\<open>Close\<close> never panics, however often it is called, and leaves the channel closed.\<close>

lemma pollingClose_idempotent:
  "closes n newPollingGuard = Some (if n = 0 then newPollingGuard else \<lparr>pg_closed = True, pg_once = True\<rparr>)"
proof -
  have "closes n \<lparr>pg_closed = True, pg_once = True\<rparr> = Some \<lparr>pg_closed = True, pg_once = True\<rparr>" for n
    by (induction n) (simp_all add: pollingClose_def)
  then show ?thesis by (cases n) (simp_all add: pollingClose_def newPollingGuard_def closeChannel_def)
qed

text \<open>A call of \<open>Read\<close> ends as soon as it finds the channel closed, and keeps the accounts of the reader.\<close>

lemma pollingRead_closed:
  "fst t \<Longrightarrow> t \<in> set turns \<Longrightarrow> fst (pollingRead native cursor events initErr turns r) \<noteq> None"
  by (induction native cursor events initErr turns r rule: pollingRead.induct)
    (auto split: option.splits prod.splits sum.splits)

lemma pollingRead_accounts:
  assumes "pollOK r" and "pollingRead native cursor events initErr turns r = (out, r1)"
    and "\<And>e. out \<noteq> Some (PollError e)"
  shows "pollOK r1 \<and> balance r1 = balance r + (case out of Some (PollRecord x) \<Rightarrow> 1 | _ \<Rightarrow> 0)"
  using assms
proof (induction native cursor events initErr turns r rule: pollingRead.induct)
  case (1 native cursor events initErr r)
  then show ?case by auto
next
  case (2 native cursor events initErr closed closedWaiting turns r)
  show ?case
  proof (cases "closed \<or> initErr \<noteq> None")
    case True
    then show ?thesis using "2.prems" by (auto split: if_splits)
  next
    case False
    obtain x r2 where t: "readTurn native cursor events r = (x, r2)" by (metis surj_pair)
    then obtain y where y: "x = Inr y" using False "2.prems"(2,3) by (cases x) auto
    have s: "pollOK r2 \<and> balance r2 = balance r + (case y of None \<Rightarrow> 0 | Some _ \<Rightarrow> 1)"
      using readTurn_step "2.prems"(1) t y by blast
    show ?thesis
      using False "2.prems"(2,3) t y s "2.IH" [of x r2 None] by (cases y) (auto split: if_splits)
  qed
qed

section \<open>Published events are delivered\<close>

abbreviation shardOf :: "pollingReader \<Rightarrow> u32 \<Rightarrow> pollingShard" where
  "shardOf r cpu \<equiv> pr_shards r ! unat cpu"

text \<open>A step that changes at most the shard of one CPU.\<close>

definition onlyShard :: "u32 \<Rightarrow> pollingReader \<Rightarrow> pollingReader \<Rightarrow> bool" where
  "onlyShard cpu r r1 \<longleftrightarrow> length (pr_shards r1) = length (pr_shards r) \<and> pr_slotsPerCPU r1 = pr_slotsPerCPU r \<and>
     pr_guarded r1 = pr_guarded r \<and> (\<forall>c. c \<noteq> cpu \<longrightarrow> shardOf r1 c = shardOf r c)"

lemma putShard_other: "c \<noteq> cpu \<Longrightarrow> (pr_shards r)[unat cpu := sh] ! unat c = shardOf r c"
  by (simp add: nth_list_update word_unat_eq_iff)

lemma snapshotCPU_total:
  assumes "cursor (pr_lookups r) cpu = Some head" and "sh_tail (shardOf r cpu) \<le> head"
  shows "\<exists>act r1. snapshotCPU cursor r cpu = ((None, act), r1) \<and> onlyShard cpu r r1 \<and> pr_pending r1 = pr_pending r"
  using assms putShard_other by (auto simp: snapshotCPU_def Let_def onlyShard_def)

lemma snapshotCPU_unread:
  assumes "cursor (pr_lookups r) cpu = Some head" and "sh_tail (shardOf r cpu) < head"
    and "head - sh_tail (shardOf r cpu) \<le> ucast (pr_slotsPerCPU r)" and "unat cpu < length (pr_shards r)"
  shows "\<exists>r1. snapshotCPU cursor r cpu = ((None, True), r1) \<and> sh_tail (shardOf r1 cpu) = sh_tail (shardOf r cpu)"
  using assms by (auto simp: snapshotCPU_def Let_def)

lemma snapshots_active:
  assumes "\<And>n c. c \<in> set cpus \<Longrightarrow> \<exists>head. cursor n c = Some head \<and> sh_tail (shardOf r c) \<le> head"
    and "distinct cpus" and "snapshots cursor r cpus = (e, acts, r1)"
  shows "e = None \<and> length (pr_shards r1) = length (pr_shards r) \<and> pr_slotsPerCPU r1 = pr_slotsPerCPU r \<and>
    pr_guarded r1 = pr_guarded r \<and> pr_pending r1 = pr_pending r \<and> (\<forall>c. c \<notin> set cpus \<longrightarrow> shardOf r1 c = shardOf r c)"
  using assms
proof (induction cpus arbitrary: r e acts r1)
  case Nil
  then show ?case by auto
next
  case (Cons cpu cpus)
  obtain head where h: "cursor (pr_lookups r) cpu = Some head" "sh_tail (shardOf r cpu) \<le> head"
    using Cons.prems(1) [of cpu "pr_lookups r"] by auto
  obtain act r2 where s: "snapshotCPU cursor r cpu = ((None, act), r2)" "onlyShard cpu r r2" "pr_pending r2 = pr_pending r"
    using snapshotCPU_total [of cursor r cpu head] h by blast
  obtain e' acts' r3 where t: "snapshots cursor r2 cpus = (e', acts', r3)" by (metis surj_pair)
  have "\<exists>head. cursor n c = Some head \<and> sh_tail (shardOf r2 c) \<le> head" if "c \<in> set cpus" for n c
    using Cons.prems(1) [of c n] that Cons.prems(2) s(2) by (auto simp: onlyShard_def)
  then have "e' = None \<and> length (pr_shards r3) = length (pr_shards r2) \<and> pr_slotsPerCPU r3 = pr_slotsPerCPU r2 \<and>
      pr_guarded r3 = pr_guarded r2 \<and> pr_pending r3 = pr_pending r2 \<and> (\<forall>c. c \<notin> set cpus \<longrightarrow> shardOf r3 c = shardOf r2 c)"
    using Cons.IH [OF _ _ t] Cons.prems(2) by simp
  then show ?case using Cons.prems(3) s t by (auto simp: onlyShard_def split: if_splits)
qed


text \<open>What the kernel has to keep true while a CPU's next event waits: a cursor past it, and its slot committed.\<close>

definition waiting :: "byteOrder \<Rightarrow> cursorMap \<Rightarrow> eventsMap \<Rightarrow> pollingReader \<Rightarrow> u32 \<Rightarrow> bool" where
  "waiting native cursor events r cpu \<longleftrightarrow> unat cpu < length (pr_shards r) \<and>
     (\<forall>n. \<exists>head. cursor n cpu = Some head \<and> sh_tail (shardOf r cpu) < head \<and>
       head - sh_tail (shardOf r cpu) \<le> ucast (pr_slotsPerCPU r)) \<and>
     (\<forall>n. \<exists>raw. events n (cpu * pr_slotsPerCPU r + ucast (sh_tail (shardOf r cpu) mod ucast (pr_slotsPerCPU r))) = Some raw \<and>
       committedSlotSequence native raw (pr_guarded r) = sh_tail (shardOf r cpu) + 1)"

text \<open>The samples the slot of the next event of a CPU may hold.\<close>

definition nextSamples :: "eventsMap \<Rightarrow> pollingReader \<Rightarrow> u32 \<Rightarrow> string set" where
  "nextSamples events r cpu = {ultraLegacySlotEvent raw | raw n.
     events n (cpu * pr_slotsPerCPU r + ucast (sh_tail (shardOf r cpu) mod ucast (pr_slotsPerCPU r))) = Some raw}"

text \<open>The same next slot of a CPU.\<close>

definition sameSlot :: "u32 \<Rightarrow> pollingReader \<Rightarrow> pollingReader \<Rightarrow> bool" where
  "sameSlot cpu r r1 \<longleftrightarrow> length (pr_shards r1) = length (pr_shards r) \<and> pr_slotsPerCPU r1 = pr_slotsPerCPU r \<and>
     pr_guarded r1 = pr_guarded r \<and> sh_tail (shardOf r1 cpu) = sh_tail (shardOf r cpu)"

lemma sameSlot_keeps:
  assumes "sameSlot cpu r r1"
  shows "waiting native cursor events r1 cpu = waiting native cursor events r cpu"
    and "nextSamples events r1 cpu = nextSamples events r cpu"
  using assms by (simp_all add: sameSlot_def waiting_def nextSamples_def)

lemma sameSlot_trans: "sameSlot cpu r r1 \<Longrightarrow> sameSlot cpu r1 r2 \<Longrightarrow> sameSlot cpu r r2"
  by (simp add: sameSlot_def)

lemma onlyShard_sameSlot: "onlyShard c r r1 \<Longrightarrow> cpu \<noteq> c \<Longrightarrow> sameSlot cpu r r1"
  by (simp add: onlyShard_def sameSlot_def)

lemma snapshots_waiting:
  assumes "\<And>n c. c \<in> set cpus \<Longrightarrow> \<exists>head. cursor n c = Some head \<and> sh_tail (shardOf r c) \<le> head"
    and "distinct cpus" and "snapshots cursor r cpus = (None, acts, r1)"
    and "cpu \<in> set cpus" and "waiting native cursor events r cpu"
  shows "cpu \<in> set acts \<and> sameSlot cpu r r1"
  using assms
proof (induction cpus arbitrary: r acts r1)
  case Nil
  then show ?case by auto
next
  case (Cons c cpus)
  obtain head where h: "cursor (pr_lookups r) c = Some head" "sh_tail (shardOf r c) \<le> head"
    using Cons.prems(1) [of c "pr_lookups r"] by auto
  obtain act r2 where s: "snapshotCPU cursor r c = ((None, act), r2)" "onlyShard c r r2"
    using snapshotCPU_total [of cursor r c head] h by blast
  obtain acts' where t: "snapshots cursor r2 cpus = (None, acts', r1)" "acts = (if act then c # acts' else acts')"
    using Cons.prems(3) s(1) by (auto split: prod.splits)
  have total: "\<exists>head. cursor n x = Some head \<and> sh_tail (shardOf r2 x) \<le> head" if "x \<in> set cpus" for n x
    using Cons.prems(1) [of x n] that Cons.prems(2) s(2) by (auto simp: onlyShard_def)
  show ?case
  proof (cases "cpu = c")
    case True
    then obtain head' where "cursor (pr_lookups r) c = Some head'" "sh_tail (shardOf r c) < head'"
      "head' - sh_tail (shardOf r c) \<le> ucast (pr_slotsPerCPU r)" "unat c < length (pr_shards r)"
      using Cons.prems(5) by (auto simp: waiting_def)
    then have a: "act \<and> sh_tail (shardOf r2 c) = sh_tail (shardOf r c)"
      using snapshotCPU_unread [of cursor r c head'] s(1) by auto
    have "sameSlot c r2 r1"
      using snapshots_active [OF total _ t(1)] Cons.prems(2) by (auto simp: sameSlot_def)
    then have "sameSlot c r r1" using a s(2) by (simp add: sameSlot_def onlyShard_def)
    then show ?thesis using a t(2) True by simp
  next
    case False
    then have r2: "sameSlot cpu r r2" using onlyShard_sameSlot [OF s(2)] by blast
    then have "waiting native cursor events r2 cpu" using Cons.prems(5) by (simp add: sameSlot_keeps)
    then have "cpu \<in> set acts' \<and> sameSlot cpu r2 r1"
      using Cons.IH [OF total _ t(1)] Cons.prems(2,4) False by auto
    then show ?thesis using t(2) r2 sameSlot_trans by auto
  qed
qed

lemma slotSequence_total:
  assumes "\<And>n. events n slot \<noteq> None"
  shows "\<exists>seq raw k. slotSequence native events r slot x = (Some (seq, raw), r\<lparr>pr_lookups := k\<rparr>)"
  using assms [of "pr_lookups r"] assms [of "pr_lookups r + 1"]
  by (auto simp: slotSequence_def Let_def)

lemma readSlot_total:
  assumes "\<And>n i. events n i \<noteq> None"
  shows "\<exists>again r1. readSlot native events r c = (Some again, r1) \<and> onlyShard c r r1 \<and>
    set (pr_pending r) \<subseteq> set (pr_pending r1)"
proof -
  obtain seq raw k where "slotSequence native events r (c * pr_slotsPerCPU r +
      ucast (sh_tail (shardOf r c) mod ucast (pr_slotsPerCPU r))) (sh_tail (shardOf r c) + 1) =
      (Some (seq, raw), r\<lparr>pr_lookups := k\<rparr>)"
    using slotSequence_total [of events] assms by blast
  then show ?thesis using putShard_other by (auto simp: readSlot_def Let_def onlyShard_def)
qed

lemma readSlot_waiting:
  assumes "waiting native cursor events r cpu"
  shows "\<exists>x \<in> nextSamples events r cpu. x \<in> set (pr_pending (snd (readSlot native events r cpu)))"
proof -
  let ?n = "pr_lookups r" and ?slot = "cpu * pr_slotsPerCPU r + ucast (sh_tail (shardOf r cpu) mod ucast (pr_slotsPerCPU r))"
  let ?x = "sh_tail (shardOf r cpu) + 1"
  obtain raw where raw: "events ?n ?slot = Some raw" "committedSlotSequence native raw (pr_guarded r) = ?x"
    using assms by (auto simp: waiting_def)
  obtain again where again: "events (?n + 1) ?slot = Some again" "committedSlotSequence native again (pr_guarded r) = ?x"
    using assms unfolding waiting_def by meson
  have "\<exists>k. slotSequence native events r ?slot ?x = (Some (?x, raw), r\<lparr>pr_lookups := k\<rparr>)"
    using raw again by (cases "pr_guarded r") (auto simp: slotSequence_def Let_def)
  then have "ultraLegacySlotEvent raw \<in> set (pr_pending (snd (readSlot native events r cpu)))"
    by (auto simp: readSlot_def Let_def)
  then show ?thesis using raw(1) by (auto simp: nextSamples_def)
qed

lemma drain_total:
  assumes "\<And>n i. events n i \<noteq> None"
  shows "fst (drain native events r active) = None \<and> set (pr_pending r) \<subseteq> set (pr_pending (snd (drain native events r active)))"
  using assms
proof (induction native events r active rule: drain.induct)
  case (1 native events r)
  then show ?case by simp
next
  case (2 native events r c active)
  obtain again r1 where s: "readSlot native events r c = (Some again, r1)" "set (pr_pending r) \<subseteq> set (pr_pending r1)"
    using readSlot_total [of events native r c] "2.prems" by blast
  show ?case
    using "2.IH" [OF _ s(1) [symmetric] refl "2.prems"] s by (cases "mapPollingBatchSize \<le> length (pr_pending r)") auto
qed

lemma drain_delivers:
  assumes "\<And>n i. events n i \<noteq> None" and "cpu \<in> set active" and "waiting native cursor events r cpu"
  shows "(\<exists>x \<in> nextSamples events r cpu. x \<in> set (pr_pending (snd (drain native events r active)))) \<or>
    mapPollingBatchSize \<le> length (pr_pending (snd (drain native events r active)))"
  using assms
proof (induction native events r active rule: drain.induct)
  case (1 native events r)
  then show ?case by simp
next
  case (2 native events r c active)
  obtain again r1 where s: "readSlot native events r c = (Some again, r1)" "onlyShard c r r1"
    using readSlot_total [of events native r c] "2.prems"(1) by blast
  let ?rest = "if again then active @ [c] else active"
  show ?case
  proof (cases "mapPollingBatchSize \<le> length (pr_pending r)")
    case True
    then show ?thesis by simp
  next
    case False
    then have d: "drain native events r (c # active) = drain native events r1 ?rest" using s(1) by simp
    show ?thesis
    proof (cases "cpu = c")
      case True
      then obtain x where "x \<in> nextSamples events r cpu" "x \<in> set (pr_pending r1)"
        using readSlot_waiting [OF "2.prems"(3)] s(1) by auto
      then show ?thesis using drain_total [of events native r1 ?rest] "2.prems"(1) unfolding d by blast
    next
      case neq: False
      then have same: "sameSlot cpu r r1" using onlyShard_sameSlot [OF s(2)] by blast
      then have "waiting native cursor events r1 cpu" using "2.prems"(3) by (simp add: sameSlot_keeps)
      then show ?thesis
        using "2.IH" [OF False s(1) [symmetric] refl "2.prems"(1)] "2.prems"(2) neq sameSlot_keeps(2) [OF same, of events]
        unfolding d by auto
    qed
  qed
qed

lemma pollOrder_covers:
  assumes "pollOK r" and "unat cpu < length (pr_shards r)"
  shows "cpu \<in> set (pollOrder r)"
proof -
  have "unat ` set (pollOrder r) \<subseteq> {..<length (pr_shards r)}" using pollOrder_bound [OF assms(1)] by auto
  moreover have "card (unat ` set (pollOrder r)) = length (pr_shards r)"
    using distinct_card [OF pollOrder_distinct [OF assms(1)]]
    by (subst card_image) (simp_all add: inj_on_def word_unat_eq_iff pollOrder_def)
  ultimately have "unat ` set (pollOrder r) = {..<length (pr_shards r)}" by (intro card_subset_eq) simp_all
  then have "unat cpu \<in> unat ` set (pollOrder r)" using assms(2) by simp
  then obtain c where "c \<in> set (pollOrder r)" "unat cpu = unat c" by auto
  then show ?thesis by (simp add: word_unat_eq_iff [symmetric])
qed

text \<open>
  C15. The polling reader is live: as long as lookups answer and no cursor runs backwards, an event a CPU has
  published in its next slot is in the very next batch, or the batch is full with 128 other events; and \<open>Read\<close> returns an
  event in its first turn, without waiting for a tick.
\<close>

theorem polling_delivers:
  assumes "pollOK r" and "pr_pending r = []" and "waiting native cursor events r cpu"
    and "\<And>n c. unat c < length (pr_shards r) \<Longrightarrow> \<exists>head. cursor n c = Some head \<and> sh_tail (shardOf r c) \<le> head"
    and "\<And>n i. events n i \<noteq> None"
  shows "(\<exists>record. fst (pollingRead native cursor events None ((False, w) # turns) r) = Some (PollRecord record)) \<and>
    fst (pollBatch native cursor events r) = None \<and>
    ((\<exists>x \<in> nextSamples events r cpu. x \<in> set (pr_pending (snd (pollBatch native cursor events r)))) \<or>
     128 \<le> length (pr_pending (snd (pollBatch native cursor events r))))"
proof -
  obtain e acts r1 where s: "snapshots cursor r (pollOrder r) = (e, acts, r1)" by (metis surj_pair)
  note total = assms(4) [OF pollOrder_bound [OF assms(1)]] and dist = pollOrder_distinct [OF assms(1)]
  have cpu: "unat cpu < length (pr_shards r)" using assms(3) by (simp add: waiting_def)
  have e: "e = None" using snapshots_active [OF total dist s] by blast
  have w: "cpu \<in> set acts" "sameSlot cpu r r1"
    using snapshots_waiting [OF total dist s [unfolded e] pollOrder_covers [OF assms(1) cpu] assms(3)] by blast+
  obtain e' r2 where d: "drain native events r1 acts = (e', r2)" by (metis surj_pair)
  have e': "e' = None" using drain_total [of events native r1 acts] assms(5) d by simp
  let ?b = "pollBatch native cursor events r"
  have b: "fst ?b = None" "set (pr_pending (snd ?b)) = set (pr_pending r2)" "length (pr_pending (snd ?b)) = length (pr_pending r2)"
    using s d e e' by (simp_all add: pollBatch_def)
  have in_batch: "(\<exists>x \<in> nextSamples events r cpu. x \<in> set (pr_pending (snd ?b))) \<or> 128 \<le> length (pr_pending (snd ?b))"
    using drain_delivers [of events cpu acts native cursor r1] assms(3,5) w d b sameSlot_keeps [OF w(2)] by (simp add: go_consts)
  then obtain x xs where "pr_pending (snd ?b) = x # xs" by (cases "pr_pending (snd ?b)") auto
  then have "fst (readTurn native cursor events r) = Inr (Some x)"
    using assms(2) b(1) by (cases ?b) (simp add: readTurn_def)
  then have "fst (pollingRead native cursor events None ((False, w) # turns) r) = Some (PollRecord x)"
    by (cases "readTurn native cursor events r") simp
  then show ?thesis using b(1) in_batch by blast
qed


theorem polling_delivers_witness:
  "\<exists>record. fst (pollingRead LittleEndian (\<lambda>_ _. Some 1) (\<lambda>_ _. Some firstSlot) None [(False, False)] oneCPU) =
     Some (PollRecord record)"
proof -
  have "committedSlotSequence LittleEndian firstSlot False = 1" by code_simp
  then have "waiting LittleEndian (\<lambda>_ _. Some 1) (\<lambda>_ _. Some firstSlot) oneCPU 0"
    by (simp add: waiting_def oneCPU_def)
  moreover have "pollOK oneCPU" "pr_pending oneCPU = []" by (simp_all add: pollOK_def oneCPU_def)
  moreover have "sh_tail (shardOf oneCPU c) \<le> 1" if "unat c < length (pr_shards oneCPU)" for c
    using that by (simp add: oneCPU_def)
  ultimately show ?thesis
    using polling_delivers [of oneCPU LittleEndian "\<lambda>_ _. Some 1" "\<lambda>_ _. Some firstSlot" 0 False "[]"] by simp
qed

end
