(* ===== verification/SensorLoad.thy ===== *)
theory SensorLoad
  imports SensorAttach "HOL-Library.List_Lexorder" "HOL-Library.Char_ord"
begin

text \<open>
  \<open>internal/sensor/sensor.go\<close> and the Go files \<open>bpf2go\<close> generates beside it: loading the BPF objects of the three
  runtimes and binding their maps and programs to the fields of the sensor. A collection specification is
  the list of its programs, by name, with whether each is an LSM program; the loader of
  \<open>github.com/cilium/ebpf\<close> is the parameter \<open>load\<close>, which gets the programs to load and the maps to share.
  Fields are their names; a struct of pointers is a partial function from fields, \<open>None\<close> for nil.
\<close>

section \<open>Grouped collections\<close>

type_synonym programSpec = "string \<times> bool"

record ('p, 'm) collection =
  co_Programs :: "(string \<times> 'p) list"
  co_Maps :: "(string \<times> 'm) list"

record ('p, 'm) collectionBundle =
  bu_collections :: "('p, 'm) collection list"
  bu_maps :: "(string \<times> 'm) list"
  bu_programs :: "string \<rightharpoonup> 'p"

type_synonym ('p, 'm) collectionLoadFunc =
  "programSpec list \<Rightarrow> (string \<times> 'm) list option \<Rightarrow> ('p, 'm) collection option"

definition optionalProgram :: "programSpec \<Rightarrow> bool" where
  "optionalProgram ps = (case ps of (name, isLSM) \<Rightarrow> isLSM \<or> HasPrefix name ''kp_override_'')"

definition loadOptional ::
  "('p, 'm) collectionLoadFunc \<Rightarrow> programSpec list \<Rightarrow> ('p, 'm) collection \<Rightarrow> string \<Rightarrow> ('p, 'm) collectionBundle \<Rightarrow>
   ('p, 'm) collectionBundle" where
  "loadOptional load spec core name b =
     (case load (filter (\<lambda>ps. fst ps = name) spec) (Some (co_Maps core)) of
        None \<Rightarrow> b
      | Some loaded \<Rightarrow>
          b\<lparr>bu_collections := bu_collections b @ [loaded],
            bu_programs := (bu_programs b)(name := map_of (co_Programs loaded) name)\<rparr>)"

definition loadGroupedCollections ::
  "('p, 'm) collectionLoadFunc \<Rightarrow> programSpec list \<Rightarrow> ('p, 'm) collectionBundle option" where
  "loadGroupedCollections load spec =
     (let optional = map fst (filter optionalProgram spec);
          base = filter (\<lambda>ps. \<not> optionalProgram ps) spec
      in case load base None of
           None \<Rightarrow> None
         | Some core \<Rightarrow>
             Some (fold (loadOptional load spec core) (sort optional)
               \<lparr>bu_collections = [core], bu_maps = co_Maps core, bu_programs = map_of (co_Programs core)\<rparr>))"

text \<open>The objects \<open>collectionBundle.Close\<close> closes, in its order.\<close>

datatype ('p, 'm) handle = ProgramHandle 'p | MapHandle 'm

definition handles :: "('p, 'm) collection \<Rightarrow> ('p, 'm) handle list" where
  "handles c = map (ProgramHandle \<circ> snd) (co_Programs c) @ map (MapHandle \<circ> snd) (co_Maps c)"

definition bundleClose :: "('p, 'm) collectionBundle \<Rightarrow> ('p, 'm) handle list \<times> ('p, 'm) collectionBundle" where
  "bundleClose b = (concat (map handles (rev (bu_collections b))), b\<lparr>bu_collections := []\<rparr>)"

section \<open>The variant of the rename hook\<close>

definition pathRenameVariant :: "nat \<Rightarrow> string" where
  "pathRenameVariant parameterCount =
     (if parameterCount = 4 then ''enforce_path_rename_legacy''
      else if parameterCount = 5 then ''enforce_path_rename'' else [])"

text \<open>\<open>params\<close> is the number of parameters of \<open>bpf_lsm_path_rename\<close> in the type information, if it is known.\<close>

definition selectPathRenameVariant :: "nat option \<Rightarrow> programSpec list \<Rightarrow> programSpec list" where
  "selectPathRenameVariant params spec =
     (if ''enforce_path_rename_legacy'' \<notin> set (map fst spec) then spec
      else
        let selected = (case params of None \<Rightarrow> [] | Some n \<Rightarrow> pathRenameVariant n)
        in filter (\<lambda>(name, _). name \<in> set [''enforce_path_rename'', ''enforce_path_rename_legacy''] \<longrightarrow> name = selected)
             spec)"

section \<open>Generated bindings\<close>

text \<open>The fields of the generated structs with their \<open>ebpf\<close> tags.\<close>

definition ransomwarePrograms :: "(string \<times> string) list" where
  "ransomwarePrograms = [
     (''EnforceBprmCheckSecurity'', ''enforce_bprm_check_security''),
     (''EnforceFileOpen'', ''enforce_file_open''), (''EnforceFilePermission'', ''enforce_file_permission''),
     (''EnforceInodeCreate'', ''enforce_inode_create''), (''EnforceInodeRename'', ''enforce_inode_rename''),
     (''EnforcePathMknod'', ''enforce_path_mknod''), (''EnforcePathRename'', ''enforce_path_rename''),
     (''EnforcePathRenameLegacy'', ''enforce_path_rename_legacy''),
     (''EnforcePathTruncate'', ''enforce_path_truncate''), (''EnforcePathUnlink'', ''enforce_path_unlink''),
     (''KpOverrideCopyFileRange'', ''kp_override_copy_file_range''),
     (''KpOverrideExecve'', ''kp_override_execve''), (''KpOverrideFtruncate'', ''kp_override_ftruncate''),
     (''KpOverrideGetdents64'', ''kp_override_getdents64''),
     (''KpOverrideIoUringEnter'', ''kp_override_io_uring_enter''), (''KpOverrideLink'', ''kp_override_link''),
     (''KpOverrideLinkat'', ''kp_override_linkat''), (''KpOverrideMmap'', ''kp_override_mmap''),
     (''KpOverrideOpenat'', ''kp_override_openat''), (''KpOverrideOpenat2'', ''kp_override_openat2''),
     (''KpOverridePwrite64'', ''kp_override_pwrite64''), (''KpOverrideRename'', ''kp_override_rename''),
     (''KpOverrideRenameat'', ''kp_override_renameat''), (''KpOverrideRenameat2'', ''kp_override_renameat2''),
     (''KpOverrideSymlink'', ''kp_override_symlink''), (''KpOverrideSymlinkat'', ''kp_override_symlinkat''),
     (''KpOverrideTruncate'', ''kp_override_truncate''), (''KpOverrideUnlink'', ''kp_override_unlink''),
     (''KpOverrideUnlinkat'', ''kp_override_unlinkat''), (''KpOverrideWrite'', ''kp_override_write''),
     (''KpOverrideWritev'', ''kp_override_writev''), (''TraceClose'', ''trace_close''),
     (''TraceConnect'', ''trace_connect''), (''TraceCopyFileRange'', ''trace_copy_file_range''),
     (''TraceDup'', ''trace_dup''), (''TraceDup2'', ''trace_dup2''), (''TraceDup2Exit'', ''trace_dup2_exit''),
     (''TraceDup3'', ''trace_dup3''), (''TraceDup3Exit'', ''trace_dup3_exit''),
     (''TraceDupExit'', ''trace_dup_exit''), (''TraceExecSuccess'', ''trace_exec_success''),
     (''TraceExecve'', ''trace_execve''), (''TraceFcntl'', ''trace_fcntl''),
     (''TraceFcntlExit'', ''trace_fcntl_exit''), (''TraceFtruncate'', ''trace_ftruncate''),
     (''TraceGetdents64'', ''trace_getdents64''), (''TraceIoUringEnter'', ''trace_io_uring_enter''),
     (''TraceLink'', ''trace_link''), (''TraceLinkat'', ''trace_linkat''), (''TraceMmap'', ''trace_mmap''),
     (''TraceOpenat'', ''trace_openat''), (''TraceOpenat2'', ''trace_openat2''),
     (''TraceOpenat2Exit'', ''trace_openat2_exit''), (''TraceOpenatExit'', ''trace_openat_exit''),
     (''TraceProcessExit'', ''trace_process_exit''), (''TracePwrite64'', ''trace_pwrite64''),
     (''TracePwrite64Exit'', ''trace_pwrite64_exit''), (''TraceRename'', ''trace_rename''),
     (''TraceRenameat'', ''trace_renameat''), (''TraceRenameat2'', ''trace_renameat2''),
     (''TraceSymlink'', ''trace_symlink''), (''TraceSymlinkat'', ''trace_symlinkat''),
     (''TraceTruncate'', ''trace_truncate''), (''TraceUnlink'', ''trace_unlink''),
     (''TraceUnlinkat'', ''trace_unlinkat''), (''TraceWrite'', ''trace_write''),
     (''TraceWriteExit'', ''trace_write_exit''), (''TraceWritev'', ''trace_writev''),
     (''TraceWritevExit'', ''trace_writev_exit'')]"

definition ransomwareMaps :: "(string \<times> string) list" where
  "ransomwareMaps = [
     (''AllowedCgroups'', ''allowed_cgroups''), (''BlockedTgids'', ''blocked_tgids''),
     (''CaptureGaps'', ''capture_gaps''), (''CgroupScopeEnabled'', ''cgroup_scope_enabled''),
     (''Events'', ''events''), (''InlineIocAction'', ''inline_ioc_action''),
     (''IocExtensions'', ''ioc_extensions''), (''IocRansomNotes'', ''ioc_ransom_notes''),
     (''PendingDups'', ''pending_dups''), (''PendingOpens'', ''pending_opens''),
     (''PendingWrites'', ''pending_writes''), (''ProtectedDirs'', ''protected_dirs''),
     (''RingbufDrops'', ''ringbuf_drops'')]"

definition ransomwareLegacyPrograms :: "(string \<times> string) list" where
  "ransomwareLegacyPrograms = [
     (''KpOverrideCopyFileRange'', ''kp_override_copy_file_range''),
     (''KpOverrideExecve'', ''kp_override_execve''), (''KpOverrideFtruncate'', ''kp_override_ftruncate''),
     (''KpOverrideGetdents64'', ''kp_override_getdents64''),
     (''KpOverrideIoUringEnter'', ''kp_override_io_uring_enter''), (''KpOverrideLink'', ''kp_override_link''),
     (''KpOverrideLinkat'', ''kp_override_linkat''), (''KpOverrideMmap'', ''kp_override_mmap''),
     (''KpOverrideOpenat'', ''kp_override_openat''), (''KpOverrideOpenat2'', ''kp_override_openat2''),
     (''KpOverridePwrite64'', ''kp_override_pwrite64''), (''KpOverrideRename'', ''kp_override_rename''),
     (''KpOverrideRenameat'', ''kp_override_renameat''), (''KpOverrideRenameat2'', ''kp_override_renameat2''),
     (''KpOverrideSymlink'', ''kp_override_symlink''), (''KpOverrideSymlinkat'', ''kp_override_symlinkat''),
     (''KpOverrideTruncate'', ''kp_override_truncate''), (''KpOverrideUnlink'', ''kp_override_unlink''),
     (''KpOverrideUnlinkat'', ''kp_override_unlinkat''), (''KpOverrideWrite'', ''kp_override_write''),
     (''KpOverrideWritev'', ''kp_override_writev''), (''TraceClose'', ''trace_close''),
     (''TraceConnect'', ''trace_connect''), (''TraceCopyFileRange'', ''trace_copy_file_range''),
     (''TraceDup'', ''trace_dup''), (''TraceDup2'', ''trace_dup2''), (''TraceDup2Exit'', ''trace_dup2_exit''),
     (''TraceDup3'', ''trace_dup3''), (''TraceDup3Exit'', ''trace_dup3_exit''),
     (''TraceDupExit'', ''trace_dup_exit''), (''TraceExecSuccess'', ''trace_exec_success''),
     (''TraceExecve'', ''trace_execve''), (''TraceFcntl'', ''trace_fcntl''),
     (''TraceFcntlExit'', ''trace_fcntl_exit''), (''TraceFtruncate'', ''trace_ftruncate''),
     (''TraceGetdents64'', ''trace_getdents64''), (''TraceIoUringEnter'', ''trace_io_uring_enter''),
     (''TraceLink'', ''trace_link''), (''TraceLinkat'', ''trace_linkat''), (''TraceMmap'', ''trace_mmap''),
     (''TraceOpenat'', ''trace_openat''), (''TraceOpenat2'', ''trace_openat2''),
     (''TraceOpenat2Exit'', ''trace_openat2_exit''), (''TraceOpenatExit'', ''trace_openat_exit''),
     (''TraceProcessExit'', ''trace_process_exit''), (''TracePwrite64'', ''trace_pwrite64''),
     (''TracePwrite64Exit'', ''trace_pwrite64_exit''), (''TraceRename'', ''trace_rename''),
     (''TraceRenameat'', ''trace_renameat''), (''TraceRenameat2'', ''trace_renameat2''),
     (''TraceSymlink'', ''trace_symlink''), (''TraceSymlinkat'', ''trace_symlinkat''),
     (''TraceTruncate'', ''trace_truncate''), (''TraceUnlink'', ''trace_unlink''),
     (''TraceUnlinkat'', ''trace_unlinkat''), (''TraceWrite'', ''trace_write''),
     (''TraceWriteExit'', ''trace_write_exit''), (''TraceWritev'', ''trace_writev''),
     (''TraceWritevExit'', ''trace_writev_exit'')]"

definition ransomwareLegacyMaps :: "(string \<times> string) list" where
  "ransomwareLegacyMaps = [
     (''AllowedCgroups'', ''allowed_cgroups''), (''BlockedTgids'', ''blocked_tgids''),
     (''CaptureGaps'', ''capture_gaps''), (''CgroupScopeEnabled'', ''cgroup_scope_enabled''),
     (''Events'', ''events''), (''IocExtensions'', ''ioc_extensions''),
     (''IocRansomNotes'', ''ioc_ransom_notes''), (''PendingDups'', ''pending_dups''),
     (''PendingOpens'', ''pending_opens''), (''PendingWrites'', ''pending_writes''),
     (''ProtectedDirs'', ''protected_dirs''), (''RingbufDrops'', ''ringbuf_drops''),
     (''ScratchEvents'', ''scratch_events'')]"

definition ransomwareUltraLegacyPrograms :: "(string \<times> string) list" where
  "ransomwareUltraLegacyPrograms = [
     (''KpOverrideExecve'', ''kp_override_execve''), (''KpOverrideFtruncate'', ''kp_override_ftruncate''),
     (''KpOverrideLink'', ''kp_override_link''), (''KpOverrideOpen'', ''kp_override_open''),
     (''KpOverrideOpenat'', ''kp_override_openat''), (''KpOverridePwrite64'', ''kp_override_pwrite64''),
     (''KpOverrideRename'', ''kp_override_rename''), (''KpOverrideSymlink'', ''kp_override_symlink''),
     (''KpOverrideTruncate'', ''kp_override_truncate''), (''KpOverrideUnlink'', ''kp_override_unlink''),
     (''KpOverrideWrite'', ''kp_override_write''), (''KpOverrideWritev'', ''kp_override_writev''),
     (''KpProcessExit'', ''kp_process_exit''), (''KpRetOpen'', ''kp_ret_open''),
     (''KpRetOpenat'', ''kp_ret_openat''), (''KpRetPwrite64'', ''kp_ret_pwrite64''),
     (''KpRetWrite'', ''kp_ret_write''), (''KpRetWritev'', ''kp_ret_writev'')]"

definition ransomwareUltraLegacyMaps :: "(string \<times> string) list" where
  "ransomwareUltraLegacyMaps = [
     (''AllowedCgroups'', ''allowed_cgroups''), (''BlockedTgids'', ''blocked_tgids''),
     (''CaptureGaps'', ''capture_gaps''), (''CgroupScopeEnabled'', ''cgroup_scope_enabled''),
     (''EventCursor'', ''event_cursor''), (''Events'', ''events''), (''IocExtensions'', ''ioc_extensions''),
     (''IocRansomNotes'', ''ioc_ransom_notes''), (''PendingOpens'', ''pending_opens''),
     (''PendingWrites'', ''pending_writes''), (''ProtectedDirs'', ''protected_dirs''),
     (''RingbufDrops'', ''ringbuf_drops''), (''ScratchEvents'', ''scratch_events''),
     (''SyscallAbi'', ''syscall_abi'')]"

definition bindAvailableObjects :: "(string \<times> string) list \<Rightarrow> (string \<rightharpoonup> 'a) \<Rightarrow> string \<rightharpoonup> 'a" where
  "bindAvailableObjects target objects field =
     (case map_of target field of None \<Rightarrow> None | Some name \<Rightarrow> objects name)"

section \<open>The maps and programs of a sensor\<close>

record 'm eventMaps =
  em_Events :: "'m option"
  em_EventCursor :: "'m option"
  em_RingbufDrops :: "'m option"
  em_CaptureGaps :: "'m option"
  em_SyscallABI :: "'m option"

definition coreMaps :: "(string \<rightharpoonup> 'm) \<Rightarrow> 'm sensorMaps \<times> 'm eventMaps" where
  "coreMaps objs =
     (\<lparr>sm_BlockedTgids = objs ''BlockedTgids'', sm_IocExtensions = objs ''IocExtensions'',
       sm_IocRansomNotes = objs ''IocRansomNotes'', sm_ProtectedDirs = objs ''ProtectedDirs'',
       sm_InlineIOCAction = objs ''InlineIocAction'', sm_AllowedCgroups = objs ''AllowedCgroups'',
       sm_CgroupScopeEnabled = objs ''CgroupScopeEnabled''\<rparr>,
      \<lparr>em_Events = objs ''Events'', em_EventCursor = None, em_RingbufDrops = objs ''RingbufDrops'',
       em_CaptureGaps = objs ''CaptureGaps'', em_SyscallABI = None\<rparr>)"

definition legacyPerfMaps :: "(string \<rightharpoonup> 'm) \<Rightarrow> 'm sensorMaps \<times> 'm eventMaps" where
  "legacyPerfMaps objs =
     (\<lparr>sm_BlockedTgids = objs ''BlockedTgids'', sm_IocExtensions = objs ''IocExtensions'',
       sm_IocRansomNotes = objs ''IocRansomNotes'', sm_ProtectedDirs = objs ''ProtectedDirs'',
       sm_InlineIOCAction = None, sm_AllowedCgroups = objs ''AllowedCgroups'',
       sm_CgroupScopeEnabled = objs ''CgroupScopeEnabled''\<rparr>,
      \<lparr>em_Events = objs ''Events'', em_EventCursor = None, em_RingbufDrops = objs ''RingbufDrops'',
       em_CaptureGaps = objs ''CaptureGaps'', em_SyscallABI = None\<rparr>)"

definition ultraLegacyMapMaps :: "(string \<rightharpoonup> 'm) \<Rightarrow> 'm sensorMaps \<times> 'm eventMaps" where
  "ultraLegacyMapMaps objs =
     (\<lparr>sm_BlockedTgids = objs ''BlockedTgids'', sm_IocExtensions = objs ''IocExtensions'',
       sm_IocRansomNotes = objs ''IocRansomNotes'', sm_ProtectedDirs = objs ''ProtectedDirs'',
       sm_InlineIOCAction = None, sm_AllowedCgroups = objs ''AllowedCgroups'',
       sm_CgroupScopeEnabled = objs ''CgroupScopeEnabled''\<rparr>,
      \<lparr>em_Events = objs ''Events'', em_EventCursor = objs ''EventCursor'', em_RingbufDrops = objs ''RingbufDrops'',
       em_CaptureGaps = objs ''CaptureGaps'', em_SyscallABI = objs ''SyscallAbi''\<rparr>)"

definition coreFields :: "string list" where
  "coreFields = [
     ''TraceExecve'', ''TraceExecSuccess'', ''TraceProcessExit'', ''TraceOpenat'', ''TraceOpenatExit'',
     ''TraceOpenat2'', ''TraceOpenat2Exit'', ''TraceWrite'', ''TraceWriteExit'', ''TracePwrite64'',
     ''TracePwrite64Exit'', ''TraceWritev'', ''TraceWritevExit'', ''TraceCopyFileRange'', ''TraceGetdents64'',
     ''TraceMmap'', ''TraceIoUringEnter'', ''TraceConnect'', ''TraceClose'', ''TraceDup'', ''TraceDupExit'',
     ''TraceDup2'', ''TraceDup2Exit'', ''TraceDup3'', ''TraceDup3Exit'', ''TraceFcntl'', ''TraceFcntlExit'',
     ''TraceRename'', ''TraceRenameat'', ''TraceRenameat2'', ''TraceLink'', ''TraceLinkat'', ''TraceSymlink'',
     ''TraceSymlinkat'', ''TraceUnlink'', ''TraceUnlinkat'', ''TraceTruncate'', ''TraceFtruncate'',
     ''EnforceFileOpen'', ''EnforceFilePermission'', ''EnforcePathTruncate'', ''EnforcePathRename'',
     ''EnforceInodeRename'', ''EnforcePathMknod'', ''EnforceInodeCreate'', ''EnforcePathUnlink'',
     ''EnforceBprmCheckSecurity'', ''KpOverrideOpenat'', ''KpOverrideOpenat2'', ''KpOverrideRename'',
     ''KpOverrideRenameat'', ''KpOverrideRenameat2'', ''KpOverrideLink'', ''KpOverrideLinkat'',
     ''KpOverrideSymlink'', ''KpOverrideSymlinkat'', ''KpOverrideUnlink'', ''KpOverrideUnlinkat'',
     ''KpOverrideTruncate'', ''KpOverrideFtruncate'', ''KpOverrideExecve'', ''KpOverrideWrite'',
     ''KpOverridePwrite64'', ''KpOverrideWritev'', ''KpOverrideCopyFileRange'', ''KpOverrideGetdents64'',
     ''KpOverrideMmap'', ''KpOverrideIoUringEnter'']"

definition corePrograms :: "(string \<rightharpoonup> 'p) \<Rightarrow> string \<rightharpoonup> 'p" where
  "corePrograms objs = objs |` set coreFields"

definition legacyPerfFields :: "string list" where
  "legacyPerfFields = [
     ''TraceExecve'', ''TraceExecSuccess'', ''TraceProcessExit'', ''TraceOpenat'', ''TraceOpenatExit'',
     ''TraceOpenat2'', ''TraceOpenat2Exit'', ''TraceWrite'', ''TraceWriteExit'', ''TracePwrite64'',
     ''TracePwrite64Exit'', ''TraceWritev'', ''TraceWritevExit'', ''TraceCopyFileRange'', ''TraceGetdents64'',
     ''TraceMmap'', ''TraceIoUringEnter'', ''TraceConnect'', ''TraceClose'', ''TraceDup'', ''TraceDupExit'',
     ''TraceDup2'', ''TraceDup2Exit'', ''TraceDup3'', ''TraceDup3Exit'', ''TraceFcntl'', ''TraceFcntlExit'',
     ''TraceRename'', ''TraceRenameat'', ''TraceRenameat2'', ''TraceLink'', ''TraceLinkat'', ''TraceSymlink'',
     ''TraceSymlinkat'', ''TraceUnlink'', ''TraceUnlinkat'', ''TraceTruncate'', ''TraceFtruncate'',
     ''KpOverrideOpenat'', ''KpOverrideOpenat2'', ''KpOverrideRename'', ''KpOverrideRenameat'',
     ''KpOverrideRenameat2'', ''KpOverrideLink'', ''KpOverrideLinkat'', ''KpOverrideSymlink'',
     ''KpOverrideSymlinkat'', ''KpOverrideUnlink'', ''KpOverrideUnlinkat'', ''KpOverrideTruncate'',
     ''KpOverrideFtruncate'', ''KpOverrideExecve'', ''KpOverrideWrite'', ''KpOverridePwrite64'',
     ''KpOverrideWritev'', ''KpOverrideCopyFileRange'', ''KpOverrideGetdents64'', ''KpOverrideMmap'',
     ''KpOverrideIoUringEnter'']"

definition legacyPerfPrograms :: "(string \<rightharpoonup> 'p) \<Rightarrow> string \<rightharpoonup> 'p" where
  "legacyPerfPrograms objs = objs |` set legacyPerfFields"

definition ultraLegacyMapFields :: "string list" where
  "ultraLegacyMapFields = [
     ''KpOverrideOpen'', ''KpOverrideOpenat'', ''KpRetOpen'', ''KpRetOpenat'', ''KpOverrideRename'',
     ''KpOverrideLink'', ''KpOverrideSymlink'', ''KpOverrideUnlink'', ''KpOverrideTruncate'',
     ''KpOverrideFtruncate'', ''KpOverrideExecve'', ''KpOverrideWrite'', ''KpRetWrite'',
     ''KpOverridePwrite64'', ''KpRetPwrite64'', ''KpOverrideWritev'', ''KpRetWritev'', ''KpProcessExit'']"

definition ultraLegacyMapPrograms :: "(string \<rightharpoonup> 'p) \<Rightarrow> string \<rightharpoonup> 'p" where
  "ultraLegacyMapPrograms objs = objs |` set ultraLegacyMapFields"

section \<open>The loaders\<close>

record ('p, 'm) loadedSensorObjects =
  lo_maps :: "'m sensorMaps"
  lo_events :: "'m eventMaps"
  lo_programs :: "string \<rightharpoonup> 'p"

text \<open>
  The errors of a loader, with whether \<open>errors.As\<close> finds a configuration error in it. \<open>'t\<close> is the type
  information of \<open>github.com/cilium/ebpf/btf\<close>: \<open>loadSpec\<close> reads it from a file, \<open>kernelTypes\<close> is that of
  the running kernel, and \<open>renameParams\<close> looks up the hook in it.
\<close>

datatype load_error = BTFError string | SpecError | CollectionError | UnsupportedArch string

definition configError :: "load_error \<Rightarrow> bool" where
  "configError e = (case e of BTFError _ \<Rightarrow> True | _ \<Rightarrow> False)"

definition coreCollectionOptions :: "(string \<Rightarrow> 't option) \<Rightarrow> string \<Rightarrow> load_error + 't option" where
  "coreCollectionOptions loadSpec env =
     (let btfPath = TrimSpace env in
      if btfPath = [] then Inr None
      else case loadSpec btfPath of None \<Rightarrow> Inl (BTFError btfPath) | Some types \<Rightarrow> Inr (Some types))"

definition loadCoreSensorObjects ::
  "(string \<Rightarrow> 't option) \<Rightarrow> 't option \<Rightarrow> ('t \<Rightarrow> nat option) \<Rightarrow> programSpec list option \<Rightarrow>
   ('t option \<Rightarrow> ('p, 'm) collectionLoadFunc) \<Rightarrow> string \<Rightarrow> load_error + ('p, 'm) loadedSensorObjects" where
  "loadCoreSensorObjects loadSpec kernelTypes renameParams spec load btfEnv =
     (case coreCollectionOptions loadSpec btfEnv of
        Inl e \<Rightarrow> Inl e
      | Inr opts \<Rightarrow>
          (case spec of
             None \<Rightarrow> Inl SpecError
           | Some programs \<Rightarrow>
               let types = (case opts of None \<Rightarrow> kernelTypes | Some _ \<Rightarrow> opts);
                   params = (case types of None \<Rightarrow> None | Some ty \<Rightarrow> renameParams ty)
               in case loadGroupedCollections (load opts) (selectPathRenameVariant params programs) of
                    None \<Rightarrow> Inl CollectionError
                  | Some bundle \<Rightarrow>
                      let maps = coreMaps (bindAvailableObjects ransomwareMaps (map_of (bu_maps bundle)));
                          objs = bindAvailableObjects ransomwarePrograms (bu_programs bundle);
                          objs1 = (case bu_programs bundle ''enforce_path_rename_legacy'' of
                                     None \<Rightarrow> objs | Some prog \<Rightarrow> objs(''EnforcePathRename'' \<mapsto> prog))
                      in Inr \<lparr>lo_maps = fst maps, lo_events = snd maps, lo_programs = corePrograms objs1\<rparr>))"

definition loadLegacyPerfSensorObjects ::
  "programSpec list option \<Rightarrow> ('p, 'm) collectionLoadFunc \<Rightarrow> load_error + ('p, 'm) loadedSensorObjects" where
  "loadLegacyPerfSensorObjects spec load =
     (case spec of
        None \<Rightarrow> Inl SpecError
      | Some programs \<Rightarrow>
          (case loadGroupedCollections load programs of
             None \<Rightarrow> Inl CollectionError
           | Some bundle \<Rightarrow>
               let maps = legacyPerfMaps (bindAvailableObjects ransomwareLegacyMaps (map_of (bu_maps bundle)))
               in Inr \<lparr>lo_maps = fst maps, lo_events = snd maps,
                    lo_programs = legacyPerfPrograms
                      (bindAvailableObjects ransomwareLegacyPrograms (bu_programs bundle))\<rparr>))"

definition validateUltraLegacyArchitecture :: "string \<Rightarrow> load_error option" where
  "validateUltraLegacyArchitecture arch = (if arch \<noteq> ''amd64'' then Some (UnsupportedArch arch) else None)"

text \<open>\<open>assign\<close> is \<open>LoadAndAssign\<close>: the maps and programs of the generated struct by their tags, or an error.\<close>

definition loadUltraLegacyMapSensorObjects ::
  "string \<Rightarrow> ((string \<rightharpoonup> 'm) \<times> (string \<rightharpoonup> 'p)) option \<Rightarrow> load_error + ('p, 'm) loadedSensorObjects" where
  "loadUltraLegacyMapSensorObjects arch assign =
     (case validateUltraLegacyArchitecture arch of
        Some e \<Rightarrow> Inl e
      | None \<Rightarrow>
          (case assign of
             None \<Rightarrow> Inl CollectionError
           | Some (ms, ps) \<Rightarrow>
               let maps = ultraLegacyMapMaps (bindAvailableObjects ransomwareUltraLegacyMaps ms)
               in Inr \<lparr>lo_maps = fst maps, lo_events = snd maps,
                    lo_programs = ultraLegacyMapPrograms
                      (bindAvailableObjects ransomwareUltraLegacyPrograms ps)\<rparr>))"

definition loadResultOf :: "load_error + ('p, 'm) loadedSensorObjects \<Rightarrow> 'm loadResult" where
  "loadResultOf r =
     (case r of Inl e \<Rightarrow> LoadFailed (configError e) | Inr l \<Rightarrow> Loaded (lo_maps l) (em_SyscallABI (lo_events l)))"

end
