(* ===== verification/SensorPolicy_Laws.thy ===== *)
theory SensorPolicy_Laws
  imports SensorPolicy "HOL-Library.AList"
begin

text \<open>
  What the kernel maps hold after the sensor has been configured, and what blocking a process writes, for any BPF
  map that behaves as documented (\<open>lawfulMap\<close>).
\<close>

section \<open>Lawful maps\<close>

lemma lawful_put: "lawfulMap ops view \<Longrightarrow> op_put ops m k v = Some m' \<Longrightarrow> view m' = (view m)(k \<mapsto> v)"
  by (simp add: lawfulMap_def)

lemma lawful_delete: "lawfulMap ops view \<Longrightarrow> op_delete ops m k = Deleted m' \<Longrightarrow> view m' = (view m)(k := None)"
  by (simp add: lawfulMap_def)

lemma lawful_missing: "lawfulMap ops view \<Longrightarrow> op_delete ops m k = KeyNotExist \<Longrightarrow> view m k = None"
  by (simp add: lawfulMap_def)

lemma lawful_keys: "lawfulMap ops view \<Longrightarrow> op_keys ops m = Some ks \<Longrightarrow> set ks = dom (view m)"
  by (simp add: lawfulMap_def)

lemma deleteAll_view:
  assumes "lawfulMap ops view" and "deleteAll ops ks m = (None, m')"
  shows "view m' = (\<lambda>k. if k \<in> set ks then None else view m k)"
  using assms(2)
proof (induction ks arbitrary: m)
  case Nil
  then show ?case by simp
next
  case (Cons k ks)
  then show ?case
    using lawful_delete [OF assms(1), of m k] lawful_missing [OF assms(1), of m k]
    by (auto simp: fun_eq_iff split: deleteResult.splits)
qed

lemma clearMap_view:
  assumes "lawfulMap ops view" and "clearMap ops m = (None, m')"
  shows "view m' = Map.empty"
proof -
  obtain ks where "op_keys ops m = Some ks" "deleteAll ops ks m = (None, m')"
    using assms(2) by (auto simp: clearMap_def split: if_splits option.splits)
  then show ?thesis
    using deleteAll_view [OF assms(1)] lawful_keys [OF assms(1)] by (auto simp: fun_eq_iff domIff)
qed

definition keysOf :: "(string \<Rightarrow> mapKey option) \<Rightarrow> string list \<Rightarrow> mapKey set" where
  "keysOf keyOf vs = {k. \<exists>v \<in> set vs. keyOf v = Some k}"

lemma keysOf_simps [simp]:
  "keysOf keyOf [] = {}" "keysOf keyOf (v # vs) = set_option (keyOf v) \<union> keysOf keyOf vs"
  by (auto simp: keysOf_def)

lemma syncLoop_view:
  assumes "lawfulMap ops view" and "syncLoop ops keyOf seen vs m = (Inr n, m')"
    and "dom (view m) = set seen" and "distinct seen"
  shows "dom (view m') = set seen \<union> keysOf keyOf vs \<and> n = card (dom (view m'))"
  using assms(2-)
proof (induction vs arbitrary: seen m)
  case Nil
  then show ?case by (simp add: distinct_card)
next
  case (Cons v vs)
  show ?case
  proof (cases "keyOf v")
    case None
    with Cons.prems Cons.IH [of seen m] show ?thesis by simp
  next
    case (Some k)
    show ?thesis
    proof (cases "k \<in> set seen")
      case True
      with Some Cons.prems Cons.IH [of seen m] show ?thesis by auto
    next
      case False
      then obtain m1 where p: "op_put ops m k (V8 1) = Some m1" "syncLoop ops keyOf (k # seen) vs m1 = (Inr n, m')"
        using Some Cons.prems(1) by (auto split: option.splits)
      have "dom (view m1) = set (k # seen)" using lawful_put [OF assms(1) p(1)] Cons.prems(2) by simp
      with Cons.IH [OF p(2)] Cons.prems(3) False Some show ?thesis by auto
    qed
  qed
qed

lemma syncSet_view:
  assumes "lawfulMap ops view" and "syncSet ops keyOf vs m = (Inr n, m')"
  shows "dom (view m') = keysOf keyOf vs \<and> n = card (keysOf keyOf vs)"
proof -
  obtain m1 where c: "clearMap ops m = (None, m1)" "syncLoop ops keyOf [] vs m1 = (Inr n, m')"
    using assms(2) by (auto simp: syncSet_def split: prod.splits option.splits)
  have "dom (view m1) = set []" using clearMap_view [OF assms(1) c(1)] by simp
  then show ?thesis using syncLoop_view [OF assms(1) c(2)] by simp
qed

lemma syncHashSet_view:
  assumes "lawfulMap ops view" and "syncHashSet ops h vs m = (Inr n, m')"
  shows "\<exists>m1. m' = Some m1 \<and> dom (view m1) = keysOf (hashKey h) vs"
proof -
  obtain m0 where m0: "m = Some m0" using assms(2) by (cases m) (auto simp: syncHashSet_def)
  obtain res m1 where s: "syncSet ops (hashKey h) vs m0 = (res, m1)" by (metis surj_pair)
  then have "res = Inr n" "m' = Some m1" using assms(2) m0 by (auto simp: syncHashSet_def)
  with syncSet_view [OF assms(1)] s show ?thesis by blast
qed

lemma syncProtectedDirs_view:
  assumes "lawfulMap ops view" and "syncProtectedDirs ops stat vs m = (Inr n, m')"
  shows "\<exists>m1. m' = Some m1 \<and> dom (view m1) = keysOf (dirKeyOf stat) vs"
proof -
  obtain m0 where m0: "m = Some m0" using assms(2) by (cases m) (auto simp: syncProtectedDirs_def)
  obtain res m1 where s: "syncSet ops (dirKeyOf stat) vs m0 = (res, m1)" by (metis surj_pair)
  then have "res = Inr n" "m' = Some m1" using assms(2) m0 by (auto simp: syncProtectedDirs_def)
  with syncSet_view [OF assms(1)] s show ?thesis by blast
qed

lemma finite_keysOf: "finite (keysOf keyOf vs)"
proof -
  have "keysOf keyOf vs \<subseteq> (\<lambda>v. the (keyOf v)) ` set vs" by (force simp: keysOf_def)
  then show ?thesis using finite_surj by blast
qed

lemma syncCgroupScope_view:
  assumes "lawfulMap ops view" and "syncCgroupScope ops stat vs al en = (Inr n, al', en')"
  shows "\<exists>m1 m2. al' = Some m1 \<and> en' = Some m2 \<and> dom (view m1) = keysOf (cgroupKey stat) vs \<and>
    view m2 (K32 0) = Some (V8 (if keysOf (cgroupKey stat) vs = {} then 0 else 1))"
proof -
  obtain a0 e0 where 0: "al = Some a0" "en = Some e0"
    using assms(2) by (cases al; cases en) (auto simp: syncCgroupScope_def)
  obtain res a1 where s: "syncSet ops (cgroupKey stat) vs a0 = (res, a1)" by (metis surj_pair)
  then obtain k where k: "res = Inr k" using assms(2) 0 by (cases res) (auto simp: syncCgroupScope_def)
  obtain r e1 where p: "putEnabled ops e0 k = (r, e1)" by (metis surj_pair)
  have eqs: "r = Inr n" "al' = Some a1" "en' = Some e1" using assms(2) 0 s k p by (auto simp: syncCgroupScope_def)
  have d: "dom (view a1) = keysOf (cgroupKey stat) vs" "k = card (keysOf (cgroupKey stat) vs)"
    using syncSet_view [OF assms(1)] s k by blast+
  have "op_put ops e0 (K32 0) (V8 (if 0 < k then 1 else 0)) = Some e1"
    using p eqs(1) by (auto simp: putEnabled_def split: option.splits)
  then have "view e1 (K32 0) = Some (V8 (if 0 < k then 1 else 0))" using lawful_put [OF assms(1)] by fastforce
  then show ?thesis using d eqs finite_keysOf [of "cgroupKey stat" vs] by (auto simp: card_gt_0_iff)
qed

text \<open>A BPF map as an association list with the size of its keys.\<close>

type_synonym listMap = "(mapKey \<times> mapVal) list \<times> nat"

definition listOps :: "listMap mapOps" where
  "listOps = \<lparr>op_put = (\<lambda>m k v. Some (AList.update k v (fst m), snd m)),
     op_delete = (\<lambda>m k. if map_of (fst m) k = None then KeyNotExist else Deleted (AList.delete k (fst m), snd m)),
     op_keys = (\<lambda>m. Some (map fst (fst m))), op_keySize = snd\<rparr>"

definition listView :: "listMap \<Rightarrow> mapKey \<rightharpoonup> mapVal" where
  "listView m = map_of (fst m)"

lemma listOps_lawful: "lawfulMap listOps listView"
  by (auto simp: lawfulMap_def listOps_def listView_def update_conv' delete_conv' dom_map_of_conv_image_fst
      split: if_splits)

definition emptyMaps :: "listMap sensorMaps" where
  "emptyMaps = \<lparr>sm_BlockedTgids = Some ([], 4), sm_IocExtensions = Some ([(K64 3, V8 1)], 8),
     sm_IocRansomNotes = Some ([], 8), sm_ProtectedDirs = Some ([], 16), sm_InlineIOCAction = Some ([], 4),
     sm_AllowedCgroups = Some ([], 8), sm_CgroupScopeEnabled = Some ([], 4)\<rparr>"

text \<open>Configuring these maps succeeds for every policy.\<close>

lemma deleteAll_listOps: "\<exists>xs. deleteAll listOps ks m = (None, (xs, snd m))"
  by (induction ks arbitrary: m) (auto simp: listOps_def)

lemma syncLoop_listOps: "\<exists>n m'. syncLoop listOps keyOf seen vs m = (Inr n, m')"
  by (induction vs arbitrary: seen m) (auto simp: listOps_def split: option.split)

lemma syncSet_listOps: "snd m \<in> {8, 16} \<Longrightarrow> \<exists>n m'. syncSet listOps keyOf vs m = (Inr n, m')"
  using deleteAll_listOps [of "map fst (fst m)" m] syncLoop_listOps
  by (auto simp: syncSet_def clearMap_def listOps_def)

lemma listOps_configures: "fst (ConfigurePolicy listOps stat p emptyMaps) = None"
proof -
  obtain n1 m1 where 1: "syncSet listOps (hashKey iocHash) (pol_SuspiciousExtensions p) ([(K64 3, V8 1)], 8) = (Inr n1, m1)"
    using syncSet_listOps by fastforce
  obtain n2 m2 where 2: "syncSet listOps (hashKey iocHash) (pol_RansomNoteNames p) ([], 8) = (Inr n2, m2)"
    using syncSet_listOps by fastforce
  obtain n3 m3 where 3: "syncSet listOps (dirKeyOf stat) (pol_ProtectedDirs p) ([], 16) = (Inr n3, m3)"
    using syncSet_listOps by fastforce
  obtain n4 m4 where 4: "syncSet listOps (cgroupKey stat) (pol_CgroupPaths p) ([], 8) = (Inr n4, m4)"
    using syncSet_listOps by fastforce
  have 5: "op_put listOps m k v = Some (AList.update k v (fst m), snd m)" for m k v by (simp add: listOps_def)
  show ?thesis
    by (simp add: ConfigurePolicy_def syncHashSet_def syncProtectedDirs_def syncCgroupScope_def emptyMaps_def Let_def
        1 2 3 4 5 putEnabled_def)
qed

lemma ConfigurePolicy_inline:
  assumes "ConfigurePolicy ops stat p sm = (e, sm')"
  shows "sm_InlineIOCAction sm' = sm_InlineIOCAction sm" and "sm_BlockedTgids sm' = sm_BlockedTgids sm"
  using assms by (auto simp: ConfigurePolicy_def Let_def split: prod.splits sum.splits)

lemma ConfigurePolicy_view:
  assumes "lawfulMap ops view" and "ConfigurePolicy ops stat p sm = (None, sm')"
  shows "\<exists>ext nts dirs cgs on.
    sm_IocExtensions sm' = Some ext \<and> dom (view ext) = keysOf (hashKey iocHash) (pol_SuspiciousExtensions p) \<and>
    sm_IocRansomNotes sm' = Some nts \<and> dom (view nts) = keysOf (hashKey iocHash) (pol_RansomNoteNames p) \<and>
    sm_ProtectedDirs sm' = Some dirs \<and> dom (view dirs) = keysOf (dirKeyOf stat) (pol_ProtectedDirs p) \<and>
    sm_AllowedCgroups sm' = Some cgs \<and> dom (view cgs) = keysOf (cgroupKey stat) (pol_CgroupPaths p) \<and>
    sm_CgroupScopeEnabled sm' = Some on \<and>
    view on (K32 0) = Some (V8 (if dom (view cgs) = {} then 0 else 1))"
proof -
  obtain r1 m1 where 1: "syncHashSet ops iocHash (pol_SuspiciousExtensions p) (sm_IocExtensions sm) = (r1, m1)"
    by (metis surj_pair)
  obtain r2 m2 where 2: "syncHashSet ops iocHash (pol_RansomNoteNames p) (sm_IocRansomNotes sm) = (r2, m2)"
    by (metis surj_pair)
  obtain r3 m3 where 3: "syncProtectedDirs ops stat (pol_ProtectedDirs p) (sm_ProtectedDirs sm) = (r3, m3)"
    by (metis surj_pair)
  obtain r4 al en where 4: "syncCgroupScope ops stat (pol_CgroupPaths p) (sm_AllowedCgroups sm)
      (sm_CgroupScopeEnabled sm) = (r4, al, en)" by (metis surj_pair)
  obtain n1 n2 n3 n4 where n: "r1 = Inr n1" "r2 = Inr n2" "r3 = Inr n3" "r4 = Inr n4"
    and sm': "sm' = sm\<lparr>sm_IocExtensions := m1, sm_IocRansomNotes := m2, sm_ProtectedDirs := m3,
      sm_AllowedCgroups := al, sm_CgroupScopeEnabled := en\<rparr>"
    using assms(2) 1 2 3 4 by (cases r1; cases r2; cases r3; cases r4) (auto simp: ConfigurePolicy_def Let_def)
  obtain ext where e: "m1 = Some ext" "dom (view ext) = keysOf (hashKey iocHash) (pol_SuspiciousExtensions p)"
    using syncHashSet_view [OF assms(1) 1 [unfolded n]] by blast
  obtain nts where o: "m2 = Some nts" "dom (view nts) = keysOf (hashKey iocHash) (pol_RansomNoteNames p)"
    using syncHashSet_view [OF assms(1) 2 [unfolded n]] by blast
  obtain dirs where d: "m3 = Some dirs" "dom (view dirs) = keysOf (dirKeyOf stat) (pol_ProtectedDirs p)"
    using syncProtectedDirs_view [OF assms(1) 3 [unfolded n]] by blast
  obtain cgs on where c: "al = Some cgs" "en = Some on" "dom (view cgs) = keysOf (cgroupKey stat) (pol_CgroupPaths p)"
    "view on (K32 0) = Some (V8 (if keysOf (cgroupKey stat) (pol_CgroupPaths p) = {} then 0 else 1))"
    using syncCgroupScope_view [OF assms(1) 4 [unfolded n]] by blast
  show ?thesis
    by (rule exI [of _ ext], rule exI [of _ nts], rule exI [of _ dirs], rule exI [of _ cgs], rule exI [of _ on])
      (simp add: sm' e o d c del: dom_eq_empty_conv)
qed

text \<open>
  C9. A successful configuration leaves exactly the policy in the kernel: whatever the maps held before, the indicator
  sets hold the hashes of the non-blank names, the directory set the inodes of the directories that
  exist, the cgroup set those of the resolvable cgroups, and the cgroup scope is on exactly when
  that set is not empty.
\<close>

theorem ConfigurePolicy_exact:
  assumes "lawfulMap ops view" and "ConfigurePolicy ops stat p sm = (None, sm')"
  shows "\<exists>ext nts dirs cgs on.
    sm_IocExtensions sm' = Some ext \<and> dom (view ext) = keysOf (hashKey iocHash) (pol_SuspiciousExtensions p) \<and>
    sm_IocRansomNotes sm' = Some nts \<and> dom (view nts) = keysOf (hashKey iocHash) (pol_RansomNoteNames p) \<and>
    sm_ProtectedDirs sm' = Some dirs \<and> dom (view dirs) = keysOf (dirKeyOf stat) (pol_ProtectedDirs p) \<and>
    sm_AllowedCgroups sm' = Some cgs \<and> dom (view cgs) = keysOf (cgroupKey stat) (pol_CgroupPaths p) \<and>
    sm_CgroupScopeEnabled sm' = Some on \<and>
    view on (K32 0) = Some (V8 (if dom (view cgs) = {} then 0 else 1))"
  using assms by (rule ConfigurePolicy_view)

theorem ConfigurePolicy_exact_witness:
  "let p = zeroPolicy\<lparr>pol_SuspiciousExtensions := [''.locked'', '' '']\<rparr> in
   \<exists>ext. sm_IocExtensions (snd (ConfigurePolicy listOps (\<lambda>_. None) p emptyMaps)) = Some ext \<and>
     dom (listView ext) = keysOf (hashKey iocHash) [''.locked'', '' '']"
proof -
  let ?p = "zeroPolicy\<lparr>pol_SuspiciousExtensions := [''.locked'', '' '']\<rparr>"
  have ok: "fst (ConfigurePolicy listOps (\<lambda>_. None) ?p emptyMaps) = None" by code_simp
  obtain e sm' where c: "ConfigurePolicy listOps (\<lambda>_. None) ?p emptyMaps = (e, sm')" by (metis surj_pair)
  with ok have "e = None" by simp
  with ConfigurePolicy_exact [OF listOps_lawful, of "\<lambda>_. None" ?p emptyMaps sm'] c show ?thesis by auto
qed

section \<open>Confinement of cgroup paths\<close>

lemma cleanSteps_suffix: "''..'' \<notin> set cs \<Longrightarrow> \<exists>xs. foldl (cleanStep r) st cs = xs @ st"
proof (induction cs arbitrary: st)
  case Nil
  then show ?case by simp
next
  case (Cons c cs)
  then obtain xs where "foldl (cleanStep r) (cleanStep r st c) cs = xs @ cleanStep r st c" by fastforce
  moreover have "\<exists>ys. cleanStep r st c = ys @ st" using Cons.prems by (auto simp: cleanStep_def)
  ultimately show ?case by (metis append.assoc foldl_Cons)
qed

lemma Split_Clean_no_dotdot:
  assumes "Clean q \<noteq> ''..''" and "\<not> HasPrefix (Clean q) ''../''"
  shows "''..'' \<notin> set (Split CHR ''/'' (Clean q))"
proof -
  obtain k ds where d: "cleanComps q = replicate k ''..'' @ ds" "list_all plainComp ds" "IsAbs q \<longrightarrow> k = 0"
    using normComps_cleanComps [of q] by (auto simp: normComps_def)
  have "k = 0"
  proof (rule ccontr)
    assume "k \<noteq> 0"
    then obtain cs where cs: "cleanComps q = ''..'' # cs" "\<not> IsAbs q" using d by (cases k) auto
    then show False using assms by (cases cs) (auto simp: Clean_def HasPrefix_iff)
  qed
  then have p: "list_all plainComp (cleanComps q)" using d by simp
  then have ns: "\<forall>c \<in> set (cleanComps q). CHR ''/'' \<notin> set c" by (simp add: list_all_iff plainComp_def)
  show ?thesis
    using plainComp_ne_dotdot [OF p] Split_joinSlash [OF _ ns] by (cases "cleanComps q = []") (auto simp: Clean_def)
qed

text \<open>
  C28. A configured cgroup path cannot lead out of the cgroup file system: whatever the text, with any number of parent
  references, the path that is looked up is refused or has \<open>/sys/fs/cgroup\<close> as a leading directory
  once it is cleaned.
\<close>

theorem cgroupFSPath_confined:
  "cgroupFSPath p = [] \<or>
   IsAbs (cgroupFSPath p) \<and> prefix [''sys'', ''fs'', ''cgroup''] (cleanComps (cgroupFSPath p))"
proof -
  have base: "foldl (cleanStep True) [] (Split CHR ''/'' ''/sys/fs/cgroup'') = rev [''sys'', ''fs'', ''cgroup'']"
    by (simp add: cleanStep_def)
  have root: "IsAbs ''/sys/fs/cgroup'' \<and> cleanComps ''/sys/fs/cgroup'' = [''sys'', ''fs'', ''cgroup'']"
    using base by (simp add: cleanComps_def)
  define q where "q = Clean (TrimPrefix (TrimSpace p) ''/'')"
  have "IsAbs (Join2 ''/sys/fs/cgroup'' q) \<and> prefix [''sys'', ''fs'', ''cgroup''] (cleanComps (Join2 ''/sys/fs/cgroup'' q))"
    if "q \<noteq> ''..''" "\<not> HasPrefix q ''../''"
  proof -
    have "''..'' \<notin> set (Split CHR ''/'' q)" using Split_Clean_no_dotdot that by (simp add: q_def)
    then obtain xs where "foldl (cleanStep True) (rev [''sys'', ''fs'', ''cgroup'']) (Split CHR ''/'' q) =
        xs @ rev [''sys'', ''fs'', ''cgroup'']" using cleanSteps_suffix by blast
    then have "cleanComps (''/sys/fs/cgroup'' @ CHR ''/'' # q) = [''sys'', ''fs'', ''cgroup''] @ rev xs"
      using base unfolding cleanComps_def Split_append_at foldl_append by simp
    then show ?thesis by (simp add: Join2_def IsAbs_Clean cleanComps_Clean)
  qed
  then show ?thesis using root by (simp add: cgroupFSPath_def Let_def q_def)
qed

section \<open>Blocking\<close>

text \<open>
  Blocking is all or nothing: an error leaves the kernel maps as they were; success means a non-zero process, a
  supported action, deny only where it is available, and exactly one entry written, which expires at the
  uptime plus the TTL (in 64-bit arithmetic) or, without a TTL, never.
\<close>

lemma BlockTGID_cases:
  assumes "lawfulMap ops view"
  shows "case BlockTGID ops uptime caps sm tgid action ttl of
     (Some e, sm') \<Rightarrow> sm' = sm
   | (None, sm') \<Rightarrow> tgid \<noteq> 0 \<and> action \<in> {BlockActionDeny, BlockActionKill} \<and>
       (action = BlockActionKill \<or> ca_DenyAvailable caps) \<and>
       (\<exists>m m'. sm_BlockedTgids sm = Some m \<and> sm' = sm\<lparr>sm_BlockedTgids := Some m'\<rparr> \<and>
          view m' = (view m)(K32 tgid \<mapsto> VBlock \<lparr>be_ExpiresNs =
            (if 0 < ttl then word_of_int (add64 (the uptime) ttl) else 0), be_Reason = 1, be_Action = action\<rparr>))"
  using lawful_put [OF assms] by (auto simp: BlockTGID_def Let_def split: option.splits if_splits)

definition plainCaps :: capabilities where
  "plainCaps = \<lparr>ca_Mode = ''core'', ca_DenyAvailable = False, ca_DenyOpenat = False, ca_UserspaceKill = True,
     ca_LSMHooks = [], ca_OverrideHooks = []\<rparr>"

end
