(* ===== verification/SensorLoad_Laws.thy ===== *)
theory SensorLoad_Laws
  imports SensorLoad SensorPolicy_Laws
begin

text \<open>
  What a grouped load leaves in the sensor: every base program, the optional programs the kernel accepts, and nothing
  that closing the bundle would miss. With the generated bindings this gives that no tracepoint of
  \<open>attachTracepoints\<close> can miss its program.
\<close>

section \<open>Grouped loading\<close>

text \<open>The documented behaviour of the loader: a collection holds the programs of its specification.\<close>

definition lawfulLoad :: "('p, 'm) collectionLoadFunc \<Rightarrow> bool" where
  "lawfulLoad load \<longleftrightarrow>
     (\<forall>ps shared c. load ps shared = Some c \<longrightarrow> set (map fst (co_Programs c)) = set (map fst ps))"

definition groupOf :: "programSpec list \<Rightarrow> string \<Rightarrow> programSpec list" where
  "groupOf spec name = filter (\<lambda>ps. fst ps = name) spec"

lemma loadOptional_frame [simp]:
  "bu_maps (loadOptional load spec core name b) = bu_maps b"
  "bu_collections (loadOptional load spec core name b) = bu_collections b @
     List.map_filter (\<lambda>n. load (groupOf spec n) (Some (co_Maps core))) [name]"
  "bu_programs (loadOptional load spec core name b) n =
     (case load (groupOf spec name) (Some (co_Maps core)) of
        None \<Rightarrow> bu_programs b n
      | Some c \<Rightarrow> if n = name then map_of (co_Programs c) n else bu_programs b n)"
  by (simp_all add: loadOptional_def groupOf_def List.map_filter_simps split: option.splits)

lemma fold_loadOptional_frame [simp]:
  "bu_maps (fold (loadOptional load spec core) names b) = bu_maps b"
  "bu_collections (fold (loadOptional load spec core) names b) = bu_collections b @
     List.map_filter (\<lambda>n. load (groupOf spec n) (Some (co_Maps core))) names"
  by (induction names arbitrary: b) (auto simp: List.map_filter_simps split: option.splits)

lemma fold_loadOptional_programs:
  "bu_programs (fold (loadOptional load spec core) names b) n =
     (case load (groupOf spec n) (Some (co_Maps core)) of
        None \<Rightarrow> bu_programs b n
      | Some c \<Rightarrow> if n \<in> set names then map_of (co_Programs c) n else bu_programs b n)"
  by (induction names arbitrary: b) (auto split: option.splits)

lemma loadGrouped_Some:
  assumes "loadGroupedCollections load spec = Some b"
  obtains core where "load (filter (\<lambda>ps. \<not> optionalProgram ps) spec) None = Some core"
    and "bu_maps b = co_Maps core"
    and "bu_collections b = core # List.map_filter (\<lambda>n. load (groupOf spec n) (Some (co_Maps core)))
           (sort (map fst (filter optionalProgram spec)))"
    and "\<And>n. bu_programs b n = (case load (groupOf spec n) (Some (co_Maps core)) of
              None \<Rightarrow> map_of (co_Programs core) n
            | Some c \<Rightarrow> if n \<in> fst ` {ps \<in> set spec. optionalProgram ps} then map_of (co_Programs c) n
                       else map_of (co_Programs core) n)"
proof -
  obtain core where c: "load (filter (\<lambda>ps. \<not> optionalProgram ps) spec) None = Some core"
    and b: "b = fold (loadOptional load spec core) (sort (map fst (filter optionalProgram spec)))
      \<lparr>bu_collections = [core], bu_maps = co_Maps core, bu_programs = map_of (co_Programs core)\<rparr>"
    using assms by (auto simp: loadGroupedCollections_def Let_def split: option.splits)
  show ?thesis
    by (rule that [OF c]) (simp_all add: b fold_loadOptional_programs split: option.split)
qed

lemma map_of_name: "set (map fst xs) = set names \<Longrightarrow> map_of xs n \<noteq> None \<longleftrightarrow> n \<in> set names"
  by (metis map_of_eq_None_iff set_map)

lemma fst_unique: "distinct (map fst xs) \<Longrightarrow> p \<in> set xs \<Longrightarrow> q \<in> set xs \<Longrightarrow> fst p = fst q \<Longrightarrow> p = q"
  by (metis eq_key_imp_eq_value prod.collapse prod.inject)

lemma closes_collection:
  assumes "c \<in> set (bu_collections b)"
  shows "set (handles c) \<subseteq> set (fst (bundleClose b))"
  using assms by (auto simp: bundleClose_def)

lemma map_of_handle:
  "map_of (co_Programs c) n = Some p \<Longrightarrow> ProgramHandle p \<in> set (handles c)"
  "map_of (co_Maps c) n = Some m \<Longrightarrow> MapHandle m \<in> set (handles c)"
  by (force simp: handles_def dest: map_of_SomeD)+

lemma programs_dom:
  assumes "lawfulLoad load" and "distinct (map fst spec)"
    and "load (filter (\<lambda>ps. \<not> optionalProgram ps) spec) None = Some core"
  shows "(case load (groupOf spec n) shared of None \<Rightarrow> map_of (co_Programs core) n
      | Some c \<Rightarrow> if n \<in> fst ` {ps \<in> set spec. optionalProgram ps} then map_of (co_Programs c) n
                 else map_of (co_Programs core) n) \<noteq> None \<longleftrightarrow>
    n \<in> fst ` {ps \<in> set spec. \<not> optionalProgram ps \<or> load (groupOf spec (fst ps)) shared \<noteq> None}"
proof -
  define B where "B = fst ` {ps \<in> set spec. \<not> optionalProgram ps}"
  define Q where "Q = fst ` {ps \<in> set spec. optionalProgram ps}"
  have "map_of (co_Programs core) n \<noteq> None \<longleftrightarrow> n \<in> set (map fst (filter (\<lambda>ps. \<not> optionalProgram ps) spec))"
    using assms(1,3) by (intro map_of_name) (simp add: lawfulLoad_def)
  then have base: "map_of (co_Programs core) n \<noteq> None \<longleftrightarrow> n \<in> B" by (simp only: B_def set_map set_filter)
  have group: "map_of (co_Programs c) n \<noteq> None \<longleftrightarrow> n \<in> B \<union> Q" if "load (groupOf spec n) shared = Some c" for c
  proof -
    have "map_of (co_Programs c) n \<noteq> None \<longleftrightarrow> n \<in> set (map fst (groupOf spec n))"
      using assms(1) that by (intro map_of_name) (simp add: lawfulLoad_def)
    then show ?thesis unfolding groupOf_def B_def Q_def by auto
  qed
  have one: "n \<notin> Q" if "n \<in> B" using that fst_unique [OF assms(2)] unfolding B_def Q_def by blast
  have "n \<in> fst ` {ps \<in> set spec. \<not> optionalProgram ps \<or> load (groupOf spec (fst ps)) shared \<noteq> None} \<longleftrightarrow>
      n \<in> B \<or> n \<in> Q \<and> load (groupOf spec n) shared \<noteq> None"
    unfolding B_def Q_def by blast
  then show ?thesis
    unfolding Q_def [symmetric] using base group one by (cases "load (groupOf spec n) shared") auto
qed

lemma program_closed:
  assumes "bu_collections b = core # List.map_filter f names"
  shows "map_of (co_Programs core) n = Some p \<Longrightarrow> ProgramHandle p \<in> set (fst (bundleClose b))"
    and "f n = Some c \<Longrightarrow> n \<in> set names \<Longrightarrow> map_of (co_Programs c) n = Some p \<Longrightarrow>
      ProgramHandle p \<in> set (fst (bundleClose b))"
proof -
  have "core \<in> set (bu_collections b)" using assms by simp
  from subsetD [OF closes_collection [OF this] map_of_handle(1)]
  show "map_of (co_Programs core) n = Some p \<Longrightarrow> ProgramHandle p \<in> set (fst (bundleClose b))" .
next
  assume f: "f n = Some c" "n \<in> set names" "map_of (co_Programs c) n = Some p"
  have "c \<in> set (List.map_filter f names)"
    unfolding List.map_filter_def using f(1,2) by (auto intro!: image_eqI [of _ _ n])
  then have "c \<in> set (bu_collections b)" using assms by simp
  from subsetD [OF closes_collection [OF this] map_of_handle(1) [OF f(3)]]
  show "ProgramHandle p \<in> set (fst (bundleClose b))" .
qed

lemma loadGrouped_dom:
  assumes "lawfulLoad load" and "distinct (map fst spec)" and "loadGroupedCollections load spec = Some b"
  shows "dom (bu_programs b) = fst ` {ps \<in> set spec. \<not> optionalProgram ps \<or>
    load (groupOf spec (fst ps)) (Some (bu_maps b)) \<noteq> None}"
proof -
  obtain core where c: "load (filter (\<lambda>ps. \<not> optionalProgram ps) spec) None = Some core"
    and m: "bu_maps b = co_Maps core"
    and ps: "\<And>n. bu_programs b n = (case load (groupOf spec n) (Some (co_Maps core)) of
        None \<Rightarrow> map_of (co_Programs core) n
      | Some c \<Rightarrow> if n \<in> fst ` {ps \<in> set spec. optionalProgram ps} then map_of (co_Programs c) n
                 else map_of (co_Programs core) n)"
    using assms(3) by (rule loadGrouped_Some) blast
  show ?thesis unfolding m by (rule set_eqI) (simp only: domIff ps programs_dom [OF assms(1,2) c])
qed

text \<open>
  C26. A grouped load fails only if the base programs do not load; otherwise the bundle has exactly the base programs and
  those optional programs that loaded on their own with the shared maps, and \<open>Close\<close> closes every program
  and every map the bundle hands out.
\<close>

theorem loadGroupedCollections_exact:
  assumes "lawfulLoad load" and "distinct (map fst spec)"
  shows "case loadGroupedCollections load spec of
     None \<Rightarrow> load (filter (\<lambda>ps. \<not> optionalProgram ps) spec) None = None
   | Some b \<Rightarrow>
       dom (bu_programs b) = fst ` {ps \<in> set spec. \<not> optionalProgram ps \<or>
         load (groupOf spec (fst ps)) (Some (bu_maps b)) \<noteq> None} \<and>
       ProgramHandle ` ran (bu_programs b) \<union> MapHandle ` ran (map_of (bu_maps b)) \<subseteq> set (fst (bundleClose b)) \<and>
       bu_collections (snd (bundleClose b)) = []"
proof (cases "loadGroupedCollections load spec")
  case None
  then show ?thesis by (simp add: loadGroupedCollections_def Let_def split: option.splits)
next
  case (Some b)
  let ?l = "\<lambda>n core. load (groupOf spec n) (Some (co_Maps core))"
  from Some obtain core where c: "load (filter (\<lambda>ps. \<not> optionalProgram ps) spec) None = Some core"
    and m: "bu_maps b = co_Maps core"
    and cs: "bu_collections b = core # List.map_filter (\<lambda>n. ?l n core) (sort (map fst (filter optionalProgram spec)))"
    and ps: "\<And>n. bu_programs b n = (case ?l n core of None \<Rightarrow> map_of (co_Programs core) n
      | Some c \<Rightarrow> if n \<in> fst ` {ps \<in> set spec. optionalProgram ps} then map_of (co_Programs c) n
                 else map_of (co_Programs core) n)"
    by (rule loadGrouped_Some) blast
  have "dom (bu_programs b) = fst ` {ps \<in> set spec. \<not> optionalProgram ps \<or> ?l (fst ps) core \<noteq> None}"
    using loadGrouped_dom [OF assms Some] by (simp only: m)
  moreover have "ProgramHandle p \<in> set (fst (bundleClose b))" if p: "bu_programs b n = Some p" for n p
  proof (cases "?l n core")
    case None
    then show ?thesis using p program_closed(1) [OF cs] by (simp add: ps)
  next
    case l: (Some x)
    then show ?thesis
      using p program_closed(1) [OF cs] program_closed(2) [where f = "\<lambda>n. ?l n core", OF cs l]
      by (auto simp: ps split: if_splits)
  qed
  moreover have "MapHandle x \<in> set (fst (bundleClose b))" if "map_of (bu_maps b) n = Some x" for n x
    using closes_collection [of core b] map_of_handle(2) [of core n x] that cs m by auto
  moreover have "bu_collections (snd (bundleClose b)) = []" by (simp add: bundleClose_def)
  ultimately show ?thesis
    by (auto simp only: Some m ran_def option.case)
qed

text \<open>A loader that accepts all programs but the override kprobes.\<close>

definition sampleLoad :: "(string, nat) collectionLoadFunc" where
  "sampleLoad ps shared =
     (if list_ex (\<lambda>p. HasPrefix (fst p) ''kp_'') ps then None
      else Some \<lparr>co_Programs = map (\<lambda>p. (fst p, fst p)) ps, co_Maps = [(''events'', 1)]\<rparr>)"

lemma sampleLoad_lawful: "lawfulLoad sampleLoad"
  by (simp add: lawfulLoad_def sampleLoad_def image_image)

lemma sampleLoad_maps: "sampleLoad ps shared = Some c \<Longrightarrow> co_Maps c = [(''events'', 1)]"
  by (auto simp: sampleLoad_def split: if_splits)

definition sampleSpec :: "programSpec list" where
  "sampleSpec = [(''trace_write'', False), (''kp_override_write'', False), (''enforce_file_open'', True)]"

lemma sieve3: "P a \<Longrightarrow> \<not> P b \<Longrightarrow> P c \<Longrightarrow> {x \<in> set [a, b, c]. P x} = {a, c}"
  by auto

theorem loadGroupedCollections_exact_witness:
  "case loadGroupedCollections sampleLoad sampleSpec of
     None \<Rightarrow> False
   | Some b \<Rightarrow> dom (bu_programs b) = {''trace_write'', ''enforce_file_open''} \<and> MapHandle 1 \<in> set (fst (bundleClose b))"
proof -
  have k: "\<not> HasPrefix ''trace_write'' ''kp_''" "HasPrefix ''kp_override_write'' ''kp_''"
    "HasPrefix ''kp_override_write'' ''kp_override_''" "\<not> HasPrefix ''trace_write'' ''kp_override_''"
    "\<not> HasPrefix ''enforce_file_open'' ''kp_''" by code_simp+
  have "filter (\<lambda>ps. \<not> optionalProgram ps) sampleSpec = [(''trace_write'', False)]"
    by (simp add: optionalProgram_def k sampleSpec_def)
  then have "sampleLoad (filter (\<lambda>ps. \<not> optionalProgram ps) sampleSpec) None \<noteq> None"
    by (simp add: sampleLoad_def k)
  then obtain b where b: "loadGroupedCollections sampleLoad sampleSpec = Some b"
    unfolding loadGroupedCollections_def Let_def by force
  obtain core where c: "sampleLoad (filter (\<lambda>ps. \<not> optionalProgram ps) sampleSpec) None = Some core"
    "bu_maps b = co_Maps core" using b by (rule loadGrouped_Some)
  then have m: "bu_maps b = [(''events'', 1)]" using sampleLoad_maps [OF c(1)] by simp
  let ?P = "\<lambda>ps. \<not> optionalProgram ps \<or> sampleLoad (groupOf sampleSpec (fst ps)) (Some (bu_maps b)) \<noteq> None"
  have "?P (''trace_write'', False)" by (simp add: optionalProgram_def k)
  moreover have "\<not> ?P (''kp_override_write'', False)"
    by (simp add: optionalProgram_def sampleLoad_def groupOf_def k sampleSpec_def)
  moreover have "?P (''enforce_file_open'', True)"
    by (simp add: sampleLoad_def groupOf_def k sampleSpec_def)
  ultimately have "{ps \<in> set sampleSpec. ?P ps} = {(''trace_write'', False), (''enforce_file_open'', True)}"
    unfolding sampleSpec_def by (rule sieve3)
  then have 1: "fst ` {ps \<in> set sampleSpec. ?P ps} = {''trace_write'', ''enforce_file_open''}" by simp
  have "distinct (map fst sampleSpec)" by (simp add: sampleSpec_def)
  from loadGroupedCollections_exact [OF sampleLoad_lawful this]
  have "dom (bu_programs b) = {''trace_write'', ''enforce_file_open''} \<and>
      MapHandle ` ran (map_of (bu_maps b)) \<subseteq> set (fst (bundleClose b))"
    by (simp only: b 1 option.case Un_subset_iff)
  moreover have "1 \<in> ran (map_of (bu_maps b))" unfolding m by (rule ranI [of _ "''events''"]) simp
  ultimately show ?thesis unfolding b option.case by (auto simp only:)
qed

section \<open>Every tracepoint has its program\<close>

text \<open>
  What \<open>bpf2go\<close> guarantees of an object file and the struct generated from it: each tag is the name of a program,
  the names are distinct, and the programs named \<open>trace_\<close>, which are in the tracepoint sections, are not LSM
  programs.
\<close>

definition generatedFrom :: "(string \<times> string) list \<Rightarrow> programSpec list \<Rightarrow> bool" where
  "generatedFrom tags spec \<longleftrightarrow> distinct (map fst spec) \<and> set (map snd tags) \<subseteq> set (map fst spec) \<and>
     (\<forall>ps \<in> set spec. HasPrefix (fst ps) ''trace_'' \<longrightarrow> \<not> snd ps)"

definition traceFields :: "string list" where
  "traceFields = map (\<lambda>(category, name, field, optional). field) tracepoints"

definition tracedBy :: "string list \<Rightarrow> (string \<times> string) list \<Rightarrow> bool" where
  "tracedBy fs tags \<longleftrightarrow> set traceFields \<subseteq> set fs \<and>
     (\<forall>f \<in> set traceFields. \<exists>tag. map_of tags f = Some tag \<and> HasPrefix tag ''trace_'')"

text \<open>The two objects have the same tracepoint programs, in the same order.\<close>

lemma table_shape:
  "take 5 traceFields @ [''TraceOpenat2'', ''TraceOpenat2Exit''] @ drop 5 traceFields = take 38 coreFields"
  "take 38 coreFields = take 38 legacyPerfFields"
  "drop 31 ransomwarePrograms = drop 21 ransomwareLegacyPrograms"
  "list_all (\<lambda>(f, tag). HasPrefix f ''Trace'' \<longrightarrow> HasPrefix tag ''trace_'') ransomwarePrograms"
  "list_all (\<lambda>(f, tag). HasPrefix f ''Trace'' \<longrightarrow> HasPrefix tag ''trace_'') ransomwareLegacyPrograms"
  "list_all (\<lambda>f. HasPrefix f ''Trace'') traceFields"
  by code_simp+

lemma traced_members: "list_all (\<lambda>f. f \<in> set (map fst (drop 31 ransomwarePrograms))) traceFields"
  by code_simp

lemma tracedByI:
  assumes "set traceFields \<subseteq> set fs" and "list_all (\<lambda>(f, tag). HasPrefix f ''Trace'' \<longrightarrow> HasPrefix tag ''trace_'') tags"
    and "list_all (\<lambda>f. f \<in> set (map fst (drop n tags))) traceFields"
  shows "tracedBy fs tags"
proof -
  have "\<exists>tag. map_of tags f = Some tag \<and> HasPrefix tag ''trace_''" if f: "f \<in> set traceFields" for f
  proof -
    have "f \<in> fst ` set tags" using assms(3) f by (auto simp: list_all_iff dest: in_set_dropD)
    then obtain tag where t: "map_of tags f = Some tag" by (metis map_of_eq_None_iff not_Some_eq)
    have "HasPrefix f ''Trace''" using table_shape(6) f by (simp add: list_all_iff)
    then show ?thesis using assms(2) map_of_SomeD [OF t] t by (auto simp: list_all_iff)
  qed
  then show ?thesis using assms(1) by (simp add: tracedBy_def)
qed

lemma tables_traced: "tracedBy coreFields ransomwarePrograms" "tracedBy legacyPerfFields ransomwareLegacyPrograms"
proof -
  have "set traceFields \<subseteq> set (take 38 coreFields)"
    unfolding table_shape(1) [symmetric] by (simp add: Un_left_commute)
      (metis append_take_drop_id set_append subset_insertI2 subset_refl)
  then have sub: "set traceFields \<subseteq> set coreFields" "set traceFields \<subseteq> set legacyPerfFields"
    using table_shape(2) set_take_subset [of 38 coreFields] set_take_subset [of 38 legacyPerfFields] by auto
  show "tracedBy coreFields ransomwarePrograms" using sub(1) table_shape(4) traced_members by (rule tracedByI)
  show "tracedBy legacyPerfFields ransomwareLegacyPrograms"
    using sub(2) table_shape(5) traced_members [unfolded table_shape(3)] by (rule tracedByI)
qed

lemma trace_base:
  assumes "generatedFrom tags spec" and "tag \<in> set (map snd tags)" and "HasPrefix tag ''trace_''"
  shows "(tag, False) \<in> set spec \<and> \<not> optionalProgram (tag, False)"
proof -
  have "tag \<in> set (map fst spec)" using assms(1,2) by (auto simp only: generatedFrom_def)
  then obtain l where l: "(tag, l) \<in> set spec" by auto
  have "\<not> l" using assms(1,3) l unfolding generatedFrom_def by (metis fst_conv snd_conv)
  moreover have "\<not> HasPrefix tag ''kp_override_''"
  proof
    assume "HasPrefix tag ''kp_override_''"
    then have "prefix ''trace_'' ''kp_override_'' \<or> prefix ''kp_override_'' ''trace_''"
      using assms(3) prefix_same_cases unfolding HasPrefix_iff by blast
    then show False by simp
  qed
  ultimately show ?thesis using l by (simp add: optionalProgram_def)
qed

lemma select_keeps_trace:
  assumes "HasPrefix tag ''trace_''"
  shows "(tag, l) \<in> set (selectPathRenameVariant params spec) \<longleftrightarrow> (tag, l) \<in> set spec"
proof -
  have "\<not> HasPrefix ''enforce_path_rename'' ''trace_''" "\<not> HasPrefix ''enforce_path_rename_legacy'' ''trace_''" by code_simp+
  then have "tag \<noteq> ''enforce_path_rename''" "tag \<noteq> ''enforce_path_rename_legacy''" using assms by blast+
  then show ?thesis by (simp add: selectPathRenameVariant_def Let_def)
qed

lemma select_distinct: "distinct (map fst spec) \<Longrightarrow> distinct (map fst (selectPathRenameVariant params spec))"
  by (simp add: selectPathRenameVariant_def Let_def distinct_map_filter)

lemma bound_trace:
  assumes "lawfulLoad load" and "distinct (map fst spec')" and "loadGroupedCollections load spec' = Some b"
    and "generatedFrom tags spec" and "tracedBy fs tags" and "f \<in> set traceFields"
    and "\<And>tag l. HasPrefix tag ''trace_'' \<Longrightarrow> (tag, l) \<in> set spec \<Longrightarrow> (tag, l) \<in> set spec'"
  shows "f \<in> set fs \<and> bindAvailableObjects tags (bu_programs b) f \<noteq> None"
proof -
  obtain tag where t: "f \<in> set fs" "map_of tags f = Some tag" "HasPrefix tag ''trace_''"
    using assms(5,6) by (auto simp: tracedBy_def)
  have "tag \<in> set (map snd tags)" using map_of_SomeD [OF t(2)] by force
  from trace_base [OF assms(4) this t(3)] have "(tag, False) \<in> set spec'" "\<not> optionalProgram (tag, False)"
    using assms(7) t(3) by blast+
  then have "tag \<in> dom (bu_programs b)" using loadGrouped_dom [OF assms(1-3)] by force
  then show ?thesis using t(1,2) by (auto simp: bindAvailableObjects_def)
qed

lemma core_bound:
  assumes "\<And>opts. lawfulLoad (load opts)" and "generatedFrom ransomwarePrograms programs"
    and "loadCoreSensorObjects loadSpec kernelTypes renameParams (Some programs) load btfEnv = Inr lo"
    and "f \<in> set traceFields"
  shows "lo_programs lo f \<noteq> None"
proof -
  from assms(3) obtain opts params bu where
    l: "loadGroupedCollections (load opts) (selectPathRenameVariant params programs) = Some bu" and
    lo: "lo_programs lo = corePrograms (case bu_programs bu ''enforce_path_rename_legacy'' of
       None \<Rightarrow> bindAvailableObjects ransomwarePrograms (bu_programs bu)
     | Some prog \<Rightarrow> (bindAvailableObjects ransomwarePrograms (bu_programs bu))(''EnforcePathRename'' \<mapsto> prog))"
    by (auto simp: loadCoreSensorObjects_def Let_def split: sum.splits option.splits)
  have "distinct (map fst programs)" using assms(2) by (simp add: generatedFrom_def)
  from bound_trace [OF assms(1) select_distinct [OF this] l assms(2) tables_traced(1) assms(4)]
  have "f \<in> set coreFields" "bindAvailableObjects ransomwarePrograms (bu_programs bu) f \<noteq> None"
    using select_keeps_trace by blast+
  then show ?thesis by (auto simp: lo corePrograms_def restrict_map_def split: option.splits)
qed

lemma legacy_bound:
  assumes "lawfulLoad load" and "generatedFrom ransomwareLegacyPrograms programs"
    and "loadLegacyPerfSensorObjects (Some programs) load = Inr lo" and "f \<in> set traceFields"
  shows "lo_programs lo f \<noteq> None"
proof -
  from assms(3) obtain bu where l: "loadGroupedCollections load programs = Some bu" and
    lo: "lo_programs lo = legacyPerfPrograms (bindAvailableObjects ransomwareLegacyPrograms (bu_programs bu))"
    by (auto simp: loadLegacyPerfSensorObjects_def Let_def split: option.splits)
  have "distinct (map fst programs)" using assms(2) by (simp add: generatedFrom_def)
  from bound_trace [OF assms(1) this l assms(2) tables_traced(2) assms(4)] show ?thesis
    by (auto simp: lo legacyPerfPrograms_def)
qed

lemma stopLoop_never:
  "(\<And>x s. x \<in> set xs \<Longrightarrow> fst (f s x) \<noteq> Some e) \<Longrightarrow> fst (stopLoop f s xs) \<noteq> Some e"
  by (induction xs arbitrary: s) (auto split: prod.splits option.splits, metis fst_conv)

lemma attachTracepoints_complete:
  assumes "\<And>f. f \<in> set traceFields \<Longrightarrow> ae_prog ae f"
  shows "fst (attachTracepoints ae s) \<noteq> Some (MissingProgram name)"
proof -
  have "fst (attachTracepoint ae s x) \<noteq> Some (MissingProgram name)" if "x \<in> set tracepoints" for x s
  proof (cases x)
    case (fields category n field optional)
    then have "ae_prog ae field" using assms that by (force simp: traceFields_def)
    then show ?thesis by (simp add: fields attachTracepoint_def Let_def)
  qed
  then have "fst (stopLoop (attachTracepoint ae) s tracepoints) \<noteq> Some (MissingProgram name)" by (rule stopLoop_never)
  then show ?thesis by (auto simp: attachTracepoints_def split: prod.splits option.splits)
qed

text \<open>
  C27. Once the objects of the core or the perf runtime are loaded, attaching the tracepoints never fails for a missing
  program: every tracepoint of the table is bound to a field that the loader fills, and its program is in
  the base group, which is loaded as a whole.
\<close>

theorem tracepoints_have_programs:
  assumes "\<And>opts. lawfulLoad (load opts)"
    and "generatedFrom ransomwarePrograms programs \<and>
        loadCoreSensorObjects loadSpec kernelTypes renameParams (Some programs) load btfEnv = Inr lo \<or>
      generatedFrom ransomwareLegacyPrograms programs \<and>
        loadLegacyPerfSensorObjects (Some programs) (load None) = Inr lo"
    and "ae_prog ae = (\<lambda>field. lo_programs lo field \<noteq> None)"
  shows "fst (attachTracepoints ae s) \<noteq> Some (MissingProgram name)"
proof (rule attachTracepoints_complete)
  fix f assume f: "f \<in> set traceFields"
  show "ae_prog ae f"
    using assms(2) core_bound [where load = load, OF assms(1) _ _ f] legacy_bound [where load = "load None", OF assms(1) _ _ f]
    unfolding assms(3) by blast
qed

text \<open>An object with the programs of the perf runtime, loaded by a loader that accepts everything.\<close>

definition legacySpec :: "programSpec list" where
  "legacySpec = map (\<lambda>(field, tag). (tag, False)) ransomwareLegacyPrograms"

definition everyLoad :: "nat option \<Rightarrow> (string, nat) collectionLoadFunc" where
  "everyLoad opts ps shared = Some \<lparr>co_Programs = map (\<lambda>p. (fst p, fst p)) ps, co_Maps = [(''events'', 1)]\<rparr>"

lemma everyLoad_lawful: "lawfulLoad (everyLoad opts)"
  by (auto simp: lawfulLoad_def everyLoad_def image_image)

lemma legacySpec_generated: "generatedFrom ransomwareLegacyPrograms legacySpec"
proof -
  have "successively (<) (map fst legacySpec)" by code_simp
  then have "distinct (map fst legacySpec)" by (simp add: successively_conv_sorted_wrt strict_sorted_iff)
  moreover have "map snd ransomwareLegacyPrograms = map fst legacySpec" by (auto simp: legacySpec_def)
  moreover have "list_all (\<lambda>ps. \<not> snd ps) legacySpec" by (auto simp: legacySpec_def list_all_iff)
  ultimately show ?thesis by (auto simp: generatedFrom_def list_all_iff)
qed

definition boundEnv :: "(string \<rightharpoonup> 'p) \<Rightarrow> attachEnv" where
  "boundEnv programs = \<lparr>ae_arch = ''amd64'', ae_prog = (\<lambda>field. programs field \<noteq> None), ae_tracepoint = (\<lambda>_ _. True),
     ae_kprobe = (\<lambda>_ _. True), ae_kretprobe = (\<lambda>_ _. True), ae_lsm = (\<lambda>_. False), ae_lsmFile = None, ae_reader = True\<rparr>"

theorem tracepoints_have_programs_witness:
  "case loadLegacyPerfSensorObjects (Some legacySpec) (everyLoad None) of
     Inl e \<Rightarrow> False
   | Inr lo \<Rightarrow> fst (attachTracepoints (boundEnv (lo_programs lo)) (newSensor ''legacy_perf'' emptyMaps None)) \<noteq>
       Some (MissingProgram ''sys_enter_write'')"
proof -
  obtain lo where lo: "loadLegacyPerfSensorObjects (Some legacySpec) (everyLoad None) = Inr lo"
    by (simp add: loadLegacyPerfSensorObjects_def loadGroupedCollections_def everyLoad_def Let_def)
  show ?thesis unfolding lo sum.case
    by (rule tracepoints_have_programs [where load = everyLoad and lo = lo and programs = legacySpec])
      (use lo legacySpec_generated in \<open>simp_all add: everyLoad_lawful boundEnv_def\<close>)
qed

end
