(* ===== verification/SensorAttach_Laws.thy ===== *)
theory SensorAttach_Laws
  imports SensorAttach SensorPolicy_Laws "HOL-Library.Multiset"
begin

text \<open>
  No link is leaked on any path of initialisation, and enforcement inside the kernel is what the policy and the
  dry-run option say.
\<close>

section \<open>What attaching keeps\<close>

text \<open>\<open>attachStep s s'\<close>: every link opened is kept or closed again, and the mode and the maps of the policy are
  untouched.\<close>

definition attachStep :: "'m sensor \<Rightarrow> 'm sensor \<Rightarrow> bool" where
  "attachStep s s' \<longleftrightarrow> sn_maps s' = sn_maps s \<and> sn_mode s' = sn_mode s \<and>
     mset (sn_open s') + mset (sn_links s) = mset (sn_open s) + mset (sn_links s')"

lemma attachStep_refl [simp, intro]: "attachStep s s"
  by (simp add: attachStep_def)

lemma attachStep_trans [trans]:
  assumes "attachStep s t" and "attachStep t u"
  shows "attachStep s u"
proof -
  have "mset (sn_open u) + mset (sn_links t) + mset (sn_links s) =
      mset (sn_open t) + mset (sn_links u) + mset (sn_links s)" using assms(2) by (simp add: attachStep_def)
  also have "\<dots> = mset (sn_open s) + mset (sn_links t) + mset (sn_links u)"
    using assms(1) by (simp add: attachStep_def ac_simps)
  finally show ?thesis using assms by (simp add: attachStep_def ac_simps)
qed

lemma attachStep_keep [simp, intro]:
  "attachStep s (keepLinks [l] (openLink l s))"
  by (simp add: attachStep_def keepLinks_def openLink_def)

lemma attachStep_caps [simp, intro]: "attachStep s (s\<lparr>sn_capabilities := c\<rparr>)"
  by (simp add: attachStep_def)

lemma stopLoop_step:
  assumes "\<And>s x e s'. f s x = (e, s') \<Longrightarrow> attachStep s s'" and "stopLoop f s xs = (e, s')"
  shows "attachStep s s'"
  using assms(2)
proof (induction xs arbitrary: s)
  case Nil
  then show ?case by simp
next
  case (Cons x xs)
  obtain r t where f: "f s x = (r, t)" by (metis surj_pair)
  then have "attachStep s t" by (rule assms(1))
  with Cons f show ?case using attachStep_trans by (cases r) auto
qed

lemma foldl_step:
  assumes "\<And>s x. attachStep s (f s x)"
  shows "attachStep s (foldl f s xs)"
proof (induction xs arbitrary: s)
  case Nil
  then show ?case by simp
next
  case (Cons x xs)
  then show ?case using assms attachStep_trans by fastforce
qed

lemma attachTracepoint_step: "attachTracepoint ae s tp = (e, s') \<Longrightarrow> attachStep s s'"
  by (auto simp: attachTracepoint_def Let_def split: prod.splits if_splits)

lemma attachOpenat2_step: "attachStep s (attachOpenat2 ae s)"
  by (auto simp: attachOpenat2_def Let_def attachStep_def openLink_def closeLink_def keepLinks_def)

lemma attachTracepoints_step:
  assumes "attachTracepoints ae s = (e, s')"
  shows "attachStep s s'"
proof (cases "sn_mode s = runtimeModeUltraLegacyMap")
  case True
  with assms show ?thesis by (simp add: attachTracepoints_def)
next
  case False
  obtain r t where l: "stopLoop (attachTracepoint ae) s tracepoints = (r, t)" by (metis surj_pair)
  have "attachStep s t" by (rule stopLoop_step [OF attachTracepoint_step l])
  then show ?thesis
    using assms False l attachOpenat2_step [of t ae] attachStep_trans by (cases r) (auto simp: attachTracepoints_def)
qed

lemma attachLSM_step: "attachStep s (attachLSM ae s x)"
  by (cases x) (simp add: attachLSM_def attachStep_def keepLinks_def openLink_def)

lemma attachLSMPrograms_step: "attachStep s (attachLSMPrograms ae s)"
  by (simp add: attachLSMPrograms_def foldl_step [OF attachLSM_step])

lemma configureKprobeABI_frame:
  "configureKprobeABI ops oper sy s = (e, s') \<Longrightarrow>
   sn_open s' = sn_open s \<and> sn_links s' = sn_links s \<and> sn_maps s' = sn_maps s \<and> sn_mode s' = sn_mode s"
  by (auto simp: configureKprobeABI_def split: if_splits option.splits sum.splits)

lemma attachKprobeWith_step:
  "attachKprobeWith ops ae oper prog sys s = (r, s') \<Longrightarrow>
   case r of Inl e \<Rightarrow> attachStep s s' | Inr l \<Rightarrow> attachStep s (keepLinks [l] s')"
proof (induction ops ae oper prog sys s rule: attachKprobeWith.induct)
  case (1 ops ae oper prog s)
  then show ?case by auto
next
  case (2 ops ae oper prog sy sys s)
  show ?case
  proof (cases "ae_kprobe ae sy prog")
    case False
    with 2 show ?thesis by simp
  next
    case True
    obtain c t where c: "configureKprobeABI ops oper sy (openLink (Kprobe sy prog) s) = (c, t)" by (metis surj_pair)
    show ?thesis
      using "2.prems" True c configureKprobeABI_frame [OF c]
      by (cases c) (auto simp: Let_def attachStep_def openLink_def closeLink_def keepLinks_def)
  qed
qed

lemma attachKretprobe_step:
  "attachKretprobe ae prog sys s = (r, s') \<Longrightarrow>
   case r of Inl e \<Rightarrow> attachStep s s' | Inr l \<Rightarrow> attachStep s (keepLinks [l] s')"
  by (induction ae prog sys s rule: attachKretprobe.induct) (auto split: if_splits)

lemma attachPairLoop_step:
  "attachPairLoop ops ae oper entry exit sys s = (r, s') \<Longrightarrow>
   case r of Inl e \<Rightarrow> attachStep s s' | Inr ls \<Rightarrow> attachStep s (keepLinks ls s')"
proof (induction ops ae oper entry exit sys s rule: attachPairLoop.induct)
  case (1 ops ae oper entry exit s)
  then show ?case by auto
next
  case (2 ops ae oper entry exit sy sys s)
  let ?e = "Kprobe sy entry" and ?x = "Kretprobe sy exit"
  consider "\<not> ae_kprobe ae sy entry" | "ae_kprobe ae sy entry" "\<not> ae_kretprobe ae sy exit"
    | "ae_kprobe ae sy entry" "ae_kretprobe ae sy exit" by blast
  then show ?case
  proof cases
    case 1
    with 2 show ?thesis by simp
  next
    case 2
    have "attachStep s (closeLink ?e (openLink ?e s))" by (simp add: attachStep_def openLink_def closeLink_def)
    with "2.IH"(2) [OF _ refl refl refl] "2.prems" 2 attachStep_trans show ?thesis
      by (fastforce simp: Let_def split: sum.splits)
  next
    case 3
    obtain c t where c: "configureKprobeABI ops oper sy (openLink ?x (openLink ?e s)) = (c, t)" by (metis surj_pair)
    show ?thesis
      using "2.prems" 3 c configureKprobeABI_frame [OF c]
      by (cases c) (auto simp: Let_def attachStep_def openLink_def closeLink_def keepLinks_def)
  qed
qed

lemma attachPair_step: "attachPair ops ae s pair = (e, s') \<Longrightarrow> attachStep s s'"
proof (cases pair)
  case (fields oper entry exit optional)
  obtain r t where a: "attachKprobePairWith ops ae oper entry exit s = (r, t)" by (metis surj_pair)
  have "case r of Inl e \<Rightarrow> attachStep s t | Inr ls \<Rightarrow> attachStep s (keepLinks ls t)"
    using a attachPairLoop_step by (auto simp: attachKprobePairWith_def split: if_splits)
  then show "attachPair ops ae s pair = (e, s') \<Longrightarrow> attachStep s s'"
    using fields a by (cases r) (auto simp: attachPair_def)
qed

lemma attachProcessExit_step: "attachProcessExit ae s = (e, s') \<Longrightarrow> attachStep s s'"
  by (auto simp: attachProcessExit_def Let_def split: if_splits)

lemma attachOverride_step:
  assumes "attachOverride ops ae s kp = (e, s')"
  shows "attachStep s s'"
proof (cases kp)
  case (fields oper prog opt)
  obtain r t where a: "attachKprobeWith ops ae oper prog (kprobeSymbols oper (ae_arch ae)) s = (r, t)"
    by (metis surj_pair)
  have caps: "attachStep (keepLinks ls t) (keepLinks ls (t\<lparr>sn_capabilities := c\<rparr>))" for ls c
    by (simp add: attachStep_def keepLinks_def)
  show ?thesis
    using assms fields a attachKprobeWith_step [OF a] attachStep_trans [OF _ caps]
    by (cases r) (auto simp: attachOverride_def split: if_splits)
qed

lemma attachReturn_step: "attachStep s (attachReturn ae s kp)"
proof (cases kp)
  case (Pair oper prog)
  obtain r t where a: "attachKretprobe ae prog (kprobeSymbols oper (ae_arch ae)) s = (r, t)" by (metis surj_pair)
  show ?thesis
    using Pair a attachKretprobe_step [OF a] by (cases r) (auto simp: attachReturn_def)
qed

lemma attachUltraLegacy_step:
  assumes "attachUltraLegacy ops ae s = (e, s')"
  shows "attachStep s s'"
proof -
  obtain r t where p: "attachProcessExit ae s = (r, t)" by (metis surj_pair)
  obtain q v where l: "stopLoop (attachPair ops ae) t kprobePairs = (q, v)" by (metis surj_pair)
  have 1: "attachStep s t" using p by (rule attachProcessExit_step)
  have 2: "attachStep t v" by (rule stopLoop_step [OF attachPair_step l])
  show ?thesis
    using assms p l 1 attachStep_trans [OF 1 2] by (cases r) (auto simp: attachUltraLegacy_def split: if_splits)
qed

lemma attachKprobePrograms_step:
  assumes "attachKprobePrograms ops ae s = (e, s')"
  shows "attachStep s s'"
proof -
  obtain r t where u: "attachUltraLegacy ops ae s = (r, t)" by (metis surj_pair)
  obtain q v where l: "stopLoop (attachOverride ops ae) t kprobes = (q, v)" by (metis surj_pair)
  have 1: "attachStep s t" using u by (rule attachUltraLegacy_step)
  have 2: "attachStep t v" by (rule stopLoop_step [OF attachOverride_step l])
  have 3: "attachStep v (foldl (attachReturn ae) v kretprobes)" by (rule foldl_step [OF attachReturn_step])
  show ?thesis
    using assms u l 1 attachStep_trans [OF 1 2] attachStep_trans [OF attachStep_trans [OF 1 2] 3]
    by (cases r; cases q) (auto simp: attachKprobePrograms_def)
qed

lemma attachAll_step:
  assumes "attachAll ops ae s = (e, s')"
  shows "attachStep s s'"
proof -
  obtain r t where u: "attachTracepoints ae s = (r, t)" by (metis surj_pair)
  have 1: "attachStep s t" using u by (rule attachTracepoints_step)
  show ?thesis
    using assms u 1 attachStep_trans [OF attachStep_trans [OF 1 attachLSMPrograms_step] attachKprobePrograms_step]
    by (cases r) (auto simp: attachAll_def)
qed

section \<open>No link is leaked\<close>

definition balanced :: "'m sensor \<Rightarrow> bool" where
  "balanced s \<longleftrightarrow> mset (sn_open s) = mset (sn_links s)"

lemma balanced_step: "balanced s \<Longrightarrow> attachStep s s' \<Longrightarrow> balanced s'"
  by (simp add: balanced_def attachStep_def)

text \<open>The interface of an operation that attaches: whatever its result, what it opened is accounted for.\<close>

locale attach_op =
  fixes run :: "'m sensor \<Rightarrow> 'e option \<times> 'm sensor"
  assumes run_step: "run s = (e, s') \<Longrightarrow> attachStep s s'"
begin

lemma keeps_mode: "run s = (e, s') \<Longrightarrow> sn_mode s' = sn_mode s"
  using run_step by (simp add: attachStep_def)

lemma keeps_balanced: "balanced s \<Longrightarrow> run s = (e, s') \<Longrightarrow> balanced s'"
  using run_step balanced_step by blast

end

interpretation traces: attach_op "attachTracepoints ae" for ae
  by unfold_locales (rule attachTracepoints_step)

interpretation probes: attach_op "attachKprobePrograms ops ae" for ops ae
  by unfold_locales (rule attachKprobePrograms_step)

interpretation every: attach_op "attachAll ops ae" for ops ae
  by unfold_locales (rule attachAll_step)

lemma balanced_frame [simp]:
  "balanced (s\<lparr>sn_maps := m\<rparr>) = balanced s" "balanced (s\<lparr>sn_reader := b\<rparr>) = balanced s"
  by (simp_all add: balanced_def)

lemma initialize_balanced:
  assumes "balanced s" and "initialize ops stat ae p dry s = (e, s')"
  shows "balanced s'"
proof -
  obtain e1 m1 where 1: "ConfigurePolicy ops stat p (sn_maps s) = (e1, m1)" by (metis surj_pair)
  obtain e2 m2 where 2: "ConfigureEnforcement ops (pol_Action p) True m1 = (e2, m2)" by (metis surj_pair)
  obtain e3 s3 where 3: "attachAll ops ae (s\<lparr>sn_maps := m2\<rparr>) = (e3, s3)" by (metis surj_pair)
  have "balanced s3" using every.keeps_balanced [OF _ 3] assms(1) by simp
  then show ?thesis
    using assms 1 2 3 by (auto simp: initialize_def Let_def split: option.splits if_splits prod.splits)
qed

lemma fold_closeLink:
  "sn_open (fold closeLink ls s) = fold remove1 ls (sn_open s)"
  by (induction ls arbitrary: s) (auto simp: closeLink_def)

lemma mset_fold_remove1: "mset (fold remove1 ls xs) = mset xs - mset ls"
  by (induction ls arbitrary: xs) auto

lemma Close_open: "balanced s \<Longrightarrow> sn_open (Close s) = []"
  by (simp add: Close_def fold_closeLink flip: mset_zero_iff) (simp add: mset_fold_remove1 balanced_def)

definition released :: "'m sensor \<Rightarrow> bool" where
  "released s \<longleftrightarrow> sn_open s = [] \<and> \<not> sn_reader s \<and> \<not> sn_closer s"

lemma Close_released: "balanced s \<Longrightarrow> released (Close s)"
  by (simp add: released_def Close_open) (simp add: Close_def)

lemma tryModes_released:
  assumes "\<And>mode s e s'. balanced s \<Longrightarrow> init mode s = (e, s') \<Longrightarrow> balanced s'"
  shows "case tryModes load init closeOK modes of (r, ss) \<Rightarrow>
    list_all released ss \<and> (case r of Inl _ \<Rightarrow> True | Inr s \<Rightarrow> balanced s)"
proof (induction modes)
  case Nil
  then show ?case by simp
next
  case (Cons mode modes)
  show ?case
  proof (cases "load mode")
    case (LoadFailed config)
    with Cons show ?thesis by simp
  next
    case (Loaded maps abi)
    obtain e s where i: "init mode (newSensor mode maps abi) = (e, s)" by (metis surj_pair)
    have "balanced (newSensor mode maps abi)" by (simp add: balanced_def newSensor_def)
    then have b: "balanced s" using i by (rule assms)
    then show ?thesis using Loaded i Cons Close_released [OF b] by (cases e) (auto split: prod.splits)
  qed
qed

text \<open>
  C10. Starting the sensor never leaks a kernel link: whichever programs and attachments are available, every sensor
  abandoned on the way has all its links, its reader and its objects closed, and a sensor that is
  returned keeps exactly the links that are open, so closing it later closes all of them.
\<close>

theorem NewWithOptions_no_leak:
  "case NewWithOptions modeEnv loaders ops stat ae closeOK p dry of (r, ss) \<Rightarrow>
     list_all released ss \<and>
     (case r of Inl _ \<Rightarrow> True | Inr s \<Rightarrow> mset (sn_open s) = mset (sn_links s) \<and> released (Close s))"
proof -
  let ?init = "\<lambda>mode. initialize ops stat (ae mode) p dry" and ?load = "\<lambda>mode. loadSensorObjectsWith mode loaders"
  have t: "case tryModes ?load ?init closeOK modes of (r, ss) \<Rightarrow>
      list_all released ss \<and> (case r of Inl _ \<Rightarrow> True | Inr s \<Rightarrow> balanced s)" for modes
    by (rule tryModes_released) (rule initialize_balanced)
  show ?thesis
  proof (cases "sensorModeCandidates (TrimSpace modeEnv)")
    case (Inl e)
    then show ?thesis by (simp add: NewWithOptions_def newSensorWith_def)
  next
    case (Inr modes)
    obtain r ss where m: "tryModes ?load ?init closeOK modes = (r, ss)" by (metis surj_pair)
    with t [of modes] have "list_all released ss \<and> (case r of Inl _ \<Rightarrow> True | Inr s \<Rightarrow> balanced s)" by simp
    with Inr m show ?thesis
      by (cases r) (simp_all add: NewWithOptions_def newSensorWith_def Close_released, simp add: balanced_def)
  qed
qed

section \<open>Enforcement after a start\<close>

definition inlineValue :: "string \<Rightarrow> bool \<Rightarrow> u32" where
  "inlineValue action dryRun =
     (if dryRun then 0 else if ToLower (TrimSpace action) = ''deny'' then 1
      else if ToLower (TrimSpace action) = ''kill'' then 2 else 0)"

lemma ConfigureEnforcement_view:
  assumes "lawfulMap ops view" and "ConfigureEnforcement ops action dry sm = (None, sm')"
    and "sm_InlineIOCAction sm' = Some m"
  shows "view m (K32 0) = Some (V32 (inlineValue action dry))"
  using assms(2,3) lawful_put [OF assms(1)]
  by (auto simp: ConfigureEnforcement_def inlineValue_def Let_def split: if_splits option.splits)

lemma initialize_success:
  assumes "initialize ops stat ae p dry s = (None, s')"
  shows "\<exists>sm. ConfigureEnforcement ops (pol_Action p) dry sm = (None, sn_maps s') \<and>
    validatePolicyCapabilities (sn_capabilities s') p dry = None"
  using assms by (auto simp: initialize_def Let_def split: option.splits if_splits prod.splits)

lemma tryModes_success:
  "tryModes load init closeOK modes = (Inr s, ss) \<Longrightarrow> \<exists>mode s0. init mode s0 = (None, s)"
  by (induction modes arbitrary: ss) (auto split: loadResult.splits if_splits option.splits prod.splits)

lemma NewWithOptions_success:
  assumes "NewWithOptions modeEnv loaders ops stat ae closeOK p dry = (Inr s, ss)"
  shows "\<exists>mode s0. initialize ops stat (ae mode) p dry s0 = (None, s)"
  using assms tryModes_success by (fastforce simp: NewWithOptions_def newSensorWith_def split: sum.splits)

lemma started_inline:
  assumes "lawfulMap ops view" and "NewWithOptions modeEnv loaders ops stat ae closeOK p dry = (Inr s, ss)"
  shows "case sm_InlineIOCAction (sn_maps s) of None \<Rightarrow> True
      | Some m \<Rightarrow> view m (K32 0) = Some (V32 (inlineValue (pol_Action p) dry))"
proof -
  obtain mode s0 where "initialize ops stat (ae mode) p dry s0 = (None, s)"
    using NewWithOptions_success [OF assms(2)] by blast
  then obtain sm where "ConfigureEnforcement ops (pol_Action p) dry sm = (None, sn_maps s)"
    using initialize_success by blast
  then show ?thesis using ConfigureEnforcement_view [OF assms(1)] by (auto split: option.splits)
qed

text \<open>
  A started sensor enforces in the kernel exactly what it was asked to: if there is an inline action map it holds
  the action of the policy, and zero (observe only) in a dry run; without a dry run a policy or rule that
  denies is only started where denying is available.
\<close>

lemma NewWithOptions_enforcement:
  assumes "lawfulMap ops view" and "NewWithOptions modeEnv loaders ops stat ae closeOK p dry = (Inr s, ss)"
  shows "(case sm_InlineIOCAction (sn_maps s) of None \<Rightarrow> True
      | Some m \<Rightarrow> view m (K32 0) = Some (V32 (inlineValue (pol_Action p) dry))) \<and>
    (dry \<or> ca_DenyAvailable (sn_capabilities s) \<or>
      TrimSpace (pol_Action p) \<noteq> ''deny'' \<and>
      list_all (\<lambda>r. ToLower (TrimSpace (ru_Action r)) \<noteq> ''deny'') (pol_Rules p))"
proof -
  obtain mode s0 where "initialize ops stat (ae mode) p dry s0 = (None, s)"
    using NewWithOptions_success [OF assms(2)] by blast
  then have v: "validatePolicyCapabilities (sn_capabilities s) p dry = None" using initialize_success by blast
  have "foldsToDeny ''deny''" by code_simp
  with v have "dry \<or> ca_DenyAvailable (sn_capabilities s) \<or>
      TrimSpace (pol_Action p) \<noteq> ''deny'' \<and>
      list_all (\<lambda>r. ToLower (TrimSpace (ru_Action r)) \<noteq> ''deny'') (pol_Rules p)"
    by (auto simp: validatePolicyCapabilities_def list_all_iff list_ex_iff Let_def split: if_splits)
  then show ?thesis
    using started_inline [OF assms] by blast
qed

text \<open>A kernel with the tracepoint programs only, which accepts each of them.\<close>

definition traceEnv :: attachEnv where
  "traceEnv = \<lparr>ae_arch = ''amd64'', ae_prog = (\<lambda>n. HasPrefix n ''Trace''), ae_tracepoint = (\<lambda>_ _. True),
     ae_kprobe = (\<lambda>_ _. False), ae_kretprobe = (\<lambda>_ _. False), ae_lsm = (\<lambda>_. False), ae_lsmFile = None,
     ae_reader = True\<rparr>"

lemma stopLoop_None: "list_all (\<lambda>x. \<forall>s. fst (f s x) = None) xs \<Longrightarrow> fst (stopLoop f s xs) = None"
  by (induction xs arbitrary: s) (auto split: prod.splits option.splits, metis fst_conv option.distinct(1))

lemma traceEnv_attaches:
  assumes "sn_mode s = ''core''"
  shows "fst (attachAll ops traceEnv s) = None"
proof -
  have tps: "list_all (\<lambda>(c, n, p, opt). HasPrefix p ''Trace'') tracepoints" by code_simp
  then have "list_all (\<lambda>x. \<forall>s. fst (attachTracepoint traceEnv s x) = None) tracepoints"
    by (auto simp: list_all_iff attachTracepoint_def traceEnv_def Let_def)
  then have "fst (stopLoop (attachTracepoint traceEnv) s tracepoints) = None" by (rule stopLoop_None)
  then have "fst (attachTracepoints traceEnv s) = None"
    by (auto simp: attachTracepoints_def split: prod.splits option.splits)
  then obtain t where t: "attachTracepoints traceEnv s = (None, t)" by (metis eq_fst_iff)
  let ?u = "attachLSMPrograms traceEnv t"
  have "sn_mode ?u = ''core''"
    using traces.keeps_mode [OF t] attachLSMPrograms_step [of t traceEnv] assms by (simp add: attachStep_def)
  then have u: "attachUltraLegacy ops traceEnv ?u = (None, ?u)"
    by (simp add: attachUltraLegacy_def runtimeModeUltraLegacyMap_def)
  have kps: "list_all (\<lambda>(n, p, opt). \<not> HasPrefix p ''Trace'') kprobes" by code_simp
  then have "list_all (\<lambda>x. \<forall>s. fst (attachOverride ops traceEnv s x) = None) kprobes"
    by (auto simp: list_all_iff attachOverride_def traceEnv_def)
  then have "fst (stopLoop (attachOverride ops traceEnv) ?u kprobes) = None" by (rule stopLoop_None)
  then show ?thesis using t u by (auto simp: attachAll_def attachKprobePrograms_def split: prod.splits option.splits)
qed

definition coreLoader :: "listMap objectLoaders" where
  "coreLoader = \<lparr>ol_core = Loaded emptyMaps None, ol_legacyPerf = LoadFailed False, ol_ultraLegacyMap = LoadFailed False\<rparr>"

lemma coreLoader_loads: "loadSensorObjectsWith ''core'' coreLoader = Loaded emptyMaps None"
proof -
  have "ToLower (TrimSpace ''core'') = ''core''" by code_simp
  then show ?thesis by (simp add: loadSensorObjectsWith_def runtimeModeCore_def coreLoader_def)
qed

lemma startCore:
  assumes "pol_Action p = ''kill''" and "pol_Rules p = []"
    and "fst (ConfigurePolicy listOps stat p emptyMaps) = None"
  shows "\<exists>s. NewWithOptions ''core'' coreLoader listOps stat (\<lambda>_. traceEnv) (\<lambda>_. True) p dry = (Inr s, []) \<and>
     sm_InlineIOCAction (sn_maps s) \<noteq> None \<and> sm_BlockedTgids (sn_maps s) = Some ([], 4)"
proof -
  let ?s = "newSensor ''core'' emptyMaps None"
  have m: "sensorModeCandidates (TrimSpace ''core'') = Inr [''core'']" by code_simp
  obtain m1 where 1: "ConfigurePolicy listOps stat p emptyMaps = (None, m1)" using assms(3) by (metis eq_fst_iff)
  have k: "ToLower (TrimSpace ''kill'') = ''kill''" "\<not> foldsToDeny (TrimSpace ''kill'')" by code_simp+
  have en: "\<exists>m'. ConfigureEnforcement listOps ''kill'' d m = (None, m') \<and>
      (sm_InlineIOCAction m \<noteq> None \<longrightarrow> sm_InlineIOCAction m' \<noteq> None) \<and> sm_BlockedTgids m' = sm_BlockedTgids m" for d m
    by (simp add: ConfigureEnforcement_def k listOps_def Let_def split: option.splits)
  have "sm_InlineIOCAction m1 \<noteq> None" "sm_BlockedTgids m1 = Some ([], 4)"
    using ConfigurePolicy_inline [OF 1] by (simp_all add: emptyMaps_def)
  then obtain m2 where 2: "ConfigureEnforcement listOps ''kill'' True m1 = (None, m2)" "sm_InlineIOCAction m2 \<noteq> None"
      "sm_BlockedTgids m2 = Some ([], 4)"
    using en by metis
  have "fst (attachAll listOps traceEnv (?s\<lparr>sn_maps := m2\<rparr>)) = None"
    by (rule traceEnv_attaches) (simp add: newSensor_def)
  then obtain s3 where 3: "attachAll listOps traceEnv (?s\<lparr>sn_maps := m2\<rparr>) = (None, s3)" by (metis eq_fst_iff)
  have "sn_maps s3 = m2" using every.run_step [OF 3] by (simp add: attachStep_def)
  then obtain m5 where 5: "ConfigureEnforcement listOps ''kill'' dry (sn_maps s3) = (None, m5)"
      "sm_InlineIOCAction m5 \<noteq> None" "sm_BlockedTgids m5 = Some ([], 4)"
    using en 2(2,3) by metis
  have "validatePolicyCapabilities (sn_capabilities s3) p dry = None"
    using assms(1,2) k(2) by (simp add: validatePolicyCapabilities_def)
  moreover have "ae_reader traceEnv" "sn_maps ?s = emptyMaps" by (simp_all add: traceEnv_def newSensor_def)
  ultimately have "initialize listOps stat traceEnv p dry ?s = (None, s3\<lparr>sn_reader := True, sn_maps := m5\<rparr>)"
    using 1 2 3 5 assms(1) by (simp add: initialize_def Let_def)
  then show ?thesis using m 5(2,3) by (simp add: NewWithOptions_def newSensorWith_def coreLoader_loads)
qed

lemma NewWithOptions_enforcement_witness:
  "\<exists>s. fst (NewWithOptions ''core'' coreLoader listOps (\<lambda>_. None) (\<lambda>_. traceEnv) (\<lambda>_. True)
       (zeroPolicy\<lparr>pol_Action := ''kill''\<rparr>) True) = Inr s \<and>
     (case sm_InlineIOCAction (sn_maps s) of None \<Rightarrow> True | Some m \<Rightarrow> listView m (K32 0) = Some (V32 0))"
proof -
  let ?n = "NewWithOptions ''core'' coreLoader listOps (\<lambda>_. None) (\<lambda>_. traceEnv) (\<lambda>_. True)
       (zeroPolicy\<lparr>pol_Action := ''kill''\<rparr>) True"
  have "fst (ConfigurePolicy listOps (\<lambda>_. None) (zeroPolicy\<lparr>pol_Action := ''kill''\<rparr>) emptyMaps) = None" by code_simp
  then obtain s where n: "?n = (Inr s, [])" using startCore [of "zeroPolicy\<lparr>pol_Action := ''kill''\<rparr>" "\<lambda>_. None" True]
    by (auto simp: zeroPolicy_def)
  have "inlineValue ''kill'' True = 0" by (simp add: inlineValue_def)
  then show ?thesis
    using NewWithOptions_enforcement [OF listOps_lawful n] n by (auto simp: inlineValue_def split: option.splits)
qed

end
