(* ===== verification/SensorABI.thy ===== *)
theory SensorABI
  imports SensorAttach_Laws
begin

text \<open>
  The polling runtime reads syscall arguments through kprobes whose register layout depends on the symbol that could be
  attached; \<open>configureKprobeABI\<close> tells the BPF program which. The lemmas follow one invariant through the attach
  loops: every kept kprobe has its own entry in the ABI map, and later attachments leave it alone.
\<close>

section \<open>The invariant\<close>

definition opOf :: "string \<Rightarrow> string option" where
  "opOf prog = map_of (map (\<lambda>(oper, prog, opt). (prog, oper)) kprobes) prog"

definition abiEntry :: "('m \<Rightarrow> mapKey \<rightharpoonup> mapVal) \<Rightarrow> 'm option \<Rightarrow> string \<Rightarrow> string \<Rightarrow> bool" where
  "abiEntry view abi oper sy \<longleftrightarrow>
     (\<exists>key v m. syscallABIForSymbol oper sy = Inr (key, v) \<and> abi = Some m \<and> view m (K32 key) = Some (V32 v))"

definition abiInv :: "('m \<Rightarrow> mapKey \<rightharpoonup> mapVal) \<Rightarrow> string set \<Rightarrow> 'm sensor \<Rightarrow> bool" where
  "abiInv view D s \<longleftrightarrow> sn_mode s = runtimeModeUltraLegacyMap \<and>
     (\<forall>sy prog. Kprobe sy prog \<in> set (sn_links s) \<longrightarrow> prog = ''KpProcessExit'' \<or>
       (\<exists>oper \<in> D. opOf prog = Some oper \<and> abiEntry view (sn_SyscallABI s) oper sy))"

text \<open>\<open>abiStep\<close>: the entry of one operation is written, those of the others are kept.\<close>

definition abiStep :: "('m \<Rightarrow> mapKey \<rightharpoonup> mapVal) \<Rightarrow> string \<Rightarrow> string \<Rightarrow> 'm sensor \<Rightarrow> 'm sensor \<Rightarrow> bool" where
  "abiStep view oper sy s s' \<longleftrightarrow> sn_links s' = sn_links s \<and> sn_mode s' = sn_mode s \<and>
     abiEntry view (sn_SyscallABI s') oper sy \<and>
     (\<forall>o' y. o' \<noteq> oper \<longrightarrow> abiEntry view (sn_SyscallABI s) o' y \<longrightarrow> abiEntry view (sn_SyscallABI s') o' y)"

definition sameABI :: "'m sensor \<Rightarrow> 'm sensor \<Rightarrow> bool" where
  "sameABI s s' \<longleftrightarrow> sn_links s' = sn_links s \<and> sn_mode s' = sn_mode s \<and> sn_SyscallABI s' = sn_SyscallABI s"

lemma sameABI_links [simp]: "sameABI s (openLink l s)" "sameABI s (closeLink l s)" "sameABI s s"
  by (simp_all add: sameABI_def openLink_def closeLink_def)

lemma sameABI_trans: "sameABI s t \<Longrightarrow> sameABI t u \<Longrightarrow> sameABI s u"
  by (simp add: sameABI_def)

lemma abiStep_same: "sameABI s t \<Longrightarrow> abiStep view oper sy t u \<Longrightarrow> abiStep view oper sy s u"
  by (simp add: sameABI_def abiStep_def)

lemma abiInv_mono: "abiInv view D s \<Longrightarrow> D \<subseteq> E \<Longrightarrow> abiInv view E s"
  by (fastforce simp: abiInv_def)

lemma abiInv_same: "abiInv view D s \<Longrightarrow> sameABI s t \<Longrightarrow> abiInv view D t"
  by (simp add: abiInv_def sameABI_def)

lemma abiKeys_inj:
  assumes "map_of abiKeys a = Some k" and "map_of abiKeys b = Some k"
  shows "a = b"
proof -
  have "distinct (map snd abiKeys)" by (simp add: abiKeys_def)
  then have "inj_on snd (set abiKeys)" by (simp add: distinct_map)
  then show ?thesis using inj_onD [of snd "set abiKeys" "(a, k)" "(b, k)"] assms map_of_SomeD by fastforce
qed

lemma syscallABI_key: "syscallABIForSymbol oper sy = Inr (key, v) \<Longrightarrow> map_of abiKeys oper = Some key"
  by (auto simp: syscallABIForSymbol_def split: option.splits if_splits)

lemma configureKprobeABI_step:
  assumes "lawfulMap ops view" and "sn_mode s = runtimeModeUltraLegacyMap"
    and "configureKprobeABI ops oper sy s = (None, s')"
  shows "abiStep view oper sy s s'"
proof -
  obtain m key v m' where s: "sn_SyscallABI s = Some m" and k: "syscallABIForSymbol oper sy = Inr (key, v)"
    and put: "op_put ops m (K32 key) (V32 v) = Some m'" and s': "s' = s\<lparr>sn_SyscallABI := Some m'\<rparr>"
    using assms(2,3) by (auto simp: configureKprobeABI_def split: option.splits sum.splits prod.splits)
  have view: "view m' = (view m)(K32 key \<mapsto> V32 v)" using lawful_put [OF assms(1) put] .
  have "abiEntry view (Some m') o' y" if ne: "o' \<noteq> oper" and en: "abiEntry view (Some m) o' y" for o' y
  proof -
    obtain key' v' where e: "syscallABIForSymbol o' y = Inr (key', v')" "view m (K32 key') = Some (V32 v')"
      using en by (auto simp: abiEntry_def)
    have "key' \<noteq> key" using ne abiKeys_inj syscallABI_key [OF e(1)] syscallABI_key [OF k] by blast
    then show ?thesis using e by (auto simp: abiEntry_def view)
  qed
  then show ?thesis using k by (auto simp: abiStep_def s s' abiEntry_def view)
qed

lemma configureKprobeABI_failed: "configureKprobeABI ops oper sy s = (Some e, s') \<Longrightarrow> s' = s"
  by (auto simp: configureKprobeABI_def split: option.splits sum.splits prod.splits if_splits)

section \<open>The attach loops\<close>

lemma attachKprobeWith_abi:
  assumes "lawfulMap ops view"
  shows "attachKprobeWith ops ae oper prog sys s = (r, s') \<Longrightarrow> sn_mode s = runtimeModeUltraLegacyMap \<Longrightarrow>
    case r of Inl e \<Rightarrow> sameABI s s' | Inr l \<Rightarrow> \<exists>sy. l = Kprobe sy prog \<and> abiStep view oper sy s s'"
proof (induction sys)
  case Nil
  then show ?case by auto
next
  case (Cons sy sys)
  let ?l = "Kprobe sy prog"
  show ?case
  proof (cases "ae_kprobe ae sy prog")
    case False
    with Cons show ?thesis by simp
  next
    case True
    obtain c t where c: "configureKprobeABI ops oper sy (openLink ?l s) = (c, t)" by (metis surj_pair)
    have o: "sn_mode (openLink ?l s) = runtimeModeUltraLegacyMap" using Cons.prems(2) by (simp add: openLink_def)
    show ?thesis
    proof (cases c)
      case None
      then have "abiStep view oper sy s t"
        using abiStep_same [OF sameABI_links(1)] configureKprobeABI_step [OF assms o] c by blast
      then show ?thesis using Cons.prems(1) True c None by (auto simp: Let_def)
    next
      case (Some e)
      then have "t = openLink ?l s" using c configureKprobeABI_failed by blast
      then show ?thesis
        using Cons.prems(1) True c Some sameABI_trans [OF sameABI_links(1) sameABI_links(2)] by (auto simp: Let_def)
    qed
  qed
qed

lemma attachPairLoop_abi:
  assumes "lawfulMap ops view"
  shows "attachPairLoop ops ae oper entry exit sys s = (r, s') \<Longrightarrow> sn_mode s = runtimeModeUltraLegacyMap \<Longrightarrow>
    case r of Inl e \<Rightarrow> sameABI s s'
    | Inr ls \<Rightarrow> \<exists>sy. ls = [Kprobe sy entry, Kretprobe sy exit] \<and> abiStep view oper sy s s'"
proof (induction sys arbitrary: s)
  case Nil
  then show ?case by auto
next
  case (Cons sy sys)
  let ?e = "Kprobe sy entry" and ?x = "Kretprobe sy exit"
  let ?o = "openLink ?x (openLink ?e s)" and ?c = "closeLink ?e (openLink ?e s)"
  have same: "sameABI s ?o" "sameABI s ?c" by (simp_all add: sameABI_def openLink_def closeLink_def)
  consider "\<not> ae_kprobe ae sy entry" | "ae_kprobe ae sy entry" "\<not> ae_kretprobe ae sy exit"
    | "ae_kprobe ae sy entry" "ae_kretprobe ae sy exit" by blast
  then show ?case
  proof cases
    case 1
    with Cons show ?thesis by simp
  next
    case 2
    then have l: "attachPairLoop ops ae oper entry exit sys ?c = (r, s')" using Cons.prems(1) by (simp add: Let_def)
    have "sn_mode ?c = runtimeModeUltraLegacyMap" using Cons.prems(2) same(2) by (simp add: sameABI_def)
    from Cons.IH [OF l this] show ?thesis
      using sameABI_trans [OF same(2)] abiStep_same [OF same(2)] by (auto split: sum.splits)
  next
    case 3
    obtain c t where c: "configureKprobeABI ops oper sy ?o = (c, t)" by (metis surj_pair)
    have o: "sn_mode ?o = runtimeModeUltraLegacyMap" using Cons.prems(2) same(1) by (simp add: sameABI_def)
    show ?thesis
    proof (cases c)
      case None
      then have "abiStep view oper sy s t"
        using abiStep_same [OF same(1)] configureKprobeABI_step [OF assms o] c by blast
      then show ?thesis using Cons.prems(1) 3 c None by (auto simp: Let_def)
    next
      case (Some e)
      then have "t = ?o" using c configureKprobeABI_failed by blast
      then show ?thesis
        using Cons.prems(1) 3 c Some by (auto simp: Let_def sameABI_def closeLink_def openLink_def)
    qed
  qed
qed

lemma abiInv_keep:
  assumes "abiInv view D s" and "oper \<notin> D" and "abiStep view oper sy s t" and "opOf prog = Some oper"
    and "\<And>y q. Kprobe y q \<in> set ls \<Longrightarrow> Kprobe y q = Kprobe sy prog"
  shows "abiInv view (insert oper D) (keepLinks ls t)"
proof -
  note st = assms(3) [unfolded abiStep_def]
  have "prog' = ''KpProcessExit'' \<or> (\<exists>o' \<in> insert oper D. opOf prog' = Some o' \<and> abiEntry view (sn_SyscallABI t) o' y)"
    if l: "Kprobe y prog' \<in> set (sn_links s) \<union> set ls" for y prog'
  proof (cases "Kprobe y prog' \<in> set ls")
    case True
    then have "y = sy" "prog' = prog" using assms(5) by blast+
    then show ?thesis using assms(4) st by blast
  next
    case False
    then have k: "Kprobe y prog' \<in> set (sn_links s)" using l by blast
    show ?thesis
    proof (cases "prog' = ''KpProcessExit''")
      case False
      then obtain o' where o: "o' \<in> D" "opOf prog' = Some o'" "abiEntry view (sn_SyscallABI s) o' y"
        using assms(1) k unfolding abiInv_def by blast
      then have "o' \<noteq> oper" using assms(2) by blast
      then show ?thesis using o st by blast
    qed simp
  qed
  then show ?thesis using assms(1) st by (auto simp: abiInv_def keepLinks_def)
qed

text \<open>
  A loop over operations keeps the invariant: each operation that is not skipped is new, and the step of an operation
  adds it to the set.
\<close>

lemma stopLoop_abi:
  assumes "\<And>x s s' D. x \<in> set xs \<Longrightarrow> abiInv view D s \<Longrightarrow> fst x \<notin> D \<or> fst x \<in> P \<Longrightarrow> f s x = (None, s') \<Longrightarrow>
      abiInv view (insert (fst x) D) s'"
    and "distinct (map fst xs)" and "\<And>x. x \<in> set xs \<Longrightarrow> fst x \<notin> D \<or> fst x \<in> P"
    and "abiInv view D s" and "stopLoop f s xs = (None, s')"
  shows "abiInv view (D \<union> fst ` set xs) s'"
  using assms
proof (induction xs arbitrary: s D)
  case Nil
  then show ?case by simp
next
  case (Cons x xs)
  obtain t where f: "f s x = (None, t)" and l: "stopLoop f t xs = (None, s')"
    using Cons.prems(5) by (auto split: prod.splits option.splits)
  have t: "abiInv view (insert (fst x) D) t" using Cons.prems(1) [OF _ Cons.prems(4) _ f] Cons.prems(3) by simp
  have new: "fst y \<notin> insert (fst x) D \<or> fst y \<in> P" if "y \<in> set xs" for y
  proof -
    have "fst x \<notin> fst ` set xs" using Cons.prems(2) by simp
    then have "fst y \<noteq> fst x" using that by (metis image_eqI)
    then show ?thesis using Cons.prems(3) [of y] that by simp
  qed
  have "abiInv view (insert (fst x) D \<union> fst ` set xs) s'"
    by (rule Cons.IH [OF Cons.prems(1) _ new t l]) (use Cons.prems(2) in auto)
  then show ?case by simp
qed

lemma tables_op:
  "list_all (\<lambda>(oper, entry, exit, opt). opOf entry = Some oper) kprobePairs"
  "list_all (\<lambda>(oper, prog, opt). opOf prog = Some oper) kprobes"
  "distinct (map fst kprobePairs)" "distinct (map fst kprobes)"
  by code_simp+

lemma attachPair_abi:
  assumes "lawfulMap ops view" and "abiInv view D s" and "fst x \<notin> D"
    and "x \<in> set kprobePairs" and "attachPair ops ae s x = (None, s')"
  shows "abiInv view (insert (fst x) D) s'"
proof -
  obtain oper entry exit opt where x: "x = (oper, entry, exit, opt)" by (metis surj_pair)
  have op: "opOf entry = Some oper" using tables_op(1) assms(4) x by (auto simp: list_all_iff)
  have mode: "sn_mode s = runtimeModeUltraLegacyMap" using assms(2) by (simp add: abiInv_def)
  obtain r t where a: "attachKprobePairWith ops ae oper entry exit s = (r, t)" by (metis surj_pair)
  have r: "case r of Inl e \<Rightarrow> sameABI s t
      | Inr ls \<Rightarrow> \<exists>sy. ls = [Kprobe sy entry, Kretprobe sy exit] \<and> abiStep view oper sy s t"
    using a attachPairLoop_abi [OF assms(1) _ mode] by (auto simp: attachKprobePairWith_def split: if_splits)
  show ?thesis
  proof (cases r)
    case (Inl e)
    then have "s' = t" "sameABI s t" using assms(5) a r by (auto simp: x attachPair_def split: if_splits)
    then show ?thesis using abiInv_mono [OF abiInv_same [OF assms(2)], of t "insert (fst x) D"] by blast
  next
    case (Inr ls)
    then obtain sy where ls: "ls = [Kprobe sy entry, Kretprobe sy exit]" "abiStep view oper sy s t" using r by auto
    moreover have "s' = keepLinks ls t" using assms(5) a Inr by (simp add: x attachPair_def)
    ultimately show ?thesis using abiInv_keep [OF assms(2) _ ls(2) op, of ls] assms(3) by (simp add: x)
  qed
qed

lemma attachOverride_abi:
  assumes "lawfulMap ops view" and "abiInv view D s" and "fst x \<notin> D \<or> fst x \<in> set (map fst kprobePairs)"
    and "x \<in> set kprobes" and "attachOverride ops ae s x = (None, s')"
  shows "abiInv view (insert (fst x) D) s'"
proof -
  obtain oper prog opt where x: "x = (oper, prog, opt)" by (metis surj_pair)
  have op: "opOf prog = Some oper" using tables_op(2) assms(4) x by (auto simp: list_all_iff)
  have mode: "sn_mode s = runtimeModeUltraLegacyMap" using assms(2) by (simp add: abiInv_def)
  show ?thesis
  proof (cases "pairedOp s oper \<or> \<not> ae_prog ae prog")
    case True
    then have "s' = s" using assms(5) by (simp add: x attachOverride_def)
    then show ?thesis using abiInv_mono [OF assms(2)] by blast
  next
    case False
    then have new: "oper \<notin> D" using assms(3) mode by (auto simp: x pairedOp_def)
    obtain r t where a: "attachKprobeWith ops ae oper prog (kprobeSymbols oper (ae_arch ae)) s = (r, t)"
      by (metis surj_pair)
    note r = attachKprobeWith_abi [OF assms(1) a mode]
    show ?thesis
    proof (cases r)
      case (Inl e)
      then have "s' = t" "sameABI s t" using assms(5) a r False by (auto simp: x attachOverride_def split: if_splits)
      then show ?thesis using abiInv_mono [OF abiInv_same [OF assms(2)], of t "insert (fst x) D"] by blast
    next
      case (Inr l)
      then obtain sy where l: "l = Kprobe sy prog" "abiStep view oper sy s t" using r by auto
      moreover have "s' = keepLinks [l] t" using assms(5) a Inr False mode by (simp add: x attachOverride_def)
      ultimately show ?thesis using abiInv_keep [OF assms(2) new l(2) op, of "[l]"] by (simp add: x)
    qed
  qed
qed

section \<open>Starting\<close>

lemma abiInv_other:
  assumes "abiInv view D s" and "sn_mode t = sn_mode s" and "sn_SyscallABI t = sn_SyscallABI s"
    and "\<And>y q. Kprobe y q \<in> set (sn_links t) \<Longrightarrow> Kprobe y q \<in> set (sn_links s)"
  shows "abiInv view D t"
  using assms unfolding abiInv_def by metis

lemma attachLSM_abi: "abiInv view D s \<Longrightarrow> abiInv view D (attachLSM ae s x)"
  by (erule abiInv_other) (auto simp: attachLSM_def keepLinks_def openLink_def split: prod.splits if_splits)

lemma attachKretprobe_abi:
  "attachKretprobe ae prog sys s = (r, t) \<Longrightarrow> sameABI s t \<and> (case r of Inl e \<Rightarrow> True | Inr l \<Rightarrow> \<exists>sy. l = Kretprobe sy prog)"
  by (induction sys) (auto split: if_splits)

lemma attachReturn_abi: "abiInv view D s \<Longrightarrow> abiInv view D (attachReturn ae s x)"
proof (cases x)
  case (Pair oper prog)
  obtain r t where a: "attachKretprobe ae prog (kprobeSymbols oper (ae_arch ae)) s = (r, t)" by (metis surj_pair)
  have e: "attachReturn ae s x = (if pairedOp s oper \<or> \<not> ae_prog ae prog then s
      else case r of Inl e \<Rightarrow> t | Inr l \<Rightarrow> keepLinks [l] t)"
    by (simp add: Pair attachReturn_def a split: sum.splits)
  show "abiInv view D s \<Longrightarrow> abiInv view D (attachReturn ae s x)"
    using attachKretprobe_abi [OF a] unfolding e
    by (erule_tac abiInv_other) (auto simp: sameABI_def keepLinks_def split: sum.splits if_splits)
qed

lemma foldl_abi: "(\<And>s x. abiInv view D s \<Longrightarrow> abiInv view D (f s x)) \<Longrightarrow> abiInv view D s \<Longrightarrow> abiInv view D (foldl f s xs)"
  by (induction xs arbitrary: s) auto

lemma attachProcessExit_abi:
  "attachProcessExit ae s = (None, t) \<Longrightarrow> abiInv view D s \<Longrightarrow> abiInv view D t"
  by (auto simp: attachProcessExit_def Let_def abiInv_def keepLinks_def openLink_def split: if_splits) blast

lemma attachAll_abi:
  assumes "lawfulMap ops view" and "abiInv view {} s" and "attachAll ops ae s = (None, s')"
  shows "\<exists>D. abiInv view D s'"
proof -
  have mode: "sn_mode s = runtimeModeUltraLegacyMap" using assms(2) by (simp add: abiInv_def)
  let ?l = "attachLSMPrograms ae s"
  have l: "abiInv view {} ?l" using foldl_abi [where f = "attachLSM ae", OF attachLSM_abi assms(2)] assms(2) by (simp add: attachLSMPrograms_def)
  then have "sn_mode ?l = runtimeModeUltraLegacyMap" by (simp add: abiInv_def)
  then obtain t u v where 1: "attachProcessExit ae ?l = (None, t)" and 2: "stopLoop (attachPair ops ae) t kprobePairs = (None, u)"
    and 3: "stopLoop (attachOverride ops ae) u kprobes = (None, v)" and s': "s' = foldl (attachReturn ae) v kretprobes"
    using assms(3) mode
    by (auto simp: attachAll_def attachTracepoints_def attachKprobePrograms_def attachUltraLegacy_def
        split: prod.splits option.splits)
  have t: "abiInv view {} t" by (rule attachProcessExit_abi [OF 1 l])
  have u: "abiInv view ({} \<union> fst ` set kprobePairs) u"
    by (rule stopLoop_abi [where P = "{}", OF attachPair_abi tables_op(3) _ t 2]) (use assms(1) in simp_all)
  have "abiInv view ({} \<union> fst ` set kprobePairs \<union> fst ` set kprobes) v"
    by (rule stopLoop_abi [where P = "set (map fst kprobePairs)", OF attachOverride_abi tables_op(4) _ u 3])
      (use assms(1) in auto)
  then have "abiInv view ({} \<union> fst ` set kprobePairs \<union> fst ` set kprobes) s'"
    unfolding s' by (intro foldl_abi [where f = "attachReturn ae"] attachReturn_abi)
  then show ?thesis by blast
qed

lemma initialize_abi:
  assumes "lawfulMap ops view" and "abiInv view {} s" and "initialize ops stat ae p dry s = (None, s')"
  shows "\<exists>D. abiInv view D s'"
proof -
  obtain m2 s3 m5 where a: "attachAll ops ae (s\<lparr>sn_maps := m2\<rparr>) = (None, s3)" and s': "s' = s3\<lparr>sn_reader := True, sn_maps := m5\<rparr>"
    using assms(3) by (auto simp: initialize_def Let_def split: option.splits if_splits prod.splits)
  have "abiInv view {} (s\<lparr>sn_maps := m2\<rparr>)" using assms(2) by (simp add: abiInv_def)
  from attachAll_abi [OF assms(1) this a] show ?thesis by (simp add: abiInv_def s')
qed

lemma tryModes_started:
  "tryModes load init closeOK modes = (Inr s, ss) \<Longrightarrow> \<exists>mode maps abi. init mode (newSensor mode maps abi) = (None, s)"
  by (induction modes arbitrary: ss) (auto split: loadResult.splits if_splits option.splits prod.splits)

lemma NewWithOptions_started:
  assumes "NewWithOptions modeEnv loaders ops stat ae closeOK p dry = (Inr s, ss)"
  shows "\<exists>mode maps abi. initialize ops stat (ae mode) p dry (newSensor mode maps abi) = (None, s)"
  using assms tryModes_started by (fastforce simp: NewWithOptions_def newSensorWith_def split: sum.splits)

lemma initialize_mode: "initialize ops stat ae p dry s = (e, s') \<Longrightarrow> sn_mode s' = sn_mode s"
  by (auto simp: initialize_def Let_def split: option.splits if_splits prod.splits dest!: every.keeps_mode)

text \<open>
  C16. In a started polling runtime every syscall kprobe is read with the right register layout: the ABI map holds, under
  the key of the kprobe's own operation, the layout of the very symbol it is attached to, whichever of the
  candidate symbols the kernel accepted for this and for every other operation.
\<close>

theorem kprobe_abi_matches:
  assumes "lawfulMap ops view" and "NewWithOptions modeEnv loaders ops stat ae closeOK p dry = (Inr s, ss)"
    and "sn_mode s = runtimeModeUltraLegacyMap" and "Kprobe sy prog \<in> set (sn_links s)" and "prog \<noteq> ''KpProcessExit''"
  shows "\<exists>oper key layout m. opOf prog = Some oper \<and> syscallABIForSymbol oper sy = Inr (key, layout) \<and>
    sn_SyscallABI s = Some m \<and> view m (K32 key) = Some (V32 layout)"
proof -
  obtain mode maps abi where i: "initialize ops stat (ae mode) p dry (newSensor mode maps abi) = (None, s)"
    using NewWithOptions_started [OF assms(2)] by blast
  have "abiInv view {} (newSensor mode maps abi)"
    using initialize_mode [OF i] assms(3) by (simp add: abiInv_def newSensor_def)
  from initialize_abi [OF assms(1) this i] obtain D where "abiInv view D s" by blast
  then show ?thesis using assms(4,5) unfolding abiInv_def abiEntry_def by blast
qed

text \<open>A kernel without the wrapper symbol of \<open>write\<close>: its kprobe falls back to the next candidate.\<close>

definition pollingEnv :: attachEnv where
  "pollingEnv = \<lparr>ae_arch = ''amd64'',
     ae_prog = (\<lambda>prog. prog \<in> set (''KpProcessExit'' # concat (map (\<lambda>(oper, entry, exit, opt). [entry, exit]) kprobePairs))),
     ae_tracepoint = (\<lambda>_ _. False), ae_kprobe = (\<lambda>sy _. sy \<noteq> ''__x64_sys_write''), ae_kretprobe = (\<lambda>_ _. True),
     ae_lsm = (\<lambda>_. False), ae_lsmFile = None, ae_reader = True\<rparr>"

definition pollingLoader :: "listMap objectLoaders" where
  "pollingLoader = \<lparr>ol_core = LoadFailed False, ol_legacyPerf = LoadFailed False, ol_ultraLegacyMap = Loaded emptyMaps (Some ([], 4))\<rparr>"

definition pollingStart :: "(new_error + listMap sensor) \<times> listMap sensor list" where
  "pollingStart = NewWithOptions ''ultra_legacy_map'' pollingLoader listOps (\<lambda>_. None) (\<lambda>_. pollingEnv) (\<lambda>_. True)
     (zeroPolicy\<lparr>pol_Action := ''kill''\<rparr>) False"

lemma pollingStart_started:
  "\<exists>s. pollingStart = (Inr s, []) \<and> sn_mode s = runtimeModeUltraLegacyMap \<and>
     Kprobe ''__se_sys_write'' ''KpOverrideWrite'' \<in> set (sn_links s)"
proof -
  let ?i = "initialize listOps (\<lambda>_. None) pollingEnv (zeroPolicy\<lparr>pol_Action := ''kill''\<rparr>) False
    (newSensor ''ultra_legacy_map'' emptyMaps (Some ([], 4)))"
  have "case ?i of (e, s) \<Rightarrow> e = None \<and> sn_mode s = ''ultra_legacy_map'' \<and>
      Kprobe ''__se_sys_write'' ''KpOverrideWrite'' \<in> set (sn_links s)" by code_simp
  then obtain s where s: "?i = (None, s)" "sn_mode s = ''ultra_legacy_map''"
    "Kprobe ''__se_sys_write'' ''KpOverrideWrite'' \<in> set (sn_links s)" by (auto split: prod.splits)
  have l: "ToLower (TrimSpace ''ultra_legacy_map'') = ''ultra_legacy_map''"
    "sensorModeCandidates (TrimSpace ''ultra_legacy_map'') = Inr [''ultra_legacy_map'']" by code_simp+
  have "loadSensorObjectsWith ''ultra_legacy_map'' pollingLoader = Loaded emptyMaps (Some ([], 4))"
    by (simp add: loadSensorObjectsWith_def l runtimeModeCore_def runtimeModeLegacyPerf_def
        runtimeModeUltraLegacyMap_def pollingLoader_def)
  then show ?thesis
    using s l by (simp add: pollingStart_def NewWithOptions_def newSensorWith_def runtimeModeUltraLegacyMap_def)
qed

theorem kprobe_abi_matches_witness:
  "\<exists>s m. fst pollingStart = Inr s \<and> sn_SyscallABI s = Some m \<and> listView m (K32 4) = Some (V32 1)"
proof -
  obtain s where s: "pollingStart = (Inr s, [])" "sn_mode s = runtimeModeUltraLegacyMap"
    "Kprobe ''__se_sys_write'' ''KpOverrideWrite'' \<in> set (sn_links s)" using pollingStart_started by blast
  have "''KpOverrideWrite'' \<noteq> ''KpProcessExit''" by simp
  from kprobe_abi_matches [OF listOps_lawful s(1) [unfolded pollingStart_def] s(2,3) this]
  obtain oper key layout m where o: "opOf ''KpOverrideWrite'' = Some oper"
    "syscallABIForSymbol oper ''__se_sys_write'' = Inr (key, layout)" "sn_SyscallABI s = Some m"
    "listView m (K32 key) = Some (V32 layout)" by blast
  have "opOf ''KpOverrideWrite'' = Some ''write''" "syscallABIForSymbol ''write'' ''__se_sys_write'' = Inr (4, 1)"
    by code_simp+
  then have "key = 4" "layout = 1" using o(1,2) by simp_all
  then show ?thesis using s(1) o(3,4) by (metis fst_conv)
qed

end
