(* ===== verification/Agent_Props.thy ===== *)
theory Agent_Props
  imports Agent_Run
begin

text \<open>
  Behaviour of the agent's operations: what is ignored, when a process is blocked and for how long, what idle
  pruning forgets, and how counters of the sensor become deltas. The caches that idle pruning clears
  and the two counters are interfaces (\<open>idle_cache\<close>, \<open>counter_delta\<close>) with the agent's fields as instances.
\<close>

section \<open>Ignored events\<close>

text \<open>Failed operations and completed writes change nothing: no descriptor, window, cache, counter or effect.\<close>

lemma failed_events_ignored:
  assumes "ev_Type ev \<noteq> EventBlock"
    and "ev_Phase ev = PhaseFailure \<or> ev_Type ev = EventWrite \<and> ev_Phase ev = PhaseSuccess"
  shows "handle en a ev = a"
  using assms by (auto simp: handle_def Let_def)

text \<open>
  An event other than exec of a trusted process that touches neither a backup nor a self-protected path is not scored: it may
  refresh caches, but no window, counter or effect changes.
\<close>

lemma trusted_event_unscored:
  assumes "ev_Type ev \<noteq> EventExec"
    and "fst (isTrustedEvent en a ev)"
    and "\<not> fst (backupSensitiveEvent (snd (isTrustedEvent en a ev)) ev)"
    and "\<not> fst (selfProtectSensitiveEvent (snd (backupSensitiveEvent (snd (isTrustedEvent en a ev)) ev)) ev)"
  shows "ag_procs (handleInScope en a ev) = ag_procs a \<and> ag_trace (handleInScope en a ev) = ag_trace a \<and>
         ag_metrics (handleInScope en a ev) = ag_metrics a"
proof -
  have bl: "blacklistedEvent en a ev = ((False, []), a)"
    using assms(1) by (simp add: blacklistedEvent_def split: option.split)
  obtain tr a2 where 2: "isTrustedEvent en a ev = (tr, a2)" by (metis surj_pair)
  obtain ba a3 where 3: "backupSensitiveEvent a2 ev = (ba, a3)" by (metis surj_pair)
  obtain se a4 where 4: "selfProtectSensitiveEvent a3 ev = (se, a4)" by (metis surj_pair)
  have "calm a a2" using calm_isTrustedEvent [of a en ev] 2 by simp
  moreover have "calm a2 a3" using calm_backupSensitiveEvent [of a2 ev] 3 by simp
  moreover have "calm a3 a4" using calm_selfProtectSensitiveEvent [of a3 ev] 4 by simp
  ultimately have "calm a a4" by (blast intro: calm_trans)
  moreover have "handleInScope en a ev = a4"
    using assms by (simp add: handleInScope_def screen_def bl 2 3 4)
  ultimately show ?thesis by (simp add: calm_def)
qed

definition trustingPolicy :: policy where
  "trustingPolicy = (srvPolicy ''kill'')\<lparr>pol_TrustedProcesses := [''backupd''], pol_BackupDirs := [''/backup'']\<rparr>"

lemma trusted_event_unscored_witness:
  "ag_trace (handleInScope quietEnv (New emptyWorld trustingPolicy False True) (unlinkEvent\<lparr>ev_Comm := ''backupd''\<rparr>)) = []"
proof -
  let ?a = "New emptyWorld trustingPolicy False True" and ?ev = "unlinkEvent\<lparr>ev_Comm := ''backupd''\<rparr>"
  have t: "isTrustedEvent quietEnv ?a ?ev = (True, ?a)"
    by (simp add: isTrustedEvent_def New_def trustingPolicy_def srvPolicy_def zeroPolicy_def trustedComm_def
        isTrustedIdentityMatched_def unlinkEvent_def Let_def)
  have path: "\<not> hasDirPrefix ''/srv/a'' [''/backup'']" by code_simp
  have b: "backupSensitiveEvent ?a ?ev = (False, ?a)"
    using path by (simp add: backupSensitiveEvent_def New_def trustingPolicy_def unlinkEvent_def zeroEvent_def
        pickPath_def inBackupScope_def)
  have s: "selfProtectSensitiveEvent ?a ?ev = (False, ?a)"
    by (simp add: selfProtectSensitiveEvent_def New_def trustingPolicy_def srvPolicy_def zeroPolicy_def
        unlinkEvent_def zeroEvent_def pickPath_def inSelfProtectScope_def hasDirPrefix_def)
  have "ag_trace (handleInScope quietEnv ?a ?ev) = ag_trace ?a"
    using trusted_event_unscored [of ?ev quietEnv ?a] by (simp add: t b s) (simp add: unlinkEvent_def)
  then show ?thesis by (simp add: New_def)
qed

lemma fdPath_binding: "fdPath t tgid fd = (case abstractFd t (fdk tgid fd) of None \<Rightarrow> [] | Some path \<Rightarrow> path)"
  by (simp add: fdPath_def abstractFd_def split: option.split)

text \<open>
  C38. A writable mapping of a backup file by a trusted process escapes the backup guard. When a trusted process maps a
  descriptor whose file is in the backup scope and not self-protected, the handler changes no window, counter or effect,
  although the scoring table gives the event the score of a mapping plus that of destroying a backup, and
  although a write through the same descriptor is kept under observation: the guard does not list mappings.
\<close>

theorem trusted_backup_mmap_skipped:
  assumes "ev_Type ev = EventMmap" and "\<not> isZero (ev_Timestamp ev)" and "pickPath ev = []"
    and "abstractFd (ag_fdPaths a) (fdk (ev_TGID ev) (ev_Arg0 ev)) = Some path" and "path \<noteq> []"
    and "inBackupScope (ag_policy a) path" and "\<not> inSelfProtectScope (ag_policy a) path"
    and "fst (isTrustedEvent en a ev)"
  shows "ag_procs (handle en a ev) = ag_procs a \<and> ag_trace (handle en a ev) = ag_trace a \<and>
    ag_metrics (handle en a ev) = ag_metrics a \<and>
    fst (score en a ev) = (add64 (sc_Mmap (pol_Scores (ag_policy a))) (sc_BackupDestroy (pol_Scores (ag_policy a))),
      ''writable mmap on backup fd'') \<and>
    fst (backupSensitiveEvent a (ev\<lparr>ev_Type := EventWrite\<rparr>))"
proof -
  let ?a = "snd (isTrustedEvent en a ev)"
  have c: "ag_policy ?a = ag_policy a" "abstractFd (ag_fdPaths ?a) = abstractFd (ag_fdPaths a)"
    using calm_isTrustedEvent [of a en ev] by (simp_all add: calm_def)
  have t: "fst (touchFD t (ev_TGID ev) (ev_Arg0 ev) seen) = path" if "abstractFd t = abstractFd (ag_fdPaths a)" for t seen
    using that assms(4) by (simp add: fdPath_binding)
  have "backupSensitiveEvent ?a ev = (False, ?a)" using assms(1) by (simp add: backupSensitiveEvent_def)
  moreover have "\<not> fst (selfProtectSensitiveEvent ?a ev)"
    using assms(1,3,7) t [OF c(2)] by (simp add: selfProtectSensitiveEvent_def fdOrPick_def case_prod_beta c(1) Let_def)
  ultimately have "ag_procs (handleInScope en a ev) = ag_procs a \<and> ag_trace (handleInScope en a ev) = ag_trace a \<and>
      ag_metrics (handleInScope en a ev) = ag_metrics a"
    using assms(1,8) by (intro trusted_event_unscored) simp_all
  moreover have "updateFD (en_world en) (ag_fdPaths a) ev = (ag_fdPaths a, ev, False)"
    using assms(1) by (simp add: updateFD_def)
  then have "handle en a ev = a \<or> handle en a ev = handleInScope en a ev"
    using assms(1,2) by (simp add: handle_def)
  moreover have "fst (score en a ev) = scoreFd (ag_policy a) EventMmap path"
    using assms(1) t [OF refl] by (simp add: score_def touch_def case_prod_beta Let_def)
  moreover have "fst (backupSensitiveEvent a (ev\<lparr>ev_Type := EventWrite\<rparr>))"
    using assms(3,6) t [OF refl]
    by (auto simp: backupSensitiveEvent_def fdOrPick_def pickPath_def case_prod_beta Let_def split: if_splits)
  ultimately show ?thesis using assms(5-7) by (auto simp: scoreFd_def Let_def)
qed

definition backupMmap :: event where
  "backupMmap = zeroEvent\<lparr>ev_Type := EventMmap, ev_Timestamp := 50, ev_TGID := 7, ev_Arg0 := 3, ev_Comm := ''backupd''\<rparr>"

theorem trusted_backup_mmap_skipped_witness:
  "let a = (New emptyWorld trustingPolicy False True)
       \<lparr>ag_fdPaths := [fdk 7 3 \<mapsto> \<lparr>fs_Path = ''/backup/x'', fs_LastSeen = 1\<rparr>]\<rparr>
   in ag_trace (handle quietEnv a backupMmap) = [] \<and>
      snd (fst (score quietEnv a backupMmap)) = ''writable mmap on backup fd''"
proof -
  let ?a = "(New emptyWorld trustingPolicy False True)
    \<lparr>ag_fdPaths := [fdk 7 3 \<mapsto> \<lparr>fs_Path = ''/backup/x'', fs_LastSeen = 1\<rparr>]\<rparr>"
  have t: "fst (isTrustedEvent quietEnv ?a backupMmap)"
    by (simp add: isTrustedEvent_def New_def trustingPolicy_def srvPolicy_def zeroPolicy_def trustedComm_def
        isTrustedIdentityMatched_def backupMmap_def Let_def)
  have p: "ag_policy ?a = trustingPolicy" "ag_trace ?a = []" by (simp_all add: New_def)
  have d: "hasDirPrefix ''/backup/x'' [''/backup'']" "\<not> hasDirPrefix ''/backup/x'' []" by code_simp+
  have "pol_BackupDirs trustingPolicy = [''/backup'']" "pol_SelfProtectPaths trustingPolicy = []"
    by (simp_all add: trustingPolicy_def srvPolicy_def zeroPolicy_def)
  then have s: "inBackupScope (ag_policy ?a) ''/backup/x''" "\<not> inSelfProtectScope (ag_policy ?a) ''/backup/x''"
    unfolding p(1) inBackupScope_def inSelfProtectScope_def using d by (simp_all only: simp_thms)
  have e: "ev_Type backupMmap = EventMmap" "\<not> isZero (ev_Timestamp backupMmap)" "pickPath backupMmap = []"
      "ev_TGID backupMmap = 7" "ev_Arg0 backupMmap = 3"
    by (simp_all add: backupMmap_def zeroEvent_def pickPath_def)
  have "abstractFd (ag_fdPaths ?a) (fdk (ev_TGID backupMmap) (ev_Arg0 backupMmap)) = Some ''/backup/x''"
    unfolding e by (simp add: abstractFd_def)
  then have "ag_trace (handle quietEnv ?a backupMmap) = ag_trace ?a \<and> fst (score quietEnv ?a backupMmap) =
      (add64 (sc_Mmap (pol_Scores (ag_policy ?a))) (sc_BackupDestroy (pol_Scores (ag_policy ?a))), ''writable mmap on backup fd'')"
    using trusted_backup_mmap_skipped [OF e(1-3) _ _ s t] by blast
  then show ?thesis unfolding Let_def p(2) by (elim conjE) (simp only: snd_conv simp_thms)
qed

section \<open>Blocking\<close>

text \<open>
  A process is treated as blocked exactly while a block is recorded and, with a positive TTL, not older than
  the TTL; asking about an expired block forgets it and changes nothing else.
\<close>

lemma isBlocked_until_ttl:
  "(fst (isBlocked en a t) \<longleftrightarrow> t \<noteq> 0 \<and> (\<exists>seen. ag_blocked a t = Some seen \<and>
      (pol_BlockTTL (ag_policy a) \<le> 0 \<or> isZero seen \<or> timeSub (en_now en) seen \<le> pol_BlockTTL (ag_policy a)))) \<and>
   (\<exists>m. snd (isBlocked en a t) = a\<lparr>ag_blocked := m\<rparr> \<and>
      (\<forall>u. m u = (if u = t \<and> t \<noteq> 0 \<and> \<not> fst (isBlocked en a t) then None else ag_blocked a u)))"
proof (cases "t = 0 \<or> ag_blocked a t = None")
  case True
  then show ?thesis by (auto simp: isBlocked_def intro!: exI [where x = "ag_blocked a"])
next
  case False
  then obtain seen where seen: "ag_blocked a t = Some seen" "t \<noteq> 0" by auto
  show ?thesis
  proof (cases "0 < pol_BlockTTL (ag_policy a) \<and> \<not> isZero seen \<and>
      pol_BlockTTL (ag_policy a) < timeSub (en_now en) seen")
    case True
    with seen show ?thesis
      by (auto simp: isBlocked_def intro!: exI [where x = "(ag_blocked a)(t := None)"])
  next
    case False
    with seen have "isBlocked en a t = (True, a)" by (auto simp: isBlocked_def)
    with False seen show ?thesis by (auto intro!: exI [where x = "ag_blocked a"])
  qed
qed

lemma action_fix:
  assumes "act \<in> {''log'', ''deny'', ''kill''}"
  shows "normalizeAction (ToLower (TrimSpace act)) = act"
proof -
  have "normalizeAction (ToLower (TrimSpace ''log'')) = ''log''" "normalizeAction (ToLower (TrimSpace ''deny'')) = ''deny''"
    "normalizeAction (ToLower (TrimSpace ''kill'')) = ''kill''" by code_simp+
  with assms show ?thesis by auto
qed

lemma stateBlocked_False: "stateBlocked p clock st now = (False, st') \<Longrightarrow> \<not> ps_Blocked st'"
  by (auto simp: stateBlocked_def Let_def split: if_splits)

text \<open>Whether enforcing an action takes effect: not for log, not in a dry run, and only if the sensor accepts the block.\<close>

definition accepted :: "env \<Rightarrow> agent \<Rightarrow> u32 \<Rightarrow> string \<Rightarrow> bool" where
  "accepted en a t act \<longleftrightarrow> act \<noteq> ''log'' \<and> \<not> ag_DryRun a \<and> ag_hasSensor a \<and>
     en_block en t (blockAction act) (pol_BlockTTL (ag_policy a))"

lemma alertAndEnforce_outcome:
  assumes "act \<in> {''log'', ''deny'', ''kill''}"
  shows "ag_procs (alertAndEnforce en a st act) = ag_procs a"
    and "ag_blocked (alertAndEnforce en a st act) (ps_TGID st) =
      (if accepted en a (ps_TGID st) act \<or> act \<noteq> ''log'' \<and> ag_DryRun a then Some (en_now en) else ag_blocked a (ps_TGID st))"
    and "ag_trace (alertAndEnforce en a st act) = ag_trace a @ [Alert (alertOf en a st act (ag_DryRun a))] @
      (if accepted en a (ps_TGID st) act
       then PutBlock (ps_TGID st) (blockAction act) (pol_BlockTTL (ag_policy a)) #
         (if act = ''kill'' then [SigKill (ps_TGID st)] else [])
       else [])"
proof -
  have "normalizeAction (ToLower (TrimSpace act)) = act" using assms(1) by (rule action_fix)
  moreover have "blockAction act = BlockActionKill \<longleftrightarrow> act = ''kill''" by (simp add: blockAction_def)
  ultimately show "ag_procs (alertAndEnforce en a st act) = ag_procs a"
    "ag_blocked (alertAndEnforce en a st act) (ps_TGID st) =
      (if accepted en a (ps_TGID st) act \<or> act \<noteq> ''log'' \<and> ag_DryRun a then Some (en_now en) else ag_blocked a (ps_TGID st))"
    "ag_trace (alertAndEnforce en a st act) = ag_trace a @ [Alert (alertOf en a st act (ag_DryRun a))] @
      (if accepted en a (ps_TGID st) act
       then PutBlock (ps_TGID st) (blockAction act) (pol_BlockTTL (ag_policy a)) #
         (if act = ''kill'' then [SigKill (ps_TGID st)] else [])
       else [])"
    by (simp_all add: alertAndEnforce_def Let_def enforceTGID_def emitAlert_def emit_def countAlert_def countBlock_def
        rememberBlocked_def alertOf_def accepted_def)
qed

text \<open>
  What a window calls for (the actions of an accepted policy are \<open>log\<close>, \<open>deny\<close> and \<open>kill\<close>, as \<open>normalize\<close> leaves them): the action of the first rule that matches, and only when no rule matches and the score has reached
  the threshold the action of the policy.
\<close>

definition verdict :: "policy \<Rightarrow> procState \<Rightarrow> string option" where
  "verdict p st =
     (case matchRule p st of
        Some (_, act) \<Rightarrow> Some act
      | None \<Rightarrow> if pol_Threshold p \<le> ps_Score st then Some (policyAction p) else None)"

definition plainActions :: "policy \<Rightarrow> bool" where
  "plainActions p \<longleftrightarrow>
     list_all (\<lambda>act. act \<in> {''log'', ''deny'', ''kill''}) (pol_Action p # map ru_Action (pol_Rules p))"

lemma verdict_valid:
  assumes "plainActions p" and "verdict p st = Some act"
  shows "act \<in> {''log'', ''deny'', ''kill''}"
proof (cases "matchRule p st")
  case None
  then have "act = policyAction p" using assms(2) by (simp add: verdict_def split: if_splits)
  then show ?thesis using action_fix [of "pol_Action p"] assms(1) by (auto simp: policyAction_def plainActions_def)
next
  case (Some m)
  then obtain r where "List.find (ruleMatches (ps_Features st)) (pol_Rules p) = Some r" "act = ru_Action r"
    using assms(2) by (auto simp: verdict_def matchRule_def split: option.splits)
  then show ?thesis using assms(1) by (auto simp: plainActions_def list_all_iff find_Some_iff dest: nth_mem)
qed

lemma handleScored_verdict:
  assumes "stateBlocked (ag_policy a) (en_now en)
      (recordScored (ag_policy a) (ag_fdPaths a) (prune (ag_policy a) (state en a ev) (ev_Timestamp ev)) ev sc why)
      (ev_Timestamp ev) = (False, st)"
  shows "case verdict (ag_policy a) st of
      None \<Rightarrow> handleScored en a ev sc why = putState a (ev_TGID ev) st
    | Some act \<Rightarrow> \<exists>st'. handleScored en a ev sc why = alertAndEnforce en (putState a (ev_TGID ev) st') st' act \<and>
        ps_TGID st' = ps_TGID st \<and> (ps_Blocked st' \<longleftrightarrow> act \<noteq> ''log'')"
proof -
  have nb: "\<not> ps_Blocked st" using assms by (rule stateBlocked_False)
  then have again: "stateBlocked (ag_policy a) (en_now en) st (ev_Timestamp ev) = (False, st)"
    by (simp add: stateBlocked_def)
  show ?thesis
    unfolding handleScored_def Let_def assms prod.case
    using nb again by (auto simp: verdict_def checkThreshold_def block_def Let_def split: option.split)
qed

text \<open>
  C5. The outcome of a scored event. Under a policy with the actions log, deny and kill, for a process that is not blocked once the event is recorded, the
  handler does what the verdict of the window says, a matching rule first and the threshold only when no rule
  matches. Without a verdict it has no effect. With one it emits one alert; log stops there, so a matching log rule also
  keeps a process over the threshold from being blocked. For deny and kill the window is marked blocked, and outside
  a dry run, with a sensor that accepts the block, the block is written with the policy's TTL, the process is
  killed when the action is kill, and it is remembered as blocked; in a dry run it is only remembered.
\<close>

theorem threshold_enforced:
  assumes "agentOK a" and "plainActions (ag_policy a)"
    and "stateBlocked (ag_policy a) (en_now en)
      (recordScored (ag_policy a) (ag_fdPaths a) (prune (ag_policy a) (state en a ev) (ev_Timestamp ev)) ev sc why)
      (ev_Timestamp ev) = (False, st)"
    and "b = handleScored en a ev sc why" and "t = ev_TGID ev"
  shows "case verdict (ag_policy a) st of
      None \<Rightarrow> ag_trace b = ag_trace a \<and> ag_blocked b = ag_blocked a \<and>
        (\<exists>st'. ag_procs b t = Some st' \<and> \<not> ps_Blocked st')
    | Some act \<Rightarrow>
        (\<exists>al. al_TGID al = t \<and> al_Action al = act \<and> al_DryRun al = ag_DryRun a \<and>
           ag_trace b = ag_trace a @ [Alert al] @
             (if accepted en a t act
              then PutBlock t (blockAction act) (pol_BlockTTL (ag_policy a)) # (if act = ''kill'' then [SigKill t] else [])
              else [])) \<and>
        ag_blocked b t =
          (if accepted en a t act \<or> act \<noteq> ''log'' \<and> ag_DryRun a then Some (en_now en) else ag_blocked a t) \<and>
        (\<exists>st'. ag_procs b t = Some st' \<and> (ps_Blocked st' \<longleftrightarrow> act \<noteq> ''log''))"
proof -
  have tgid: "ps_TGID st = t"
    using stateBlocked_TGID [of "ag_policy a" "en_now en" "recordScored (ag_policy a) (ag_fdPaths a)
        (prune (ag_policy a) (state en a ev) (ev_Timestamp ev)) ev sc why" "ev_Timestamp ev"]
      state_ok(2) [OF assms(1), of en ev] unfolding assms(3,5) by simp
  show ?thesis
  proof (cases "verdict (ag_policy a) st")
    case None
    then have "b = putState a t st" using handleScored_verdict [OF assms(3)] by (simp add: assms(4,5))
    then show ?thesis using None stateBlocked_False [OF assms(3)] by (simp add: putState_def)
  next
    case (Some act)
    then obtain st' where st': "b = alertAndEnforce en (putState a t st') st' act" "ps_TGID st' = t"
        "ps_Blocked st' \<longleftrightarrow> act \<noteq> ''log''"
      using handleScored_verdict [OF assms(3)] tgid by (auto simp: assms(4,5))
    let ?a = "putState a t st'"
    have a: "ag_procs ?a t = Some st'" "ag_trace ?a = ag_trace a" "ag_blocked ?a = ag_blocked a" "ag_policy ?a = ag_policy a"
        "ag_DryRun ?a = ag_DryRun a" "accepted en ?a t act = accepted en a t act"
      by (simp_all add: putState_def accepted_def)
    note out = alertAndEnforce_outcome [OF verdict_valid [OF assms(2) Some], where en = en and a = ?a and st = st', unfolded st'(2) a]
    have "al_TGID (alertOf en ?a st' act d) = t" "al_Action (alertOf en ?a st' act d) = act"
        "al_DryRun (alertOf en ?a st' act d) = d" for d
      using st'(2) by (simp_all add: alertOf_def)
    then show ?thesis
      unfolding Some option.case st'(1) out
      by (intro conjI exI [of _ "alertOf en ?a st' act (ag_DryRun a)"] exI [of _ st'] refl a(1) st'(3))
  qed
qed

definition logRulePolicy :: policy where
  "logRulePolicy = (srvPolicy ''kill'')\<lparr>pol_Rules := [\<lparr>ru_Name = ''watch'', ru_Feature = ''distinct_paths'', ru_Op = ''>='',
     ru_Value = 0, ru_Action = ''log'', ru_Reason = []\<rparr>]\<rparr>"

theorem threshold_enforced_witness:
  "(\<exists>al. ag_trace (handleScored quietEnv (New emptyWorld (srvPolicy ''kill'') False True) unlinkEvent 8 ''u'') =
     [Alert al, PutBlock 7 2 0, SigKill 7]) \<and>
   (\<exists>al. ag_trace (handleScored quietEnv (New emptyWorld logRulePolicy False True) unlinkEvent 8 ''u'') = [Alert al])"
proof -
  let ?x = "\<lambda>p. stateBlocked p (en_now quietEnv) (recordScored p (ag_fdPaths (New emptyWorld p False True))
      (prune p (state quietEnv (New emptyWorld p False True) unlinkEvent) (ev_Timestamp unlinkEvent)) unlinkEvent 8 ''u'')
      (ev_Timestamp unlinkEvent)"
  let ?k = "srvPolicy ''kill''"
  have k: "\<not> fst (?x ?k) \<and> verdict ?k (snd (?x ?k)) = Some ''kill'' \<and> plainActions ?k \<and>
      blockAction ''kill'' = 2 \<and> pol_BlockTTL ?k = 0" by code_simp
  have l: "\<not> fst (?x logRulePolicy) \<and> verdict logRulePolicy (snd (?x logRulePolicy)) = Some ''log'' \<and>
      plainActions logRulePolicy" by code_simp
  have n: "ag_policy (New emptyWorld p False True) = p" "ag_trace (New emptyWorld p False True) = []"
      "ev_TGID unlinkEvent = 7" for p
    by (simp_all add: New_def unlinkEvent_def)
  have "accepted quietEnv (New emptyWorld ?k False True) 7 ''kill''"
    by (simp add: accepted_def New_def quietEnv_def)
  moreover have "\<not> accepted quietEnv (New emptyWorld logRulePolicy False True) 7 ''log''"
    by (simp add: accepted_def)
  ultimately show ?thesis
    using threshold_enforced [OF agentOK_New, of emptyWorld ?k False True quietEnv unlinkEvent 8 "''u''" "snd (?x ?k)", OF _ _ refl refl]
      threshold_enforced [OF agentOK_New, of emptyWorld logRulePolicy False True quietEnv unlinkEvent 8 "''u''"
        "snd (?x logRulePolicy)", OF _ _ refl refl] k l
    unfolding n by (simp add: prod_eq_iff) blast
qed

end
