(* ===== verification/Notify.thy ===== *)
theory Notify
  imports GoPaths
begin

text \<open>
  \<open>internal/systemd/notify.go\<close>: the notification socket and the watchdog interval. The environment is the
  parameter \<open>getenv\<close> (the empty text for an unset variable); a datagram is the pair of its address and its text.
\<close>

record notifier =
  no_socket :: string
  no_watchdog :: duration

type_synonym datagram = "string \<times> string"

datatype socketState = Refused | Broken | Listening

datatype notify_error = DialFailed | WriteFailed

definition parseWatchdogUsec :: "string \<Rightarrow> duration" where
  "parseWatchdogUsec raw =
     (if raw = [] then 0
      else case ParseInt64 raw of
        None \<Rightarrow> 0
      | Some usec \<Rightarrow> if usec \<le> 0 then 0 else mul64 usec 1000)"

definition NewFromEnv :: "(string \<Rightarrow> string) \<Rightarrow> notifier option" where
  "NewFromEnv getenv =
     (let socket = getenv ''NOTIFY_SOCKET'' in
      if socket = [] then None
      else Some \<lparr>no_socket = socket, no_watchdog = parseWatchdogUsec (getenv ''WATCHDOG_USEC'')\<rparr>)"

definition notifyAddr :: "string \<Rightarrow> string" where
  "notifyAddr socket = (if HasPrefix socket ''@'' then CHR 0x00 # TrimPrefix socket ''@'' else socket)"

text \<open>
  One call of \<open>notify\<close>: the error it returns and the datagrams that left. \<open>net\<close> answers for the operating system, by
  address: no connection, a connection whose write fails, or delivery.
\<close>

definition notify :: "(string \<Rightarrow> socketState) \<Rightarrow> notifier \<Rightarrow> string \<Rightarrow> notify_error option \<times> datagram list" where
  "notify net n state =
     (let addr = notifyAddr (no_socket n) in
      case net addr of
        Refused \<Rightarrow> (Some DialFailed, [])
      | Broken \<Rightarrow> (Some WriteFailed, [])
      | Listening \<Rightarrow> (None, [(addr, state)]))"

definition Ready :: "(string \<Rightarrow> socketState) \<Rightarrow> notifier \<Rightarrow> notify_error option \<times> datagram list" where
  "Ready net n = notify net n ''READY=1''"

definition watchdogInterval :: "notifier \<Rightarrow> duration" where
  "watchdogInterval n =
     (if no_watchdog n \<le> 0 then 0
      else let interval = no_watchdog n div 2 in if interval \<le> 0 then 1000000 else interval)"

text \<open>
  The datagrams \<open>StartWatchdog\<close> sends until it is cancelled: \<open>nets\<close> has the state of the socket at each tick of the
  ticker, and the error of a tick is dropped.
\<close>

definition StartWatchdog :: "notifier \<Rightarrow> (string \<Rightarrow> socketState) list \<Rightarrow> datagram list" where
  "StartWatchdog n nets =
     (if watchdogInterval n \<le> 0 then [] else concat (map (\<lambda>net. snd (notify net n ''WATCHDOG=1'')) nets))"

lemma parseWatchdogUsec_exact:
  assumes "ParseInt64 raw = Some usec" and "0 < usec" and "int64 (usec * 1000)"
  shows "parseWatchdogUsec raw = usec * 1000"
proof -
  have "raw \<noteq> []" using assms(1) by (auto simp: ParseInt64_def)
  then show ?thesis using assms by (simp add: parseWatchdogUsec_def mul64_def wrap64_id)
qed

lemma watchdogInterval_half:
  assumes "1 < no_watchdog n"
  shows "0 < watchdogInterval n \<and> 2 * watchdogInterval n \<le> no_watchdog n"
proof -
  have "1 \<le> no_watchdog n div 2" using assms by linarith
  then show ?thesis using assms by (simp add: watchdogInterval_def Let_def)
qed

text \<open>Every tick that finds the socket listening keeps the service alive: nothing that failed before stops it.\<close>

lemma StartWatchdog_survives:
  assumes "1 < no_watchdog n" and "net \<in> set nets" and "net (notifyAddr (no_socket n)) = Listening"
  shows "(notifyAddr (no_socket n), ''WATCHDOG=1'') \<in> set (StartWatchdog n nets)"
  using assms watchdogInterval_half [OF assms(1)] by (force simp: StartWatchdog_def notify_def)

end
