(* ===== verification/Program.thy ===== *)
theory Program
  imports SensorAttach_Laws Agent_Props Notify
begin

text \<open>
  \<open>cmd/ebpffls/main.go\<close>: the command line and how \<open>monitor\<close> puts the policy, the sensor and the agent together. The
  flag parser \<open>github.com/spf13/pflag\<close> is the parameter \<open>parseFlags\<close>: the configuration paths, the dry-run
  and the debug flag (which only adds log lines), or \<open>None\<close> for an error.
\<close>

datatype main_error =
    FlagError
  | ConfigError config_error
  | BadAction string
  | SensorError new_error
  | UnknownCommand string

datatype command = ShowUsage | RunMonitor "string list"

definition run :: "string list \<Rightarrow> main_error + command" where
  "run args =
     (case args of
        [] \<Rightarrow> Inr ShowUsage
      | cmd # rest \<Rightarrow>
          if cmd = ''monitor'' then Inr (RunMonitor rest)
          else if cmd = ''help'' \<or> cmd = ''-h'' \<or> cmd = ''--help'' then Inr ShowUsage
          else Inl (UnknownCommand cmd))"

text \<open>
  \<open>monitor\<close> up to the call of \<open>Agent.Run\<close>: \<open>openSensor\<close> is \<open>sensor.NewWithOptions\<close> in the current environment. The
  result is the running sensor, the agent's first state and the datagrams the notifier sent.
\<close>

definition notifyReady :: "(string \<Rightarrow> string) \<Rightarrow> (string \<Rightarrow> socketState) \<Rightarrow> datagram list" where
  "notifyReady getenv net =
     (case NewFromEnv getenv of None \<Rightarrow> [] | Some n \<Rightarrow> snd (Ready net n))"

definition monitor ::
  "(string list \<Rightarrow> (string list \<times> bool \<times> bool) option) \<Rightarrow> (string \<Rightarrow> string option) \<Rightarrow> (string \<Rightarrow> policy option) \<Rightarrow>
   (policy \<Rightarrow> bool \<Rightarrow> new_error + 'm sensor) \<Rightarrow> (string \<Rightarrow> string) \<Rightarrow> (string \<Rightarrow> socketState) \<Rightarrow> world \<Rightarrow> string list \<Rightarrow>
   main_error + 'm sensor \<times> agent \<times> datagram list" where
  "monitor parseFlags readFile decode openSensor getenv net w args =
     (case parseFlags args of
        None \<Rightarrow> Inl FlagError
      | Some (configPaths, dryRun, debugEvents) \<Rightarrow>
          (case LoadMany readFile decode configPaths of
             Inl e \<Rightarrow> Inl (ConfigError e)
           | Inr p \<Rightarrow>
               if pol_Action p \<noteq> ''log'' \<and> pol_Action p \<noteq> ''deny'' \<and> pol_Action p \<noteq> ''kill''
               then Inl (BadAction (pol_Action p))
               else (case openSensor p dryRun of
                       Inl e \<Rightarrow> Inl (SensorError e)
                     | Inr s \<Rightarrow> Inr (s, New w p dryRun True, notifyReady getenv net))))"

lemma LoadMany_valid: "LoadMany readFile decode paths = Inr p \<Longrightarrow> validPolicy p"
  using normalize_validPolicy by (auto simp: LoadMany_def Let_def split: sum.splits)

lemma New_sel [simp]:
  "ag_policy (New w p dry sensor) = p" "ag_DryRun (New w p dry sensor) = dry" "ag_hasSensor (New w p dry sensor) = sensor"
  by (simp_all add: New_def)

lemma monitor_Inr:
  assumes "monitor parseFlags readFile decode openSensor getenv net w args = Inr (s, a, sent)"
  shows "\<exists>p dry. openSensor p dry = Inr s \<and> a = New w p dry True \<and> validPolicy p"
  using assms LoadMany_valid by (fastforce simp: monitor_def split: option.splits sum.splits if_splits)

text \<open>The actions the agent can be asked to enforce: that of the policy and those of its rules.\<close>

definition policyActions :: "policy \<Rightarrow> string set" where
  "policyActions p = insert (pol_Action p) (ru_Action ` set (pol_Rules p))"

lemma canonical_actions:
  "TrimSpace ''deny'' = ''deny''" "ToLower ''deny'' = ''deny''" "normalizeAction ''deny'' = ''deny''"
  "TrimSpace ''kill'' = ''kill''" "ToLower ''kill'' = ''kill''" "normalizeAction ''kill'' = ''kill''"
  "TrimSpace ''log'' = ''log''" "ToLower ''log'' = ''log''" "normalizeAction ''log'' = ''log''"
  by code_simp+

lemma BlockTGID_not_refused:
  "action = BlockActionKill \<or> ca_DenyAvailable caps \<Longrightarrow>
   fst (BlockTGID ops uptime caps sm tgid action ttl) \<noteq> Some DenyUnavailable"
  by (auto simp: BlockTGID_def Let_def split: option.splits)

lemma valid_actions:
  "validPolicy p \<Longrightarrow> action \<in> policyActions p \<Longrightarrow> action \<in> {''log'', ''deny'', ''kill''}"
  by (auto simp: validPolicy_def policyActions_def)

lemma started_denies:
  assumes "NewWithOptions modeEnv loaders ops stat ae closeOK p False = (Inr s, ss)"
    and "validPolicy p" and "''deny'' \<in> policyActions p"
  shows "ca_DenyAvailable (sn_capabilities s)"
proof -
  obtain mode s0 where "initialize ops stat (ae mode) p False s0 = (None, s)"
    using NewWithOptions_success [OF assms(1)] by blast
  then have v: "validatePolicyCapabilities (sn_capabilities s) p False = None" using initialize_success by blast
  have d: "foldsToDeny (TrimSpace ''deny'')" by code_simp
  from assms(3) consider "pol_Action p = ''deny''" | r where "r \<in> set (pol_Rules p)" "ru_Action r = ''deny''"
    by (auto simp: policyActions_def)
  then show ?thesis
  proof cases
    case 1
    then show ?thesis using v d by (simp add: validatePolicyCapabilities_def split: if_splits)
  next
    case 2
    then have "list_ex (\<lambda>r. let a = ToLower (TrimSpace (ru_Action r)) in a = ''deny'' \<or> a = ''block'') (pol_Rules p)"
      by (auto simp: list_ex_iff canonical_actions intro!: bexI [of _ r])
    then show ?thesis using v by (simp add: validatePolicyCapabilities_def split: if_splits)
  qed
qed

text \<open>A request the sensor cannot refuse: the process is not zero, the clock and the map answer, deny is available.\<close>

lemma BlockTGID_accepts:
  assumes "sm_BlockedTgids sm = Some m" and "tgid \<noteq> 0" and "act \<in> {''deny'', ''kill''}"
    and "act = ''deny'' \<Longrightarrow> ca_DenyAvailable caps" and "\<And>k v. op_put ops m k v \<noteq> None"
  shows "fst (BlockTGID ops (Some up) caps sm tgid (blockAction act) ttl) = None"
proof -
  have put: "(case op_put ops m k v of None \<Rightarrow> (Some MapFailed, sm) | Some m' \<Rightarrow> (None, f m')) =
      (None, f (the (op_put ops m k v)))" for k v f
    using assms(5) [of k v] by (cases "op_put ops m k v") simp_all
  from assms(3) consider "act = ''deny''" | "act = ''kill''" by blast
  then show ?thesis
    by cases (simp_all add: BlockTGID_def blockAction_def Let_def assms(1,2,4) put)
qed

lemma monitor_started:
  assumes "monitor parseFlags readFile decode (\<lambda>p dry. fst (NewWithOptions modeEnv loaders ops stat ae closeOK p dry))
      getenv net w args = Inr (s, a0, sent)"
    and "\<not> ag_DryRun a0" and "act \<in> policyActions (ag_policy a0)" and "act \<noteq> ''log''"
  shows "act \<in> {''deny'', ''kill''} \<and> (act = ''deny'' \<longrightarrow> ca_DenyAvailable (sn_capabilities s)) \<and> ag_hasSensor a0"
proof -
  obtain p dry where p: "fst (NewWithOptions modeEnv loaders ops stat ae closeOK p dry) = Inr s" "a0 = New w p dry True"
    "validPolicy p" using monitor_Inr [OF assms(1)] by blast
  then have a: "\<not> dry" "act \<in> policyActions p" "ag_hasSensor a0" using assms(2,3) by simp_all
  then obtain ss where n: "NewWithOptions modeEnv loaders ops stat ae closeOK p False = (Inr s, ss)"
    using p(1) by (metis (full_types) eq_fst_iff)
  have "act \<in> {''deny'', ''kill''}" using valid_actions [OF p(3) a(2)] assms(4) by blast
  moreover have "ca_DenyAvailable (sn_capabilities s)" if "act = ''deny''"
    using started_denies [OF n p(3)] a(2) that by blast
  ultimately show ?thesis using a(3) by blast
qed

text \<open>A command line, a policy file and a kernel with which \<open>monitor\<close> starts.\<close>

definition killFile :: policy where
  "killFile = zeroPolicy\<lparr>pol_Action := ''kill''\<rparr>"

definition killMonitor :: "bool \<Rightarrow> main_error + (listMap sensor \<times> agent \<times> datagram list)" where
  "killMonitor dryRun = monitor (\<lambda>_. Some ([''p.yaml''], dryRun, False)) (\<lambda>_. Some []) (\<lambda>_. Some killFile)
     (\<lambda>p dry. fst (NewWithOptions ''core'' coreLoader listOps (\<lambda>_. None) (\<lambda>_. traceEnv) (\<lambda>_. True) p dry))
     (\<lambda>_. []) (\<lambda>_. Refused) emptyWorld []"

definition samePolicyMaps :: "policy \<Rightarrow> policy \<Rightarrow> bool" where
  "samePolicyMaps p q \<longleftrightarrow> pol_SuspiciousExtensions p = pol_SuspiciousExtensions q \<and>
     pol_RansomNoteNames p = pol_RansomNoteNames q \<and> pol_ProtectedDirs p = pol_ProtectedDirs q \<and>
     pol_CgroupPaths p = pol_CgroupPaths q"

lemma ConfigurePolicy_same:
  "samePolicyMaps p q \<Longrightarrow> ConfigurePolicy ops stat p sm = ConfigurePolicy ops stat q sm"
  unfolding samePolicyMaps_def ConfigurePolicy_def by (elim conjE) (simp only:)

lemma killMonitor_starts:
  "\<exists>s a0. killMonitor dryRun = Inr (s, a0, []) \<and> ag_DryRun a0 = dryRun \<and> pol_Action (ag_policy a0) = ''kill''"
proof -
  have "case LoadMany (\<lambda>_. Some []) (\<lambda>_. Some killFile) [''p.yaml''] of Inl e \<Rightarrow> False
        | Inr p \<Rightarrow> pol_Action p = ''kill'' \<and> pol_Rules p = [] \<and> samePolicyMaps p zeroPolicy"
    by code_simp
  then obtain p where p: "LoadMany (\<lambda>_. Some []) (\<lambda>_. Some killFile) [''p.yaml''] = Inr p" "pol_Action p = ''kill''"
    "pol_Rules p = []" "samePolicyMaps p zeroPolicy"
    by (auto split: sum.splits)
  have "fst (ConfigurePolicy listOps (\<lambda>_. None) zeroPolicy emptyMaps) = None" by code_simp
  then have c: "fst (ConfigurePolicy listOps (\<lambda>_. None) p emptyMaps) = None"
    using p(4) by (simp add: ConfigurePolicy_same)
  obtain s where "NewWithOptions ''core'' coreLoader listOps (\<lambda>_. None) (\<lambda>_. traceEnv) (\<lambda>_. True)
      p dryRun = (Inr s, [])"
    using startCore [OF p(2,3) c] by blast
  then show ?thesis using p by (simp add: killMonitor_def monitor_def notifyReady_def NewFromEnv_def)
qed

end
