(* ===== verification/BpfCore.thy ===== *)
theory BpfCore
  imports SensorPolicy
begin

text \<open>
  \<open>bpf/ransomware.bpf.c\<close> and \<open>bpf/events.h\<close>: the kernel side of the core runtime. \<open>kernel\<close> holds the BPF maps, the
  records submitted to the ring buffer and the processes that were sent \<open>SIGKILL\<close>; a program is a function on it. What
  the kernel's helpers answer while a program runs is the record \<open>task\<close>: the current process, its cgroups, the clock,
  whether the ring buffer has room and whether a hash map takes another entry. The C \<open>struct event\<close> is the
  record \<open>event\<close> of its decoder: \<open>ts_ns\<close> is \<open>ev_MonotonicNS\<close>, \<open>version\<close> is \<open>ev_ABIVersion\<close>, and a text field holds the bytes
  before the zeros that fill the rest of its buffer.
\<close>

section \<open>State\<close>

definition PATH_MAX_LEN :: nat where [go_consts]: "PATH_MAX_LEN = 256"
definition TASK_COMM_LEN :: nat where [go_consts]: "TASK_COMM_LEN = 16"
definition NAME_MAX_LEN :: nat where [go_consts]: "NAME_MAX_LEN = 128"
definition MAX_DENTRY_DEPTH :: nat where [go_consts]: "MAX_DENTRY_DEPTH = 8"
definition MAX_CGROUP_ANCESTORS :: nat where [go_consts]: "MAX_CGROUP_ANCESTORS = 32"

abbreviation (input) BLOCK_ACTION_DENY :: u32 where "BLOCK_ACTION_DENY \<equiv> 1"
abbreviation (input) BLOCK_ACTION_KILL :: u32 where "BLOCK_ACTION_KILL \<equiv> 2"
abbreviation (input) BLOCK_REASON_INLINE_IOC :: u64 where "BLOCK_REASON_INLINE_IOC \<equiv> 3"

record pending_open =
  po_dirfd :: i32
  po_flags :: i32
  po_path :: string

record pending_dup =
  pd_oldfd :: i32
  pd_newfd :: i32

record pending_write =
  pw_operation_id :: u64
  pw_size :: u64
  pw_syscall_id :: i64
  pw_fd :: i32
  pw_vector :: u32

record kernel =
  k_events :: "event list"
  k_ringbuf_drops :: u64
  k_capture_gaps :: u64
  k_blocked_tgids :: "u32 \<rightharpoonup> blockEntry"
  k_ioc_extensions :: "u64 set"
  k_ioc_ransom_notes :: "u64 set"
  k_protected_dirs :: "(u64 \<times> u64) set"
  k_inline_ioc_action :: "u32 option"
  k_allowed_cgroups :: "u64 set"
  k_cgroup_scope_enabled :: "8 word option"
  k_pending_opens :: "u64 \<rightharpoonup> pending_open"
  k_pending_dups :: "u64 \<rightharpoonup> pending_dup"
  k_pending_writes :: "u64 \<rightharpoonup> pending_write"
  k_killed :: "u32 list"

record task =
  t_pid_tgid :: u64
  t_uid_gid :: u64
  t_ppid :: u32
  t_comm :: string
  t_now :: u64
  t_cgroup :: u64
  t_ancestor :: "nat \<Rightarrow> u64"
  t_room :: bool
  t_update :: bool

text \<open>The arguments of a system call, user memory as \<open>bpf_probe_read_user_str\<close> and \<open>bpf_probe_read_user\<close> find it, and the result.\<close>

record syscall_ctx =
  sc_id :: i64
  sc_args :: "nat \<Rightarrow> u64"
  sc_str :: "u64 \<Rightarrow> string option"
  sc_bytes :: "u64 \<Rightarrow> nat \<Rightarrow> string option"
  sc_ret :: i64

text \<open>
  The part of a dentry that is read: its name and its inode with the device of its superblock. A path is the list of
  dentries from the one given up to the root of its file system; a name that cannot be read is absent.
\<close>

record dentry =
  d_name :: "string option"
  d_inode :: "(u32 option \<times> u64) option"

definition current_tgid :: "task \<Rightarrow> u32" where
  "current_tgid t = ucast (drop_bit 32 (t_pid_tgid t))"

definition cText :: "nat \<Rightarrow> string \<Rightarrow> string" where
  "cText n s = take (n - 1) (takeWhile (\<lambda>c. c \<noteq> CHR 0x00) s)"

text \<open>\<open>bpf_probe_read_user_str\<close> into a cleared buffer: a fault leaves it cleared.\<close>

definition user_str :: "nat \<Rightarrow> syscall_ctx \<Rightarrow> nat \<Rightarrow> string" where
  "user_str n ctx i = (case sc_str ctx (sc_args ctx i) of None \<Rightarrow> [] | Some s \<Rightarrow> cText n s)"

abbreviation user_path :: "syscall_ctx \<Rightarrow> nat \<Rightarrow> string" where
  "user_path \<equiv> user_str PATH_MAX_LEN"

abbreviation int_arg :: "syscall_ctx \<Rightarrow> nat \<Rightarrow> i32" where
  "int_arg ctx i \<equiv> ucast (sc_args ctx i)"

section \<open>Helpers\<close>

definition count_ringbuf_drop :: "kernel \<Rightarrow> kernel" where
  "count_ringbuf_drop k = k\<lparr>k_ringbuf_drops := k_ringbuf_drops k + 1\<rparr>"

definition count_capture_gap :: "kernel \<Rightarrow> kernel" where
  "count_capture_gap k = k\<lparr>k_capture_gaps := k_capture_gaps k + 1\<rparr>"

definition cgroup_in_scope :: "task \<Rightarrow> kernel \<Rightarrow> bool" where
  "cgroup_in_scope t k =
     (case k_cgroup_scope_enabled k of
        None \<Rightarrow> True
      | Some enabled \<Rightarrow>
          enabled = 0 \<or>
          list_ex (\<lambda>cgid. cgid \<noteq> 0 \<and> cgid \<in> k_allowed_cgroups k)
            (t_cgroup t # map (t_ancestor t) [0..<MAX_CGROUP_ANCESTORS]))"

definition new_event :: "task \<Rightarrow> u32 \<Rightarrow> kernel \<Rightarrow> event option \<times> kernel" where
  "new_event t type k =
     (if \<not> cgroup_in_scope t k then (None, k)
      else if \<not> t_room t then (None, count_ringbuf_drop k)
      else (Some \<lparr>ev_Timestamp = 0, ev_PID = ucast (t_pid_tgid t), ev_TGID = current_tgid t, ev_PPID = t_ppid t,
              ev_UID = ucast (t_uid_gid t), ev_Type = type, ev_Arg0 = 0, ev_Arg1 = 0, ev_Size = 0,
              ev_Comm = cText TASK_COMM_LEN (t_comm t), ev_Path = [], ev_Path2 = [], ev_ABIVersion = 2,
              ev_Phase = PhaseAttempt, ev_Source = SourceTracepoint, ev_Flags = 0, ev_SyscallID = 0, ev_Result = 0,
              ev_OperationID = 0, ev_RequestedBytes = 0, ev_ActualBytes = 0, ev_VectorCount = 0,
              ev_MonotonicNS = t_now t\<rparr>, k))"

text \<open>\<open>new_event\<close>, its fields, \<open>bpf_ringbuf_submit\<close>: the idiom of every program that reports.\<close>

definition report :: "task \<Rightarrow> u32 \<Rightarrow> (event \<Rightarrow> event) \<Rightarrow> kernel \<Rightarrow> kernel" where
  "report t type fill k =
     (case new_event t type k of (None, k1) \<Rightarrow> k1 | (Some e, k1) \<Rightarrow> k1\<lparr>k_events := k_events k1 @ [fill e]\<rparr>)"

definition current_block_entry :: "task \<Rightarrow> kernel \<Rightarrow> blockEntry option \<times> kernel" where
  "current_block_entry t k =
     (case k_blocked_tgids k (current_tgid t) of
        None \<Rightarrow> (None, k)
      | Some entry \<Rightarrow>
          if be_ExpiresNs entry \<noteq> 0 \<and> be_ExpiresNs entry < t_now t
          then (None, k\<lparr>k_blocked_tgids := (k_blocked_tgids k)(current_tgid t := None)\<rparr>)
          else (Some entry, k))"

definition send_sigkill :: "task \<Rightarrow> kernel \<Rightarrow> kernel" where
  "send_sigkill t k = k\<lparr>k_killed := k_killed k @ [current_tgid t]\<rparr>"

abbreviation (input) EPERM :: int where "EPERM \<equiv> 1"

definition deny_or_kill :: "task \<Rightarrow> blockEntry \<Rightarrow> kernel \<Rightarrow> int \<times> kernel" where
  "deny_or_kill t entry k =
     (- EPERM, if be_Action entry = BLOCK_ACTION_KILL then send_sigkill t k else k)"

text \<open>The result is what the system call returns in place of running, if anything.\<close>

definition enforce_blocked_syscall :: "task \<Rightarrow> kernel \<Rightarrow> int option \<times> kernel" where
  "enforce_blocked_syscall t k =
     (case current_block_entry t k of
        (None, k1) \<Rightarrow> (None, k1)
      | (Some entry, k1) \<Rightarrow>
          if be_Action entry = BLOCK_ACTION_KILL then (None, send_sigkill t k1) else (Some (- EPERM), k1))"

definition lower_char :: "char \<Rightarrow> char" where
  "lower_char c = (if 65 \<le> byte c \<and> byte c \<le> 90 then char_of (byte c + 32) else c)"

definition ntohs16 :: "16 word \<Rightarrow> 16 word" where
  "ntohs16 v = drop_bit 8 v OR push_bit 8 v"

definition user_device_id :: "u32 \<Rightarrow> u64" where
  "user_device_id dev =
     (let major = drop_bit 20 dev; minor = dev AND (push_bit 20 1 - 1) in
      ucast ((minor AND 0xff) OR push_bit 8 major OR push_bit 12 (minor AND NOT 0xff)))"

definition dentry_protected :: "kernel \<Rightarrow> dentry \<Rightarrow> bool" where
  "dentry_protected k d =
     (case d_inode d of
        None \<Rightarrow> False
      | Some (sb, ino) \<Rightarrow> ((case sb of None \<Rightarrow> 0 | Some dev \<Rightarrow> user_device_id dev), ino) \<in> k_protected_dirs k)"

definition protected_path :: "kernel \<Rightarrow> dentry list \<Rightarrow> bool" where
  "protected_path k path = list_ex (dentry_protected k) (take MAX_DENTRY_DEPTH path)"

definition hash_byte :: "u64 \<Rightarrow> char \<Rightarrow> u64" where
  "hash_byte h c = (h XOR of_nat (byte c)) * 1099511628211"

fun name_hashes :: "string \<Rightarrow> u64 \<times> u64 \<times> bool \<Rightarrow> u64 \<times> u64 \<times> bool" where
  "name_hashes [] st = st"
| "name_hashes (got # name) (full_hash, ext_hash, has_ext) =
     (let lower = lower_char got; has_ext1 = (has_ext \<or> got = CHR ''.'');
          ext1 = (if got = CHR ''.'' then 14695981039346656037 else ext_hash)
      in name_hashes name (hash_byte full_hash lower, if has_ext1 then hash_byte ext1 lower else ext1, has_ext1))"

definition suspicious_dentry :: "kernel \<Rightarrow> dentry \<Rightarrow> bool" where
  "suspicious_dentry k d =
     (case d_name d of
        None \<Rightarrow> False
      | Some name \<Rightarrow>
          if name = [] \<or> NAME_MAX_LEN \<le> length name then False
          else case name_hashes name (14695981039346656037, 0, False) of
            (full_hash, ext_hash, has_ext) \<Rightarrow>
              full_hash \<in> k_ioc_ransom_notes k \<or> has_ext \<and> ext_hash \<in> k_ioc_extensions k)"

definition suspicious_path_dentry :: "task \<Rightarrow> kernel \<Rightarrow> dentry list \<Rightarrow> dentry \<Rightarrow> bool" where
  "suspicious_path_dentry t k path d \<longleftrightarrow> cgroup_in_scope t k \<and> protected_path k path \<and> suspicious_dentry k d"

definition configured_inline_ioc_action :: "kernel \<Rightarrow> u32" where
  "configured_inline_ioc_action k = (case k_inline_ioc_action k of None \<Rightarrow> 0 | Some action \<Rightarrow> action)"

text \<open>Every caller passes no path.\<close>

definition emit_block_event :: "task \<Rightarrow> u32 \<Rightarrow> kernel \<Rightarrow> kernel" where
  "emit_block_event t op = report t EventBlock (\<lambda>e. e\<lparr>ev_Arg0 := op, ev_Phase := PhaseBlocked, ev_Source := SourceLSM,
     ev_Flags := EventFlagResultValid, ev_Result := - 1\<rparr>)"

definition enforce_inline_ioc :: "task \<Rightarrow> u32 \<Rightarrow> dentry \<Rightarrow> kernel \<Rightarrow> int \<times> kernel" where
  "enforce_inline_ioc t op d k =
     (let action = configured_inline_ioc_action k in
      if action \<noteq> BLOCK_ACTION_DENY \<and> action \<noteq> BLOCK_ACTION_KILL then (0, k)
      else
        let k1 = report t EventBlock (\<lambda>e. e\<lparr>ev_Arg0 := op, ev_Phase := PhaseBlocked, ev_Source := SourceLSM,
                   ev_Flags := EventFlagResultValid, ev_Result := - 1, ev_Arg1 := action,
                   ev_Size := BLOCK_REASON_INLINE_IOC,
                   ev_Path := (case d_name d of None \<Rightarrow> [] | Some name \<Rightarrow> cText PATH_MAX_LEN name)\<rparr>) k
        in (- EPERM, if action = BLOCK_ACTION_KILL then send_sigkill t k1 else k1))"

section \<open>LSM programs\<close>

text \<open>The part the LSM programs share: a blocked process is denied and the denial reported.\<close>

definition enforce_block :: "task \<Rightarrow> u32 \<Rightarrow> kernel \<Rightarrow> int \<times> kernel" where
  "enforce_block t op k =
     (case current_block_entry t k of
        (None, k1) \<Rightarrow> (0, k1)
      | (Some entry, k1) \<Rightarrow> deny_or_kill t entry (emit_block_event t op k1))"

definition enforce_file_open :: "task \<Rightarrow> i32 \<Rightarrow> int \<Rightarrow> kernel \<Rightarrow> int \<times> kernel" where
  "enforce_file_open t flags ret k =
     (if ret \<noteq> 0 then (ret, k)
      else if flags AND 512 \<noteq> 0 \<or> flags AND 3 = 1 \<or> flags AND 3 = 2 then enforce_block t EventOpen k
      else (0, k))"

definition enforce_file_permission :: "task \<Rightarrow> i32 \<Rightarrow> int \<Rightarrow> kernel \<Rightarrow> int \<times> kernel" where
  "enforce_file_permission t mode ret k =
     (if ret \<noteq> 0 then (ret, k)
      else case current_block_entry t k of
        (None, k1) \<Rightarrow> (0, k1)
      | (Some entry, k1) \<Rightarrow>
          if mode AND 2 \<noteq> 0 then deny_or_kill t entry (emit_block_event t EventWrite k1) else (0, k1))"

definition enforce_path_truncate :: "task \<Rightarrow> int \<Rightarrow> kernel \<Rightarrow> int \<times> kernel" where
  "enforce_path_truncate t ret k = (if ret \<noteq> 0 then (ret, k) else enforce_block t EventTruncate k)"

text \<open>An inline indicator is enforced before the block of the process is looked up.\<close>

definition enforce_name ::
  "task \<Rightarrow> u32 \<Rightarrow> dentry list \<Rightarrow> dentry \<Rightarrow> int \<Rightarrow> kernel \<Rightarrow> int \<times> kernel" where
  "enforce_name t op dir d ret k =
     (if ret \<noteq> 0 then (ret, k)
      else
        let (verdict, k1) = (if suspicious_path_dentry t k dir d then enforce_inline_ioc t op d k else (0, k))
        in if verdict \<noteq> 0 then (verdict, k1) else enforce_block t op k1)"

definition enforce_path_rename_common :: "task \<Rightarrow> dentry list \<Rightarrow> dentry \<Rightarrow> int \<Rightarrow> kernel \<Rightarrow> int \<times> kernel" where
  "enforce_path_rename_common t new_dir new_dentry = enforce_name t EventRename new_dir new_dentry"

definition enforce_path_rename :: "task \<Rightarrow> dentry list \<Rightarrow> dentry \<Rightarrow> int \<Rightarrow> kernel \<Rightarrow> int \<times> kernel" where
  "enforce_path_rename t new_dir new_dentry = enforce_path_rename_common t new_dir new_dentry"

definition enforce_path_rename_legacy :: "task \<Rightarrow> dentry list \<Rightarrow> dentry \<Rightarrow> int \<Rightarrow> kernel \<Rightarrow> int \<times> kernel" where
  "enforce_path_rename_legacy t new_dir new_dentry = enforce_path_rename_common t new_dir new_dentry"

definition enforce_inode_rename :: "task \<Rightarrow> int \<Rightarrow> kernel \<Rightarrow> int \<times> kernel" where
  "enforce_inode_rename t ret k = (if ret \<noteq> 0 then (ret, k) else enforce_block t EventRename k)"

definition enforce_path_mknod :: "task \<Rightarrow> dentry list \<Rightarrow> dentry \<Rightarrow> int \<Rightarrow> kernel \<Rightarrow> int \<times> kernel" where
  "enforce_path_mknod t dir d = enforce_name t EventOpen dir d"

definition enforce_inode_create :: "task \<Rightarrow> int \<Rightarrow> kernel \<Rightarrow> int \<times> kernel" where
  "enforce_inode_create t ret k = (if ret \<noteq> 0 then (ret, k) else enforce_block t EventOpen k)"

definition enforce_path_unlink :: "task \<Rightarrow> dentry list \<Rightarrow> dentry \<Rightarrow> int \<Rightarrow> kernel \<Rightarrow> int \<times> kernel" where
  "enforce_path_unlink t dir d = enforce_name t EventUnlink dir d"

definition enforce_bprm_check_security :: "task \<Rightarrow> int \<Rightarrow> kernel \<Rightarrow> int \<times> kernel" where
  "enforce_bprm_check_security t ret k = (if ret \<noteq> 0 then (ret, k) else enforce_block t EventExec k)"

end
