(* ===== verification/BpfTrace.thy ===== *)
theory BpfTrace
  imports BpfCore
begin

text \<open>
  \<open>bpf/ransomware.bpf.c\<close>: the programs on tracepoints and kprobes of the core runtime, which report system calls, and the
  step relation \<open>coreStep\<close> of all programs of the object. Calls whose result matters are reported on return:
  what was seen on entry waits in a map under the thread.
\<close>

section \<open>Processes\<close>

definition trace_execve :: "task \<Rightarrow> syscall_ctx \<Rightarrow> kernel \<Rightarrow> kernel" where
  "trace_execve t ctx = report t EventExec (\<lambda>e. e\<lparr>ev_SyscallID := sc_id ctx, ev_Flags := EventFlagSyscallIDValid,
     ev_Path := user_path ctx 0\<rparr>)"

definition trace_exec_success :: "task \<Rightarrow> kernel \<Rightarrow> kernel" where
  "trace_exec_success t = report t EventExec (\<lambda>e. e\<lparr>ev_Phase := PhaseSuccess, ev_Source := SourceSched\<rparr>)"

definition trace_process_exit :: "task \<Rightarrow> kernel \<Rightarrow> kernel" where
  "trace_process_exit t k =
     (let id = t_pid_tgid t;
          k1 = (if k_pending_writes k id \<noteq> None then count_capture_gap k else k)
      in k1\<lparr>k_pending_writes := (k_pending_writes k1)(id := None), k_pending_opens := (k_pending_opens k1)(id := None),
           k_pending_dups := (k_pending_dups k1)(id := None)\<rparr>)"

text \<open>The programs \<open>kp_override_*\<close> have one body.\<close>

definition kp_override :: "task \<Rightarrow> kernel \<Rightarrow> int option \<times> kernel" where
  "kp_override t k = enforce_blocked_syscall t k"

section \<open>Opening\<close>

definition remember_open :: "task \<Rightarrow> pending_open \<Rightarrow> kernel \<Rightarrow> kernel" where
  "remember_open t pending k =
     (if t_update t then k\<lparr>k_pending_opens := (k_pending_opens k)(t_pid_tgid t \<mapsto> pending)\<rparr> else k)"

definition trace_openat :: "task \<Rightarrow> syscall_ctx \<Rightarrow> kernel \<Rightarrow> kernel" where
  "trace_openat t ctx k =
     (if \<not> cgroup_in_scope t k then k
      else remember_open t \<lparr>po_dirfd = int_arg ctx 0, po_flags = int_arg ctx 2, po_path = user_path ctx 1\<rparr> k)"

definition complete_open :: "task \<Rightarrow> syscall_ctx \<Rightarrow> kernel \<Rightarrow> kernel" where
  "complete_open t ctx k =
     (case k_pending_opens k (t_pid_tgid t) of
        None \<Rightarrow> k
      | Some pending \<Rightarrow>
          let fd = (ucast (sc_ret ctx) :: i32);
              k1 = report t EventOpen (\<lambda>e. e\<lparr>ev_Phase := (if 0 \<le> sint fd then PhaseSuccess else PhaseFailure),
                     ev_SyscallID := sc_id ctx, ev_Result := sc_ret ctx,
                     ev_Flags := EventFlagResultValid OR EventFlagSyscallIDValid, ev_Arg0 := po_flags pending,
                     ev_Arg1 := fd, ev_Size := ucast (po_dirfd pending), ev_Path := po_path pending\<rparr>) k
          in k1\<lparr>k_pending_opens := (k_pending_opens k1)(t_pid_tgid t := None)\<rparr>)"

definition trace_openat_exit :: "task \<Rightarrow> syscall_ctx \<Rightarrow> kernel \<Rightarrow> kernel" where
  "trace_openat_exit t ctx = complete_open t ctx"

text \<open>\<open>how->flags\<close> is read as four bytes; a fault clears them.\<close>

definition trace_openat2 :: "byteOrder \<Rightarrow> task \<Rightarrow> syscall_ctx \<Rightarrow> kernel \<Rightarrow> kernel" where
  "trace_openat2 native t ctx k =
     (if \<not> cgroup_in_scope t k then k
      else remember_open t \<lparr>po_dirfd = int_arg ctx 0,
             po_flags = (case sc_bytes ctx (sc_args ctx 2) 4 of None \<Rightarrow> 0 | Some bs \<Rightarrow> Uint32 native bs 0),
             po_path = user_path ctx 1\<rparr> k)"

definition trace_openat2_exit :: "task \<Rightarrow> syscall_ctx \<Rightarrow> kernel \<Rightarrow> kernel" where
  "trace_openat2_exit t ctx = complete_open t ctx"

section \<open>Writing\<close>

definition write_metadata :: "pending_write \<Rightarrow> event \<Rightarrow> event" where
  "write_metadata pending e =
     (let e1 = e\<lparr>ev_Arg0 := pw_fd pending, ev_Size := pw_size pending, ev_OperationID := pw_operation_id pending,
                 ev_SyscallID := pw_syscall_id pending, ev_Flags := EventFlagSyscallIDValid\<rparr>
      in if pw_vector pending \<noteq> 0
         then e1\<lparr>ev_VectorCount := ucast (pw_size pending), ev_Flags := ev_Flags e1 OR EventFlagVectorCountValid\<rparr>
         else e1\<lparr>ev_RequestedBytes := pw_size pending, ev_Flags := ev_Flags e1 OR EventFlagRequestedBytesValid\<rparr>)"

definition remember_write :: "task \<Rightarrow> syscall_ctx \<Rightarrow> u32 \<Rightarrow> kernel \<Rightarrow> kernel" where
  "remember_write t ctx vector k =
     (if \<not> cgroup_in_scope t k then k
      else
        let pending = \<lparr>pw_operation_id = t_now t, pw_size = sc_args ctx 2, pw_syscall_id = sc_id ctx,
                       pw_fd = int_arg ctx 0, pw_vector = vector\<rparr>;
            id = t_pid_tgid t;
            k1 = (if t_update t then k\<lparr>k_pending_writes := (k_pending_writes k)(id \<mapsto> pending)\<rparr>
                  else (count_capture_gap k)\<lparr>k_pending_writes := (k_pending_writes k)(id := None)\<rparr>)
        in report t EventWrite (write_metadata pending) k1)"

definition complete_write :: "task \<Rightarrow> syscall_ctx \<Rightarrow> kernel \<Rightarrow> kernel" where
  "complete_write t ctx k =
     (let id = t_pid_tgid t in
      case k_pending_writes k id of
        None \<Rightarrow> k
      | Some pending \<Rightarrow>
          if pw_syscall_id pending \<noteq> sc_id ctx
          then (count_capture_gap k)\<lparr>k_pending_writes := (k_pending_writes k)(id := None)\<rparr>
          else
            let k1 = report t EventWrite (\<lambda>e.
                  let e1 = write_metadata pending e in
                  e1\<lparr>ev_Phase := (if 0 \<le> sint (sc_ret ctx) then PhaseSuccess else PhaseFailure),
                     ev_Result := sc_ret ctx,
                     ev_ActualBytes := (if 0 < sint (sc_ret ctx) then sc_ret ctx else 0),
                     ev_Flags := ev_Flags e1 OR EventFlagResultValid OR EventFlagActualBytesValid\<rparr>) k
            in k1\<lparr>k_pending_writes := (k_pending_writes k1)(id := None)\<rparr>)"

definition trace_write :: "task \<Rightarrow> syscall_ctx \<Rightarrow> kernel \<Rightarrow> kernel" where
  "trace_write t ctx = remember_write t ctx 0"

definition trace_write_exit :: "task \<Rightarrow> syscall_ctx \<Rightarrow> kernel \<Rightarrow> kernel" where
  "trace_write_exit t ctx = complete_write t ctx"

definition trace_pwrite64 :: "task \<Rightarrow> syscall_ctx \<Rightarrow> kernel \<Rightarrow> kernel" where
  "trace_pwrite64 t ctx = remember_write t ctx 0"

definition trace_pwrite64_exit :: "task \<Rightarrow> syscall_ctx \<Rightarrow> kernel \<Rightarrow> kernel" where
  "trace_pwrite64_exit t ctx = complete_write t ctx"

definition trace_writev :: "task \<Rightarrow> syscall_ctx \<Rightarrow> kernel \<Rightarrow> kernel" where
  "trace_writev t ctx = remember_write t ctx 1"

definition trace_writev_exit :: "task \<Rightarrow> syscall_ctx \<Rightarrow> kernel \<Rightarrow> kernel" where
  "trace_writev_exit t ctx = complete_write t ctx"

definition trace_copy_file_range :: "task \<Rightarrow> syscall_ctx \<Rightarrow> kernel \<Rightarrow> kernel" where
  "trace_copy_file_range t ctx =
     report t EventWrite (\<lambda>e. e\<lparr>ev_Arg0 := int_arg ctx 2, ev_Size := sc_args ctx 4\<rparr>)"

section \<open>Other descriptors\<close>

definition trace_close :: "task \<Rightarrow> syscall_ctx \<Rightarrow> kernel \<Rightarrow> kernel" where
  "trace_close t ctx = report t EventClose (\<lambda>e. e\<lparr>ev_Arg0 := int_arg ctx 0\<rparr>)"

definition trace_getdents64 :: "task \<Rightarrow> syscall_ctx \<Rightarrow> kernel \<Rightarrow> kernel" where
  "trace_getdents64 t ctx = report t EventScan (\<lambda>e. e\<lparr>ev_Arg0 := int_arg ctx 0, ev_Size := sc_args ctx 2\<rparr>)"

definition trace_mmap :: "task \<Rightarrow> syscall_ctx \<Rightarrow> kernel \<Rightarrow> kernel" where
  "trace_mmap t ctx k =
     (let prot = int_arg ctx 2; flags = int_arg ctx 3 in
      if prot AND 2 = 0 then k
      else if flags AND 3 \<noteq> 1 \<and> flags AND 3 \<noteq> 3 then k
      else report t EventMmap (\<lambda>e. e\<lparr>ev_Arg0 := int_arg ctx 4, ev_Arg1 := prot, ev_Size := sc_args ctx 1\<rparr>) k)"

definition trace_io_uring_enter :: "task \<Rightarrow> syscall_ctx \<Rightarrow> kernel \<Rightarrow> kernel" where
  "trace_io_uring_enter t ctx =
     report t EventIOUring (\<lambda>e. e\<lparr>ev_Arg0 := int_arg ctx 0, ev_Arg1 := int_arg ctx 2, ev_Size := sc_args ctx 1\<rparr>)"

definition Uint16 :: "byteOrder \<Rightarrow> string \<Rightarrow> nat \<Rightarrow> 16 word" where
  "Uint16 order raw off = word_of_int (readUint order (take 2 (drop off raw)))"

text \<open>The length is compared with a size, hence as an unsigned 64-bit number.\<close>

definition trace_connect :: "byteOrder \<Rightarrow> task \<Rightarrow> syscall_ctx \<Rightarrow> kernel \<Rightarrow> kernel" where
  "trace_connect native t ctx k =
     (let addrlen = (scast (int_arg ctx 2) :: u64); user_addr = sc_args ctx 1 in
      if addrlen < 16 then k
      else case sc_bytes ctx user_addr 16 of
        None \<Rightarrow> k
      | Some addr \<Rightarrow>
          if Uint16 native addr 0 = 2 then
            report t EventConnect (\<lambda>e. e\<lparr>ev_Arg0 := Uint32 native addr 4,
              ev_Arg1 := ucast (ntohs16 (Uint16 native addr 2)), ev_Size := 2\<rparr>) k
          else if Uint16 native addr 0 \<noteq> 10 \<or> addrlen < 28 then k
          else case sc_bytes ctx user_addr 28 of
            None \<Rightarrow> k
          | Some addr6 \<Rightarrow>
              report t EventConnect (\<lambda>e. e\<lparr>ev_Arg1 := ucast (ntohs16 (Uint16 native addr6 2)), ev_Size := 10,
                ev_Path := take 16 (drop 8 addr6)\<rparr>) k)"

definition remember_dup :: "task \<Rightarrow> i32 \<Rightarrow> i32 \<Rightarrow> kernel \<Rightarrow> kernel" where
  "remember_dup t oldfd newfd k =
     (if \<not> cgroup_in_scope t k \<or> \<not> t_update t then k
      else k\<lparr>k_pending_dups := (k_pending_dups k)(t_pid_tgid t \<mapsto> \<lparr>pd_oldfd = oldfd, pd_newfd = newfd\<rparr>)\<rparr>)"

definition complete_dup :: "task \<Rightarrow> syscall_ctx \<Rightarrow> kernel \<Rightarrow> kernel" where
  "complete_dup t ctx k =
     (case k_pending_dups k (t_pid_tgid t) of
        None \<Rightarrow> k
      | Some pending \<Rightarrow>
          let newfd = (ucast (sc_ret ctx) :: i32);
              k1 = (if 0 \<le> sint newfd then
                      report t EventDup (\<lambda>e. e\<lparr>ev_Phase := PhaseSuccess, ev_SyscallID := sc_id ctx,
                        ev_Result := sc_ret ctx, ev_Flags := EventFlagResultValid OR EventFlagSyscallIDValid,
                        ev_Arg0 := pd_oldfd pending, ev_Arg1 := newfd\<rparr>) k
                    else k)
          in k1\<lparr>k_pending_dups := (k_pending_dups k1)(t_pid_tgid t := None)\<rparr>)"

definition trace_dup :: "task \<Rightarrow> syscall_ctx \<Rightarrow> kernel \<Rightarrow> kernel" where
  "trace_dup t ctx = remember_dup t (int_arg ctx 0) (- 1)"

definition trace_dup_exit :: "task \<Rightarrow> syscall_ctx \<Rightarrow> kernel \<Rightarrow> kernel" where
  "trace_dup_exit t ctx = complete_dup t ctx"

definition trace_dup2 :: "task \<Rightarrow> syscall_ctx \<Rightarrow> kernel \<Rightarrow> kernel" where
  "trace_dup2 t ctx = remember_dup t (int_arg ctx 0) (int_arg ctx 1)"

definition trace_dup2_exit :: "task \<Rightarrow> syscall_ctx \<Rightarrow> kernel \<Rightarrow> kernel" where
  "trace_dup2_exit t ctx = complete_dup t ctx"

definition trace_dup3 :: "task \<Rightarrow> syscall_ctx \<Rightarrow> kernel \<Rightarrow> kernel" where
  "trace_dup3 t ctx = remember_dup t (int_arg ctx 0) (int_arg ctx 1)"

definition trace_dup3_exit :: "task \<Rightarrow> syscall_ctx \<Rightarrow> kernel \<Rightarrow> kernel" where
  "trace_dup3_exit t ctx = complete_dup t ctx"

definition trace_fcntl :: "task \<Rightarrow> syscall_ctx \<Rightarrow> kernel \<Rightarrow> kernel" where
  "trace_fcntl t ctx k =
     (if int_arg ctx 1 \<noteq> 0 \<and> int_arg ctx 1 \<noteq> 1030 then k else remember_dup t (int_arg ctx 0) (- 1) k)"

definition trace_fcntl_exit :: "task \<Rightarrow> syscall_ctx \<Rightarrow> kernel \<Rightarrow> kernel" where
  "trace_fcntl_exit t ctx = complete_dup t ctx"

section \<open>Names\<close>

definition two_paths :: "syscall_ctx \<Rightarrow> nat \<Rightarrow> nat \<Rightarrow> event \<Rightarrow> event" where
  "two_paths ctx i j e = e\<lparr>ev_Path := user_path ctx i, ev_Path2 := user_path ctx j\<rparr>"

definition trace_renameat :: "task \<Rightarrow> syscall_ctx \<Rightarrow> kernel \<Rightarrow> kernel" where
  "trace_renameat t ctx = report t EventRename (two_paths ctx 1 3)"

definition trace_rename :: "task \<Rightarrow> syscall_ctx \<Rightarrow> kernel \<Rightarrow> kernel" where
  "trace_rename t ctx = report t EventRename (two_paths ctx 0 1)"

definition trace_renameat2 :: "task \<Rightarrow> syscall_ctx \<Rightarrow> kernel \<Rightarrow> kernel" where
  "trace_renameat2 t ctx = report t EventRename (\<lambda>e. two_paths ctx 1 3 (e\<lparr>ev_Arg0 := int_arg ctx 4\<rparr>))"

definition trace_link :: "task \<Rightarrow> syscall_ctx \<Rightarrow> kernel \<Rightarrow> kernel" where
  "trace_link t ctx = report t EventLink (two_paths ctx 0 1)"

definition trace_linkat :: "task \<Rightarrow> syscall_ctx \<Rightarrow> kernel \<Rightarrow> kernel" where
  "trace_linkat t ctx = report t EventLink (\<lambda>e. two_paths ctx 1 3 (e\<lparr>ev_Arg0 := int_arg ctx 4\<rparr>))"

definition trace_symlink :: "task \<Rightarrow> syscall_ctx \<Rightarrow> kernel \<Rightarrow> kernel" where
  "trace_symlink t ctx = report t EventLink (\<lambda>e. two_paths ctx 0 1 (e\<lparr>ev_Arg0 := 1\<rparr>))"

definition trace_symlinkat :: "task \<Rightarrow> syscall_ctx \<Rightarrow> kernel \<Rightarrow> kernel" where
  "trace_symlinkat t ctx = report t EventLink (\<lambda>e. two_paths ctx 0 2 (e\<lparr>ev_Arg0 := 1\<rparr>))"

definition trace_unlink :: "task \<Rightarrow> syscall_ctx \<Rightarrow> kernel \<Rightarrow> kernel" where
  "trace_unlink t ctx = report t EventUnlink (\<lambda>e. e\<lparr>ev_Path := user_path ctx 0\<rparr>)"

definition trace_unlinkat :: "task \<Rightarrow> syscall_ctx \<Rightarrow> kernel \<Rightarrow> kernel" where
  "trace_unlinkat t ctx = report t EventUnlink (\<lambda>e. e\<lparr>ev_Arg0 := int_arg ctx 2, ev_Path := user_path ctx 1\<rparr>)"

definition trace_truncate :: "task \<Rightarrow> syscall_ctx \<Rightarrow> kernel \<Rightarrow> kernel" where
  "trace_truncate t ctx = report t EventTruncate (\<lambda>e. e\<lparr>ev_Size := sc_args ctx 1, ev_Path := user_path ctx 0\<rparr>)"

definition trace_ftruncate :: "task \<Rightarrow> syscall_ctx \<Rightarrow> kernel \<Rightarrow> kernel" where
  "trace_ftruncate t ctx = report t EventTruncate (\<lambda>e. e\<lparr>ev_Arg0 := int_arg ctx 0, ev_Size := sc_args ctx 1\<rparr>)"

section \<open>The object\<close>

text \<open>What an LSM hook is called with, as far as the programs read it: the flags of a file, the access asked for, the
  directory and the entry named, and the verdict of the programs before.\<close>

record hook =
  h_flags :: i32
  h_mode :: i32
  h_dir :: "dentry list"
  h_dentry :: dentry
  h_ret :: int

definition lsm_programs :: "task \<Rightarrow> hook \<Rightarrow> (string \<times> (kernel \<Rightarrow> int \<times> kernel)) list" where
  "lsm_programs t h = [
     (''enforce_bprm_check_security'', enforce_bprm_check_security t (h_ret h)),
     (''enforce_file_open'', enforce_file_open t (h_flags h) (h_ret h)),
     (''enforce_file_permission'', enforce_file_permission t (h_mode h) (h_ret h)),
     (''enforce_inode_create'', enforce_inode_create t (h_ret h)),
     (''enforce_inode_rename'', enforce_inode_rename t (h_ret h)),
     (''enforce_path_mknod'', enforce_path_mknod t (h_dir h) (h_dentry h) (h_ret h)),
     (''enforce_path_rename'', enforce_path_rename t (h_dir h) (h_dentry h) (h_ret h)),
     (''enforce_path_rename_legacy'', enforce_path_rename_legacy t (h_dir h) (h_dentry h) (h_ret h)),
     (''enforce_path_truncate'', enforce_path_truncate t (h_ret h)),
     (''enforce_path_unlink'', enforce_path_unlink t (h_dir h) (h_dentry h) (h_ret h))]"

definition override_programs :: "task \<Rightarrow> (string \<times> (kernel \<Rightarrow> int option \<times> kernel)) list" where
  "override_programs t = map (\<lambda>call. (''kp_override_'' @ call, kp_override t))
     [''copy_file_range'', ''execve'', ''ftruncate'', ''getdents64'', ''io_uring_enter'', ''link'', ''linkat'', ''mmap'',
      ''openat'', ''openat2'', ''pwrite64'', ''rename'', ''renameat'', ''renameat2'', ''symlink'', ''symlinkat'',
      ''truncate'', ''unlink'', ''unlinkat'', ''write'', ''writev'']"

definition trace_programs ::
  "byteOrder \<Rightarrow> task \<Rightarrow> syscall_ctx \<Rightarrow> (string \<times> (kernel \<Rightarrow> kernel)) list" where
  "trace_programs native t ctx = [
     (''trace_close'', trace_close t ctx), (''trace_connect'', trace_connect native t ctx),
     (''trace_copy_file_range'', trace_copy_file_range t ctx), (''trace_dup'', trace_dup t ctx),
     (''trace_dup2'', trace_dup2 t ctx), (''trace_dup2_exit'', trace_dup2_exit t ctx),
     (''trace_dup3'', trace_dup3 t ctx), (''trace_dup3_exit'', trace_dup3_exit t ctx),
     (''trace_dup_exit'', trace_dup_exit t ctx), (''trace_exec_success'', trace_exec_success t),
     (''trace_execve'', trace_execve t ctx), (''trace_fcntl'', trace_fcntl t ctx),
     (''trace_fcntl_exit'', trace_fcntl_exit t ctx), (''trace_ftruncate'', trace_ftruncate t ctx),
     (''trace_getdents64'', trace_getdents64 t ctx), (''trace_io_uring_enter'', trace_io_uring_enter t ctx),
     (''trace_link'', trace_link t ctx), (''trace_linkat'', trace_linkat t ctx),
     (''trace_mmap'', trace_mmap t ctx), (''trace_openat'', trace_openat t ctx),
     (''trace_openat2'', trace_openat2 native t ctx), (''trace_openat2_exit'', trace_openat2_exit t ctx),
     (''trace_openat_exit'', trace_openat_exit t ctx), (''trace_process_exit'', trace_process_exit t),
     (''trace_pwrite64'', trace_pwrite64 t ctx), (''trace_pwrite64_exit'', trace_pwrite64_exit t ctx),
     (''trace_rename'', trace_rename t ctx), (''trace_renameat'', trace_renameat t ctx),
     (''trace_renameat2'', trace_renameat2 t ctx), (''trace_symlink'', trace_symlink t ctx),
     (''trace_symlinkat'', trace_symlinkat t ctx), (''trace_truncate'', trace_truncate t ctx),
     (''trace_unlink'', trace_unlink t ctx), (''trace_unlinkat'', trace_unlinkat t ctx),
     (''trace_write'', trace_write t ctx), (''trace_write_exit'', trace_write_exit t ctx),
     (''trace_writev'', trace_writev t ctx), (''trace_writev_exit'', trace_writev_exit t ctx)]"

lemma override_program: "(name, program) \<in> set (override_programs t) \<Longrightarrow> program = kp_override t"
  unfolding override_programs_def set_map by blast

lemmas paired_defs =
  trace_dup_def trace_dup2_def trace_dup3_def trace_fcntl_def trace_dup_exit_def trace_dup2_exit_def
  trace_dup3_exit_def trace_fcntl_exit_def trace_openat_exit_def trace_openat2_exit_def trace_write_def
  trace_pwrite64_def trace_writev_def trace_write_exit_def trace_pwrite64_exit_def trace_writev_exit_def

lemmas single_defs =
  trace_openat_def trace_openat2_def trace_close_def trace_copy_file_range_def trace_exec_success_def
  trace_ftruncate_def trace_getdents64_def trace_io_uring_enter_def trace_mmap_def trace_execve_def
  trace_truncate_def trace_unlink_def trace_unlinkat_def trace_link_def trace_linkat_def trace_rename_def
  trace_renameat_def trace_renameat2_def trace_symlink_def trace_symlinkat_def

lemmas hook_defs =
  enforce_bprm_check_security_def enforce_file_open_def enforce_inode_create_def enforce_inode_rename_def
  enforce_path_mknod_def enforce_path_rename_def enforce_path_rename_legacy_def enforce_path_rename_common_def
  enforce_path_truncate_def enforce_path_unlink_def

text \<open>
  A step is a run of one program by a thread, user space taking the oldest record, or user space changing the maps that
  it owns. The maps of pending calls are written by the programs alone.
\<close>

inductive coreStep :: "byteOrder \<Rightarrow> u64 option \<Rightarrow> kernel \<Rightarrow> kernel \<Rightarrow> bool" for native where
  lsm: "(name, program) \<in> set (lsm_programs t h) \<Longrightarrow> coreStep native (Some (t_pid_tgid t)) k (snd (program k))"
| override: "(name, program) \<in> set (override_programs t) \<Longrightarrow>
    coreStep native (Some (t_pid_tgid t)) k (snd (program k))"
| trace: "(name, program) \<in> set (trace_programs native t ctx) \<Longrightarrow>
    (\<And>addr n bs. sc_bytes ctx addr n = Some bs \<Longrightarrow> length bs = n) \<Longrightarrow>
    coreStep native (Some (t_pid_tgid t)) k (program k)"
| consume: "coreStep native None k (k\<lparr>k_events := tl (k_events k)\<rparr>)"
| configure: "coreStep native None k (k\<lparr>k_blocked_tgids := blocked, k_ioc_extensions := exts,
    k_ioc_ransom_notes := notes, k_protected_dirs := dirs, k_inline_ioc_action := action,
    k_allowed_cgroups := cgroups, k_cgroup_scope_enabled := scope\<rparr>)"

inductive coreRun :: "byteOrder \<Rightarrow> kernel \<Rightarrow> u64 option list \<Rightarrow> kernel \<Rightarrow> bool" for native where
  start: "coreRun native k [] k"
| step: "coreRun native k actors k1 \<Longrightarrow> coreStep native actor k1 k2 \<Longrightarrow> coreRun native k (actors @ [actor]) k2"

text \<open>The maps as the object creates them.\<close>

definition emptyKernel :: kernel where
  "emptyKernel = \<lparr>k_events = [], k_ringbuf_drops = 0, k_capture_gaps = 0, k_blocked_tgids = Map.empty,
     k_ioc_extensions = {}, k_ioc_ransom_notes = {}, k_protected_dirs = {}, k_inline_ioc_action = Some 0,
     k_allowed_cgroups = {}, k_cgroup_scope_enabled = Some 0, k_pending_opens = Map.empty,
     k_pending_dups = Map.empty, k_pending_writes = Map.empty, k_killed = []\<rparr>"

end
