(* ===== verification/Bpf_Records.thy ===== *)
theory Bpf_Records
  imports BpfTrace Event_Codec SensorLoad
begin

text \<open>
  What the kernel programs put on the ring buffer. Every record that any interleaving of the programs, the reader and the
  configuration produces is one the decoder accepts, so the kernel side and \<open>DecodeEvent\<close> agree on the format; a
  write is reported on entry and on return under one operation number whatever other threads do in between.
\<close>

section \<open>Records are well formed\<close>

definition eventOK :: "event \<Rightarrow> bool" where
  "eventOK e \<longleftrightarrow> textFields e \<and> headerFields e"

definition kernelOK :: "kernel \<Rightarrow> bool" where
  "kernelOK k \<longleftrightarrow> list_all eventOK (k_events k) \<and> (\<forall>i p. k_pending_opens k i = Some p \<longrightarrow> noNul 256 (po_path p))"

text \<open>What \<open>new_event\<close> leaves in the record it reserves.\<close>

definition freshEvent :: "u32 \<Rightarrow> event \<Rightarrow> bool" where
  "freshEvent type e \<longleftrightarrow> noNul 16 (ev_Comm e) \<and> ev_Path e = [] \<and> ev_Path2 e = [] \<and> ev_ABIVersion e = 2 \<and>
     ev_Phase e = PhaseAttempt \<and> ev_Source e = SourceTracepoint \<and> ev_Flags e = 0 \<and> ev_Type e = type \<and> ev_Size e = 0"

lemma noNul_cText: "0 < n \<Longrightarrow> noNul n (cText n s)"
  by (auto simp: noNul_def cText_def min_def dest: in_set_takeD set_takeWhileD)

lemma noNul_user_path: "noNul 256 (user_path ctx i)"
  using noNul_cText [of 256] by (auto simp: user_str_def go_consts noNul_def split: option.splits)

lemma new_event_fresh: "new_event t type k = (Some e, k1) \<Longrightarrow> freshEvent type e \<and> k1 = k"
  using noNul_cText [of 16] by (auto simp: new_event_def freshEvent_def go_consts split: if_splits)

lemma new_event_kernel: "kernelOK k \<Longrightarrow> kernelOK (snd (new_event t type k))"
  by (simp add: new_event_def kernelOK_def count_ringbuf_drop_def)

lemma report_ok:
  assumes "kernelOK k" and "\<And>e. freshEvent type e \<Longrightarrow> eventOK (fill e)"
  shows "kernelOK (report t type fill k)"
proof (cases "new_event t type k")
  case (Pair r k1)
  then show ?thesis
    using assms new_event_fresh [of t type k] new_event_kernel [OF assms(1), of t type]
    by (cases r) (auto simp: report_def kernelOK_def)
qed

lemma kernelOK_pending [simp]:
  "kernelOK (k\<lparr>k_pending_writes := w\<rparr>) = kernelOK k"
  "kernelOK (k\<lparr>k_pending_dups := d\<rparr>) = kernelOK k"
  "kernelOK (k\<lparr>k_blocked_tgids := b\<rparr>) = kernelOK k"
  "kernelOK (k\<lparr>k_killed := z\<rparr>) = kernelOK k"
  "kernelOK (k\<lparr>k_capture_gaps := g\<rparr>) = kernelOK k"
  by (simp_all add: kernelOK_def)

lemma kernelOK_forget_open: "kernelOK k \<Longrightarrow> kernelOK (k\<lparr>k_pending_opens := (k_pending_opens k)(i := None)\<rparr>)"
  by (simp add: kernelOK_def)

lemma kernelOK_remember_open:
  "kernelOK k \<Longrightarrow> noNul 256 (po_path p) \<Longrightarrow> kernelOK (remember_open t p k)"
  by (auto simp: kernelOK_def remember_open_def)

lemma knownFlags_value: "knownFlags = 31"
  by (simp add: knownFlags_def)

lemmas fresh_ok = eventOK_def freshEvent_def textFields_def headerFields_def knownFlags_value noNul_def

lemma write_metadata_fresh:
  assumes "freshEvent EventWrite e"
  shows "write_metadata p e = e\<lparr>ev_Arg0 := pw_fd p, ev_Size := pw_size p, ev_OperationID := pw_operation_id p,
    ev_SyscallID := pw_syscall_id p, ev_Flags := (if pw_vector p \<noteq> 0 then 24 else 10),
    ev_VectorCount := (if pw_vector p \<noteq> 0 then ucast (pw_size p) else ev_VectorCount e),
    ev_RequestedBytes := (if pw_vector p \<noteq> 0 then ev_RequestedBytes e else pw_size p)\<rparr>"
  by (simp add: write_metadata_def Let_def)

lemma remember_write_ok: "kernelOK k \<Longrightarrow> kernelOK (remember_write t ctx v k)"
  unfolding remember_write_def Let_def
  by (auto intro!: report_ok simp: count_capture_gap_def write_metadata_fresh) (auto simp: fresh_ok)

lemma complete_write_ok: "kernelOK k \<Longrightarrow> kernelOK (complete_write t ctx k)"
  unfolding complete_write_def Let_def
  by (auto intro!: report_ok simp: count_capture_gap_def write_metadata_fresh split: option.splits) (auto simp: fresh_ok)

lemma complete_open_ok:
  assumes "kernelOK k"
  shows "kernelOK (complete_open t ctx k)"
proof (cases "k_pending_opens k (t_pid_tgid t)")
  case (Some p)
  then have "noNul 256 (po_path p)" using assms by (simp add: kernelOK_def)
  then show ?thesis using assms Some
    by (auto simp: complete_open_def Let_def intro!: kernelOK_forget_open report_ok) (auto simp: fresh_ok)
qed (simp add: complete_open_def assms)

lemma remember_dup_ok: "kernelOK k \<Longrightarrow> kernelOK (remember_dup t a b k)"
  by (simp add: remember_dup_def)

lemma complete_dup_ok: "kernelOK k \<Longrightarrow> kernelOK (complete_dup t ctx k)"
  unfolding complete_dup_def Let_def
  by (auto intro!: report_ok split: option.splits) (auto simp: fresh_ok)

lemma two_paths_ok:
  assumes "freshEvent type e" and "type \<noteq> EventConnect"
  shows "eventOK (two_paths ctx i j e)" "eventOK (two_paths ctx i j (e\<lparr>ev_Arg0 := a\<rparr>))"
  using assms noNul_user_path [of ctx i] noNul_user_path [of ctx j] by (simp_all add: two_paths_def fresh_ok)

lemma trace_connect_ok:
  assumes "kernelOK k" and "\<And>addr n bs. sc_bytes ctx addr n = Some bs \<Longrightarrow> length bs = n"
  shows "kernelOK (trace_connect native t ctx k)"
  using assms unfolding trace_connect_def Let_def
  by (auto intro!: report_ok split: option.splits) (auto simp: fresh_ok go_consts)

lemma trace_open_ok: "kernelOK k \<Longrightarrow> kernelOK (trace_openat t ctx k)" "kernelOK k \<Longrightarrow> kernelOK (trace_openat2 native t ctx k)"
  by (simp_all add: trace_openat_def trace_openat2_def kernelOK_remember_open noNul_user_path)

lemma trace_process_exit_ok: "kernelOK k \<Longrightarrow> kernelOK (trace_process_exit t k)"
  by (auto simp: trace_process_exit_def Let_def count_capture_gap_def kernelOK_def)

text \<open>The programs that report at once, with no path, with one, and with two.\<close>

lemma plain_ok:
  assumes "kernelOK k"
  shows "kernelOK (trace_close t ctx k)" "kernelOK (trace_copy_file_range t ctx k)" "kernelOK (trace_exec_success t k)"
    "kernelOK (trace_ftruncate t ctx k)" "kernelOK (trace_getdents64 t ctx k)" "kernelOK (trace_io_uring_enter t ctx k)"
    "kernelOK (trace_mmap t ctx k)"
  unfolding trace_close_def trace_copy_file_range_def trace_exec_success_def trace_ftruncate_def
    trace_getdents64_def trace_io_uring_enter_def trace_mmap_def Let_def
  by (auto intro!: report_ok assms) (auto simp: fresh_ok)

lemma path_ok:
  assumes "kernelOK k"
  shows "kernelOK (trace_execve t ctx k)" "kernelOK (trace_truncate t ctx k)" "kernelOK (trace_unlink t ctx k)"
    "kernelOK (trace_unlinkat t ctx k)"
  using noNul_user_path [of ctx]
  unfolding trace_execve_def trace_truncate_def trace_unlink_def trace_unlinkat_def
  by (auto intro!: report_ok assms) (auto simp: fresh_ok)

lemma paths_ok:
  assumes "kernelOK k"
  shows "kernelOK (trace_link t ctx k)" "kernelOK (trace_linkat t ctx k)" "kernelOK (trace_rename t ctx k)"
    "kernelOK (trace_renameat t ctx k)" "kernelOK (trace_renameat2 t ctx k)" "kernelOK (trace_symlink t ctx k)"
    "kernelOK (trace_symlinkat t ctx k)"
  using assms
  by (simp_all add: trace_link_def trace_linkat_def trace_rename_def trace_renameat_def trace_renameat2_def
      trace_symlink_def trace_symlinkat_def report_ok two_paths_ok)

lemma trace_programs_ok:
  assumes "(name, program) \<in> set (trace_programs native t ctx)" and "kernelOK k"
    and "\<And>addr n bs. sc_bytes ctx addr n = Some bs \<Longrightarrow> length bs = n"
  shows "kernelOK (program k)"
proof -
  have "list_all (\<lambda>(name, program). kernelOK (program k)) (trace_programs native t ctx)"
    unfolding trace_programs_def paired_defs
    using assms(2,3)
    by (simp add: plain_ok path_ok paths_ok trace_connect_ok trace_open_ok trace_process_exit_ok remember_dup_ok
        complete_dup_ok complete_open_ok remember_write_ok complete_write_ok)
  with assms(1) show ?thesis by (auto simp: list_all_iff)
qed

lemma current_block_entry_ok: "kernelOK k \<Longrightarrow> current_block_entry t k = (entry, k1) \<Longrightarrow> kernelOK k1"
  by (auto simp: current_block_entry_def split: option.splits if_splits)

lemma emit_block_event_ok: "kernelOK k \<Longrightarrow> kernelOK (emit_block_event t op k)"
  unfolding emit_block_event_def by (rule report_ok) (auto simp: fresh_ok)

lemma enforce_block_ok: "kernelOK k \<Longrightarrow> kernelOK (snd (enforce_block t op k))"
  by (auto simp: enforce_block_def deny_or_kill_def send_sigkill_def emit_block_event_ok
      split: prod.splits option.splits dest: current_block_entry_ok)

lemma enforce_inline_ioc_ok: "kernelOK k \<Longrightarrow> kernelOK (snd (enforce_inline_ioc t op d k))"
  unfolding enforce_inline_ioc_def Let_def
  using noNul_cText [of 256]
  by (auto simp: send_sigkill_def intro!: report_ok split: option.splits) (auto simp: fresh_ok go_consts split: option.splits)

lemma enforce_name_ok: "kernelOK k \<Longrightarrow> kernelOK (snd (enforce_name t op dir d ret k))"
  using enforce_inline_ioc_ok [of k t op d]
  by (auto simp: enforce_name_def Let_def enforce_block_ok split: prod.splits)

lemma lsm_programs_ok:
  assumes "(name, program) \<in> set (lsm_programs t h)" and "kernelOK k"
  shows "kernelOK (snd (program k))"
proof -
  have perm: "kernelOK (snd (enforce_file_permission t m r k))" for m r
    using assms(2) by (auto simp: enforce_file_permission_def deny_or_kill_def send_sigkill_def emit_block_event_ok
        split: prod.splits option.splits dest: current_block_entry_ok)
  have "list_all (\<lambda>(name, program). kernelOK (snd (program k))) (lsm_programs t h)"
    using assms(2)
    by (simp add: lsm_programs_def hook_defs perm enforce_name_ok enforce_block_ok)
  with assms(1) show ?thesis by (auto simp: list_all_iff)
qed

lemma override_ok: "kernelOK k \<Longrightarrow> kernelOK (snd (kp_override t k))"
  by (auto simp: kp_override_def enforce_blocked_syscall_def send_sigkill_def split: prod.splits option.splits
      dest: current_block_entry_ok)

lemma coreStep_ok:
  assumes "coreStep native actor k k'" and "kernelOK k"
  shows "kernelOK k'"
  using assms
proof cases
  case (override name program t)
  then show ?thesis using override_ok [OF assms(2), of t] override_program by metis
next
  case consume
  then show ?thesis using assms(2) by (cases "k_events k") (auto simp: kernelOK_def)
next
  case configure
  then show ?thesis using assms(2) by (simp add: kernelOK_def)
qed (auto intro: lsm_programs_ok trace_programs_ok assms(2))

lemma coreRun_ok: "coreRun native k actors k' \<Longrightarrow> kernelOK k \<Longrightarrow> kernelOK k'"
  by (induction rule: coreRun.induct) (auto intro: coreStep_ok)

lemma emptyKernel_ok: "kernelOK emptyKernel"
  by (simp add: emptyKernel_def kernelOK_def)

section \<open>Pending writes\<close>

lemma report_maps [simp]:
  "k_pending_writes (report t type fill k) = k_pending_writes k"
  "k_pending_opens (report t type fill k) = k_pending_opens k"
  "k_pending_dups (report t type fill k) = k_pending_dups k"
  "k_capture_gaps (report t type fill k) = k_capture_gaps k"
  "k_blocked_tgids (report t type fill k) = k_blocked_tgids k"
  "k_killed (report t type fill k) = k_killed k"
  by (auto simp: report_def new_event_def count_ringbuf_drop_def)

lemma current_block_entry_writes:
  "current_block_entry t k = (entry, k1) \<Longrightarrow> k_pending_writes k1 = k_pending_writes k"
  by (auto simp: current_block_entry_def split: option.splits if_splits)

lemma enforce_block_writes: "k_pending_writes (snd (enforce_block t op k)) = k_pending_writes k"
  by (auto simp: enforce_block_def deny_or_kill_def send_sigkill_def emit_block_event_def
      split: prod.splits option.splits dest: current_block_entry_writes)

lemma enforce_inline_ioc_writes: "k_pending_writes (snd (enforce_inline_ioc t op d k)) = k_pending_writes k"
  by (simp add: enforce_inline_ioc_def Let_def send_sigkill_def)

lemma enforce_name_writes: "k_pending_writes (snd (enforce_name t op dir d ret k)) = k_pending_writes k"
  using enforce_inline_ioc_writes [of t op d k]
  by (auto simp: enforce_name_def Let_def enforce_block_writes split: prod.splits)

lemma lsm_programs_writes:
  assumes "(name, program) \<in> set (lsm_programs t h)"
  shows "k_pending_writes (snd (program k)) = k_pending_writes k"
proof -
  have perm: "k_pending_writes (snd (enforce_file_permission t m r k)) = k_pending_writes k" for m r
    by (auto simp: enforce_file_permission_def deny_or_kill_def send_sigkill_def emit_block_event_def
        split: prod.splits option.splits dest: current_block_entry_writes)
  have "list_all (\<lambda>(name, program). k_pending_writes (snd (program k)) = k_pending_writes k) (lsm_programs t h)"
    by (simp add: lsm_programs_def hook_defs perm enforce_name_writes
        enforce_block_writes)
  with assms show ?thesis by (auto simp: list_all_iff)
qed

lemma kp_override_writes: "k_pending_writes (snd (kp_override t k)) = k_pending_writes k"
proof (cases "current_block_entry t k")
  case (Pair entry k1)
  then show ?thesis using current_block_entry_writes [OF Pair]
    by (cases entry) (simp_all add: kp_override_def enforce_blocked_syscall_def send_sigkill_def)
qed

lemma own_write:
  assumes "t_pid_tgid t \<noteq> th"
  shows "k_pending_writes (remember_write t ctx v k) th = k_pending_writes k th"
    "k_pending_writes (complete_write t ctx k) th = k_pending_writes k th"
    "k_pending_writes (trace_process_exit t k) th = k_pending_writes k th"
    "k_pending_writes (remember_open t p k) = k_pending_writes k"
    "k_pending_writes (complete_open t ctx k) = k_pending_writes k"
    "k_pending_writes (remember_dup t a b k) = k_pending_writes k"
    "k_pending_writes (complete_dup t ctx k) = k_pending_writes k"
    "k_pending_writes (trace_connect native t ctx k) = k_pending_writes k"
  using assms
  by (auto simp: remember_write_def complete_write_def trace_process_exit_def remember_open_def complete_open_def
      remember_dup_def complete_dup_def trace_connect_def Let_def count_capture_gap_def split: option.splits)

lemma trace_programs_writes:
  assumes "(name, program) \<in> set (trace_programs native t ctx)" and "t_pid_tgid t \<noteq> th"
  shows "k_pending_writes (program k) th = k_pending_writes k th"
proof -
  have "list_all (\<lambda>(name, program). k_pending_writes (program k) th = k_pending_writes k th) (trace_programs native t ctx)"
    unfolding trace_programs_def paired_defs single_defs Let_def
    by (simp add: own_write [OF assms(2)])
  with assms(1) show ?thesis by (auto simp: list_all_iff)
qed

lemma coreStep_other_writes:
  assumes "coreStep native actor k k'" and "actor \<noteq> Some th"
  shows "k_pending_writes k' th = k_pending_writes k th"
  using assms
proof cases
  case (override name program t)
  then show ?thesis using override_program kp_override_writes by metis
qed (auto simp: lsm_programs_writes trace_programs_writes)

lemma coreRun_other_writes:
  "coreRun native k actors k' \<Longrightarrow> Some th \<notin> set actors \<Longrightarrow> k_pending_writes k' th = k_pending_writes k th"
  by (induction rule: coreRun.induct) (auto simp: coreStep_other_writes)

lemma remember_write_pending:
  assumes "cgroup_in_scope t k" and "t_update t"
  shows "k_pending_writes (remember_write t ctx vector k) (t_pid_tgid t) =
    Some \<lparr>pw_operation_id = t_now t, pw_size = sc_args ctx 2, pw_syscall_id = sc_id ctx, pw_fd = int_arg ctx 0,
      pw_vector = vector\<rparr>"
  using assms by (simp add: remember_write_def Let_def)

lemma report_event:
  assumes "cgroup_in_scope t k" and "t_room t"
  shows "\<exists>e. freshEvent type e \<and> ev_TGID e = current_tgid t \<and> report t type fill k = k\<lparr>k_events := k_events k @ [fill e]\<rparr>"
proof -
  obtain e where "new_event t type k = (Some e, k)" "ev_TGID e = current_tgid t"
    using assms by (simp add: new_event_def)
  then show ?thesis using new_event_fresh [of t type k e k] by (auto simp: report_def)
qed

text \<open>
  C18. A write is reported on its return under the operation number of its entry. A thread in the cgroup scope enters the
  call while the map of pending writes has room; other threads run any programs, records are read and maps are
  reconfigured, but no program runs for the thread itself; the call returns, with the thread still in scope and room in the
  ring buffer. The record of the return then carries the number, the descriptor and the size of the entry with the
  result of the call, no gap is counted, and nothing of the call is left behind.
\<close>

theorem write_reported:
  assumes "cgroup_in_scope t k" and "t_update t"
    and "coreRun native (remember_write t ctx vector k) others k1" and "Some (t_pid_tgid t) \<notin> set others"
    and "t_pid_tgid t' = t_pid_tgid t" and "cgroup_in_scope t' k1" and "t_room t'" and "sc_id ctx' = sc_id ctx"
  shows "\<exists>e. k_events (complete_write t' ctx' k1) = k_events k1 @ [e] \<and>
    ev_Type e = EventWrite \<and> ev_TGID e = current_tgid t \<and> ev_OperationID e = t_now t \<and> ev_Arg0 e = int_arg ctx 0 \<and>
    ev_Size e = sc_args ctx 2 \<and> ev_Result e = sc_ret ctx' \<and>
    ev_Phase e = (if 0 \<le> sint (sc_ret ctx') then PhaseSuccess else PhaseFailure) \<and>
    k_capture_gaps (complete_write t' ctx' k1) = k_capture_gaps k1 \<and>
    k_pending_writes (complete_write t' ctx' k1) = (k_pending_writes k1)(t_pid_tgid t := None)"
proof -
  let ?p = "\<lparr>pw_operation_id = t_now t, pw_size = sc_args ctx 2, pw_syscall_id = sc_id ctx, pw_fd = int_arg ctx 0,
      pw_vector = vector\<rparr>"
  have pending: "k_pending_writes k1 (t_pid_tgid t) = Some ?p"
    using coreRun_other_writes [OF assms(3,4)] remember_write_pending [OF assms(1,2), of ctx vector] by simp
  define fill where "fill = (\<lambda>e. let e1 = write_metadata ?p e in
    e1\<lparr>ev_Phase := (if 0 \<le> sint (sc_ret ctx') then PhaseSuccess else PhaseFailure), ev_Result := sc_ret ctx',
       ev_ActualBytes := (if 0 < sint (sc_ret ctx') then sc_ret ctx' else 0),
       ev_Flags := ev_Flags e1 OR EventFlagResultValid OR EventFlagActualBytesValid\<rparr>)"
  obtain e where e: "freshEvent EventWrite e" "ev_TGID e = current_tgid t'"
    and r: "report t' EventWrite fill k1 = k1\<lparr>k_events := k_events k1 @ [fill e]\<rparr>"
    using report_event [OF assms(6,7)] by blast
  have c: "complete_write t' ctx' k1 =
      (report t' EventWrite fill k1)\<lparr>k_pending_writes := (k_pending_writes k1)(t_pid_tgid t := None)\<rparr>"
    using pending assms(5,8) by (simp add: complete_write_def Let_def fill_def)
  have "current_tgid t' = current_tgid t" using assms(5) by (simp add: current_tgid_def)
  with e c r show ?thesis
    by (intro exI [of _ "fill e"]) (simp add: fill_def Let_def write_metadata_def freshEvent_def)
qed

text \<open>
  C17. Whatever the programs of the core object report, in any order and between any reconfiguration, the agent decodes:
  the record read back is the one submitted, with only the wall-clock time added. So a decoding error always
  comes from outside these programs.
\<close>

theorem kernel_records_decode:
  assumes "coreRun order emptyKernel actors k" and "i < length (k_events k)"
    and "length hole = 4" and "length reserved = 4" and "length pad \<le> 7"
  shows "fst (DecodeEvent native now uptime clk (encodeV2 order hole reserved (k_events k ! i) @ pad)) =
    Inr ((k_events k ! i)\<lparr>ev_Timestamp := fst (eventTimestamp now uptime clk (ev_MonotonicNS (k_events k ! i)))\<rparr>)"
proof -
  have "eventOK (k_events k ! i)"
    using coreRun_ok [OF assms(1) emptyKernel_ok] assms(2) by (simp add: kernelOK_def list_all_length)
  then show ?thesis using assms(3-5) by (intro decode_encodeV2) (simp_all add: eventOK_def)
qed

text \<open>A thread of process 42 that writes seven bytes to descriptor 3.\<close>

definition sampleTask :: task where
  "sampleTask = \<lparr>t_pid_tgid = 180388626475, t_uid_gid = 0, t_ppid = 1, t_comm = ''cp'', t_now = 5, t_cgroup = 1,
     t_ancestor = (\<lambda>i. 0), t_room = True, t_update = True\<rparr>"

definition sampleWrite :: syscall_ctx where
  "sampleWrite = \<lparr>sc_id = 1, sc_args = (\<lambda>i. if i = 0 then 3 else if i = 2 then 7 else 0), sc_str = (\<lambda>a. None),
     sc_bytes = (\<lambda>a n. None), sc_ret = 7\<rparr>"

lemma sample_fields:
  "t_pid_tgid sampleTask = 180388626475" "t_now sampleTask = 5" "sc_args sampleWrite 0 = 3" "sc_args sampleWrite 2 = 7"
  "sc_bytes sampleWrite a n = None" "sc_ret sampleWrite = 7"
  by (simp_all add: sampleTask_def sampleWrite_def)

lemma sample_in_scope:
  "cgroup_in_scope sampleTask emptyKernel" "t_update sampleTask" "t_room sampleTask"
  "k_cgroup_scope_enabled (remember_write sampleTask sampleWrite 0 emptyKernel) = Some 0"
  by (simp_all add: cgroup_in_scope_def emptyKernel_def sampleTask_def remember_write_def Let_def report_def new_event_def)

theorem write_reported_witness:
  "\<exists>e k1. coreRun LittleEndian (remember_write sampleTask sampleWrite 0 emptyKernel) [None] k1 \<and>
     k_events (complete_write (sampleTask\<lparr>t_now := 9\<rparr>) sampleWrite k1) = k_events k1 @ [e] \<and>
     ev_OperationID e = 5 \<and> ev_Arg0 e = 3 \<and> ev_Size e = 7 \<and> ev_Phase e = PhaseSuccess"
proof -
  let ?k = "remember_write sampleTask sampleWrite 0 emptyKernel"
  let ?k1 = "?k\<lparr>k_events := tl (k_events ?k)\<rparr>"
  have run: "coreRun LittleEndian ?k [None] ?k1"
    using coreRun.step [OF coreRun.start coreStep.consume] by simp
  have "cgroup_in_scope (sampleTask\<lparr>t_now := 9\<rparr>) ?k1" using sample_in_scope(4) by (simp add: cgroup_in_scope_def)
  then obtain e where "k_events (complete_write (sampleTask\<lparr>t_now := 9\<rparr>) sampleWrite ?k1) = k_events ?k1 @ [e]"
      "ev_OperationID e = 5" "ev_Arg0 e = 3" "ev_Size e = 7" "ev_Phase e = PhaseSuccess"
    using write_reported [OF sample_in_scope(1,2) run, of "sampleTask\<lparr>t_now := 9\<rparr>" sampleWrite] sample_in_scope(3)
    by (auto simp: sample_fields)
  then show ?thesis using run by blast
qed

theorem kernel_records_decode_witness:
  "\<exists>k. coreRun BigEndian emptyKernel [Some 180388626475] k \<and> length (k_events k) = 1 \<and>
     fst (DecodeEvent LittleEndian 5 None None (encodeV2 BigEndian ''abcd'' ''efgh'' (k_events k ! 0) @ [])) =
     Inr ((k_events k ! 0)\<lparr>ev_Timestamp :=
       fst (eventTimestamp 5 None None (ev_MonotonicNS (k_events k ! 0)))\<rparr>)"
proof -
  let ?k = "trace_write sampleTask sampleWrite emptyKernel"
  have "coreStep BigEndian (Some (t_pid_tgid sampleTask)) emptyKernel ?k"
    by (rule coreStep.trace [where name = "''trace_write''" and ctx = sampleWrite]) (simp_all add: trace_programs_def sample_fields)
  then have run: "coreRun BigEndian emptyKernel [Some 180388626475] ?k"
    using coreRun.step [OF coreRun.start, of BigEndian] by (simp add: sampleTask_def)
  have "length (k_events ?k) = 1"
    using sample_in_scope
    by (simp add: trace_write_def remember_write_def Let_def report_def new_event_def emptyKernel_def cgroup_in_scope_def)
  then show ?thesis
    using run kernel_records_decode [OF run, of 0 "''abcd''" "''efgh''" "[]" LittleEndian 5 None None]
    by (intro exI [of _ ?k]) simp
qed

section \<open>Connections\<close>

lemma uint_low_byte: "uint (drop_bit n (w :: 32 word) AND 255) = uint w div 2 ^ n mod 256"
proof -
  have "drop_bit n w AND 255 = take_bit 8 (drop_bit n w)" by (simp add: take_bit_eq_mask mask_eq_exp_minus_1)
  moreover have "take_bit 32 (uint w) = uint w" using uint_lt2p [of w] by (simp add: take_bit_eq_mod)
  then have "uint (take_bit 8 (drop_bit n w)) = take_bit 8 (drop_bit n (uint w))"
    by (simp only: unsigned_take_bit_eq unsigned_drop_bit_eq) simp
  moreover have "take_bit 8 (drop_bit n (uint w)) = uint w div 2 ^ n mod 256"
    by (simp add: take_bit_eq_mod drop_bit_eq_div)
  ultimately show ?thesis by simp
qed

lemma byte_digits:
  fixes a q :: int
  assumes "0 \<le> a" and "a < 256"
  shows "(a + 256 * q) mod 256 = a" "(a + 256 * q) div 256 = q"
  using assms by simp_all

lemma div_bytes:
  fixes x :: int
  shows "x div (256 * 256) = x div 256 div 256" "x div (256 * (256 * 256)) = x div 256 div (256 * 256)"
  by (rule zdiv_zmult2_eq, simp)+

lemma bytes_of_sum:
  fixes a b c d :: int
  assumes b: "0 \<le> a" "a < 256" "0 \<le> b" "b < 256" "0 \<le> c" "c < 256" "0 \<le> d" "d < 256"
    and x: "x = a + 256 * y" "y = b + 256 * z" "z = c + 256 * d"
  shows "x div 2 ^ 0 mod 256 = a \<and> x div 2 ^ 8 mod 256 = b \<and> x div 2 ^ 16 mod 256 = c \<and> x div 2 ^ 24 mod 256 = d"
proof -
  have p: "(2 :: int) ^ 0 = 1" "(2 :: int) ^ 8 = 256" "(2 :: int) ^ 16 = 256 * 256" "(2 :: int) ^ 24 = 256 * (256 * 256)"
    by simp_all
  have h: "x mod 256 = a" "x div 256 = y" unfolding x(1) by (rule byte_digits [OF b(1,2)])+
  have h2: "y mod 256 = b" "y div 256 = z" unfolding x(2) by (rule byte_digits [OF b(3,4)])+
  have h3: "z mod 256 = c" "z div 256 = d" unfolding x(3) by (rule byte_digits [OF b(5,6)])+
  have d: "d mod 256 = d" using b(7,8) by simp
  show ?thesis unfolding p div_bytes h h2 h3 d div_by_1 by (simp only: h h2 h3 d simp_thms)
qed

lemma byte_sum_bound:
  fixes a b c d :: int
  assumes "0 \<le> a" "a < 256" "0 \<le> b" "b < 256" "0 \<le> c" "c < 256" "0 \<le> d" "d < 256"
  shows "0 \<le> a + 256 * (b + 256 * (c + 256 * d)) \<and> a + 256 * (b + 256 * (c + 256 * d)) < 4294967296"
  using assms by simp

lemma eventIP_inet:
  assumes "ev_Size e = 2" and "ev_Arg0 e = Uint32 LittleEndian [a, b, c, d] 0"
  shows "eventIP e = Addr4 (wordOfBytes (map (\<lambda>x. int (byte x)) [a, b, c, d]))"
proof -
  have bnd: "0 \<le> int (byte x)" "int (byte x) < 256" for x using byte_bound [of x] by linarith+
  have v: "leValue [a, b, c, d] = int (byte a) + 256 * (int (byte b) + 256 * (int (byte c) + 256 * int (byte d)))"
    by (simp add: byte_def of_nat_of_char)
  have "uint (ev_Arg0 e) = leValue [a, b, c, d] mod 2 ^ 32"
    using assms(2) by (simp only: Uint32_def readUint.simps drop_0 take_Suc_Cons numeral_eq_Suc take_0
        uint_word_of_int len_num0 len_num1 len_bit0 len_bit1) simp
  moreover have "0 \<le> leValue [a, b, c, d] \<and> leValue [a, b, c, d] < 4294967296"
    unfolding v by (rule byte_sum_bound [OF bnd [of a] bnd [of b] bnd [of c] bnd [of d]])
  ultimately have u: "uint (ev_Arg0 e) = leValue [a, b, c, d]" by simp
  note parts = bytes_of_sum [OF bnd [of a] bnd [of b] bnd [of c] bnd [of d] u [unfolded v] refl refl, folded uint_low_byte]
  then show ?thesis using assms(1) by (simp add: eventIP_def Let_def)
qed

lemma swap_disjoint: "drop_bit 8 v AND push_bit 8 v = (0 :: 16 word)"
  by (rule bit_word_eqI) (auto simp: bit_simps dest: bit_imp_le_length)

lemma ntohs16_swaps:
  fixes hi lo :: int
  assumes b: "0 \<le> hi" "hi < 256" "0 \<le> lo" "lo < 256" and v: "uint v = hi + 256 * lo"
  shows "uint (ntohs16 v) = 256 * hi + lo"
proof -
  have s: "ntohs16 v = drop_bit 8 v + push_bit 8 v"
    using word_plus_and_or [of "drop_bit 8 v" "push_bit 8 v"] swap_disjoint [of v] unfolding ntohs16_def by simp
  have d: "uint (drop_bit 8 v) = lo" using v b by (simp add: drop_bit_eq_div uint_div)
  have "uint (push_bit 8 v) = uint v * 256 mod 65536" by (simp add: push_bit_eq_mult uint_word_ariths)
  also have "uint v * 256 = 256 * hi + 65536 * lo" by (simp add: v)
  finally have p: "uint (push_bit 8 v) = 256 * hi" using b by simp
  show ?thesis using d p b unfolding s by (simp add: uint_word_ariths)
qed

lemma sint_ucast16: "sint (ucast (w :: 16 word) :: 32 word) = uint w"
proof -
  have "uint (ucast w :: 32 word) = uint w" using uint_lt2p [of w] by (simp add: unsigned_ucast_eq take_bit_eq_mod)
  then show ?thesis
    using uint_lt2p [of w] signed_take_bit_int_eq_self [of 31 "uint w"] uint_ge_0 [of w] by (simp add: sint_uint)
qed

lemma uint16_of_int: "0 \<le> x \<Longrightarrow> x < 65536 \<Longrightarrow> uint (word_of_int x :: 16 word) = x"
  by (simp add: uint_word_of_int)

lemma port_little_endian:
  "sint (ucast (ntohs16 (Uint16 LittleEndian [f0, f1, hi, lo] 2)) :: 32 word) = 256 * int (byte hi) + int (byte lo)"
proof -
  have bnd: "0 \<le> int (byte x)" "int (byte x) < 256" for x using byte_bound [of x] by linarith+
  have v: "leValue [hi, lo] = int (byte hi) + 256 * int (byte lo)" by (simp add: byte_def of_nat_of_char)
  have s: "take 2 (drop 2 [f0, f1, hi, lo]) = [hi, lo]" by simp
  have r: "0 \<le> int (byte hi) + 256 * int (byte lo)" "int (byte hi) + 256 * int (byte lo) < 65536"
    using bnd [of hi] bnd [of lo] by linarith+
  have "uint (Uint16 LittleEndian [f0, f1, hi, lo] 2) = int (byte hi) + 256 * int (byte lo)"
    unfolding Uint16_def s readUint.simps v by (rule uint16_of_int [OF r])
  then show ?thesis unfolding sint_ucast16 by (rule ntohs16_swaps [OF bnd [of hi] bnd [of lo]])
qed

text \<open>On a big-endian machine the same steps turn both round.\<close>

lemma Uint32_big_endian: "Uint32 BigEndian [a, b, c, d] 0 = Uint32 LittleEndian [d, c, b, a] 0"
  by (simp add: Uint32_def)

lemma port_big_endian:
  "sint (ucast (ntohs16 (Uint16 BigEndian [f0, f1, hi, lo] 2)) :: 32 word) = 256 * int (byte lo) + int (byte hi)"
proof -
  have "Uint16 BigEndian [f0, f1, hi, lo] 2 = Uint16 LittleEndian [f0, f1, lo, hi] 2" by (simp add: Uint16_def)
  then show ?thesis using port_little_endian by simp
qed

text \<open>
  C20. On a little-endian machine the agent sees the address and the port of an IPv4 connection as the process gave them:
  what \<open>trace_connect\<close> reports for a \<open>sockaddr_in\<close> reads back, through \<open>eventIP\<close>, as its address bytes in network order,
  and its port is the number in network order.
\<close>

theorem connect_reported:
  assumes "cgroup_in_scope t k" and "t_room t" and "16 \<le> (scast (int_arg ctx 2) :: u64)"
    and "sc_bytes ctx (sc_args ctx 1) 16 = Some ([CHR 0x02, CHR 0x00, hi, lo, a, b, c, d] @ zero)"
  shows "\<exists>e. k_events (trace_connect LittleEndian t ctx k) = k_events k @ [e] \<and> ev_Type e = EventConnect \<and>
    eventIP e = Addr4 (wordOfBytes (map (\<lambda>x. int (byte x)) [a, b, c, d])) \<and>
    sint (ev_Arg1 e) = 256 * int (byte hi) + int (byte lo)"
proof -
  let ?addr = "[CHR 0x02, CHR 0x00, hi, lo, a, b, c, d] @ zero"
  define fill where "fill = (\<lambda>e :: event. e\<lparr>ev_Arg0 := Uint32 LittleEndian ?addr 4,
    ev_Arg1 := ucast (ntohs16 (Uint16 LittleEndian ?addr 2)), ev_Size := 2\<rparr>)"
  have f: "Uint16 LittleEndian ?addr 0 = 2" "Uint16 LittleEndian ?addr 2 = Uint16 LittleEndian [CHR 0x02, CHR 0x00, hi, lo] 2"
      "Uint32 LittleEndian ?addr 4 = Uint32 LittleEndian [a, b, c, d] 0"
    by (simp_all add: Uint16_def Uint32_def)
  have "trace_connect LittleEndian t ctx k = report t EventConnect fill k"
    using assms(3,4) f(1) by (simp add: trace_connect_def Let_def fill_def)
  moreover obtain e where "freshEvent EventConnect e" "report t EventConnect fill k = k\<lparr>k_events := k_events k @ [fill e]\<rparr>"
    using report_event [OF assms(1,2)] by blast
  moreover have "ev_Size (fill e) = 2" "ev_Arg0 (fill e) = Uint32 LittleEndian [a, b, c, d] 0"
    unfolding fill_def f(3) by simp_all
  then have "eventIP (fill e) = Addr4 (wordOfBytes (map (\<lambda>x. int (byte x)) [a, b, c, d]))" by (rule eventIP_inet)
  moreover have "sint (ev_Arg1 (fill e)) = 256 * int (byte hi) + int (byte lo)"
    using port_little_endian unfolding fill_def f(2) by simp
  ultimately show ?thesis by (intro exI [of _ "fill e"]) (simp add: fill_def freshEvent_def)
qed

definition sampleConnectCtx :: "string \<Rightarrow> syscall_ctx" where
  "sampleConnectCtx addr = \<lparr>sc_id = 42, sc_args = (\<lambda>i. if i = 2 then 16 else 0), sc_str = (\<lambda>a. None),
     sc_bytes = (\<lambda>a n. if n = 16 then Some addr else None), sc_ret = 0\<rparr>"

theorem connect_reported_witness:
  "\<exists>e. k_events (trace_connect LittleEndian sampleTask (sampleConnectCtx
       ([CHR 0x02, CHR 0x00, CHR 0x01, CHR 0xBB, CHR 0x0A, CHR 0x00, CHR 0x00, CHR 0x07] @ replicate 8 CHR 0x00))
       emptyKernel) = [e] \<and> eventIP e = Addr4 0x0A000007 \<and> sint (ev_Arg1 e) = 443"
proof -
  have "16 \<le> (scast (int_arg (sampleConnectCtx addr) 2) :: u64)" for addr by (simp add: sampleConnectCtx_def)
  moreover have "sc_bytes (sampleConnectCtx addr) u 16 = Some addr" for addr u by (simp add: sampleConnectCtx_def)
  ultimately obtain e where "k_events (trace_connect LittleEndian sampleTask (sampleConnectCtx
       ([CHR 0x02, CHR 0x00, CHR 0x01, CHR 0xBB, CHR 0x0A, CHR 0x00, CHR 0x00, CHR 0x07] @ replicate 8 CHR 0x00))
       emptyKernel) = k_events emptyKernel @ [e]"
     "eventIP e = Addr4 (wordOfBytes (map (\<lambda>x. int (byte x)) [CHR 0x0A, CHR 0x00, CHR 0x00, CHR 0x07]))"
     "sint (ev_Arg1 e) = 256 * int (byte CHR 0x01) + int (byte CHR 0xBB)"
    using connect_reported [OF sample_in_scope(1,3)] by metis
  moreover have "wordOfBytes (map (\<lambda>x. int (byte x)) [CHR 0x0A, CHR 0x00, CHR 0x00, CHR 0x07]) = (0x0A000007 :: 32 word)"
    "256 * int (byte CHR 0x01) + int (byte CHR 0xBB) = 443" by code_simp+
  ultimately show ?thesis by (auto simp: emptyKernel_def)
qed

text \<open>
  C35. The object for big-endian machines reports every IPv4 connection the wrong way round: \<open>ntohs16\<close> swaps the bytes of
  the port there too, and the address, loaded in the order of the machine, is taken apart from its low byte. For
  every \<open>sockaddr_in\<close> the agent sees the address with its four bytes reversed and the port with its two bytes swapped.
\<close>

theorem big_endian_connect:
  assumes "cgroup_in_scope t k" and "t_room t" and "16 \<le> (scast (int_arg ctx 2) :: u64)"
    and "sc_bytes ctx (sc_args ctx 1) 16 = Some ([CHR 0x00, CHR 0x02, hi, lo, a, b, c, d] @ zero)"
  shows "\<exists>e. k_events (trace_connect BigEndian t ctx k) = k_events k @ [e] \<and> ev_Type e = EventConnect \<and>
    eventIP e = Addr4 (wordOfBytes (map (\<lambda>x. int (byte x)) [d, c, b, a])) \<and>
    sint (ev_Arg1 e) = 256 * int (byte lo) + int (byte hi)"
proof -
  let ?addr = "[CHR 0x00, CHR 0x02, hi, lo, a, b, c, d] @ zero"
  define fill where "fill = (\<lambda>e :: event. e\<lparr>ev_Arg0 := Uint32 BigEndian ?addr 4,
    ev_Arg1 := ucast (ntohs16 (Uint16 BigEndian ?addr 2)), ev_Size := 2\<rparr>)"
  have f: "Uint16 BigEndian ?addr 0 = 2" "Uint16 BigEndian ?addr 2 = Uint16 BigEndian [CHR 0x00, CHR 0x02, hi, lo] 2"
      "Uint32 BigEndian ?addr 4 = Uint32 LittleEndian [d, c, b, a] 0"
    unfolding Uint32_big_endian [symmetric] by (simp_all add: Uint16_def Uint32_def)
  have "trace_connect BigEndian t ctx k = report t EventConnect fill k"
    using assms(3,4) f(1) by (simp add: trace_connect_def Let_def fill_def)
  moreover obtain e where "freshEvent EventConnect e" "report t EventConnect fill k = k\<lparr>k_events := k_events k @ [fill e]\<rparr>"
    using report_event [OF assms(1,2)] by blast
  moreover have "ev_Size (fill e) = 2" "ev_Arg0 (fill e) = Uint32 LittleEndian [d, c, b, a] 0"
    unfolding fill_def f(3) by simp_all
  then have "eventIP (fill e) = Addr4 (wordOfBytes (map (\<lambda>x. int (byte x)) [d, c, b, a]))" by (rule eventIP_inet)
  moreover have "sint (ev_Arg1 (fill e)) = 256 * int (byte lo) + int (byte hi)"
    using port_big_endian unfolding fill_def f(2) by simp
  ultimately show ?thesis by (intro exI [of _ "fill e"]) (simp add: fill_def freshEvent_def)
qed

theorem big_endian_connect_witness:
  "\<exists>e. k_events (trace_connect BigEndian sampleTask (sampleConnectCtx
       ([CHR 0x00, CHR 0x02, CHR 0x01, CHR 0xBB, CHR 0x0A, CHR 0x00, CHR 0x00, CHR 0x07] @ replicate 8 CHR 0x00))
       emptyKernel) = [e] \<and> eventIP e = Addr4 0x0700000A \<and> sint (ev_Arg1 e) = 47873"
proof -
  have "16 \<le> (scast (int_arg (sampleConnectCtx addr) 2) :: u64)" for addr by (simp add: sampleConnectCtx_def)
  moreover have "sc_bytes (sampleConnectCtx addr) u 16 = Some addr" for addr u by (simp add: sampleConnectCtx_def)
  ultimately obtain e where "k_events (trace_connect BigEndian sampleTask (sampleConnectCtx
       ([CHR 0x00, CHR 0x02, CHR 0x01, CHR 0xBB, CHR 0x0A, CHR 0x00, CHR 0x00, CHR 0x07] @ replicate 8 CHR 0x00))
       emptyKernel) = k_events emptyKernel @ [e]"
     "eventIP e = Addr4 (wordOfBytes (map (\<lambda>x. int (byte x)) [CHR 0x07, CHR 0x00, CHR 0x00, CHR 0x0A]))"
     "sint (ev_Arg1 e) = 256 * int (byte CHR 0xBB) + int (byte CHR 0x01)"
    using big_endian_connect [OF sample_in_scope(1,3)] by metis
  moreover have "wordOfBytes (map (\<lambda>x. int (byte x)) [CHR 0x07, CHR 0x00, CHR 0x00, CHR 0x0A]) = (0x0700000A :: 32 word)"
    "256 * int (byte CHR 0xBB) + int (byte CHR 0x01) = 47873" by code_simp+
  ultimately show ?thesis by (auto simp: emptyKernel_def)
qed

end
