(* ===== verification/Bpf_Enforce.thy ===== *)
theory Bpf_Enforce
  imports BpfTrace SensorAttach_Laws Config_Laws
begin

text \<open>
  What the LSM programs enforce, seen from user space: \<open>kernelMaps\<close> reads the maps that \<open>ConfigurePolicy\<close>,
  \<open>ConfigureEnforcement\<close> and \<open>BlockTGID\<close> write the way the programs do, and the properties follow a policy or a block
  from the call in the agent to the verdict in the kernel.
\<close>

section \<open>The maps seen from both sides\<close>

definition mapView :: "('m \<Rightarrow> mapKey \<rightharpoonup> mapVal) \<Rightarrow> 'm option \<Rightarrow> mapKey \<rightharpoonup> mapVal" where
  "mapView view mo key = (case mo of None \<Rightarrow> None | Some m \<Rightarrow> view m key)"

definition kernelMaps :: "('m \<Rightarrow> mapKey \<rightharpoonup> mapVal) \<Rightarrow> 'm sensorMaps \<Rightarrow> kernel \<Rightarrow> kernel" where
  "kernelMaps view sm k = k\<lparr>
     k_blocked_tgids := (\<lambda>tgid. case mapView view (sm_BlockedTgids sm) (K32 tgid) of Some (VBlock e) \<Rightarrow> Some e | _ \<Rightarrow> None),
     k_ioc_extensions := {h. mapView view (sm_IocExtensions sm) (K64 h) \<noteq> None},
     k_ioc_ransom_notes := {h. mapView view (sm_IocRansomNotes sm) (K64 h) \<noteq> None},
     k_protected_dirs := {(dev, ino). mapView view (sm_ProtectedDirs sm) (KDir dev ino) \<noteq> None},
     k_inline_ioc_action :=
       (case mapView view (sm_InlineIOCAction sm) (K32 0) of Some (V32 a) \<Rightarrow> Some a | _ \<Rightarrow> None),
     k_allowed_cgroups := {c. mapView view (sm_AllowedCgroups sm) (K64 c) \<noteq> None},
     k_cgroup_scope_enabled :=
       (case mapView view (sm_CgroupScopeEnabled sm) (K32 0) of Some (V8 b) \<Rightarrow> Some b | _ \<Rightarrow> None)\<rparr>"

definition policyInKernel ::
  "(string \<Rightarrow> (u64 \<times> u64) option) \<Rightarrow> policy \<Rightarrow> kernel \<Rightarrow> bool" where
  "policyInKernel stat p k \<longleftrightarrow>
     k_ioc_extensions k = {h. K64 h \<in> keysOf (hashKey iocHash) (pol_SuspiciousExtensions p)} \<and>
     k_ioc_ransom_notes k = {h. K64 h \<in> keysOf (hashKey iocHash) (pol_RansomNoteNames p)} \<and>
     k_protected_dirs k = {(dev, ino). KDir dev ino \<in> keysOf (dirKeyOf stat) (pol_ProtectedDirs p)} \<and>
     k_allowed_cgroups k = {c. K64 c \<in> keysOf (cgroupKey stat) (pol_CgroupPaths p)} \<and>
     k_cgroup_scope_enabled k = Some (if keysOf (cgroupKey stat) (pol_CgroupPaths p) = {} then 0 else 1)"

lemma mapView_dom: "mo = Some m \<Longrightarrow> mapView view mo key \<noteq> None \<longleftrightarrow> key \<in> dom (view m)"
  by (simp add: mapView_def domIff)

lemma ConfigurePolicy_kernel:
  assumes "lawfulMap ops view" and "ConfigurePolicy ops stat p sm = (None, sm')"
  shows "policyInKernel stat p (kernelMaps view sm' k)"
proof -
  obtain ext nts dirs cgs on where
    "sm_IocExtensions sm' = Some ext" "dom (view ext) = keysOf (hashKey iocHash) (pol_SuspiciousExtensions p)"
    "sm_IocRansomNotes sm' = Some nts" "dom (view nts) = keysOf (hashKey iocHash) (pol_RansomNoteNames p)"
    "sm_ProtectedDirs sm' = Some dirs" "dom (view dirs) = keysOf (dirKeyOf stat) (pol_ProtectedDirs p)"
    "sm_AllowedCgroups sm' = Some cgs" "dom (view cgs) = keysOf (cgroupKey stat) (pol_CgroupPaths p)"
    "sm_CgroupScopeEnabled sm' = Some on" "view on (K32 0) = Some (V8 (if dom (view cgs) = {} then 0 else 1))"
    using ConfigurePolicy_view [OF assms] by blast
  then show ?thesis by (simp add: policyInKernel_def kernelMaps_def mapView_dom mapView_def [of _ "Some on"]
        del: not_None_eq dom_eq_empty_conv)
qed

text \<open>The cgroup scope: everything without configured cgroups, otherwise what is in or below one of them.\<close>

lemma cgroup_scope_iff:
  assumes "policyInKernel stat p k"
  shows "cgroup_in_scope t k \<longleftrightarrow> keysOf (cgroupKey stat) (pol_CgroupPaths p) = {} \<or>
    (\<exists>c \<in> insert (t_cgroup t) (t_ancestor t ` {0..<32}). c \<noteq> 0 \<and> K64 c \<in> keysOf (cgroupKey stat) (pol_CgroupPaths p))"
  using assms by (auto simp: cgroup_in_scope_def policyInKernel_def list_ex_iff go_consts)

lemma ConfigureEnforcement_kernel:
  assumes "ConfigureEnforcement ops action dry sm = (None, sm')"
  shows "policyInKernel stat p (kernelMaps view sm' k) = policyInKernel stat p (kernelMaps view sm k)"
proof -
  have "sm' = sm \<or> (\<exists>m. sm' = sm\<lparr>sm_InlineIOCAction := m\<rparr>)"
    using assms
    by (cases "sm_InlineIOCAction sm") (auto simp: ConfigureEnforcement_def Let_def split: if_splits option.splits)
  then show ?thesis by (elim disjE exE) (simp_all add: policyInKernel_def kernelMaps_def)
qed

lemma initialize_kernel:
  assumes "lawfulMap ops view" and "initialize ops stat ae p dry s0 = (None, s)"
  shows "policyInKernel stat p (kernelMaps view (sn_maps s) k)"
proof -
  obtain e1 m1 where 1: "ConfigurePolicy ops stat p (sn_maps s0) = (e1, m1)" by (metis surj_pair)
  obtain e2 m2 where 2: "ConfigureEnforcement ops (pol_Action p) True m1 = (e2, m2)" by (metis surj_pair)
  obtain e3 s3 where 3: "attachAll ops ae (s0\<lparr>sn_maps := m2\<rparr>) = (e3, s3)" by (metis surj_pair)
  have "e1 = None" "e2 = None" and 5: "ConfigureEnforcement ops (pol_Action p) dry (sn_maps s3) = (None, sn_maps s)"
    using assms(2) 1 2 3 by (auto simp: initialize_def Let_def split: option.splits if_splits prod.splits)
  moreover have "sn_maps s3 = m2" using attachAll_step [OF 3] by (simp add: attachStep_def)
  ultimately show ?thesis
    using ConfigurePolicy_kernel [OF assms(1), of stat p "sn_maps s0" m1 k] 1 2
      ConfigureEnforcement_kernel [of ops _ _ _ _ stat p view k] by metis
qed

lemma started_kernel:
  assumes "lawfulMap ops view" and "NewWithOptions modeEnv loaders ops stat ae closeOK p dry = (Inr s, ss)"
  shows "policyInKernel stat p (kernelMaps view (sn_maps s) k)"
  using NewWithOptions_success [OF assms(2)] initialize_kernel [OF assms(1)] by blast

lemma started_inline_kernel:
  assumes "lawfulMap ops view" and "NewWithOptions modeEnv loaders ops stat ae closeOK p dry = (Inr s, ss)"
  shows "configured_inline_ioc_action (kernelMaps view (sn_maps s) k) =
    (if sm_InlineIOCAction (sn_maps s) = None then 0 else inlineValue (pol_Action p) dry)"
  using started_inline [OF assms]
  by (auto simp: configured_inline_ioc_action_def kernelMaps_def mapView_def split: option.splits)

section \<open>Names\<close>

lemma lower_char_lowerByte: "lower_char = lowerByte"
  by (simp add: fun_eq_iff lower_char_def lowerByte_def)

lemma fnv64a_hash_byte: "fnv64a s = foldl hash_byte 14695981039346656037 s"
  by (simp add: fnv64a_def hash_byte_def [abs_def])

lemma name_hashes_append: "name_hashes (xs @ ys) st = name_hashes ys (name_hashes xs st)"
  by (induction xs st rule: name_hashes.induct) (simp_all add: Let_def)

lemma name_hashes_plain:
  "CHR ''.'' \<notin> set s \<Longrightarrow> name_hashes s (f, e, b) =
     (foldl hash_byte f (map lowerByte s), if b then foldl hash_byte e (map lowerByte s) else e, b)"
  by (induction s arbitrary: f e) (auto simp: Let_def lower_char_lowerByte)

lemma name_hashes_full: "fst (name_hashes s st) = foldl hash_byte (fst st) (map lowerByte s)"
  by (induction s st rule: name_hashes.induct) (simp_all add: Let_def lower_char_lowerByte)

text \<open>The two hashes of a file name are those of user space, for the name and for its \<open>filepath.Ext\<close>.\<close>

lemma split_last_dot:
  assumes "CHR ''.'' \<in> set s"
  obtains pre suf where "s = pre @ CHR ''.'' # suf" and "CHR ''.'' \<notin> set suf"
  using split_list_last [OF assms] by blast

lemma Ext_plain: "CHR ''.'' \<notin> set s \<Longrightarrow> CHR ''/'' \<notin> set s \<Longrightarrow> Ext s = []"
proof -
  assume "CHR ''.'' \<notin> set s" "CHR ''/'' \<notin> set s"
  then have d: "dropWhile (\<lambda>c. c \<noteq> CHR ''/'' \<and> c \<noteq> CHR ''.'') (rev s) = []" by (auto simp: dropWhile_eq_Nil_conv)
  show ?thesis unfolding Ext_def Let_def d by simp
qed

lemma Ext_dot:
  assumes "CHR ''.'' \<notin> set suf" and "CHR ''/'' \<notin> set suf"
  shows "Ext (pre @ CHR ''.'' # suf) = CHR ''.'' # suf"
proof -
  let ?P = "\<lambda>c. c \<noteq> CHR ''/'' \<and> c \<noteq> CHR ''.''"
  have r: "rev (pre @ CHR ''.'' # suf) = rev suf @ CHR ''.'' # rev pre" by simp
  have p: "?P c" if "c \<in> set (rev suf)" for c using assms that by auto
  have d: "dropWhile ?P (rev suf @ CHR ''.'' # rev pre) = CHR ''.'' # rev pre"
    using dropWhile_append2 [of "rev suf" ?P, OF p] by simp
  have t: "takeWhile ?P (rev suf @ CHR ''.'' # rev pre) = rev suf"
    using takeWhile_append2 [of "rev suf" ?P, OF p] by simp
  show ?thesis unfolding Ext_def Let_def r d t by simp
qed

lemma name_hashes_Ext:
  assumes "CHR ''/'' \<notin> set name"
  shows "name_hashes name (14695981039346656037, 0, False) =
    (fnv64a (map lowerByte name), if Ext name = [] then 0 else fnv64a (map lowerByte (Ext name)), Ext name \<noteq> [])"
proof (cases "CHR ''.'' \<in> set name")
  case False
  then show ?thesis using assms by (simp add: name_hashes_plain Ext_plain fnv64a_hash_byte)
next
  case True
  then obtain pre suf where s: "name = pre @ CHR ''.'' # suf" and d: "CHR ''.'' \<notin> set suf" by (rule split_last_dot)
  obtain f e b where n: "name_hashes pre (14695981039346656037, 0, False) = (f, e, b)" by (metis prod_cases3)
  then have "f = foldl hash_byte 14695981039346656037 (map lowerByte pre)" using name_hashes_full [of pre] by (metis fst_conv)
  moreover have "Ext name = CHR ''.'' # suf" using Ext_dot [OF d] assms by (simp add: s)
  ultimately show ?thesis
    using n d by (simp add: s name_hashes_append Let_def name_hashes_plain lower_char_lowerByte fnv64a_hash_byte)
qed

lemma suspicious_dentry_iff:
  assumes "CHR ''/'' \<notin> set name"
  shows "suspicious_dentry k \<lparr>d_name = Some name, d_inode = i\<rparr> \<longleftrightarrow> name \<noteq> [] \<and> length name < 128 \<and>
    (fnv64a (map lowerByte name) \<in> k_ioc_ransom_notes k \<or>
     Ext name \<noteq> [] \<and> fnv64a (map lowerByte (Ext name)) \<in> k_ioc_extensions k)"
  by (auto simp: suspicious_dentry_def name_hashes_Ext [OF assms] go_consts)

section \<open>The kernel agrees with the agent on names\<close>

lemma Base_name: "name \<noteq> [] \<Longrightarrow> CHR ''/'' \<notin> set name \<Longrightarrow> Base name = name"
proof -
  assume n: "name \<noteq> []" "CHR ''/'' \<notin> set name"
  then have d: "dropWhile (\<lambda>c. c = CHR ''/'') (rev name) = rev name"
    by (cases "rev name") (auto simp: rev_swap)
  have t: "takeWhile (\<lambda>c. c \<noteq> CHR ''/'') (rev name) = rev name" using n(2) by (auto simp: takeWhile_eq_all_conv)
  show ?thesis using n(1) unfolding Base_def Let_def d t by simp
qed

lemma isASCII_Ext:
  assumes "isASCII name" and "CHR ''/'' \<notin> set name"
  shows "isASCII (Ext name)"
proof (cases "CHR ''.'' \<in> set name")
  case True
  then obtain pre suf where "name = pre @ CHR ''.'' # suf" "CHR ''.'' \<notin> set suf" by (rule split_last_dot)
  with assms show ?thesis using Ext_dot [of suf pre] by simp
qed (simp add: Ext_plain assms(2))

lemma ToLower_dot: "\<exists>u. ToLower (CHR ''.'' # t) = CHR ''.'' # u"
proof -
  have b: "byte CHR ''.'' = 46" "lowerByte CHR ''.'' = CHR ''.''" "char_of (46 :: nat) = CHR ''.''" by code_simp+
  have r: "runes (46 # map byte t) = 46 # runes (map byte t)" by simp
  have "lowerRune 46 = 46" "encodeRune 46 = [46]" by (simp_all add: lowerRune_def encodeRune_def)
  then have "ToLower (CHR ''.'' # t) = CHR ''.'' # map lowerByte t \<or>
      ToLower (CHR ''.'' # t) = CHR ''.'' # map char_of (concat (map (\<lambda>r. encodeRune (lowerRune r)) (runes (map byte t))))"
    unfolding ToLower_def list.map b r concat.simps by (simp add: b)
  then show ?thesis by blast
qed

lemma HasPrefix_dot: "HasPrefix s ''.'' \<longleftrightarrow> (\<exists>t. s = CHR ''.'' # t)"
  by (cases s) (auto simp: HasPrefix_def)

lemma normalizeExtension_trimmed: "TrimSpace (normalizeExtension e) = normalizeExtension e"
  using TrimSpace_dot_Cons [OF refl, of "ToLower e"] by (simp add: normalizeExtension_def Let_def)

lemma normalized_extensions:
  assumes "normalize p0 = Inr p" and "c \<in> set (pol_SuspiciousExtensions p)"
  shows "TrimSpace c = c \<and> (c = [] \<or> HasPrefix (ToLower c) ''.'')"
proof -
  obtain e where "c = normalizeExtension e"
    using normalize_InrD [OF assms(1)] assms(2) by (auto simp: completed_def)
  then show ?thesis using normalizeExtension_trimmed normalizeExtension_dot [of e] ToLower_dot
    unfolding HasPrefix_dot by metis
qed

text \<open>
  The names that agent and kernel both look for: the ransom notes, and the suspicious extensions but for the empty one. The agent's
  own test also flags names without an extension when the policy has a blank one; the kernel maps have no entry for it.
\<close>

definition flagsName :: "policy \<Rightarrow> string \<Rightarrow> bool" where
  "flagsName p name \<longleftrightarrow> isRansomNote p name \<or> hasSuspiciousExtension p name \<and> Ext name \<noteq> []"

definition kernelName :: "string \<Rightarrow> bool" where
  "kernelName name \<longleftrightarrow> name \<noteq> [] \<and> length name < NAME_MAX_LEN \<and> isASCII name \<and> CHR ''/'' \<notin> set name"

lemma hashKey_member:
  "c \<in> set cs \<Longrightarrow> TrimSpace c \<noteq> [] \<Longrightarrow> K64 (iocHash (TrimSpace c)) \<in> keysOf (hashKey iocHash) cs"
  unfolding keysOf_def by (auto simp: hashKey_def intro!: bexI [of _ c])

lemma note_hash:
  assumes "kernelName name" and "isRansomNote p name"
  shows "K64 (fnv64a (map lowerByte name)) \<in> keysOf (hashKey iocHash) (pol_RansomNoteNames p)"
proof -
  obtain c where c: "c \<in> set (pol_RansomNoteNames p)" "ToLower name = ToLower (TrimSpace c)"
    using assms Base_name by (auto simp: isRansomNote_def kernelName_def list_ex_iff)
  then have "map lowerByte name = ToLower (TrimSpace c)" using assms(1) by (simp add: kernelName_def ToLower_ASCII)
  moreover from this have "TrimSpace c \<noteq> []" using assms(1) by (auto simp: kernelName_def)
  ultimately show ?thesis using hashKey_member [OF c(1)] by (simp add: iocHash_def)
qed

lemma extension_hash:
  assumes "kernelName name" and "hasSuspiciousExtension p name" and "Ext name \<noteq> []" and "normalize p0 = Inr p"
  shows "K64 (fnv64a (map lowerByte (Ext name))) \<in> keysOf (hashKey iocHash) (pol_SuspiciousExtensions p)"
proof -
  obtain c where c: "c \<in> set (pol_SuspiciousExtensions p)"
    and eq: "ToLower (Ext name) = (if ToLower (TrimSpace c) \<noteq> [] \<and> \<not> HasPrefix (ToLower (TrimSpace c)) ''.''
      then ''.'' @ ToLower (TrimSpace c) else ToLower (TrimSpace c))"
    using assms(2) by (auto simp: hasSuspiciousExtension_def list_ex_iff Let_def)
  have n: "TrimSpace c = c" "c = [] \<or> HasPrefix (ToLower c) ''.''" using normalized_extensions [OF assms(4) c] by auto
  have "map lowerByte (Ext name) = ToLower c"
    using eq n isASCII_Ext assms(1) by (auto simp: kernelName_def ToLower_ASCII)
  moreover from this have "c \<noteq> []" using assms(3) by auto
  ultimately show ?thesis using hashKey_member [OF c] n(1) by (simp add: iocHash_def)
qed

lemma kernel_flags_name:
  assumes "policyInKernel stat p k" and "normalize p0 = Inr p" and "kernelName name" and "flagsName p name"
  shows "suspicious_dentry k \<lparr>d_name = Some name, d_inode = i\<rparr>"
proof -
  have "CHR ''/'' \<notin> set name" using assms(3) by (simp add: kernelName_def)
  note iff = suspicious_dentry_iff [OF this, of k i]
  from assms(4) consider "isRansomNote p name" | "hasSuspiciousExtension p name" "Ext name \<noteq> []"
    by (auto simp: flagsName_def)
  then show ?thesis
  proof cases
    case 1
    then show ?thesis using note_hash [OF assms(3)] assms(1,3) unfolding iff
      by (simp add: policyInKernel_def kernelName_def go_consts)
  next
    case 2
    then show ?thesis using extension_hash [OF assms(3) _ _ assms(2)] assms(1,3) unfolding iff
      by (simp add: policyInKernel_def kernelName_def go_consts)
  qed
qed

section \<open>Inline indicators\<close>

lemma protected_path_iff:
  "protected_path k path \<longleftrightarrow> (\<exists>i < min 8 (length path). dentry_protected k (path ! i))"
  by (auto simp: protected_path_def go_consts list_ex_length)

lemma protected_dir:
  assumes "policyInKernel stat p k" and "dir \<in> set (pol_ProtectedDirs p)" and "TrimSpace dir \<noteq> []"
    and "stat (TrimSpace dir) = Some (user_device_id dev, ino)"
    and "i < 8" and "i < length path" and "d_inode (path ! i) = Some (Some dev, ino)"
  shows "protected_path k path"
proof -
  have "KDir (user_device_id dev) ino \<in> keysOf (dirKeyOf stat) (pol_ProtectedDirs p)"
    unfolding keysOf_def using assms(2-4) by (auto simp: dirKeyOf_def Let_def intro!: bexI [of _ dir])
  then have "dentry_protected k (path ! i)"
    using assms(1,7) by (simp add: dentry_protected_def policyInKernel_def)
  then show ?thesis using assms(5,6) unfolding protected_path_iff by auto
qed

lemma inline_denies:
  assumes "suspicious_path_dentry t k dir d" and "configured_inline_ioc_action k \<in> {1, 2}"
  shows "fst (enforce_name t op dir d 0 k) = - 1 \<and>
    k_killed (snd (enforce_name t op dir d 0 k)) =
      k_killed k @ (if configured_inline_ioc_action k = 2 then [current_tgid t] else [])"
proof -
  have "fst (enforce_inline_ioc t op d k) = - 1" "k_killed (snd (enforce_inline_ioc t op d k)) =
      k_killed k @ (if configured_inline_ioc_action k = 2 then [current_tgid t] else [])"
    using assms(2) by (auto simp: enforce_inline_ioc_def Let_def send_sigkill_def report_def new_event_def
        count_ringbuf_drop_def)
  then show ?thesis using assms(1)
    by (cases "enforce_inline_ioc t op d k") (simp add: enforce_name_def)
qed

lemma inlineValue_cases: "inlineValue action False \<noteq> 0 \<Longrightarrow> inlineValue action False \<in> {1, 2}"
  by (simp add: inlineValue_def split: if_splits)

text \<open>
  C7. A started sensor keeps ransomware names out of protected directories. Once the sensor has started without a dry run, with a
  normalised policy whose action is deny or kill, and has the inline action map, then a process in scope that creates,
  renames to or deletes, within eight levels of a protected directory, a name of fewer than 128 ASCII characters that
  is a ransom note of the policy or has one of its suspicious extensions, a blank one excluded, is refused by the kernel,
  and killed when the action is kill. The file system reports device numbers in the encoding of \<open>stat\<close>.
\<close>

theorem started_sensor_denies:
  assumes "lawfulMap ops view" and "normalize p0 = Inr p"
    and "NewWithOptions modeEnv loaders ops stat ae closeOK p False = (Inr s, ss)"
    and "sm_InlineIOCAction (sn_maps s) \<noteq> None" and "inlineValue (pol_Action p) False \<noteq> 0"
    and "dir \<in> set (pol_ProtectedDirs p)" and "TrimSpace dir \<noteq> []"
    and "stat (TrimSpace dir) = Some (user_device_id dev, ino)"
    and "i < 8" and "i < length path" and "d_inode (path ! i) = Some (Some dev, ino)"
    and "kernelName name" and "flagsName p name"
    and "k = kernelMaps view (sn_maps s) k0" and "cgroup_in_scope t k"
  shows "list_all (\<lambda>hook. case hook t path \<lparr>d_name = Some name, d_inode = inode\<rparr> 0 k of (verdict, k') \<Rightarrow>
      verdict = - EPERM \<and>
      k_killed k' = k_killed k @ (if inlineValue (pol_Action p) False = BLOCK_ACTION_KILL then [current_tgid t] else []))
    [enforce_path_mknod, enforce_path_rename, enforce_path_rename_legacy, enforce_path_unlink]"
proof -
  have pk: "policyInKernel stat p k" unfolding assms(14) by (rule started_kernel [OF assms(1,3)])
  have act: "configured_inline_ioc_action k = inlineValue (pol_Action p) False"
    using started_inline_kernel [OF assms(1,3)] assms(4) by (simp add: assms(14))
  have "suspicious_path_dentry t k path \<lparr>d_name = Some name, d_inode = inode\<rparr>"
    using assms(15) protected_dir [OF pk assms(6-11)] kernel_flags_name [OF pk assms(2,12,13)]
    by (simp add: suspicious_path_dentry_def)
  note deny = inline_denies [OF this, unfolded act, OF inlineValue_cases [OF assms(5)]]
  show ?thesis using deny
    by (simp add: enforce_path_mknod_def enforce_path_rename_def enforce_path_rename_legacy_def
        enforce_path_rename_common_def enforce_path_unlink_def case_prod_beta)
qed

definition noTask :: task where
  "noTask = \<lparr>t_pid_tgid = 180388626474, t_uid_gid = 0, t_ppid = 1, t_comm = ''cp'', t_now = 5, t_cgroup = 1,
     t_ancestor = (\<lambda>i. 0), t_room = True, t_update = True\<rparr>"

definition lockPolicy :: policy where
  "lockPolicy = zeroPolicy\<lparr>pol_Action := ''kill'', pol_SuspiciousExtensions := [''LOCKED''], pol_ProtectedDirs := [''/srv'']\<rparr>"

lemma lock_flags:
  "flagsName (zeroPolicy\<lparr>pol_SuspiciousExtensions := [''.locked''], pol_ProtectedDirs := [''/srv'']\<rparr>) ''a.Locked''"
proof -
  have e: "Ext ''a.Locked'' = ''.Locked''" "TrimSpace ''.locked'' = ''.locked''" "HasPrefix ''.locked'' ''.''"
      "isASCII ''.Locked''" "map lowerByte ''.Locked'' = ''.locked''" "isASCII ''.locked''" "map lowerByte ''.locked'' = ''.locked''"
    by code_simp+
  then have "ToLower ''.Locked'' = ''.locked''" "ToLower ''.locked'' = ''.locked''" by (simp_all only: ToLower_ASCII)
  then show ?thesis using e(1-3) by (simp add: flagsName_def hasSuspiciousExtension_def)
qed

lemma lockPolicy_normal:
  "\<exists>q. normalize lockPolicy = Inr q \<and> pol_Action q = ''kill'' \<and> pol_Rules q = [] \<and> pol_CgroupPaths q = [] \<and>
     pol_ProtectedDirs q = [''/srv''] \<and> flagsName q ''a.Locked''"
proof -
  let ?z = "zeroPolicy\<lparr>pol_SuspiciousExtensions := [''.locked''], pol_ProtectedDirs := [''/srv'']\<rparr>"
  have "case normalize lockPolicy of Inl e \<Rightarrow> False
      | Inr q \<Rightarrow> pol_Action q = ''kill'' \<and> pol_Rules q = [] \<and> pol_CgroupPaths q = [] \<and> pol_ProtectedDirs q = [''/srv''] \<and>
          pol_SuspiciousExtensions q = [''.locked''] \<and> pol_RansomNoteNames q = []"
    by code_simp
  then obtain q where q: "normalize lockPolicy = Inr q" "pol_Action q = ''kill''" "pol_Rules q = []" "pol_CgroupPaths q = []"
      "pol_ProtectedDirs q = [''/srv'']" "pol_SuspiciousExtensions q = [''.locked'']" "pol_RansomNoteNames q = []"
    by (cases "normalize lockPolicy") auto
  note lock_flags
  moreover have "flagsName q ''a.Locked'' = flagsName ?z ''a.Locked''"
    using q(6,7) by (simp add: flagsName_def isRansomNote_def hasSuspiciousExtension_def zeroPolicy_def)
  ultimately show ?thesis using q by simp
qed

theorem started_sensor_denies_witness:
  "\<exists>q s. normalize lockPolicy = Inr q \<and>
     fst (NewWithOptions ''core'' coreLoader listOps (\<lambda>_. Some (2049, 5)) (\<lambda>_. traceEnv) (\<lambda>_. True) q False) = Inr s \<and>
     list_all (\<lambda>hook. fst (hook noTask [\<lparr>d_name = Some ''srv'', d_inode = Some (Some 8388609, 5)\<rparr>]
         \<lparr>d_name = Some ''a.Locked'', d_inode = None\<rparr> 0 (kernelMaps listView (sn_maps s) emptyKernel)) = - 1)
       [enforce_path_mknod, enforce_path_rename, enforce_path_rename_legacy, enforce_path_unlink]"
proof -
  obtain q where q: "normalize lockPolicy = Inr q" "pol_Action q = ''kill''" "pol_Rules q = []" "pol_CgroupPaths q = []"
      "pol_ProtectedDirs q = [''/srv'']" "flagsName q ''a.Locked''"
    using lockPolicy_normal by blast
  obtain s where s: "NewWithOptions ''core'' coreLoader listOps (\<lambda>_. Some (2049, 5)) (\<lambda>_. traceEnv) (\<lambda>_. True) q False =
      (Inr s, [])" "sm_InlineIOCAction (sn_maps s) \<noteq> None"
    using startCore [OF q(2,3) listOps_configures, of "\<lambda>_. Some (2049, 5)" False] by blast
  let ?path = "[\<lparr>d_name = Some ''srv'', d_inode = Some (Some 8388609, 5)\<rparr>]" and ?k = "kernelMaps listView (sn_maps s) emptyKernel"
  have scope: "cgroup_in_scope noTask ?k"
    using cgroup_scope_iff [OF started_kernel [OF listOps_lawful s(1)]] q(4) by simp
  have v: "inlineValue (pol_Action q) False \<noteq> 0" "''/srv'' \<in> set (pol_ProtectedDirs q)" "kernelName ''a.Locked''"
      "TrimSpace ''/srv'' \<noteq> []" "user_device_id 8388609 = 2049"
    unfolding q(2,5) by code_simp+
  have "list_all (\<lambda>hook. case hook noTask ?path \<lparr>d_name = Some ''a.Locked'', d_inode = None\<rparr> 0 ?k of (verdict, k') \<Rightarrow>
      verdict = - EPERM \<and> k_killed k' = k_killed ?k @
        (if inlineValue (pol_Action q) False = BLOCK_ACTION_KILL then [current_tgid noTask] else []))
    [enforce_path_mknod, enforce_path_rename, enforce_path_rename_legacy, enforce_path_unlink]"
    by (rule started_sensor_denies [OF listOps_lawful q(1) s v(1,2,4) _ _ _ _ v(3) q(6) refl scope, where i = 0])
      (simp_all add: v(5))
  then show ?thesis using q(1) s(1) by (auto simp: case_prod_beta)
qed

section \<open>Blocks\<close>

definition liveBlock :: "task \<Rightarrow> kernel \<Rightarrow> blockEntry \<Rightarrow> bool" where
  "liveBlock t k entry \<longleftrightarrow> k_blocked_tgids k (current_tgid t) = Some entry \<and>
     (be_ExpiresNs entry = 0 \<or> t_now t \<le> be_ExpiresNs entry)"

lemma current_block_entry_live: "liveBlock t k entry \<Longrightarrow> current_block_entry t k = (Some entry, k)"
  by (auto simp: current_block_entry_def liveBlock_def)

lemma current_block_entry_none:
  assumes "\<nexists>entry. liveBlock t k entry"
  shows "current_block_entry t k = (None, k\<lparr>k_blocked_tgids := (k_blocked_tgids k)(current_tgid t := None)\<rparr>)"
proof (cases "k_blocked_tgids k (current_tgid t)")
  case None
  then have "(k_blocked_tgids k)(current_tgid t := None) = k_blocked_tgids k" by auto
  then show ?thesis using None by (simp add: current_block_entry_def)
next
  case (Some entry)
  then show ?thesis using assms by (auto simp: current_block_entry_def liveBlock_def)
qed

lemma emit_block_event_frame [simp]:
  "k_killed (emit_block_event t op k) = k_killed k"
  by (auto simp: emit_block_event_def report_def new_event_def count_ringbuf_drop_def)

lemma enforce_block_live:
  assumes "liveBlock t k entry"
  shows "fst (enforce_block t op k) = - 1 \<and>
    k_killed (snd (enforce_block t op k)) = k_killed k @ (if be_Action entry = 2 then [current_tgid t] else [])"
  using current_block_entry_live [OF assms] by (simp add: enforce_block_def deny_or_kill_def send_sigkill_def)

lemma enforce_name_live:
  assumes "liveBlock t k entry"
  shows "fst (enforce_name t op dir d 0 k) = - 1"
proof (cases "suspicious_path_dentry t k dir d \<and> configured_inline_ioc_action k \<in> {1, 2}")
  case True
  then show ?thesis using inline_denies by blast
next
  case False
  then have "(if suspicious_path_dentry t k dir d then enforce_inline_ioc t op d k else (0, k)) = (0, k)"
    by (auto simp: enforce_inline_ioc_def Let_def)
  then show ?thesis using enforce_block_live [OF assms] by (simp add: enforce_name_def Let_def)
qed

text \<open>
  What counts as writing: an open with the truncation flag (bit 9) or with the access mode write-only or read-write (the two
  low bits), a permission check with the write bit of the mask; every other hook changes something by itself.
\<close>

definition asksToWrite :: "hook \<Rightarrow> string \<Rightarrow> bool" where
  "asksToWrite h name \<longleftrightarrow>
     (if name = ''enforce_file_open'' then bit (h_flags h) 9 \<or> take_bit 2 (h_flags h) \<in> {1, 2}
      else name = ''enforce_file_permission'' \<longrightarrow> bit (h_mode h) 1)"

lemma write_bits:
  "w AND 512 \<noteq> 0 \<longleftrightarrow> bit w 9" "w AND 2 \<noteq> 0 \<longleftrightarrow> bit w 1" "w AND 3 = take_bit 2 w" for w :: i32
  using and_exp_eq_0_iff_not_bit [of w 9] and_exp_eq_0_iff_not_bit [of w 1]
  by (simp_all add: take_bit_eq_mask mask_eq_exp_minus_1)

text \<open>
  C8. A blocked process cannot change files. After a successful \<open>BlockTGID\<close> and until its expiry, every LSM program
  that has not been given a refusal already refuses the process that was blocked: the two programs that see how a file is used
  refuse exactly the opens that truncate or are for writing or reading and writing, and the accesses for writing,
  the others refuse always. Every kprobe kills the process or makes its system call return an error, as the action
  of the block says.
\<close>

theorem blocked_process_denied:
  assumes "lawfulMap ops view" and "BlockTGID ops uptime caps sm (current_tgid t) action ttl = (None, sm')"
    and "k = kernelMaps view sm' k0"
    and "ttl \<le> 0 \<or> t_now t \<le> word_of_int (add64 (the uptime) ttl)"
    and "h_ret h = 0"
  shows "list_all (\<lambda>(name, program). fst (program k) = (if asksToWrite h name then - EPERM else 0)) (lsm_programs t h) \<and>
    list_all (\<lambda>(name, program). program k =
      (if action = BLOCK_ACTION_KILL then (None, k\<lparr>k_killed := k_killed k @ [current_tgid t]\<rparr>) else (Some (- EPERM), k)))
      (override_programs t)"
proof -
  define entry where "entry = \<lparr>be_ExpiresNs = (if 0 < ttl then word_of_int (add64 (the uptime) ttl) else 0 :: u64),
      be_Reason = 1, be_Action = action\<rparr>"
  obtain m m' where "sm' = sm\<lparr>sm_BlockedTgids := Some m'\<rparr>" "view m' = (view m)(K32 (current_tgid t) \<mapsto> VBlock entry)"
    using BlockTGID_cases [OF assms(1), where uptime = uptime and caps = caps and sm = sm and tgid = "current_tgid t"
        and action = action and ttl = ttl] assms(2)
    unfolding entry_def by auto
  then have "k_blocked_tgids k (current_tgid t) = Some entry" by (simp add: assms(3) kernelMaps_def mapView_def)
  then have live: "liveBlock t k entry" using assms(4) by (auto simp: liveBlock_def entry_def)
  note blk = enforce_block_live [OF live] and nm = enforce_name_live [OF live] and cur = current_block_entry_live [OF live]
  have lsm: "list_all (\<lambda>(name, program). fst (program k) = (if asksToWrite h name then - EPERM else 0)) (lsm_programs t h)"
    using assms(5) blk nm cur
    by (simp add: lsm_programs_def hook_defs enforce_file_permission_def deny_or_kill_def asksToWrite_def write_bits)
  have "kp_override t k = (if action = BLOCK_ACTION_KILL then (None, k\<lparr>k_killed := k_killed k @ [current_tgid t]\<rparr>)
      else (Some (- EPERM), k))"
    using cur by (simp add: kp_override_def enforce_blocked_syscall_def send_sigkill_def entry_def)
  then show ?thesis using lsm override_program by (auto simp: list_all_iff)
qed

theorem blocked_process_denied_witness:
  "\<exists>sm'. BlockTGID listOps (Some 5) plainCaps emptyMaps 42 BlockActionKill 10 = (None, sm') \<and>
     list_all (\<lambda>(name, program). fst (program (kernelMaps listView sm' emptyKernel)) = - 1)
       (lsm_programs noTask \<lparr>h_flags = 2, h_mode = 2, h_dir = [], h_dentry = \<lparr>d_name = None, d_inode = None\<rparr>, h_ret = 0\<rparr>)"
proof -
  let ?h = "\<lparr>h_flags = 2, h_mode = 2, h_dir = [], h_dentry = \<lparr>d_name = None, d_inode = None\<rparr>, h_ret = 0\<rparr>"
  have t: "current_tgid noTask = 42" "t_now noTask \<le> word_of_int (add64 (the (Some 5)) 10)" by code_simp+
  obtain sm' where b: "BlockTGID listOps (Some 5) plainCaps emptyMaps 42 BlockActionKill 10 = (None, sm')"
    by (simp add: BlockTGID_def listOps_def emptyMaps_def Let_def)
  have "asksToWrite ?h name" for name by (simp add: asksToWrite_def write_bits [symmetric])
  then show ?thesis
    using b blocked_process_denied [OF listOps_lawful, of "Some 5" plainCaps emptyMaps noTask BlockActionKill 10 sm',
        OF _ refl, of ?h emptyKernel] t
    by simp
qed

lemma lets_pass:
  assumes "\<nexists>entry. liveBlock t k entry"
    and "configured_inline_ioc_action k \<notin> {1, 2} \<or> \<not> suspicious_path_dentry t k (h_dir h) (h_dentry h)"
  shows "list_all (\<lambda>(name, program). fst (program k) = h_ret h \<and>
      snd (program k) \<in> {k, k\<lparr>k_blocked_tgids := (k_blocked_tgids k)(current_tgid t := None)\<rparr>}) (lsm_programs t h) \<and>
    list_all (\<lambda>(name, program). fst (program k) = None \<and>
      snd (program k) \<in> {k, k\<lparr>k_blocked_tgids := (k_blocked_tgids k)(current_tgid t := None)\<rparr>}) (override_programs t)"
proof -
  note cur = current_block_entry_none [OF assms(1)]
  have inl: "(if suspicious_path_dentry t k (h_dir h) (h_dentry h) then enforce_inline_ioc t op (h_dentry h) k else (0, k)) =
      (0, k)" for op
    using assms(2) by (auto simp: enforce_inline_ioc_def Let_def)
  have "fst (enforce_name t op (h_dir h) (h_dentry h) (h_ret h) k) = h_ret h \<and>
      snd (enforce_name t op (h_dir h) (h_dentry h) (h_ret h) k) \<in>
        {k, k\<lparr>k_blocked_tgids := (k_blocked_tgids k)(current_tgid t := None)\<rparr>}" for op
    unfolding enforce_name_def inl by (simp add: enforce_block_def cur)
  then have "list_all (\<lambda>(name, program). fst (program k) = h_ret h \<and>
      snd (program k) \<in> {k, k\<lparr>k_blocked_tgids := (k_blocked_tgids k)(current_tgid t := None)\<rparr>}) (lsm_programs t h)"
    by (simp add: lsm_programs_def hook_defs enforce_file_permission_def enforce_block_def cur)
  moreover have "fst (kp_override t k) = None" "snd (kp_override t k) =
      k\<lparr>k_blocked_tgids := (k_blocked_tgids k)(current_tgid t := None)\<rparr>"
    by (simp_all add: kp_override_def enforce_blocked_syscall_def cur)
  ultimately show ?thesis using override_program by (auto simp: list_all_iff)
qed

text \<open>
  C11. Only blocked processes and flagged names are refused. Without an unexpired block of its process, and unless inline
  enforcement is on and the entry named is flagged, every LSM program returns the verdict it was given and every
  kprobe lets the call run; nothing is reported, no process is killed, and no block of another process is lifted.
\<close>

theorem unblocked_process_passes:
  assumes "\<nexists>entry. liveBlock t k entry"
    and "configured_inline_ioc_action k \<notin> {1, 2} \<or> \<not> suspicious_path_dentry t k (h_dir h) (h_dentry h)"
  shows "list_all (\<lambda>(name, program). fst (program k) = h_ret h \<and>
      snd (program k) \<in> {k, k\<lparr>k_blocked_tgids := (k_blocked_tgids k)(current_tgid t := None)\<rparr>}) (lsm_programs t h) \<and>
    list_all (\<lambda>(name, program). fst (program k) = None \<and>
      snd (program k) \<in> {k, k\<lparr>k_blocked_tgids := (k_blocked_tgids k)(current_tgid t := None)\<rparr>}) (override_programs t)"
  using assms by (rule lets_pass)

theorem unblocked_process_passes_witness:
  "list_all (\<lambda>(name, program). fst (program emptyKernel) = 0 \<and>
      snd (program emptyKernel) \<in> {emptyKernel, emptyKernel\<lparr>k_blocked_tgids := (k_blocked_tgids emptyKernel)(42 := None)\<rparr>})
    (lsm_programs noTask \<lparr>h_flags = 1, h_mode = 2, h_dir = [], h_dentry = \<lparr>d_name = None, d_inode = None\<rparr>, h_ret = 0\<rparr>)"
proof -
  have t: "current_tgid noTask = 42" by code_simp
  have "\<nexists>entry. liveBlock noTask emptyKernel entry" "configured_inline_ioc_action emptyKernel \<notin> {1, 2}"
    by (simp_all add: liveBlock_def emptyKernel_def configured_inline_ioc_action_def)
  then show ?thesis
    using unblocked_process_passes [of noTask emptyKernel
        "\<lparr>h_flags = 1, h_mode = 2, h_dir = [], h_dentry = \<lparr>d_name = None, d_inode = None\<rparr>, h_ret = 0\<rparr>"]
    by (simp add: t)
qed

lemma dry_kernel_passes:
  assumes "lawfulMap ops view" and "NewWithOptions modeEnv loaders ops stat ae closeOK p True = (Inr s, ss)"
    and "mapView view (sm_BlockedTgids (sn_maps s)) (K32 (current_tgid t)) = None"
  shows "list_all (\<lambda>(name, program). fst (program (kernelMaps view (sn_maps s) k)) = h_ret h) (lsm_programs t h)"
proof -
  have "configured_inline_ioc_action (kernelMaps view (sn_maps s) k) = 0"
    using started_inline_kernel [OF assms(1,2)] by (simp add: inlineValue_def)
  moreover have "\<nexists>entry. liveBlock t (kernelMaps view (sn_maps s) k) entry"
    using assms(3) by (simp add: liveBlock_def kernelMaps_def)
  ultimately show ?thesis
    using lets_pass [of t "kernelMaps view (sn_maps s) k" h] by (auto simp: list_all_iff)
qed

section \<open>Limits of inline enforcement\<close>

text \<open>One byte decides the hash: two texts that differ in one place have different FNV-1a hashes.\<close>

lemma fnv_prime_cancel: "x * 1099511628211 = y * 1099511628211 \<longleftrightarrow> x = y" for x y :: u64
proof
  have inv: "(1099511628211 :: u64) * 14886173955864302971 = 1" by code_simp
  assume "x * 1099511628211 = y * 1099511628211"
  then have "x * 1099511628211 * 14886173955864302971 = y * 1099511628211 * 14886173955864302971" by (rule arg_cong)
  then show "x = y" unfolding mult.assoc inv mult_1_right .
qed simp

lemma xor_cancel: "x XOR z = y XOR z \<longleftrightarrow> x = y" for x y z :: u64
proof
  assume "x XOR z = y XOR z"
  then have "(x XOR z) XOR z = (y XOR z) XOR z" by (rule arg_cong)
  then show "x = y" by (simp add: xor.assoc)
qed simp

lemma hash_byte_inj:
  shows "hash_byte h c = hash_byte h' c \<longleftrightarrow> h = h'" and "hash_byte h c = hash_byte h d \<longleftrightarrow> c = d"
proof -
  show "hash_byte h c = hash_byte h' c \<longleftrightarrow> h = h'" unfolding hash_byte_def fnv_prime_cancel xor_cancel ..
  have "unat (word_of_nat (byte x) :: u64) = byte x" for x
    using less_trans [OF byte_bound [of x], of 18446744073709551616] by (simp add: unat_of_nat)
  then have "(word_of_nat (byte c) :: u64) = word_of_nat (byte d) \<longleftrightarrow> c = d" by (metis byte_eq_iff)
  then show "hash_byte h c = hash_byte h d \<longleftrightarrow> c = d"
    unfolding hash_byte_def fnv_prime_cancel xor.commute [of h] xor_cancel .
qed

lemma hash_rest_inj: "foldl hash_byte h s = foldl hash_byte h' s \<Longrightarrow> h = h'"
  by (induction s arbitrary: h h') (auto dest: hash_byte_inj(1) [THEN iffD1])

lemma fnv64a_one_byte: "fnv64a (xs @ a # ys) = fnv64a (xs @ b # ys) \<longleftrightarrow> a = b"
  by (auto simp: fnv64a_hash_byte hash_byte_inj(2) dest: hash_rest_inj)

lemma latin_hash:
  assumes "isASCII pre" and "isASCII post" and "latinUpper b"
  shows "iocHash (pre @ [CHR 0xC3, b] @ post) \<noteq> fnv64a (map lowerByte (pre @ [CHR 0xC3, b] @ post))"
proof -
  have "lowerByte CHR 0xC3 = CHR 0xC3" by code_simp
  moreover have "lowerByte b = b" "byte (char_of (byte b + 32)) \<noteq> byte b"
    using assms(3) byte_char_of [of "byte b + 32"] by (auto simp: lowerByte_def latinUpper_def)
  ultimately show ?thesis
    using fnv64a_one_byte [of "map lowerByte pre @ [CHR 0xC3]" "char_of (byte b + 32)" "map lowerByte post" b]
    unfolding iocHash_def ToLower_latin [OF assms] by auto
qed

lemma hashKey_iff:
  "K64 h \<in> keysOf (hashKey iocHash) cs \<longleftrightarrow> (\<exists>c \<in> set cs. TrimSpace c \<noteq> [] \<and> h = iocHash (TrimSpace c))"
  unfolding keysOf_def by (auto simp: hashKey_def Let_def split: if_splits)

lemma unflagged_passes:
  assumes "\<not> suspicious_path_dentry t k path d" and "\<nexists>entry. liveBlock t k entry"
  shows "list_all (\<lambda>hook. fst (hook t path d 0 k) = 0)
    [enforce_path_mknod, enforce_path_rename, enforce_path_rename_legacy, enforce_path_unlink]"
proof -
  have "fst (enforce_name t op path d 0 k) = 0" for op
    using assms(1) by (simp add: enforce_name_def enforce_block_def current_block_entry_none [OF assms(2)])
  then show ?thesis
    by (simp add: enforce_path_mknod_def enforce_path_rename_def enforce_path_rename_legacy_def
        enforce_path_rename_common_def enforce_path_unlink_def)
qed

text \<open>
  C34. A configured ransom note whose name has an upper-case letter of Latin-1 among ASCII characters is flagged by the
  agent and never refused by the kernel: the agent folds the case of every Unicode letter before it hashes the
  name, the kernel only that of ASCII letters, and the two hashes always differ. Whatever the sensor was started with, as
  long as no other entry of the policy happens to have the hash the kernel computes, an unblocked process may create
  the name, rename to it or delete it anywhere.
\<close>

theorem nonascii_name_missed:
  assumes "lawfulMap ops view" and "NewWithOptions modeEnv loaders ops stat ae closeOK p dry = (Inr s, ss)"
    and "k = kernelMaps view (sn_maps s) k0" and "\<nexists>entry. liveBlock t k entry"
    and "name = pre @ [CHR 0xC3, b] @ post" and "isASCII pre" and "isASCII post" and "latinUpper b"
    and "CHR ''/'' \<notin> set name" and "TrimSpace name = name" and "name \<in> set (pol_RansomNoteNames p)"
    and "list_all (\<lambda>c. TrimSpace c = name \<or> iocHash (TrimSpace c) \<noteq> fnv64a (map lowerByte name)) (pol_RansomNoteNames p)"
    and "list_all (\<lambda>c. iocHash (TrimSpace c) \<noteq> fnv64a (map lowerByte (Ext name))) (pol_SuspiciousExtensions p)"
  shows "isRansomNote p name \<and> list_all (\<lambda>hook. fst (hook t path \<lparr>d_name = Some name, d_inode = i\<rparr> 0 k) = 0)
    [enforce_path_mknod, enforce_path_rename, enforce_path_rename_legacy, enforce_path_unlink]"
proof -
  have "name \<noteq> []" by (simp add: assms(5))
  then have flagged: "isRansomNote p name"
    using assms(10,11) Base_name [OF _ assms(9)] by (auto simp: isRansomNote_def list_ex_iff intro!: bexI [of _ name])
  have "iocHash name \<noteq> fnv64a (map lowerByte name)" by (rule latin_hash [OF assms(6-8), folded assms(5)])
  then have "fnv64a (map lowerByte name) \<notin> k_ioc_ransom_notes k"
      "fnv64a (map lowerByte (Ext name)) \<notin> k_ioc_extensions k"
    using started_kernel [OF assms(1,2), of k0] assms(12,13)
    by (auto simp: policyInKernel_def assms(3) hashKey_iff list_all_iff)
  then have "\<not> suspicious_path_dentry t k path \<lparr>d_name = Some name, d_inode = i\<rparr>"
    by (simp add: suspicious_path_dentry_def suspicious_dentry_iff [OF assms(9)])
  then show ?thesis using flagged unflagged_passes [OF _ assms(4)] by blast
qed

definition umlautPolicy :: policy where
  "umlautPolicy = zeroPolicy\<lparr>pol_Action := ''kill'', pol_RansomNoteNames := [[CHR 0xC3, CHR 0x84]]\<rparr>"

theorem nonascii_name_missed_witness:
  "\<exists>s. fst (NewWithOptions ''core'' coreLoader listOps (\<lambda>_. None) (\<lambda>_. traceEnv) (\<lambda>_. True) umlautPolicy False) = Inr s \<and>
     isRansomNote umlautPolicy [CHR 0xC3, CHR 0x84] \<and>
     list_all (\<lambda>hook. fst (hook noTask [] \<lparr>d_name = Some [CHR 0xC3, CHR 0x84], d_inode = None\<rparr> 0
         (kernelMaps listView (sn_maps s) emptyKernel)) = 0)
       [enforce_path_mknod, enforce_path_rename, enforce_path_rename_legacy, enforce_path_unlink]"
proof -
  let ?p = umlautPolicy and ?n = "[CHR 0xC3, CHR 0x84]"
  have p: "pol_Action ?p = ''kill''" "pol_Rules ?p = []" "pol_RansomNoteNames ?p = [?n]" "pol_SuspiciousExtensions ?p = []"
    by (simp_all add: umlautPolicy_def zeroPolicy_def)
  obtain s where s: "NewWithOptions ''core'' coreLoader listOps (\<lambda>_. None) (\<lambda>_. traceEnv) (\<lambda>_. True) ?p False = (Inr s, [])"
      "sm_BlockedTgids (sn_maps s) = Some ([], 4)"
    using startCore [OF p(1,2) listOps_configures, of "\<lambda>_. None" False] by blast
  have n: "TrimSpace ?n = ?n" "CHR ''/'' \<notin> set ?n" "latinUpper CHR 0x84" by code_simp+
  have "\<nexists>entry. liveBlock noTask (kernelMaps listView (sn_maps s) emptyKernel) entry"
    by (simp add: liveBlock_def kernelMaps_def mapView_def s(2) listView_def)
  then have "isRansomNote ?p ?n \<and> list_all (\<lambda>hook. fst (hook noTask [] \<lparr>d_name = Some ?n, d_inode = None\<rparr> 0
         (kernelMaps listView (sn_maps s) emptyKernel)) = 0)
       [enforce_path_mknod, enforce_path_rename, enforce_path_rename_legacy, enforce_path_unlink]"
    by (rule nonascii_name_missed [OF listOps_lawful s(1) refl, where pre = "[]" and post = "[]" and b = "CHR 0x84"])
      (simp_all add: p n)
  then show ?thesis using s(1) by simp
qed

text \<open>
  C36. The kernel looks for a protected directory only in the eight directories nearest to the name: below that depth, or
  for a name of 128 bytes or more, inline enforcement never refuses anything, whatever the policy.
\<close>

theorem deep_name_passes:
  assumes "(\<forall>i < min 8 (length path). \<not> dentry_protected k (path ! i)) \<or> 128 \<le> length name"
    and "\<nexists>entry. liveBlock t k entry"
  shows "list_all (\<lambda>hook. fst (hook t path \<lparr>d_name = Some name, d_inode = i\<rparr> 0 k) = 0)
    [enforce_path_mknod, enforce_path_rename, enforce_path_rename_legacy, enforce_path_unlink]"
proof -
  let ?d = "\<lparr>d_name = Some name, d_inode = i\<rparr>"
  have "\<not> suspicious_path_dentry t k path ?d"
    using assms(1) by (auto simp: suspicious_path_dentry_def protected_path_iff suspicious_dentry_def go_consts)
  then show ?thesis by (rule unflagged_passes [OF _ assms(2)])
qed

theorem deep_name_passes_witness:
  "let k = emptyKernel\<lparr>k_protected_dirs := {(2049, 5)}, k_ioc_ransom_notes := {fnv64a ''note''}, k_inline_ioc_action := Some 1\<rparr>;
       srv = \<lparr>d_name = Some ''srv'', d_inode = Some (Some 8388609, 5)\<rparr>;
       sub = \<lparr>d_name = Some ''sub'', d_inode = Some (Some 8388609, 6)\<rparr>
   in list_all (\<lambda>hook. fst (hook noTask (replicate 8 sub @ [srv]) \<lparr>d_name = Some ''note'', d_inode = None\<rparr> 0 k) = 0)
        [enforce_path_mknod, enforce_path_rename, enforce_path_rename_legacy, enforce_path_unlink]"
  unfolding Let_def
  by (rule deep_name_passes)
    (simp_all add: nth_append dentry_protected_def liveBlock_def emptyKernel_def)

end
