(* ===== verification/Bindings.thy ===== *)
theory Bindings
  imports BpfTrace SensorLoad
begin

text \<open>
  How the programs of the kernel side and the fields of the sensor are tied together: the struct \<open>sensorPrograms\<close>, the
  structs that \<open>bpf2go\<close> generates for the three objects in either byte order, with their \<open>Close\<close> methods, and the filter of
  the programs an object does not have.
\<close>

section \<open>The sensor\<close>

text \<open>The fields of \<open>sensorPrograms\<close>.\<close>

definition sensorPrograms :: "string list" where
  "sensorPrograms = [
     ''TraceExecve'', ''TraceExecSuccess'', ''TraceProcessExit'', ''TraceOpenat'', ''TraceOpenatExit'',
     ''TraceOpenat2'', ''TraceOpenat2Exit'', ''TraceWrite'', ''TraceWriteExit'', ''TracePwrite64'',
     ''TracePwrite64Exit'', ''TraceWritev'', ''TraceWritevExit'', ''TraceCopyFileRange'', ''TraceGetdents64'',
     ''TraceMmap'', ''TraceIoUringEnter'', ''TraceConnect'', ''TraceClose'', ''TraceDup'', ''TraceDupExit'',
     ''TraceDup2'', ''TraceDup2Exit'', ''TraceDup3'', ''TraceDup3Exit'', ''TraceFcntl'', ''TraceFcntlExit'',
     ''TraceRename'', ''TraceRenameat'', ''TraceRenameat2'', ''TraceLink'', ''TraceLinkat'', ''TraceSymlink'',
     ''TraceSymlinkat'', ''TraceUnlink'', ''TraceUnlinkat'', ''TraceTruncate'', ''TraceFtruncate'',
     ''EnforceFileOpen'', ''EnforceFilePermission'', ''EnforcePathTruncate'', ''EnforcePathRename'',
     ''EnforceInodeRename'', ''EnforcePathMknod'', ''EnforceInodeCreate'', ''EnforcePathUnlink'',
     ''EnforceBprmCheckSecurity'', ''KpOverrideOpenat'', ''KpOverrideOpen'', ''KpRetOpenat'', ''KpRetOpen'',
     ''KpOverrideOpenat2'', ''KpOverrideRename'', ''KpOverrideRenameat'', ''KpOverrideRenameat2'',
     ''KpOverrideLink'', ''KpOverrideLinkat'', ''KpOverrideSymlink'', ''KpOverrideSymlinkat'',
     ''KpOverrideUnlink'', ''KpOverrideUnlinkat'', ''KpOverrideTruncate'', ''KpOverrideFtruncate'',
     ''KpOverrideExecve'', ''KpOverrideWrite'', ''KpRetWrite'', ''KpOverridePwrite64'', ''KpRetPwrite64'',
     ''KpOverrideWritev'', ''KpRetWritev'', ''KpProcessExit'', ''KpOverrideCopyFileRange'',
     ''KpOverrideGetdents64'', ''KpOverrideMmap'', ''KpOverrideIoUringEnter'']"

text \<open>
  \<open>nonNilPrograms\<close> filters in place: \<open>out\<close> shares the array of \<open>programs\<close>, so an append overwrites an element that the
  loop has already read. \<open>i\<close> is the next element to read and \<open>n\<close> the length of \<open>out\<close>.
\<close>

function nonNilLoop :: "nat \<Rightarrow> nat \<Rightarrow> 'p option list \<Rightarrow> 'p option list" where
  "nonNilLoop i n programs =
     (if length programs \<le> i then take n programs
      else if programs ! i \<noteq> None then nonNilLoop (i + 1) (n + 1) (programs[n := programs ! i])
      else nonNilLoop (i + 1) n programs)"
  by pat_completeness auto
termination
  by (relation "measure (\<lambda>(i, n, programs). length programs - i)") auto

declare nonNilLoop.simps [simp del]

definition nonNilPrograms :: "'p option list \<Rightarrow> 'p option list" where
  "nonNilPrograms programs = nonNilLoop 0 0 programs"

section \<open>Generated code\<close>

text \<open>
  \<open>_RansomwareClose\<close> and its two copies: handles are closed in order up to the first that fails. The result is whether all
  were closed, and those for which \<open>Close\<close> was called.
\<close>

fun RansomwareClose :: "('h \<Rightarrow> bool) \<Rightarrow> 'h list \<Rightarrow> bool \<times> 'h list" where
  "RansomwareClose closes [] = (True, [])"
| "RansomwareClose closes (closer # closers) =
     (if closes closer then map_prod id ((#) closer) (RansomwareClose closes closers) else (False, [closer]))"

definition ransomwareObjectsClose :: "('h \<Rightarrow> bool) \<Rightarrow> 'h list \<Rightarrow> 'h list \<Rightarrow> bool \<times> 'h list" where
  "ransomwareObjectsClose closes programs maps =
     (case RansomwareClose closes programs of
        (False, closed) \<Rightarrow> (False, closed)
      | (True, closed) \<Rightarrow> map_prod id ((@) closed) (RansomwareClose closes maps))"

section \<open>The core object\<close>

definition ransomwareProgramSpecs :: "(string \<times> string) list" where
  "ransomwareProgramSpecs = [
     (''EnforceBprmCheckSecurity'', ''enforce_bprm_check_security''),
     (''EnforceFileOpen'', ''enforce_file_open''), (''EnforceFilePermission'', ''enforce_file_permission''),
     (''EnforceInodeCreate'', ''enforce_inode_create''), (''EnforceInodeRename'', ''enforce_inode_rename''),
     (''EnforcePathMknod'', ''enforce_path_mknod''), (''EnforcePathRename'', ''enforce_path_rename''),
     (''EnforcePathRenameLegacy'', ''enforce_path_rename_legacy''),
     (''EnforcePathTruncate'', ''enforce_path_truncate''), (''EnforcePathUnlink'', ''enforce_path_unlink''),
     (''KpOverrideCopyFileRange'', ''kp_override_copy_file_range''),
     (''KpOverrideExecve'', ''kp_override_execve''), (''KpOverrideFtruncate'', ''kp_override_ftruncate''),
     (''KpOverrideGetdents64'', ''kp_override_getdents64''),
     (''KpOverrideIoUringEnter'', ''kp_override_io_uring_enter''), (''KpOverrideLink'', ''kp_override_link''),
     (''KpOverrideLinkat'', ''kp_override_linkat''), (''KpOverrideMmap'', ''kp_override_mmap''),
     (''KpOverrideOpenat'', ''kp_override_openat''), (''KpOverrideOpenat2'', ''kp_override_openat2''),
     (''KpOverridePwrite64'', ''kp_override_pwrite64''), (''KpOverrideRename'', ''kp_override_rename''),
     (''KpOverrideRenameat'', ''kp_override_renameat''), (''KpOverrideRenameat2'', ''kp_override_renameat2''),
     (''KpOverrideSymlink'', ''kp_override_symlink''), (''KpOverrideSymlinkat'', ''kp_override_symlinkat''),
     (''KpOverrideTruncate'', ''kp_override_truncate''), (''KpOverrideUnlink'', ''kp_override_unlink''),
     (''KpOverrideUnlinkat'', ''kp_override_unlinkat''), (''KpOverrideWrite'', ''kp_override_write''),
     (''KpOverrideWritev'', ''kp_override_writev''), (''TraceClose'', ''trace_close''),
     (''TraceConnect'', ''trace_connect''), (''TraceCopyFileRange'', ''trace_copy_file_range''),
     (''TraceDup'', ''trace_dup''), (''TraceDup2'', ''trace_dup2''), (''TraceDup2Exit'', ''trace_dup2_exit''),
     (''TraceDup3'', ''trace_dup3''), (''TraceDup3Exit'', ''trace_dup3_exit''),
     (''TraceDupExit'', ''trace_dup_exit''), (''TraceExecSuccess'', ''trace_exec_success''),
     (''TraceExecve'', ''trace_execve''), (''TraceFcntl'', ''trace_fcntl''),
     (''TraceFcntlExit'', ''trace_fcntl_exit''), (''TraceFtruncate'', ''trace_ftruncate''),
     (''TraceGetdents64'', ''trace_getdents64''), (''TraceIoUringEnter'', ''trace_io_uring_enter''),
     (''TraceLink'', ''trace_link''), (''TraceLinkat'', ''trace_linkat''), (''TraceMmap'', ''trace_mmap''),
     (''TraceOpenat'', ''trace_openat''), (''TraceOpenat2'', ''trace_openat2''),
     (''TraceOpenat2Exit'', ''trace_openat2_exit''), (''TraceOpenatExit'', ''trace_openat_exit''),
     (''TraceProcessExit'', ''trace_process_exit''), (''TracePwrite64'', ''trace_pwrite64''),
     (''TracePwrite64Exit'', ''trace_pwrite64_exit''), (''TraceRename'', ''trace_rename''),
     (''TraceRenameat'', ''trace_renameat''), (''TraceRenameat2'', ''trace_renameat2''),
     (''TraceSymlink'', ''trace_symlink''), (''TraceSymlinkat'', ''trace_symlinkat''),
     (''TraceTruncate'', ''trace_truncate''), (''TraceUnlink'', ''trace_unlink''),
     (''TraceUnlinkat'', ''trace_unlinkat''), (''TraceWrite'', ''trace_write''),
     (''TraceWriteExit'', ''trace_write_exit''), (''TraceWritev'', ''trace_writev''),
     (''TraceWritevExit'', ''trace_writev_exit'')]"

definition ransomwareProgramsClose :: "string list" where
  "ransomwareProgramsClose = [
     ''EnforceBprmCheckSecurity'', ''EnforceFileOpen'', ''EnforceFilePermission'', ''EnforceInodeCreate'',
     ''EnforceInodeRename'', ''EnforcePathMknod'', ''EnforcePathRename'', ''EnforcePathRenameLegacy'',
     ''EnforcePathTruncate'', ''EnforcePathUnlink'', ''KpOverrideCopyFileRange'', ''KpOverrideExecve'',
     ''KpOverrideFtruncate'', ''KpOverrideGetdents64'', ''KpOverrideIoUringEnter'', ''KpOverrideLink'',
     ''KpOverrideLinkat'', ''KpOverrideMmap'', ''KpOverrideOpenat'', ''KpOverrideOpenat2'',
     ''KpOverridePwrite64'', ''KpOverrideRename'', ''KpOverrideRenameat'', ''KpOverrideRenameat2'',
     ''KpOverrideSymlink'', ''KpOverrideSymlinkat'', ''KpOverrideTruncate'', ''KpOverrideUnlink'',
     ''KpOverrideUnlinkat'', ''KpOverrideWrite'', ''KpOverrideWritev'', ''TraceClose'', ''TraceConnect'',
     ''TraceCopyFileRange'', ''TraceDup'', ''TraceDup2'', ''TraceDup2Exit'', ''TraceDup3'', ''TraceDup3Exit'',
     ''TraceDupExit'', ''TraceExecSuccess'', ''TraceExecve'', ''TraceFcntl'', ''TraceFcntlExit'',
     ''TraceFtruncate'', ''TraceGetdents64'', ''TraceIoUringEnter'', ''TraceLink'', ''TraceLinkat'',
     ''TraceMmap'', ''TraceOpenat'', ''TraceOpenat2'', ''TraceOpenat2Exit'', ''TraceOpenatExit'',
     ''TraceProcessExit'', ''TracePwrite64'', ''TracePwrite64Exit'', ''TraceRename'', ''TraceRenameat'',
     ''TraceRenameat2'', ''TraceSymlink'', ''TraceSymlinkat'', ''TraceTruncate'', ''TraceUnlink'',
     ''TraceUnlinkat'', ''TraceWrite'', ''TraceWriteExit'', ''TraceWritev'', ''TraceWritevExit'']"

definition ransomwareMapSpecs :: "(string \<times> string) list" where
  "ransomwareMapSpecs = [
     (''AllowedCgroups'', ''allowed_cgroups''), (''BlockedTgids'', ''blocked_tgids''),
     (''CaptureGaps'', ''capture_gaps''), (''CgroupScopeEnabled'', ''cgroup_scope_enabled''),
     (''Events'', ''events''), (''InlineIocAction'', ''inline_ioc_action''),
     (''IocExtensions'', ''ioc_extensions''), (''IocRansomNotes'', ''ioc_ransom_notes''),
     (''PendingDups'', ''pending_dups''), (''PendingOpens'', ''pending_opens''),
     (''PendingWrites'', ''pending_writes''), (''ProtectedDirs'', ''protected_dirs''),
     (''RingbufDrops'', ''ringbuf_drops'')]"

definition ransomwareMapsClose :: "string list" where
  "ransomwareMapsClose = [
     ''AllowedCgroups'', ''BlockedTgids'', ''CaptureGaps'', ''CgroupScopeEnabled'', ''Events'',
     ''InlineIocAction'', ''IocExtensions'', ''IocRansomNotes'', ''PendingDups'', ''PendingOpens'',
     ''PendingWrites'', ''ProtectedDirs'', ''RingbufDrops'']"

text \<open>\<open>ransomware_bpfeb.go\<close>.\<close>

definition ransomwareProgramSpecs_eb :: "(string \<times> string) list" where
  "ransomwareProgramSpecs_eb = [
     (''EnforceBprmCheckSecurity'', ''enforce_bprm_check_security''),
     (''EnforceFileOpen'', ''enforce_file_open''), (''EnforceFilePermission'', ''enforce_file_permission''),
     (''EnforceInodeCreate'', ''enforce_inode_create''), (''EnforceInodeRename'', ''enforce_inode_rename''),
     (''EnforcePathMknod'', ''enforce_path_mknod''), (''EnforcePathRename'', ''enforce_path_rename''),
     (''EnforcePathRenameLegacy'', ''enforce_path_rename_legacy''),
     (''EnforcePathTruncate'', ''enforce_path_truncate''), (''EnforcePathUnlink'', ''enforce_path_unlink''),
     (''KpOverrideCopyFileRange'', ''kp_override_copy_file_range''),
     (''KpOverrideExecve'', ''kp_override_execve''), (''KpOverrideFtruncate'', ''kp_override_ftruncate''),
     (''KpOverrideGetdents64'', ''kp_override_getdents64''),
     (''KpOverrideIoUringEnter'', ''kp_override_io_uring_enter''), (''KpOverrideLink'', ''kp_override_link''),
     (''KpOverrideLinkat'', ''kp_override_linkat''), (''KpOverrideMmap'', ''kp_override_mmap''),
     (''KpOverrideOpenat'', ''kp_override_openat''), (''KpOverrideOpenat2'', ''kp_override_openat2''),
     (''KpOverridePwrite64'', ''kp_override_pwrite64''), (''KpOverrideRename'', ''kp_override_rename''),
     (''KpOverrideRenameat'', ''kp_override_renameat''), (''KpOverrideRenameat2'', ''kp_override_renameat2''),
     (''KpOverrideSymlink'', ''kp_override_symlink''), (''KpOverrideSymlinkat'', ''kp_override_symlinkat''),
     (''KpOverrideTruncate'', ''kp_override_truncate''), (''KpOverrideUnlink'', ''kp_override_unlink''),
     (''KpOverrideUnlinkat'', ''kp_override_unlinkat''), (''KpOverrideWrite'', ''kp_override_write''),
     (''KpOverrideWritev'', ''kp_override_writev''), (''TraceClose'', ''trace_close''),
     (''TraceConnect'', ''trace_connect''), (''TraceCopyFileRange'', ''trace_copy_file_range''),
     (''TraceDup'', ''trace_dup''), (''TraceDup2'', ''trace_dup2''), (''TraceDup2Exit'', ''trace_dup2_exit''),
     (''TraceDup3'', ''trace_dup3''), (''TraceDup3Exit'', ''trace_dup3_exit''),
     (''TraceDupExit'', ''trace_dup_exit''), (''TraceExecSuccess'', ''trace_exec_success''),
     (''TraceExecve'', ''trace_execve''), (''TraceFcntl'', ''trace_fcntl''),
     (''TraceFcntlExit'', ''trace_fcntl_exit''), (''TraceFtruncate'', ''trace_ftruncate''),
     (''TraceGetdents64'', ''trace_getdents64''), (''TraceIoUringEnter'', ''trace_io_uring_enter''),
     (''TraceLink'', ''trace_link''), (''TraceLinkat'', ''trace_linkat''), (''TraceMmap'', ''trace_mmap''),
     (''TraceOpenat'', ''trace_openat''), (''TraceOpenat2'', ''trace_openat2''),
     (''TraceOpenat2Exit'', ''trace_openat2_exit''), (''TraceOpenatExit'', ''trace_openat_exit''),
     (''TraceProcessExit'', ''trace_process_exit''), (''TracePwrite64'', ''trace_pwrite64''),
     (''TracePwrite64Exit'', ''trace_pwrite64_exit''), (''TraceRename'', ''trace_rename''),
     (''TraceRenameat'', ''trace_renameat''), (''TraceRenameat2'', ''trace_renameat2''),
     (''TraceSymlink'', ''trace_symlink''), (''TraceSymlinkat'', ''trace_symlinkat''),
     (''TraceTruncate'', ''trace_truncate''), (''TraceUnlink'', ''trace_unlink''),
     (''TraceUnlinkat'', ''trace_unlinkat''), (''TraceWrite'', ''trace_write''),
     (''TraceWriteExit'', ''trace_write_exit''), (''TraceWritev'', ''trace_writev''),
     (''TraceWritevExit'', ''trace_writev_exit'')]"

definition ransomwarePrograms_eb :: "(string \<times> string) list" where
  "ransomwarePrograms_eb = [
     (''EnforceBprmCheckSecurity'', ''enforce_bprm_check_security''),
     (''EnforceFileOpen'', ''enforce_file_open''), (''EnforceFilePermission'', ''enforce_file_permission''),
     (''EnforceInodeCreate'', ''enforce_inode_create''), (''EnforceInodeRename'', ''enforce_inode_rename''),
     (''EnforcePathMknod'', ''enforce_path_mknod''), (''EnforcePathRename'', ''enforce_path_rename''),
     (''EnforcePathRenameLegacy'', ''enforce_path_rename_legacy''),
     (''EnforcePathTruncate'', ''enforce_path_truncate''), (''EnforcePathUnlink'', ''enforce_path_unlink''),
     (''KpOverrideCopyFileRange'', ''kp_override_copy_file_range''),
     (''KpOverrideExecve'', ''kp_override_execve''), (''KpOverrideFtruncate'', ''kp_override_ftruncate''),
     (''KpOverrideGetdents64'', ''kp_override_getdents64''),
     (''KpOverrideIoUringEnter'', ''kp_override_io_uring_enter''), (''KpOverrideLink'', ''kp_override_link''),
     (''KpOverrideLinkat'', ''kp_override_linkat''), (''KpOverrideMmap'', ''kp_override_mmap''),
     (''KpOverrideOpenat'', ''kp_override_openat''), (''KpOverrideOpenat2'', ''kp_override_openat2''),
     (''KpOverridePwrite64'', ''kp_override_pwrite64''), (''KpOverrideRename'', ''kp_override_rename''),
     (''KpOverrideRenameat'', ''kp_override_renameat''), (''KpOverrideRenameat2'', ''kp_override_renameat2''),
     (''KpOverrideSymlink'', ''kp_override_symlink''), (''KpOverrideSymlinkat'', ''kp_override_symlinkat''),
     (''KpOverrideTruncate'', ''kp_override_truncate''), (''KpOverrideUnlink'', ''kp_override_unlink''),
     (''KpOverrideUnlinkat'', ''kp_override_unlinkat''), (''KpOverrideWrite'', ''kp_override_write''),
     (''KpOverrideWritev'', ''kp_override_writev''), (''TraceClose'', ''trace_close''),
     (''TraceConnect'', ''trace_connect''), (''TraceCopyFileRange'', ''trace_copy_file_range''),
     (''TraceDup'', ''trace_dup''), (''TraceDup2'', ''trace_dup2''), (''TraceDup2Exit'', ''trace_dup2_exit''),
     (''TraceDup3'', ''trace_dup3''), (''TraceDup3Exit'', ''trace_dup3_exit''),
     (''TraceDupExit'', ''trace_dup_exit''), (''TraceExecSuccess'', ''trace_exec_success''),
     (''TraceExecve'', ''trace_execve''), (''TraceFcntl'', ''trace_fcntl''),
     (''TraceFcntlExit'', ''trace_fcntl_exit''), (''TraceFtruncate'', ''trace_ftruncate''),
     (''TraceGetdents64'', ''trace_getdents64''), (''TraceIoUringEnter'', ''trace_io_uring_enter''),
     (''TraceLink'', ''trace_link''), (''TraceLinkat'', ''trace_linkat''), (''TraceMmap'', ''trace_mmap''),
     (''TraceOpenat'', ''trace_openat''), (''TraceOpenat2'', ''trace_openat2''),
     (''TraceOpenat2Exit'', ''trace_openat2_exit''), (''TraceOpenatExit'', ''trace_openat_exit''),
     (''TraceProcessExit'', ''trace_process_exit''), (''TracePwrite64'', ''trace_pwrite64''),
     (''TracePwrite64Exit'', ''trace_pwrite64_exit''), (''TraceRename'', ''trace_rename''),
     (''TraceRenameat'', ''trace_renameat''), (''TraceRenameat2'', ''trace_renameat2''),
     (''TraceSymlink'', ''trace_symlink''), (''TraceSymlinkat'', ''trace_symlinkat''),
     (''TraceTruncate'', ''trace_truncate''), (''TraceUnlink'', ''trace_unlink''),
     (''TraceUnlinkat'', ''trace_unlinkat''), (''TraceWrite'', ''trace_write''),
     (''TraceWriteExit'', ''trace_write_exit''), (''TraceWritev'', ''trace_writev''),
     (''TraceWritevExit'', ''trace_writev_exit'')]"

definition ransomwareProgramsClose_eb :: "string list" where
  "ransomwareProgramsClose_eb = [
     ''EnforceBprmCheckSecurity'', ''EnforceFileOpen'', ''EnforceFilePermission'', ''EnforceInodeCreate'',
     ''EnforceInodeRename'', ''EnforcePathMknod'', ''EnforcePathRename'', ''EnforcePathRenameLegacy'',
     ''EnforcePathTruncate'', ''EnforcePathUnlink'', ''KpOverrideCopyFileRange'', ''KpOverrideExecve'',
     ''KpOverrideFtruncate'', ''KpOverrideGetdents64'', ''KpOverrideIoUringEnter'', ''KpOverrideLink'',
     ''KpOverrideLinkat'', ''KpOverrideMmap'', ''KpOverrideOpenat'', ''KpOverrideOpenat2'',
     ''KpOverridePwrite64'', ''KpOverrideRename'', ''KpOverrideRenameat'', ''KpOverrideRenameat2'',
     ''KpOverrideSymlink'', ''KpOverrideSymlinkat'', ''KpOverrideTruncate'', ''KpOverrideUnlink'',
     ''KpOverrideUnlinkat'', ''KpOverrideWrite'', ''KpOverrideWritev'', ''TraceClose'', ''TraceConnect'',
     ''TraceCopyFileRange'', ''TraceDup'', ''TraceDup2'', ''TraceDup2Exit'', ''TraceDup3'', ''TraceDup3Exit'',
     ''TraceDupExit'', ''TraceExecSuccess'', ''TraceExecve'', ''TraceFcntl'', ''TraceFcntlExit'',
     ''TraceFtruncate'', ''TraceGetdents64'', ''TraceIoUringEnter'', ''TraceLink'', ''TraceLinkat'',
     ''TraceMmap'', ''TraceOpenat'', ''TraceOpenat2'', ''TraceOpenat2Exit'', ''TraceOpenatExit'',
     ''TraceProcessExit'', ''TracePwrite64'', ''TracePwrite64Exit'', ''TraceRename'', ''TraceRenameat'',
     ''TraceRenameat2'', ''TraceSymlink'', ''TraceSymlinkat'', ''TraceTruncate'', ''TraceUnlink'',
     ''TraceUnlinkat'', ''TraceWrite'', ''TraceWriteExit'', ''TraceWritev'', ''TraceWritevExit'']"

definition ransomwareMapSpecs_eb :: "(string \<times> string) list" where
  "ransomwareMapSpecs_eb = [
     (''AllowedCgroups'', ''allowed_cgroups''), (''BlockedTgids'', ''blocked_tgids''),
     (''CaptureGaps'', ''capture_gaps''), (''CgroupScopeEnabled'', ''cgroup_scope_enabled''),
     (''Events'', ''events''), (''InlineIocAction'', ''inline_ioc_action''),
     (''IocExtensions'', ''ioc_extensions''), (''IocRansomNotes'', ''ioc_ransom_notes''),
     (''PendingDups'', ''pending_dups''), (''PendingOpens'', ''pending_opens''),
     (''PendingWrites'', ''pending_writes''), (''ProtectedDirs'', ''protected_dirs''),
     (''RingbufDrops'', ''ringbuf_drops'')]"

definition ransomwareMaps_eb :: "(string \<times> string) list" where
  "ransomwareMaps_eb = [
     (''AllowedCgroups'', ''allowed_cgroups''), (''BlockedTgids'', ''blocked_tgids''),
     (''CaptureGaps'', ''capture_gaps''), (''CgroupScopeEnabled'', ''cgroup_scope_enabled''),
     (''Events'', ''events''), (''InlineIocAction'', ''inline_ioc_action''),
     (''IocExtensions'', ''ioc_extensions''), (''IocRansomNotes'', ''ioc_ransom_notes''),
     (''PendingDups'', ''pending_dups''), (''PendingOpens'', ''pending_opens''),
     (''PendingWrites'', ''pending_writes''), (''ProtectedDirs'', ''protected_dirs''),
     (''RingbufDrops'', ''ringbuf_drops'')]"

definition ransomwareMapsClose_eb :: "string list" where
  "ransomwareMapsClose_eb = [
     ''AllowedCgroups'', ''BlockedTgids'', ''CaptureGaps'', ''CgroupScopeEnabled'', ''Events'',
     ''InlineIocAction'', ''IocExtensions'', ''IocRansomNotes'', ''PendingDups'', ''PendingOpens'',
     ''PendingWrites'', ''ProtectedDirs'', ''RingbufDrops'']"

section \<open>The perf buffer object\<close>

definition ransomwareLegacyProgramSpecs :: "(string \<times> string) list" where
  "ransomwareLegacyProgramSpecs = [
     (''KpOverrideCopyFileRange'', ''kp_override_copy_file_range''),
     (''KpOverrideExecve'', ''kp_override_execve''), (''KpOverrideFtruncate'', ''kp_override_ftruncate''),
     (''KpOverrideGetdents64'', ''kp_override_getdents64''),
     (''KpOverrideIoUringEnter'', ''kp_override_io_uring_enter''), (''KpOverrideLink'', ''kp_override_link''),
     (''KpOverrideLinkat'', ''kp_override_linkat''), (''KpOverrideMmap'', ''kp_override_mmap''),
     (''KpOverrideOpenat'', ''kp_override_openat''), (''KpOverrideOpenat2'', ''kp_override_openat2''),
     (''KpOverridePwrite64'', ''kp_override_pwrite64''), (''KpOverrideRename'', ''kp_override_rename''),
     (''KpOverrideRenameat'', ''kp_override_renameat''), (''KpOverrideRenameat2'', ''kp_override_renameat2''),
     (''KpOverrideSymlink'', ''kp_override_symlink''), (''KpOverrideSymlinkat'', ''kp_override_symlinkat''),
     (''KpOverrideTruncate'', ''kp_override_truncate''), (''KpOverrideUnlink'', ''kp_override_unlink''),
     (''KpOverrideUnlinkat'', ''kp_override_unlinkat''), (''KpOverrideWrite'', ''kp_override_write''),
     (''KpOverrideWritev'', ''kp_override_writev''), (''TraceClose'', ''trace_close''),
     (''TraceConnect'', ''trace_connect''), (''TraceCopyFileRange'', ''trace_copy_file_range''),
     (''TraceDup'', ''trace_dup''), (''TraceDup2'', ''trace_dup2''), (''TraceDup2Exit'', ''trace_dup2_exit''),
     (''TraceDup3'', ''trace_dup3''), (''TraceDup3Exit'', ''trace_dup3_exit''),
     (''TraceDupExit'', ''trace_dup_exit''), (''TraceExecSuccess'', ''trace_exec_success''),
     (''TraceExecve'', ''trace_execve''), (''TraceFcntl'', ''trace_fcntl''),
     (''TraceFcntlExit'', ''trace_fcntl_exit''), (''TraceFtruncate'', ''trace_ftruncate''),
     (''TraceGetdents64'', ''trace_getdents64''), (''TraceIoUringEnter'', ''trace_io_uring_enter''),
     (''TraceLink'', ''trace_link''), (''TraceLinkat'', ''trace_linkat''), (''TraceMmap'', ''trace_mmap''),
     (''TraceOpenat'', ''trace_openat''), (''TraceOpenat2'', ''trace_openat2''),
     (''TraceOpenat2Exit'', ''trace_openat2_exit''), (''TraceOpenatExit'', ''trace_openat_exit''),
     (''TraceProcessExit'', ''trace_process_exit''), (''TracePwrite64'', ''trace_pwrite64''),
     (''TracePwrite64Exit'', ''trace_pwrite64_exit''), (''TraceRename'', ''trace_rename''),
     (''TraceRenameat'', ''trace_renameat''), (''TraceRenameat2'', ''trace_renameat2''),
     (''TraceSymlink'', ''trace_symlink''), (''TraceSymlinkat'', ''trace_symlinkat''),
     (''TraceTruncate'', ''trace_truncate''), (''TraceUnlink'', ''trace_unlink''),
     (''TraceUnlinkat'', ''trace_unlinkat''), (''TraceWrite'', ''trace_write''),
     (''TraceWriteExit'', ''trace_write_exit''), (''TraceWritev'', ''trace_writev''),
     (''TraceWritevExit'', ''trace_writev_exit'')]"

definition ransomwareLegacyProgramsClose :: "string list" where
  "ransomwareLegacyProgramsClose = [
     ''KpOverrideCopyFileRange'', ''KpOverrideExecve'', ''KpOverrideFtruncate'', ''KpOverrideGetdents64'',
     ''KpOverrideIoUringEnter'', ''KpOverrideLink'', ''KpOverrideLinkat'', ''KpOverrideMmap'',
     ''KpOverrideOpenat'', ''KpOverrideOpenat2'', ''KpOverridePwrite64'', ''KpOverrideRename'',
     ''KpOverrideRenameat'', ''KpOverrideRenameat2'', ''KpOverrideSymlink'', ''KpOverrideSymlinkat'',
     ''KpOverrideTruncate'', ''KpOverrideUnlink'', ''KpOverrideUnlinkat'', ''KpOverrideWrite'',
     ''KpOverrideWritev'', ''TraceClose'', ''TraceConnect'', ''TraceCopyFileRange'', ''TraceDup'',
     ''TraceDup2'', ''TraceDup2Exit'', ''TraceDup3'', ''TraceDup3Exit'', ''TraceDupExit'',
     ''TraceExecSuccess'', ''TraceExecve'', ''TraceFcntl'', ''TraceFcntlExit'', ''TraceFtruncate'',
     ''TraceGetdents64'', ''TraceIoUringEnter'', ''TraceLink'', ''TraceLinkat'', ''TraceMmap'',
     ''TraceOpenat'', ''TraceOpenat2'', ''TraceOpenat2Exit'', ''TraceOpenatExit'', ''TraceProcessExit'',
     ''TracePwrite64'', ''TracePwrite64Exit'', ''TraceRename'', ''TraceRenameat'', ''TraceRenameat2'',
     ''TraceSymlink'', ''TraceSymlinkat'', ''TraceTruncate'', ''TraceUnlink'', ''TraceUnlinkat'',
     ''TraceWrite'', ''TraceWriteExit'', ''TraceWritev'', ''TraceWritevExit'']"

definition ransomwareLegacyMapSpecs :: "(string \<times> string) list" where
  "ransomwareLegacyMapSpecs = [
     (''AllowedCgroups'', ''allowed_cgroups''), (''BlockedTgids'', ''blocked_tgids''),
     (''CaptureGaps'', ''capture_gaps''), (''CgroupScopeEnabled'', ''cgroup_scope_enabled''),
     (''Events'', ''events''), (''IocExtensions'', ''ioc_extensions''),
     (''IocRansomNotes'', ''ioc_ransom_notes''), (''PendingDups'', ''pending_dups''),
     (''PendingOpens'', ''pending_opens''), (''PendingWrites'', ''pending_writes''),
     (''ProtectedDirs'', ''protected_dirs''), (''RingbufDrops'', ''ringbuf_drops''),
     (''ScratchEvents'', ''scratch_events'')]"

definition ransomwareLegacyMapsClose :: "string list" where
  "ransomwareLegacyMapsClose = [
     ''AllowedCgroups'', ''BlockedTgids'', ''CaptureGaps'', ''CgroupScopeEnabled'', ''Events'',
     ''IocExtensions'', ''IocRansomNotes'', ''PendingDups'', ''PendingOpens'', ''PendingWrites'',
     ''ProtectedDirs'', ''RingbufDrops'', ''ScratchEvents'']"

text \<open>\<open>ransomwarelegacy_bpfeb.go\<close>.\<close>

definition ransomwareLegacyProgramSpecs_eb :: "(string \<times> string) list" where
  "ransomwareLegacyProgramSpecs_eb = [
     (''KpOverrideCopyFileRange'', ''kp_override_copy_file_range''),
     (''KpOverrideExecve'', ''kp_override_execve''), (''KpOverrideFtruncate'', ''kp_override_ftruncate''),
     (''KpOverrideGetdents64'', ''kp_override_getdents64''),
     (''KpOverrideIoUringEnter'', ''kp_override_io_uring_enter''), (''KpOverrideLink'', ''kp_override_link''),
     (''KpOverrideLinkat'', ''kp_override_linkat''), (''KpOverrideMmap'', ''kp_override_mmap''),
     (''KpOverrideOpenat'', ''kp_override_openat''), (''KpOverrideOpenat2'', ''kp_override_openat2''),
     (''KpOverridePwrite64'', ''kp_override_pwrite64''), (''KpOverrideRename'', ''kp_override_rename''),
     (''KpOverrideRenameat'', ''kp_override_renameat''), (''KpOverrideRenameat2'', ''kp_override_renameat2''),
     (''KpOverrideSymlink'', ''kp_override_symlink''), (''KpOverrideSymlinkat'', ''kp_override_symlinkat''),
     (''KpOverrideTruncate'', ''kp_override_truncate''), (''KpOverrideUnlink'', ''kp_override_unlink''),
     (''KpOverrideUnlinkat'', ''kp_override_unlinkat''), (''KpOverrideWrite'', ''kp_override_write''),
     (''KpOverrideWritev'', ''kp_override_writev''), (''TraceClose'', ''trace_close''),
     (''TraceConnect'', ''trace_connect''), (''TraceCopyFileRange'', ''trace_copy_file_range''),
     (''TraceDup'', ''trace_dup''), (''TraceDup2'', ''trace_dup2''), (''TraceDup2Exit'', ''trace_dup2_exit''),
     (''TraceDup3'', ''trace_dup3''), (''TraceDup3Exit'', ''trace_dup3_exit''),
     (''TraceDupExit'', ''trace_dup_exit''), (''TraceExecSuccess'', ''trace_exec_success''),
     (''TraceExecve'', ''trace_execve''), (''TraceFcntl'', ''trace_fcntl''),
     (''TraceFcntlExit'', ''trace_fcntl_exit''), (''TraceFtruncate'', ''trace_ftruncate''),
     (''TraceGetdents64'', ''trace_getdents64''), (''TraceIoUringEnter'', ''trace_io_uring_enter''),
     (''TraceLink'', ''trace_link''), (''TraceLinkat'', ''trace_linkat''), (''TraceMmap'', ''trace_mmap''),
     (''TraceOpenat'', ''trace_openat''), (''TraceOpenat2'', ''trace_openat2''),
     (''TraceOpenat2Exit'', ''trace_openat2_exit''), (''TraceOpenatExit'', ''trace_openat_exit''),
     (''TraceProcessExit'', ''trace_process_exit''), (''TracePwrite64'', ''trace_pwrite64''),
     (''TracePwrite64Exit'', ''trace_pwrite64_exit''), (''TraceRename'', ''trace_rename''),
     (''TraceRenameat'', ''trace_renameat''), (''TraceRenameat2'', ''trace_renameat2''),
     (''TraceSymlink'', ''trace_symlink''), (''TraceSymlinkat'', ''trace_symlinkat''),
     (''TraceTruncate'', ''trace_truncate''), (''TraceUnlink'', ''trace_unlink''),
     (''TraceUnlinkat'', ''trace_unlinkat''), (''TraceWrite'', ''trace_write''),
     (''TraceWriteExit'', ''trace_write_exit''), (''TraceWritev'', ''trace_writev''),
     (''TraceWritevExit'', ''trace_writev_exit'')]"

definition ransomwareLegacyPrograms_eb :: "(string \<times> string) list" where
  "ransomwareLegacyPrograms_eb = [
     (''KpOverrideCopyFileRange'', ''kp_override_copy_file_range''),
     (''KpOverrideExecve'', ''kp_override_execve''), (''KpOverrideFtruncate'', ''kp_override_ftruncate''),
     (''KpOverrideGetdents64'', ''kp_override_getdents64''),
     (''KpOverrideIoUringEnter'', ''kp_override_io_uring_enter''), (''KpOverrideLink'', ''kp_override_link''),
     (''KpOverrideLinkat'', ''kp_override_linkat''), (''KpOverrideMmap'', ''kp_override_mmap''),
     (''KpOverrideOpenat'', ''kp_override_openat''), (''KpOverrideOpenat2'', ''kp_override_openat2''),
     (''KpOverridePwrite64'', ''kp_override_pwrite64''), (''KpOverrideRename'', ''kp_override_rename''),
     (''KpOverrideRenameat'', ''kp_override_renameat''), (''KpOverrideRenameat2'', ''kp_override_renameat2''),
     (''KpOverrideSymlink'', ''kp_override_symlink''), (''KpOverrideSymlinkat'', ''kp_override_symlinkat''),
     (''KpOverrideTruncate'', ''kp_override_truncate''), (''KpOverrideUnlink'', ''kp_override_unlink''),
     (''KpOverrideUnlinkat'', ''kp_override_unlinkat''), (''KpOverrideWrite'', ''kp_override_write''),
     (''KpOverrideWritev'', ''kp_override_writev''), (''TraceClose'', ''trace_close''),
     (''TraceConnect'', ''trace_connect''), (''TraceCopyFileRange'', ''trace_copy_file_range''),
     (''TraceDup'', ''trace_dup''), (''TraceDup2'', ''trace_dup2''), (''TraceDup2Exit'', ''trace_dup2_exit''),
     (''TraceDup3'', ''trace_dup3''), (''TraceDup3Exit'', ''trace_dup3_exit''),
     (''TraceDupExit'', ''trace_dup_exit''), (''TraceExecSuccess'', ''trace_exec_success''),
     (''TraceExecve'', ''trace_execve''), (''TraceFcntl'', ''trace_fcntl''),
     (''TraceFcntlExit'', ''trace_fcntl_exit''), (''TraceFtruncate'', ''trace_ftruncate''),
     (''TraceGetdents64'', ''trace_getdents64''), (''TraceIoUringEnter'', ''trace_io_uring_enter''),
     (''TraceLink'', ''trace_link''), (''TraceLinkat'', ''trace_linkat''), (''TraceMmap'', ''trace_mmap''),
     (''TraceOpenat'', ''trace_openat''), (''TraceOpenat2'', ''trace_openat2''),
     (''TraceOpenat2Exit'', ''trace_openat2_exit''), (''TraceOpenatExit'', ''trace_openat_exit''),
     (''TraceProcessExit'', ''trace_process_exit''), (''TracePwrite64'', ''trace_pwrite64''),
     (''TracePwrite64Exit'', ''trace_pwrite64_exit''), (''TraceRename'', ''trace_rename''),
     (''TraceRenameat'', ''trace_renameat''), (''TraceRenameat2'', ''trace_renameat2''),
     (''TraceSymlink'', ''trace_symlink''), (''TraceSymlinkat'', ''trace_symlinkat''),
     (''TraceTruncate'', ''trace_truncate''), (''TraceUnlink'', ''trace_unlink''),
     (''TraceUnlinkat'', ''trace_unlinkat''), (''TraceWrite'', ''trace_write''),
     (''TraceWriteExit'', ''trace_write_exit''), (''TraceWritev'', ''trace_writev''),
     (''TraceWritevExit'', ''trace_writev_exit'')]"

definition ransomwareLegacyProgramsClose_eb :: "string list" where
  "ransomwareLegacyProgramsClose_eb = [
     ''KpOverrideCopyFileRange'', ''KpOverrideExecve'', ''KpOverrideFtruncate'', ''KpOverrideGetdents64'',
     ''KpOverrideIoUringEnter'', ''KpOverrideLink'', ''KpOverrideLinkat'', ''KpOverrideMmap'',
     ''KpOverrideOpenat'', ''KpOverrideOpenat2'', ''KpOverridePwrite64'', ''KpOverrideRename'',
     ''KpOverrideRenameat'', ''KpOverrideRenameat2'', ''KpOverrideSymlink'', ''KpOverrideSymlinkat'',
     ''KpOverrideTruncate'', ''KpOverrideUnlink'', ''KpOverrideUnlinkat'', ''KpOverrideWrite'',
     ''KpOverrideWritev'', ''TraceClose'', ''TraceConnect'', ''TraceCopyFileRange'', ''TraceDup'',
     ''TraceDup2'', ''TraceDup2Exit'', ''TraceDup3'', ''TraceDup3Exit'', ''TraceDupExit'',
     ''TraceExecSuccess'', ''TraceExecve'', ''TraceFcntl'', ''TraceFcntlExit'', ''TraceFtruncate'',
     ''TraceGetdents64'', ''TraceIoUringEnter'', ''TraceLink'', ''TraceLinkat'', ''TraceMmap'',
     ''TraceOpenat'', ''TraceOpenat2'', ''TraceOpenat2Exit'', ''TraceOpenatExit'', ''TraceProcessExit'',
     ''TracePwrite64'', ''TracePwrite64Exit'', ''TraceRename'', ''TraceRenameat'', ''TraceRenameat2'',
     ''TraceSymlink'', ''TraceSymlinkat'', ''TraceTruncate'', ''TraceUnlink'', ''TraceUnlinkat'',
     ''TraceWrite'', ''TraceWriteExit'', ''TraceWritev'', ''TraceWritevExit'']"

definition ransomwareLegacyMapSpecs_eb :: "(string \<times> string) list" where
  "ransomwareLegacyMapSpecs_eb = [
     (''AllowedCgroups'', ''allowed_cgroups''), (''BlockedTgids'', ''blocked_tgids''),
     (''CaptureGaps'', ''capture_gaps''), (''CgroupScopeEnabled'', ''cgroup_scope_enabled''),
     (''Events'', ''events''), (''IocExtensions'', ''ioc_extensions''),
     (''IocRansomNotes'', ''ioc_ransom_notes''), (''PendingDups'', ''pending_dups''),
     (''PendingOpens'', ''pending_opens''), (''PendingWrites'', ''pending_writes''),
     (''ProtectedDirs'', ''protected_dirs''), (''RingbufDrops'', ''ringbuf_drops''),
     (''ScratchEvents'', ''scratch_events'')]"

definition ransomwareLegacyMaps_eb :: "(string \<times> string) list" where
  "ransomwareLegacyMaps_eb = [
     (''AllowedCgroups'', ''allowed_cgroups''), (''BlockedTgids'', ''blocked_tgids''),
     (''CaptureGaps'', ''capture_gaps''), (''CgroupScopeEnabled'', ''cgroup_scope_enabled''),
     (''Events'', ''events''), (''IocExtensions'', ''ioc_extensions''),
     (''IocRansomNotes'', ''ioc_ransom_notes''), (''PendingDups'', ''pending_dups''),
     (''PendingOpens'', ''pending_opens''), (''PendingWrites'', ''pending_writes''),
     (''ProtectedDirs'', ''protected_dirs''), (''RingbufDrops'', ''ringbuf_drops''),
     (''ScratchEvents'', ''scratch_events'')]"

definition ransomwareLegacyMapsClose_eb :: "string list" where
  "ransomwareLegacyMapsClose_eb = [
     ''AllowedCgroups'', ''BlockedTgids'', ''CaptureGaps'', ''CgroupScopeEnabled'', ''Events'',
     ''IocExtensions'', ''IocRansomNotes'', ''PendingDups'', ''PendingOpens'', ''PendingWrites'',
     ''ProtectedDirs'', ''RingbufDrops'', ''ScratchEvents'']"

section \<open>The map polling object\<close>

definition ransomwareUltraLegacyProgramSpecs :: "(string \<times> string) list" where
  "ransomwareUltraLegacyProgramSpecs = [
     (''KpOverrideExecve'', ''kp_override_execve''), (''KpOverrideFtruncate'', ''kp_override_ftruncate''),
     (''KpOverrideLink'', ''kp_override_link''), (''KpOverrideOpen'', ''kp_override_open''),
     (''KpOverrideOpenat'', ''kp_override_openat''), (''KpOverridePwrite64'', ''kp_override_pwrite64''),
     (''KpOverrideRename'', ''kp_override_rename''), (''KpOverrideSymlink'', ''kp_override_symlink''),
     (''KpOverrideTruncate'', ''kp_override_truncate''), (''KpOverrideUnlink'', ''kp_override_unlink''),
     (''KpOverrideWrite'', ''kp_override_write''), (''KpOverrideWritev'', ''kp_override_writev''),
     (''KpProcessExit'', ''kp_process_exit''), (''KpRetOpen'', ''kp_ret_open''),
     (''KpRetOpenat'', ''kp_ret_openat''), (''KpRetPwrite64'', ''kp_ret_pwrite64''),
     (''KpRetWrite'', ''kp_ret_write''), (''KpRetWritev'', ''kp_ret_writev'')]"

definition ransomwareUltraLegacyProgramsClose :: "string list" where
  "ransomwareUltraLegacyProgramsClose = [
     ''KpOverrideExecve'', ''KpOverrideFtruncate'', ''KpOverrideLink'', ''KpOverrideOpen'',
     ''KpOverrideOpenat'', ''KpOverridePwrite64'', ''KpOverrideRename'', ''KpOverrideSymlink'',
     ''KpOverrideTruncate'', ''KpOverrideUnlink'', ''KpOverrideWrite'', ''KpOverrideWritev'',
     ''KpProcessExit'', ''KpRetOpen'', ''KpRetOpenat'', ''KpRetPwrite64'', ''KpRetWrite'', ''KpRetWritev'']"

definition ransomwareUltraLegacyMapSpecs :: "(string \<times> string) list" where
  "ransomwareUltraLegacyMapSpecs = [
     (''AllowedCgroups'', ''allowed_cgroups''), (''BlockedTgids'', ''blocked_tgids''),
     (''CaptureGaps'', ''capture_gaps''), (''CgroupScopeEnabled'', ''cgroup_scope_enabled''),
     (''EventCursor'', ''event_cursor''), (''Events'', ''events''), (''IocExtensions'', ''ioc_extensions''),
     (''IocRansomNotes'', ''ioc_ransom_notes''), (''PendingOpens'', ''pending_opens''),
     (''PendingWrites'', ''pending_writes''), (''ProtectedDirs'', ''protected_dirs''),
     (''RingbufDrops'', ''ringbuf_drops''), (''ScratchEvents'', ''scratch_events''),
     (''SyscallAbi'', ''syscall_abi'')]"

definition ransomwareUltraLegacyMapsClose :: "string list" where
  "ransomwareUltraLegacyMapsClose = [
     ''AllowedCgroups'', ''BlockedTgids'', ''CaptureGaps'', ''CgroupScopeEnabled'', ''EventCursor'',
     ''Events'', ''IocExtensions'', ''IocRansomNotes'', ''PendingOpens'', ''PendingWrites'', ''ProtectedDirs'',
     ''RingbufDrops'', ''ScratchEvents'', ''SyscallAbi'']"

text \<open>\<open>ransomwareultralegacy_bpfeb.go\<close>.\<close>

definition ransomwareUltraLegacyProgramSpecs_eb :: "(string \<times> string) list" where
  "ransomwareUltraLegacyProgramSpecs_eb = [
     (''KpOverrideExecve'', ''kp_override_execve''), (''KpOverrideFtruncate'', ''kp_override_ftruncate''),
     (''KpOverrideLink'', ''kp_override_link''), (''KpOverrideOpen'', ''kp_override_open''),
     (''KpOverrideOpenat'', ''kp_override_openat''), (''KpOverridePwrite64'', ''kp_override_pwrite64''),
     (''KpOverrideRename'', ''kp_override_rename''), (''KpOverrideSymlink'', ''kp_override_symlink''),
     (''KpOverrideTruncate'', ''kp_override_truncate''), (''KpOverrideUnlink'', ''kp_override_unlink''),
     (''KpOverrideWrite'', ''kp_override_write''), (''KpOverrideWritev'', ''kp_override_writev''),
     (''KpProcessExit'', ''kp_process_exit''), (''KpRetOpen'', ''kp_ret_open''),
     (''KpRetOpenat'', ''kp_ret_openat''), (''KpRetPwrite64'', ''kp_ret_pwrite64''),
     (''KpRetWrite'', ''kp_ret_write''), (''KpRetWritev'', ''kp_ret_writev'')]"

definition ransomwareUltraLegacyPrograms_eb :: "(string \<times> string) list" where
  "ransomwareUltraLegacyPrograms_eb = [
     (''KpOverrideExecve'', ''kp_override_execve''), (''KpOverrideFtruncate'', ''kp_override_ftruncate''),
     (''KpOverrideLink'', ''kp_override_link''), (''KpOverrideOpen'', ''kp_override_open''),
     (''KpOverrideOpenat'', ''kp_override_openat''), (''KpOverridePwrite64'', ''kp_override_pwrite64''),
     (''KpOverrideRename'', ''kp_override_rename''), (''KpOverrideSymlink'', ''kp_override_symlink''),
     (''KpOverrideTruncate'', ''kp_override_truncate''), (''KpOverrideUnlink'', ''kp_override_unlink''),
     (''KpOverrideWrite'', ''kp_override_write''), (''KpOverrideWritev'', ''kp_override_writev''),
     (''KpProcessExit'', ''kp_process_exit''), (''KpRetOpen'', ''kp_ret_open''),
     (''KpRetOpenat'', ''kp_ret_openat''), (''KpRetPwrite64'', ''kp_ret_pwrite64''),
     (''KpRetWrite'', ''kp_ret_write''), (''KpRetWritev'', ''kp_ret_writev'')]"

definition ransomwareUltraLegacyProgramsClose_eb :: "string list" where
  "ransomwareUltraLegacyProgramsClose_eb = [
     ''KpOverrideExecve'', ''KpOverrideFtruncate'', ''KpOverrideLink'', ''KpOverrideOpen'',
     ''KpOverrideOpenat'', ''KpOverridePwrite64'', ''KpOverrideRename'', ''KpOverrideSymlink'',
     ''KpOverrideTruncate'', ''KpOverrideUnlink'', ''KpOverrideWrite'', ''KpOverrideWritev'',
     ''KpProcessExit'', ''KpRetOpen'', ''KpRetOpenat'', ''KpRetPwrite64'', ''KpRetWrite'', ''KpRetWritev'']"

definition ransomwareUltraLegacyMapSpecs_eb :: "(string \<times> string) list" where
  "ransomwareUltraLegacyMapSpecs_eb = [
     (''AllowedCgroups'', ''allowed_cgroups''), (''BlockedTgids'', ''blocked_tgids''),
     (''CaptureGaps'', ''capture_gaps''), (''CgroupScopeEnabled'', ''cgroup_scope_enabled''),
     (''EventCursor'', ''event_cursor''), (''Events'', ''events''), (''IocExtensions'', ''ioc_extensions''),
     (''IocRansomNotes'', ''ioc_ransom_notes''), (''PendingOpens'', ''pending_opens''),
     (''PendingWrites'', ''pending_writes''), (''ProtectedDirs'', ''protected_dirs''),
     (''RingbufDrops'', ''ringbuf_drops''), (''ScratchEvents'', ''scratch_events''),
     (''SyscallAbi'', ''syscall_abi'')]"

definition ransomwareUltraLegacyMaps_eb :: "(string \<times> string) list" where
  "ransomwareUltraLegacyMaps_eb = [
     (''AllowedCgroups'', ''allowed_cgroups''), (''BlockedTgids'', ''blocked_tgids''),
     (''CaptureGaps'', ''capture_gaps''), (''CgroupScopeEnabled'', ''cgroup_scope_enabled''),
     (''EventCursor'', ''event_cursor''), (''Events'', ''events''), (''IocExtensions'', ''ioc_extensions''),
     (''IocRansomNotes'', ''ioc_ransom_notes''), (''PendingOpens'', ''pending_opens''),
     (''PendingWrites'', ''pending_writes''), (''ProtectedDirs'', ''protected_dirs''),
     (''RingbufDrops'', ''ringbuf_drops''), (''ScratchEvents'', ''scratch_events''),
     (''SyscallAbi'', ''syscall_abi'')]"

definition ransomwareUltraLegacyMapsClose_eb :: "string list" where
  "ransomwareUltraLegacyMapsClose_eb = [
     ''AllowedCgroups'', ''BlockedTgids'', ''CaptureGaps'', ''CgroupScopeEnabled'', ''EventCursor'',
     ''Events'', ''IocExtensions'', ''IocRansomNotes'', ''PendingOpens'', ''PendingWrites'', ''ProtectedDirs'',
     ''RingbufDrops'', ''ScratchEvents'', ''SyscallAbi'']"

end
