(* ===== verification/Bindings_Laws.thy ===== *)
theory Bindings_Laws
  imports Bindings
begin

text \<open>
  The tables that tie the kernel programs, the generated code and the sensor together agree; the generated \<open>Close\<close> stops at
  the first handle that fails; the filter of missing programs, which works in place, is a filter.
\<close>

section \<open>Programs\<close>

text \<open>The programs the generated code of the core object names are those of the kernel side, in order.\<close>

lemma core_names:
  "map fst (lsm_programs t h) @ map fst (override_programs t) @ map fst (trace_programs native t ctx) =
   map snd ransomwarePrograms"
  by (simp add: lsm_programs_def override_programs_def trace_programs_def ransomwarePrograms_def)

text \<open>The pair for \<open>openat2\<close> is attached on its own.\<close>

definition attachedTracepoints :: "(string \<times> string \<times> string) list" where
  "attachedTracepoints = map (\<lambda>(category, name, field, optional). (category, name, field)) tracepoints @
     [(''syscalls'', ''sys_enter_openat2'', ''TraceOpenat2''), (''syscalls'', ''sys_exit_openat2'', ''TraceOpenat2Exit'')]"

text \<open>The fields of \<open>sensorPrograms\<close> are exactly those some table attaches.\<close>

lemma fields_used:
  "set sensorPrograms = set (map (snd \<circ> snd) attachedTracepoints) \<union> set (map fst lsmPrograms) \<union>
     set (map (fst \<circ> snd) kprobes) \<union> set (concat (map (\<lambda>(call, entry, exit, optional). [entry, exit]) kprobePairs)) \<union>
     set (map snd kretprobes) \<union> {''KpProcessExit''}"
  by code_simp

section \<open>Generated tables\<close>

text \<open>
  A generated object: the specifications have the fields and tags of the loaded object, \<open>Close\<close> reaches each field once,
  and no tag is bound twice.
\<close>

definition bindingsOK :: "(string \<times> string) list \<Rightarrow> (string \<times> string) list \<Rightarrow> string list \<Rightarrow> bool" where
  "bindingsOK specs objs closers \<longleftrightarrow>
     specs = objs \<and> closers = map fst objs \<and> distinct (map fst objs) \<and> distinct (map snd objs)"

lemma core_bindings:
  "bindingsOK ransomwareProgramSpecs ransomwarePrograms ransomwareProgramsClose"
  "bindingsOK ransomwareMapSpecs ransomwareMaps ransomwareMapsClose"
  by code_simp+

lemma legacy_bindings:
  "bindingsOK ransomwareLegacyProgramSpecs ransomwareLegacyPrograms ransomwareLegacyProgramsClose"
  "bindingsOK ransomwareLegacyMapSpecs ransomwareLegacyMaps ransomwareLegacyMapsClose"
  "bindingsOK ransomwareUltraLegacyProgramSpecs ransomwareUltraLegacyPrograms ransomwareUltraLegacyProgramsClose"
  "bindingsOK ransomwareUltraLegacyMapSpecs ransomwareUltraLegacyMaps ransomwareUltraLegacyMapsClose"
  by code_simp+

lemmas table_defs =
  ransomwareProgramSpecs_eb_def ransomwareProgramSpecs_def ransomwarePrograms_eb_def ransomwarePrograms_def
  ransomwareProgramsClose_eb_def ransomwareProgramsClose_def ransomwareMapSpecs_eb_def ransomwareMapSpecs_def
  ransomwareMaps_eb_def ransomwareMaps_def ransomwareMapsClose_eb_def ransomwareMapsClose_def
  ransomwareLegacyProgramSpecs_eb_def ransomwareLegacyProgramSpecs_def ransomwareLegacyPrograms_eb_def
  ransomwareLegacyPrograms_def ransomwareLegacyProgramsClose_eb_def ransomwareLegacyProgramsClose_def
  ransomwareLegacyMapSpecs_eb_def ransomwareLegacyMapSpecs_def ransomwareLegacyMaps_eb_def
  ransomwareLegacyMaps_def ransomwareLegacyMapsClose_eb_def ransomwareLegacyMapsClose_def
  ransomwareUltraLegacyProgramSpecs_eb_def ransomwareUltraLegacyProgramSpecs_def
  ransomwareUltraLegacyPrograms_eb_def ransomwareUltraLegacyPrograms_def
  ransomwareUltraLegacyProgramsClose_eb_def ransomwareUltraLegacyProgramsClose_def
  ransomwareUltraLegacyMapSpecs_eb_def ransomwareUltraLegacyMapSpecs_def ransomwareUltraLegacyMaps_eb_def
  ransomwareUltraLegacyMaps_def ransomwareUltraLegacyMapsClose_eb_def ransomwareUltraLegacyMapsClose_def

lemma big_endian_same:
  "ransomwareProgramSpecs_eb = ransomwareProgramSpecs"
  "ransomwarePrograms_eb = ransomwarePrograms"
  "ransomwareProgramsClose_eb = ransomwareProgramsClose"
  "ransomwareMapSpecs_eb = ransomwareMapSpecs"
  "ransomwareMaps_eb = ransomwareMaps"
  "ransomwareMapsClose_eb = ransomwareMapsClose"
  "ransomwareLegacyProgramSpecs_eb = ransomwareLegacyProgramSpecs"
  "ransomwareLegacyPrograms_eb = ransomwareLegacyPrograms"
  "ransomwareLegacyProgramsClose_eb = ransomwareLegacyProgramsClose"
  "ransomwareLegacyMapSpecs_eb = ransomwareLegacyMapSpecs"
  "ransomwareLegacyMaps_eb = ransomwareLegacyMaps"
  "ransomwareLegacyMapsClose_eb = ransomwareLegacyMapsClose"
  "ransomwareUltraLegacyProgramSpecs_eb = ransomwareUltraLegacyProgramSpecs"
  "ransomwareUltraLegacyPrograms_eb = ransomwareUltraLegacyPrograms"
  "ransomwareUltraLegacyProgramsClose_eb = ransomwareUltraLegacyProgramsClose"
  "ransomwareUltraLegacyMapSpecs_eb = ransomwareUltraLegacyMapSpecs"
  "ransomwareUltraLegacyMaps_eb = ransomwareUltraLegacyMaps"
  "ransomwareUltraLegacyMapsClose_eb = ransomwareUltraLegacyMapsClose"
  by (simp_all only: table_defs)

section \<open>Closing\<close>

lemma RansomwareClose_spec:
  "RansomwareClose closes hs =
     (if list_all closes hs then (True, hs)
      else (False, takeWhile closes hs @ [hd (dropWhile closes hs)]))"
  by (induction hs) auto

lemma ransomwareObjectsClose_spec:
  "ransomwareObjectsClose closes programs maps = RansomwareClose closes (programs @ maps)"
  by (auto simp: ransomwareObjectsClose_def RansomwareClose_spec takeWhile_append dropWhile_append list_all_iff)

section \<open>The filter in place\<close>

lemma nonNilLoop_spec:
  assumes "n \<le> i" and "i \<le> length programs"
  shows "nonNilLoop i n programs = take n programs @ filter (\<lambda>p. p \<noteq> None) (drop i programs)"
  using assms
proof (induction i n programs rule: nonNilLoop.induct)
  case (1 i n programs)
  show ?case
  proof (cases "length programs \<le> i")
    case True
    then show ?thesis by (simp add: nonNilLoop.simps)
  next
    case False
    then have i: "i < length programs" by simp
    then have d: "drop i programs = programs ! i # drop (i + 1) programs" by (simp add: Cons_nth_drop_Suc)
    show ?thesis
    proof (cases "programs ! i = None")
      case True
      then show ?thesis using 1(2) [OF False] 1(3) i d by (simp add: nonNilLoop.simps [of i])
    next
      case nz: False
      have "drop (i + 1) (programs[n := programs ! i]) = drop (i + 1) programs" using 1(3) by (simp add: drop_update_cancel)
      moreover have "take (n + 1) (programs[n := programs ! i]) = take n programs @ [programs ! i]"
        using 1(3) i by (simp add: take_Suc_conv_app_nth take_update_cancel)
      ultimately show ?thesis using 1(1) [OF False nz] 1(3) i d nz by (simp add: nonNilLoop.simps [of i n])
    qed
  qed
qed

text \<open>
  C31. The filter of missing programs is safe although it works in place: \<open>out\<close> shares the array of \<open>programs\<close>, so the
  loop overwrites the array it is still reading, yet for every list the result is exactly the programs that are not nil, in
  order.
\<close>

theorem nonNilPrograms_filter: "nonNilPrograms programs = filter (\<lambda>p. p \<noteq> None) programs"
  by (simp add: nonNilPrograms_def nonNilLoop_spec)

end
