(* ===== verification/Spec2Isabelle.thy ===== *)
theory Spec2Isabelle
  imports Config_Laws Event_Codec Agent_Timers AgentSystem PollingRead SensorLoad_Laws SensorABI Program Bpf_Records Bpf_Enforce Bindings_Laws
begin

text \<open>
  Verification of \<^bold>\<open>ebpffls\<close>, an eBPF runtime guard against ransomware written in Go.

  \<^bold>\<open>The program.\<close> \<open>cmd/ebpffls/main.go\<close> reads the command line, loads and merges the policy files
  (\<open>internal/config\<close>), starts the sensor (\<open>internal/sensor\<close>), tells systemd that it is ready
  (\<open>internal/systemd\<close>) and runs the agent (\<open>internal/agent\<close>). The sensor loads BPF objects in one of three runtimes
  (core, legacy_perf, ultra_legacy_map), attaches their programs, writes the policy into kernel maps, and
  delivers raw event records through a ring buffer, a perf buffer or polled map slots. The agent decodes events,
  follows file descriptors and process identities, scores each process over a sliding window, matches rules,
  indicators and blacklisted digests, and asks the sensor to deny or kill a process.

  \<^bold>\<open>Theories and sources.\<close> Definitions keep the names of the sources; record fields carry a short prefix.

  \<^item> \<open>Prelude\<close>, \<open>GoStrings\<close>, \<open>GoPaths\<close>, \<open>GoNetip\<close>, \<open>GoSha256\<close>: machine integers (\<open>uint32\<close> and
    \<open>uint64\<close> as words, \<open>int\<close> and \<open>time.Duration\<close> as integers with 64-bit wrap-around written out) and the parts of
    Go's standard library the sources compute with: \<open>strings\<close>, \<open>strconv\<close>, \<open>path/filepath\<close>, \<open>net/netip\<close>,
    \<open>crypto/sha256\<close>.
  \<^item> \<open>Config\<close>, \<open>Config_Laws\<close>: \<open>internal/config/config.go\<close>; the policy record, \<open>mergePolicies\<close>, \<open>normalize\<close>,
    \<open>Load\<close> and \<open>LoadMany\<close> with every error as a value. An accepted policy is valid and a fixed point of
    \<open>normalize\<close>; merging is characterised field by field.
  \<^item> \<open>Event\<close>, \<open>Event_Codec\<close>: \<open>internal/sensor/event.go\<close>, \<open>uptime.go\<close>; the event record, both wire formats and
    the timestamp conversion. Decoding inverts encoding in either byte order (interface \<open>byte_order\<close>), and what is
    accepted is characterised exactly.
  \<^item> \<open>Scope\<close>: the path, cgroup, extension, trust and network tests of \<open>internal/agent/agent.go\<close>; the three path matchers
    (interface \<open>path_matcher\<close>) are component-wise containment.
  \<^item> \<open>Blacklist\<close>, \<open>HashCache\<close>, \<open>FdTable\<close>: \<open>blacklist.go\<close>, \<open>hash_cache.go\<close> and the descriptor table; exact reloads,
    freshness of digests, refinement of an abstract descriptor map.
  \<^item> \<open>ProcWindow\<close>, \<open>ProcWindow_Laws\<close>: the sliding window. The incremental window equals a rebuild of its history,
    pruning is exact, all caps hold.
  \<^item> \<open>Agent\<close>, \<open>Agent_Laws\<close>, \<open>Agent_Run\<close>, \<open>Agent_Props\<close>, \<open>Agent_Timers\<close>: the agent's state (record \<open>agent\<close>), \<open>handle\<close>
    and everything it calls, the hash worker, the scanner and the tickers. \<open>agentStep\<close> is what one turn of
    \<open>Run\<close> or of one of its goroutines does to the state; invariants hold in every reachable state. The interfaces \<open>idle_cache\<close> and
    \<open>counter_delta\<close> carry the lemmas on pruning and on the sensor's counters.
  \<^item> \<open>Polling\<close>, \<open>Polling_Laws\<close>, \<open>PollingRead\<close>: the map polling reader of \<open>internal/sensor/sensor.go\<close>: termination and
    bounds of a batch, the slot protocol, the accounting of delivered, pending and lost events, and that \<open>Read\<close> delivers
    what a producer publishes.
  \<^item> \<open>SensorPolicy\<close>, \<open>SensorPolicy_Laws\<close>: the maps that carry policy, inline action and blocks
    (\<open>ConfigurePolicy\<close>, \<open>ConfigureEnforcement\<close>, \<open>BlockTGID\<close>, \<open>UnblockTGID\<close>).
  \<^item> \<open>SensorAttach\<close>, \<open>SensorAttach_Laws\<close>, \<open>SensorABI\<close>: attaching programs, \<open>initialize\<close>, the choice of a runtime and
    \<open>Close\<close>: no link leaks on any path (interface \<open>attach_op\<close>), the kernel enforces what policy and dry run say, and
    every kprobe is read with the register layout of its symbol.
  \<^item> \<open>SensorLoad\<close>, \<open>SensorLoad_Laws\<close>: grouped loading of BPF objects and the bindings of the files
    \<open>bpf2go\<close> generates: what a load leaves, and that no tracepoint misses its program.
  \<^item> \<open>Bindings\<close>, \<open>Bindings_Laws\<close>: the fields of \<open>sensorPrograms\<close>, the tables of the structs \<open>bpf2go\<close> generates for the three
    objects in either byte order with their \<open>Close\<close> methods, and \<open>nonNilPrograms\<close>, which filters in place: the tables agree, and
    the filter is a filter.
  \<^item> \<open>SensorEvents\<close>: the choice of the event reader, the perf reader, the counters, and the goroutine of \<open>Events\<close>
    interleaved with its consumer.
  \<^item> \<open>AgentSystem\<close>: \<open>Run\<close> of the agent composed with the goroutines of \<open>Events\<close>, each actor with a step relation and
    \<open>sysStep\<close> their interleaving: which events are handled, with what \<open>Run\<close> returns, and that a shutdown ends.
  \<^item> \<open>BpfCore\<close>, \<open>BpfTrace\<close>: \<open>bpf/ransomware.bpf.c\<close>, the kernel programs of the core runtime, as functions on the record
    \<open>kernel\<close> of their maps, ring buffer and killed processes; \<open>coreStep\<close> interleaves them with the reader and the
    configuration.
  \<^item> \<open>Bpf_Records\<close>, \<open>Bpf_Enforce\<close>: the two sides together. Every record the programs submit decodes, writes are
    reported in pairs; what \<open>NewWithOptions\<close> and \<open>BlockTGID\<close> put into the maps (read by \<open>kernelMaps\<close>) is what the LSM
    programs and kprobes enforce, and they touch nothing else.
  \<^item> \<open>Notify\<close>, \<open>Program\<close>: \<open>internal/systemd/notify.go\<close> and \<open>cmd/ebpffls/main.go\<close>. The theorems of this
    theory span them all: what a started monitor decides is what the kernel gets, and a dry run changes nothing.

  \<^bold>\<open>Effects.\<close> State is passed explicitly. A handler of the agent is one atomic step and sees one instant of the clock,
  as the agent's mutex and the duration of a handler suggest; the outside is the record \<open>env\<close> (clock, files and processes,
  whether a block succeeds). What the agent does to the outside is its trace of \<open>effect\<close>s. Errors are values of sum or
  option types. Links, readers and objects of a sensor have ghost fields for what is open in the kernel; a link, reader or object
  counts as closed once its \<open>Close\<close> was called, also when that call reports an error, as a Linux \<open>close\<close> releases the
  descriptor in any case. The goroutine of \<open>Events\<close> has ghost fields for what was read. The event counters of a window
  are natural numbers; they differ from Go's \<open>int\<close> only after \<open>2 ^ 63\<close> events of one window.

  \<^bold>\<open>Parameters.\<close> Code outside the repository is a parameter: the YAML decoder, the flag parser, and
  \<open>github.com/cilium/ebpf\<close>: BPF maps (\<open>mapOps\<close>, with the documented behaviour \<open>lawfulMap\<close>), loading of
  collections (\<open>lawfulLoad\<close>, \<open>generatedFrom\<close>), attachments (\<open>attachEnv\<close>), ring and perf readers. The polled kernel
  maps may answer differently at every lookup: each lookup carries a counter. Witnesses instantiate the parameters
  with concrete functions.

  \<^bold>\<open>Bounds and fuel.\<close> No definition uses fuel. The loops of the program are structural recursions or folds over their
  slices, but for \<open>drain\<close> of the polling reader, whose termination proof uses that every turn delivers an event, of
  which a batch has at most 128, or shortens the queue of active CPUs. The scanners of the standard library
  (\<open>runes\<close>, \<open>trimBy\<close>, \<open>fieldsFrom\<close>, \<open>durationTerms\<close>, \<open>v6Groups\<close>) shorten their input. The goroutines that run until they
  are cancelled are step relations. The capacities (1024 hash jobs, 1024 events, 4096 digests, the caps of the window) are
  those of the sources.

  \<^bold>\<open>The kernel side.\<close> A BPF program runs atomically and sees one instant of the clock. What the kernel's helpers answer
  is the record \<open>task\<close> (current process, cgroups, clock, whether the ring buffer and a hash map have room), the arguments and
  user memory of a system call are \<open>syscall_ctx\<close>, and a path is the list of its dentries.

  \<^bold>\<open>Not modelled.\<close> The BPF objects for older kernels (\<open>bpf/ransomware_legacy.bpf.c\<close> and
  \<open>bpf/ransomware_ultra_legacy.bpf.c\<close>: the same reports through other helpers and buffers); the embedded object files and the
  generated loading code of \<open>bpf2go\<close>; floating-point parsing of \<open>/proc/uptime\<close> (a parameter); log lines and error
  texts; the periods of tickers; memory-model effects below the granularity of a handler; signals and the usage text; the reflection by
  which \<open>bindAvailableObjects\<close> enumerates the fields of a struct (the tables of tags are modelled in its place).
\<close>

text \<open>
  C2. A dry run is harmless from end to end. Take a \<open>monitor\<close> that started with a dry run: \<open>Run\<close> enters its loop, the inline action in
  the kernel, where there is one, is zero (observe only), and under every interleaving of the goroutines of the agent and the
  sensor the agent neither blocks nor kills a process. With the maps as they were left by the start, every LSM
  program of the core object passes on the verdict it was given to a process whose entry is not among the blocks.
\<close>

theorem dry_monitor_harmless:
  assumes "monitor parseFlags readFile decode (\<lambda>p dry. fst (NewWithOptions modeEnv loaders ops stat ae closeOK p dry))
      getenv net w args = Inr (s, a0, sent)"
    and "ag_DryRun a0" and "lawfulMap ops view"
  shows "(case sm_InlineIOCAction (sn_maps s) of None \<Rightarrow> True | Some m \<Rightarrow> view m (K32 0) = Some (V32 0)) \<and>
    (\<exists>s0. Run (sn_reader s) clk a0 = Inr s0 \<and>
      (\<forall>native xs sys. sysRun native s0 xs sys \<longrightarrow> (\<forall>e \<in> set (ag_trace (sy_agent sys)). \<not> enforces e))) \<and>
    (\<forall>t h k. mapView view (sm_BlockedTgids (sn_maps s)) (K32 (current_tgid t)) = None \<longrightarrow>
      list_all (\<lambda>(name, program). fst (program (kernelMaps view (sn_maps s) k)) = h_ret h) (lsm_programs t h))"
proof -
  obtain p dry where p: "fst (NewWithOptions modeEnv loaders ops stat ae closeOK p dry) = Inr s" "a0 = New w p dry True"
    using monitor_Inr [OF assms(1)] by blast
  have a0: "dry" "a0 = New w p True True" using assms(2) p(2) by simp_all
  obtain ss where n: "NewWithOptions modeEnv loaders ops stat ae closeOK p True = (Inr s, ss)"
    using p(1) a0(1) by (metis (full_types) eq_fst_iff)
  have "case sm_InlineIOCAction (sn_maps s) of None \<Rightarrow> True | Some m \<Rightarrow> view m (K32 0) = Some (V32 0)"
    using started_inline [OF assms(3) n] by (simp add: inlineValue_def split: option.splits)
  moreover have "Run (sn_reader s) clk a0 = Inr (startSystem (sn_reader s) clk a0)" by (simp add: Run_def a0(2))
  moreover have "\<not> enforces e" if "sysRun native (startSystem (sn_reader s) clk a0) xs sys" "e \<in> set (ag_trace (sy_agent sys))"
    for native xs sys e
    using sysRun_projects [OF that(1)] agentRun_reachable dry_run_never_enforces that(2) unfolding a0(2) by blast
  moreover note dry_kernel_passes [OF assms(3) n]
  ultimately show ?thesis by blast
qed

theorem dry_monitor_harmless_witness:
  "\<exists>s a0 s0. killMonitor True = Inr (s, a0, []) \<and> Run (sn_reader s) None a0 = Inr s0 \<and>
     list_all (\<lambda>e. \<not> enforces e) (ag_trace (sy_agent s0))"
proof -
  obtain s a0 where s: "killMonitor True = Inr (s, a0, [])" "ag_DryRun a0"
    using killMonitor_starts [of True] by blast
  obtain s0 where s0: "Run (sn_reader s) None a0 = Inr s0"
    "\<And>native xs sys. sysRun native s0 xs sys \<Longrightarrow> \<forall>e \<in> set (ag_trace (sy_agent sys)). \<not> enforces e"
    using dry_monitor_harmless [OF s(1) [unfolded killMonitor_def] s(2) listOps_lawful] by blast
  have "list_all (\<lambda>e. \<not> enforces e) (ag_trace (sy_agent s0))"
    using s0(2) [OF sysRun.start] by (simp add: list_all_iff)
  with s(1) s0(1) show ?thesis by blast
qed

text \<open>
  C6. What a started monitor decides is what the kernel gets. Take a \<open>monitor\<close> that started without a dry run and any
  state its agent can reach. For every action of the policy or of one of its rules other than \<open>log\<close>, enforcing it on a
  process writes the block with the policy's TTL, kills if the action is \<open>kill\<close>, and remembers the process: the sensor
  never refuses the action, whatever the runtime mode, as long as the kernel map and the clock answer.
\<close>

theorem monitor_enforces:
  assumes "monitor parseFlags readFile decode (\<lambda>p dry. fst (NewWithOptions modeEnv loaders ops stat ae closeOK p dry))
      getenv net w args = Inr (s, a0, sent)"
    and "\<not> ag_DryRun a0" and "reachable a0 a"
    and "act \<in> policyActions (ag_policy a0)" and "act \<noteq> ''log''"
    and "en_block en = (\<lambda>tgid action ttl. fst (BlockTGID ops (Some up) (sn_capabilities s) sm tgid action ttl) = None)"
    and "sm_BlockedTgids sm = Some m" and "\<And>k v. op_put ops m k v \<noteq> None" and "ps_TGID st \<noteq> 0"
  shows "ag_trace (alertAndEnforce en a st act) = ag_trace a @
      [Alert (alertOf en a st act False), PutBlock (ps_TGID st) (blockAction act) (pol_BlockTTL (ag_policy a0))] @
      (if act = ''kill'' then [SigKill (ps_TGID st)] else []) \<and>
    ag_blocked (alertAndEnforce en a st act) (ps_TGID st) = Some (en_now en)"
proof -
  have st: "act \<in> {''deny'', ''kill''}" "act = ''deny'' \<Longrightarrow> ca_DenyAvailable (sn_capabilities s)" "ag_hasSensor a0"
    using monitor_started [OF assms(1,2,4,5)] by blast+
  obtain p dry where "a0 = New w p dry True" using monitor_Inr [OF assms(1)] by blast
  then have opt: "ag_DryRun a = ag_DryRun a0" "ag_policy a = ag_policy a0" "ag_hasSensor a = ag_hasSensor a0"
    using reachable_options [OF assms(3)] machineOK_New by auto
  have "fst (BlockTGID ops (Some up) (sn_capabilities s) sm (ps_TGID st) (blockAction act) (pol_BlockTTL (ag_policy a))) = None"
    using BlockTGID_accepts [OF assms(7,9) st(1,2) assms(8)] by simp
  then have "accepted en a (ps_TGID st) act" using st(3) opt assms(2,5) by (simp add: accepted_def assms(6))
  then show ?thesis
    using alertAndEnforce_outcome(2,3) [of act en a st] st(1) opt assms(2) by auto
qed

theorem monitor_enforces_witness:
  "\<exists>s a0. killMonitor False = Inr (s, a0, []) \<and>
     (let en = quietEnv\<lparr>en_block := (\<lambda>tgid action ttl.
            fst (BlockTGID listOps (Some 5) (sn_capabilities s) emptyMaps tgid action ttl) = None)\<rparr>
      in SigKill 7 \<in> set (ag_trace (alertAndEnforce en a0 (newProcState 7 0) ''kill'')))"
proof -
  obtain s a0 where s: "killMonitor False = Inr (s, a0, [])" "\<not> ag_DryRun a0" "pol_Action (ag_policy a0) = ''kill''"
    using killMonitor_starts [of False] by blast
  let ?en = "quietEnv\<lparr>en_block := (\<lambda>tgid action ttl.
      fst (BlockTGID listOps (Some 5) (sn_capabilities s) emptyMaps tgid action ttl) = None)\<rparr>"
  have "sm_BlockedTgids emptyMaps = Some ([], 4)" "op_put listOps m k v \<noteq> None" for m k v
    by (simp_all add: emptyMaps_def listOps_def)
  moreover have "''kill'' \<in> policyActions (ag_policy a0)" using s(3) by (simp add: policyActions_def)
  ultimately have "SigKill 7 \<in> set (ag_trace (alertAndEnforce ?en a0 (newProcState 7 0) ''kill''))"
    using monitor_enforces [OF s(1) [unfolded killMonitor_def] s(2) reachable.start, where en = ?en and up = 5
        and sm = emptyMaps and act = "''kill''" and st = "newProcState 7 0"]
    by (simp add: newProcState_TGID)
  then show ?thesis using s(1) by (auto simp: Let_def)
qed

end
